(* ===== verification/Prelude.thy ===== *)
theory Prelude
  imports Main "HOL-Library.Word" "HOL-Library.Multiset" "HOL-Library.Monad_Syntax"
    "HOL-Library.Signed_Division"
begin

text \<open>
  What every component shares: the C machine integers as integers with the wrap-around
  written out, arrays whose accesses are checked, and a total-correctness calculus for
  computations that may run into undefined behaviour.

  A computation of type \<open>'a option\<close> yields \<open>None\<close> exactly when the C code would perform
  an access outside an object (or another operation C leaves undefined), so a theorem that
  gives \<open>Some\<close> is at the same time a proof of memory safety.
\<close>

section \<open>Machine integers\<close>

text \<open>Conversion to \<open>unsigned int\<close> and to \<open>int\<close> (32 bits, two's complement).\<close>

definition u32 :: "int \<Rightarrow> int" where
  "u32 x = x mod 4294967296"

definition s32 :: "int \<Rightarrow> int" where
  "s32 x = (x + 2147483648) mod 4294967296 - 2147483648"

lemma u32_id [simp]: "0 \<le> x \<Longrightarrow> x < 4294967296 \<Longrightarrow> u32 x = x"
  by (simp add: u32_def)

lemma u32_range: "0 \<le> u32 x" "u32 x < 4294967296"
  by (simp_all add: u32_def)

lemma s32_id [simp]: "- 2147483648 \<le> x \<Longrightarrow> x < 2147483648 \<Longrightarrow> s32 x = x"
  by (simp add: s32_def)

lemma s32_range: "- 2147483648 \<le> s32 x" "s32 x < 2147483648"
  by (simp_all add: s32_def)

lemma sdiv_nonneg [simp]: "0 \<le> (a::int) \<Longrightarrow> 0 < b \<Longrightarrow> a sdiv b = a div b"
  by (auto simp: signed_divide_int_def sgn_if)

text \<open>\<open>char\<close> and \<open>unsigned char\<close> as stored in memory.\<close>

type_synonym byte = "8 word"

section \<open>Total correctness over possibly undefined behaviour\<close>

definition wp :: "'a option \<Rightarrow> ('a \<Rightarrow> bool) \<Rightarrow> bool" where
  "wp m Q \<longleftrightarrow> (case m of None \<Rightarrow> False | Some x \<Rightarrow> Q x)"

named_theorems wp_rules \<open>how the weakest precondition is computed\<close>

lemma wp_Some [simp, wp_rules]: "wp (Some x) Q = Q x"
  by (simp add: wp_def)

lemma wp_None [simp, wp_rules]: "wp None Q = False"
  by (simp add: wp_def)

lemma wp_bind [simp, wp_rules]: "wp (Option.bind m f) Q = wp m (\<lambda>x. wp (f x) Q)"
  by (cases m) (simp_all add: wp_def)

lemma wp_if [simp, wp_rules]: "wp (if b then m else n) Q = (if b then wp m Q else wp n Q)"
  by simp

lemma wp_mono: "wp m P \<Longrightarrow> (\<And>x. P x \<Longrightarrow> Q x) \<Longrightarrow> wp m Q"
  by (cases m) auto

lemma wp_conj: "wp m P \<Longrightarrow> wp m Q \<Longrightarrow> wp m (\<lambda>x. P x \<and> Q x)"
  by (cases m) auto

lemma wp_iff: "wp m Q \<longleftrightarrow> (\<exists>x. m = Some x \<and> Q x)"
  by (cases m) auto

lemma wp_eqI: "wp m (\<lambda>x. x = y) \<Longrightarrow> m = Some y"
  by (cases m) auto

section \<open>Checked arrays\<close>

text \<open>\<open>a[i]\<close> as a value and as the target of an assignment, with C's signed index.\<close>

definition aget :: "'a list \<Rightarrow> int \<Rightarrow> 'a option" where
  "aget a i = (if 0 \<le> i \<and> i < int (length a) then Some (a ! nat i) else None)"

definition aset :: "'a list \<Rightarrow> int \<Rightarrow> 'a \<Rightarrow> 'a list option" where
  "aset a i v = (if 0 \<le> i \<and> i < int (length a) then Some (a[nat i := v]) else None)"

text \<open>\<open>memcpy(dst + di, src + si, n)\<close> between distinct objects, \<open>memset(a + i, v, n)\<close>.\<close>

definition memcpy :: "'a list \<Rightarrow> int \<Rightarrow> 'a list \<Rightarrow> int \<Rightarrow> int \<Rightarrow> 'a list option" where
  "memcpy dst di src si n =
     (if 0 \<le> n \<and> 0 \<le> di \<and> di + n \<le> int (length dst) \<and> 0 \<le> si \<and> si + n \<le> int (length src)
      then Some (take (nat di) dst @ take (nat n) (drop (nat si) src) @ drop (nat (di + n)) dst)
      else None)"

definition memset :: "'a list \<Rightarrow> int \<Rightarrow> 'a \<Rightarrow> int \<Rightarrow> 'a list option" where
  "memset a i v n =
     (if 0 \<le> n \<and> 0 \<le> i \<and> i + n \<le> int (length a)
      then Some (take (nat i) a @ replicate (nat n) v @ drop (nat (i + n)) a) else None)"

section \<open>C strings\<close>

text \<open>The text of the C string at the start of an array, if it ends inside the array.\<close>

fun string_at :: "byte list \<Rightarrow> byte list option" where
  "string_at [] = None"
| "string_at (c # cs) = (if c = 0 then Some [] else map_option ((#) c) (string_at cs))"

lemma string_at_Some: "string_at b = Some msg \<Longrightarrow> 0 \<notin> set msg \<and> (\<exists>r. b = msg @ 0 # r)"
proof (induction b arbitrary: msg)
  case (Cons c cs)
  then show ?case by (cases "c = 0") auto
qed simp

lemma string_at_append: "0 \<notin> set msg \<Longrightarrow> string_at (msg @ 0 # r) = Some msg"
  by (induction msg) auto

lemma string_at_zeros [simp]: "0 < n \<Longrightarrow> string_at (replicate n 0) = Some []"
  by (cases n) auto

section \<open>Reasoning about arrays\<close>

lemma wp_aget [simp, wp_rules]:
  "wp (aget a i) Q \<longleftrightarrow> 0 \<le> i \<and> i < int (length a) \<and> Q (a ! nat i)"
  by (auto simp: aget_def)

lemma wp_aset [simp, wp_rules]:
  "wp (aset a i v) Q \<longleftrightarrow> 0 \<le> i \<and> i < int (length a) \<and> Q (a[nat i := v])"
  by (auto simp: aset_def)

lemma wp_memcpy [wp_rules]:
  "wp (memcpy dst di src si n) Q \<longleftrightarrow>
     0 \<le> n \<and> 0 \<le> di \<and> di + n \<le> int (length dst) \<and> 0 \<le> si \<and> si + n \<le> int (length src)
     \<and> Q (take (nat di) dst @ take (nat n) (drop (nat si) src) @ drop (nat (di + n)) dst)"
  by (auto simp: memcpy_def)

lemma nth_upd: "0 \<le> i \<Longrightarrow> i < int (length a) \<Longrightarrow> 0 \<le> j \<Longrightarrow>
    a[nat i := v] ! nat j = (if i = j then v else a ! nat j)"
  by (auto simp: nth_list_update)

lemma nth_upd_if: "xs[i := v] ! j = (if i = j \<and> j < length xs then v else xs ! j)"
  by (cases "i < length xs") (auto simp: nth_list_update list_update_beyond)

lemma nth_upd_other [simp]: "0 \<le> i \<Longrightarrow> 0 \<le> k \<Longrightarrow> k \<noteq> i \<Longrightarrow> a[nat i := v] ! nat k = a ! nat k"
  by (subst nth_list_update_neq) auto

text \<open>The contents of an array after a block copy, read index by index.\<close>

lemma nth_blit:
  fixes n di si k :: nat
  assumes "di + n \<le> length dst" "si + n \<le> length src" "k < length dst"
  shows "(take di dst @ take n (drop si src) @ drop (di + n) dst) ! k =
    (if di \<le> k \<and> k < di + n then src ! (si + k - di) else dst ! k)"
proof -
  have min: "min (length src - si) n = n" "min (length dst) di = di"
    using assms by linarith+
  consider "k < di" | "di \<le> k" "k < di + n" | "di + n \<le> k" by linarith
  then show ?thesis
  proof cases
    case 2
    then have "k - di < n" by linarith
    with 2 assms show ?thesis by (simp add: nth_append min)
  next
    case 3
    then have "\<not> k - di < n" "di + n + (k - di - n) = k" by linarith+
    with 3 assms show ?thesis by (simp add: nth_append min)
  qed (use assms in \<open>simp add: nth_append min\<close>)
qed

lemma nth_memcpy:
  assumes "0 \<le> n" "0 \<le> di" "di + n \<le> int (length dst)" "0 \<le> si" "si + n \<le> int (length src)"
    and "0 \<le> k" "k < int (length dst)"
  shows "(take (nat di) dst @ take (nat n) (drop (nat si) src) @ drop (nat (di + n)) dst) ! nat k =
    (if di \<le> k \<and> k < di + n then src ! nat (si + k - di) else dst ! nat k)"
proof -
  from assms obtain n' di' si' k' :: nat
    where eqs: "n = int n'" "di = int di'" "si = int si'" "k = int k'"
    by (metis nonneg_int_cases)
  have idx: "nat (int di' + int n') = di' + n'" "nat (int si' + int k' - int di') = si' + k' - di'"
    by linarith+
  show ?thesis using assms nth_blit [of di' n' dst si' src k'] by (simp add: eqs idx)
qed

lemma length_memcpy:
  assumes "0 \<le> n" "0 \<le> di" "di + n \<le> int (length dst)" "0 \<le> si" "si + n \<le> int (length src)"
  shows "length (take (nat di) dst @ take (nat n) (drop (nat si) src) @ drop (nat (di + n)) dst)
    = length dst"
proof -
  have "nat (di + n) = nat di + nat n" "nat di + nat n \<le> length dst" "nat si + nat n \<le> length src"
    using assms by linarith+
  moreover from this have "min (length src - nat si) (nat n) = nat n" by linarith
  ultimately show ?thesis by simp
qed

end
