(* ===== verification/Sorting.thy ===== *)
theory Sorting
  imports Prelude
begin

text \<open>
  The sorting routines of \<open>Algorithem/sort\<close>: one function per loop, over a checked C array
  and C's signed indices. Every routine takes the array and its length, as in the code, and
  sorts the first \<open>len\<close> cells in place. The element comparisons are those of \<open>int\<close>; the
  index arithmetic never leaves the \<open>int\<close> range for an array of fewer than \<open>2 ^ 30\<close> cells,
  so indices are unbounded integers here.
\<close>

section \<open>bubblesort.c\<close>

text \<open>The inner loop, the same in both versions: \<open>for (j = ..; j < n; j++)\<close>.\<close>

function bubble_pass :: "int list \<Rightarrow> int \<Rightarrow> int \<Rightarrow> int list option" where
  "bubble_pass a j n =
     (if j < n then do {
        temp \<leftarrow> aget a j;
        x \<leftarrow> aget a (j + 1);
        a' \<leftarrow> (if temp > x then do { a1 \<leftarrow> aset a j x; aset a1 (j + 1) temp } else Some a);
        bubble_pass a' (j + 1) n
      } else Some a)"
  by pat_completeness auto
termination by (relation "measure (\<lambda>(a, j, n). nat (n - j))") auto

function bubble_outer :: "int list \<Rightarrow> int \<Rightarrow> int \<Rightarrow> int list option" where
  "bubble_outer a i len =
     (if i < len then do { a' \<leftarrow> bubble_pass a 0 (len - i); bubble_outer a' (i + 1) len }
      else Some a)"
  by pat_completeness auto
termination by (relation "measure (\<lambda>(a, i, len). nat (len - i))") auto

definition bubblesort1 :: "int list \<Rightarrow> int \<Rightarrow> int list option" where
  "bubblesort1 a len = bubble_outer a 1 len"

function bubblesort2 :: "int list \<Rightarrow> int \<Rightarrow> int list option" where
  "bubblesort2 a len =
     (if len < 2 then Some a
      else do { a' \<leftarrow> bubble_pass a 0 (len - 1); bubblesort2 a' (len - 1) })"
  by pat_completeness auto
termination by (relation "measure (\<lambda>(a, len). nat len)") auto

section \<open>insertsort.c\<close>

text \<open>\<open>while (arr[i] < arr[j] && i < j) i = i + 1;\<close>: both cells are read before the bound test.\<close>

function insert_find :: "int list \<Rightarrow> int \<Rightarrow> int \<Rightarrow> int option" where
  "insert_find a i j = do {
     x \<leftarrow> aget a i;
     y \<leftarrow> aget a j;
     if x < y \<and> i < j then insert_find a (i + 1) j else Some i }"
  by pat_completeness auto
termination by (relation "measure (\<lambda>(a, i, j). nat (j - i))") auto

text \<open>\<open>while (x > i) { arr[x] = arr[x-1]; x = x - 1; }\<close>\<close>

function insert_shift :: "int list \<Rightarrow> int \<Rightarrow> int \<Rightarrow> int list option" where
  "insert_shift a i x =
     (if i < x then do { y \<leftarrow> aget a (x - 1); a' \<leftarrow> aset a x y; insert_shift a' i (x - 1) }
      else Some a)"
  by pat_completeness auto
termination by (relation "measure (\<lambda>(a, i, x). nat (x - i))") auto

function insert_outer :: "int list \<Rightarrow> int \<Rightarrow> int \<Rightarrow> int list option" where
  "insert_outer a j len =
     (if j < len then do {
        i \<leftarrow> insert_find a 0 j;
        temp \<leftarrow> aget a j;
        a' \<leftarrow> (if i \<noteq> j then do { a1 \<leftarrow> insert_shift a i j; aset a1 i temp } else Some a);
        insert_outer a' (j + 1) len
      } else Some a)"
  by pat_completeness auto
termination by (relation "measure (\<lambda>(a, j, len). nat (len - j))") auto

definition insertsort :: "int list \<Rightarrow> int \<Rightarrow> int list option" where
  "insertsort a len = insert_outer a 1 len"

section \<open>selectsort.c\<close>

function select_min :: "int list \<Rightarrow> int \<Rightarrow> int \<Rightarrow> int \<Rightarrow> int option" where
  "select_min a j min_index len =
     (if j < len then do {
        x \<leftarrow> aget a j;
        y \<leftarrow> aget a min_index;
        select_min a (j + 1) (if x < y then j else min_index) len
      } else Some min_index)"
  by pat_completeness auto
termination by (relation "measure (\<lambda>(a, j, m, len). nat (len - j))") auto

text \<open>The \<open>swap\<close> macro, and \<open>swap\<close> of fastsort.c on two cells of one array.\<close>

definition swap_cells :: "int list \<Rightarrow> int \<Rightarrow> int \<Rightarrow> int list option" where
  "swap_cells a x y = do {
     temp \<leftarrow> aget a x;
     v \<leftarrow> aget a y;
     a1 \<leftarrow> aset a x v;
     aset a1 y temp }"

function select_outer :: "int list \<Rightarrow> int \<Rightarrow> int \<Rightarrow> int list option" where
  "select_outer a i len =
     (if i < len then do {
        m \<leftarrow> select_min a i i len;
        a' \<leftarrow> swap_cells a i m;
        select_outer a' (i + 1) len
      } else Some a)"
  by pat_completeness auto
termination by (relation "measure (\<lambda>(a, i, len). nat (len - i))") auto

definition selectsort1 :: "int list \<Rightarrow> int \<Rightarrow> int list option" where
  "selectsort1 a len = select_outer a 0 len"

function selectsort2 :: "int list \<Rightarrow> int \<Rightarrow> int \<Rightarrow> int list option" where
  "selectsort2 a start len =
     (if start \<ge> len then Some a
      else do {
        m \<leftarrow> select_min a start start len;
        a' \<leftarrow> swap_cells a start m;
        selectsort2 a' (start + 1) len })"
  by pat_completeness auto
termination by (relation "measure (\<lambda>(a, start, len). nat (len - start))") auto

section \<open>shellsort.c\<close>

text \<open>The inner loop of \<open>groupsort\<close> returns the array and the index \<open>j\<close> it stopped at. The
  measure argument needs a positive step; \<open>shellsort\<close> only ever calls it with one.\<close>

function group_shift :: "int list \<Rightarrow> int \<Rightarrow> int \<Rightarrow> int \<Rightarrow> (int list \<times> int) option" where
  "group_shift a j step temp =
     (if 0 \<le> j \<and> 0 < step then do {
        x \<leftarrow> aget a j;
        if temp > x then Some (a, j)
        else do { a' \<leftarrow> aset a (j + step) x; group_shift a' (j - step) step temp }
      } else Some (a, j))"
  by pat_completeness auto
termination by (relation "measure (\<lambda>(a, j, step, temp). nat (j + 1))") auto

function group_outer :: "int list \<Rightarrow> int \<Rightarrow> int \<Rightarrow> int \<Rightarrow> int list option" where
  "group_outer a i len step =
     (if i < len \<and> 0 < step then do {
        temp \<leftarrow> aget a i;
        (a1, j) \<leftarrow> group_shift a (i - step) step temp;
        a' \<leftarrow> aset a1 (j + step) temp;
        group_outer a' (i + step) len step
      } else Some a)"
  by pat_completeness auto
termination by (relation "measure (\<lambda>(a, i, len, step). nat (len - i))") auto

definition groupsort :: "int list \<Rightarrow> int \<Rightarrow> int \<Rightarrow> int \<Rightarrow> int list option" where
  "groupsort a len start step = group_outer a (start + step) len step"

function shell_groups :: "int list \<Rightarrow> int \<Rightarrow> int \<Rightarrow> int \<Rightarrow> int list option" where
  "shell_groups a len i step =
     (if i < step then do { a' \<leftarrow> groupsort a len i step; shell_groups a' len (i + 1) step }
      else Some a)"
  by pat_completeness auto
termination by (relation "measure (\<lambda>(a, len, i, step). nat (step - i))") auto

function shell_steps :: "int list \<Rightarrow> int \<Rightarrow> int \<Rightarrow> int list option" where
  "shell_steps a len step =
     (if 0 < step then do { a' \<leftarrow> shell_groups a len 0 step; shell_steps a' len (step sdiv 2) }
      else Some a)"
  by pat_completeness auto
termination by (relation "measure (\<lambda>(a, len, step). nat step)") auto

definition shellsort :: "int list \<Rightarrow> int \<Rightarrow> int list option" where
  "shellsort a len = shell_steps a len (len sdiv 2)"

section \<open>mergesort.c\<close>

text \<open>The merge loop: \<open>temp[i++] = arr[ls] < arr[rs] ? arr[ls++] : arr[rs++];\<close>\<close>

function merge_loop :: "int list \<Rightarrow> int list \<Rightarrow> int \<Rightarrow> int \<Rightarrow> int \<Rightarrow> int \<Rightarrow> int
    \<Rightarrow> (int list \<times> int \<times> int \<times> int) option" where
  "merge_loop arr temp i ls le rs re =
     (if ls \<le> le \<and> rs \<le> re then do {
        x \<leftarrow> aget arr ls;
        y \<leftarrow> aget arr rs;
        if x < y then do { t \<leftarrow> aset temp i x; merge_loop arr t (i + 1) (ls + 1) le rs re }
        else do { t \<leftarrow> aset temp i y; merge_loop arr t (i + 1) ls le (rs + 1) re }
      } else Some (temp, i, ls, rs))"
  by pat_completeness auto
termination
  by (relation "measure (\<lambda>(arr, temp, i, ls, le, rs, re). nat (le + 1 - ls) + nat (re + 1 - rs))") auto

text \<open>\<open>_mergesort\<close> returns both arrays it was handed.\<close>

function mergesort_rec :: "int list \<Rightarrow> int list \<Rightarrow> int \<Rightarrow> int \<Rightarrow> (int list \<times> int list) option" where
  "mergesort_rec arr temp start end =
     (if start \<ge> end then Some (arr, temp)
      else do {
        let mid = start + (end - start) sdiv 2;
        (arr1, temp1) \<leftarrow> mergesort_rec arr temp start mid;
        (arr2, temp2) \<leftarrow> mergesort_rec arr1 temp1 (mid + 1) end;
        (temp3, i, ls, rs) \<leftarrow> merge_loop arr2 temp2 start start mid (mid + 1) end;
        temp4 \<leftarrow> (if ls \<le> mid then memcpy temp3 i arr2 ls (mid - ls + 1) else Some temp3);
        temp5 \<leftarrow> (if rs \<le> end then memcpy temp4 i arr2 rs (end - rs + 1) else Some temp4);
        arr3 \<leftarrow> memcpy arr2 start temp5 start (end - start + 1);
        Some (arr3, temp5) })"
  by pat_completeness auto
termination by (relation "measure (\<lambda>(arr, temp, s, e). nat (e - s))") auto

text \<open>\<open>int temparr[len]\<close> is uninitialised: its contents are a parameter. A negative length is
  undefined; a zero length is the zero-size array of GNU C.\<close>

definition mergesort :: "(nat \<Rightarrow> int) \<Rightarrow> int list \<Rightarrow> int \<Rightarrow> int list option" where
  "mergesort stack arr len =
     (if len < 0 then None
      else do { (a, t) \<leftarrow> mergesort_rec arr (map stack [0..<nat len]) 0 (len - 1); Some a })"

section \<open>fastsort.c\<close>

function scan_left :: "int list \<Rightarrow> int \<Rightarrow> int \<Rightarrow> int \<Rightarrow> int option" where
  "scan_left a temp left right = do {
     x \<leftarrow> aget a left;
     if x < temp \<and> left < right then scan_left a temp (left + 1) right else Some left }"
  by pat_completeness auto
termination by (relation "measure (\<lambda>(a, t, l, r). nat (r - l))") auto

function scan_right :: "int list \<Rightarrow> int \<Rightarrow> int \<Rightarrow> int \<Rightarrow> int option" where
  "scan_right a temp left right = do {
     x \<leftarrow> aget a right;
     if x \<ge> temp \<and> left < right then scan_right a temp left (right - 1) else Some right }"
  by pat_completeness auto
termination by (relation "measure (\<lambda>(a, t, l, r). nat (r - l))") auto


text \<open>The loop equations unfold themselves for ever, so they are applied by hand.\<close>

lemmas loop_equations = bubble_pass.simps bubble_outer.simps bubblesort2.simps insert_find.simps
  insert_shift.simps insert_outer.simps select_min.simps select_outer.simps selectsort2.simps
  group_shift.simps group_outer.simps shell_groups.simps shell_steps.simps merge_loop.simps
  mergesort_rec.simps scan_left.simps scan_right.simps

declare loop_equations [simp del]

text \<open>A stopped left scan stands on an element that is not below the pivot, or on \<open>right\<close>.\<close>

lemma scan_left_result: "scan_left a t l r = Some l' \<Longrightarrow> l \<le> r \<Longrightarrow>
    l \<le> l' \<and> l' \<le> r \<and> (l' < r \<longrightarrow> t \<le> a ! nat l') \<and> (\<forall>k. l \<le> k \<and> k < l' \<longrightarrow> a ! nat k < t)"
proof (induction a t l r rule: scan_left.induct)
  case (1 a t l r)
  have "aget a l \<noteq> None"
    using "1.prems"(1) by (auto simp: scan_left.simps [of a t l r] Option.bind_eq_Some_conv)
  then obtain x where x: "aget a l = Some x" by blast
  then have ax: "x = a ! nat l" by (auto simp: aget_def split: if_splits)
  show ?case
  proof (cases "x < t \<and> l < r")
    case True
    have "scan_left a t l r = scan_left a t (l + 1) r"
      using x True by (subst scan_left.simps) simp
    with "1.prems"(1) have "scan_left a t (l + 1) r = Some l'" by simp
    with "1.IH" [OF x True] True have rest: "l + 1 \<le> l' \<and> l' \<le> r \<and> (l' < r \<longrightarrow> t \<le> a ! nat l')
        \<and> (\<forall>k. l + 1 \<le> k \<and> k < l' \<longrightarrow> a ! nat k < t)" by simp
    have "a ! nat k < t" if "l \<le> k \<and> k < l'" for k
      using that True ax rest by (cases "k = l") auto
    with rest show ?thesis by auto
  next
    case False
    with "1.prems" x have "l' = l" by (auto simp: scan_left.simps [of a t l r])
    with False "1.prems"(2) ax show ?thesis by auto
  qed
qed

lemma scan_right_result: "scan_right a t l r = Some r' \<Longrightarrow> l \<le> r \<Longrightarrow>
    l \<le> r' \<and> r' \<le> r \<and> (l < r' \<longrightarrow> a ! nat r' < t) \<and> (\<forall>k. r' < k \<and> k \<le> r \<longrightarrow> t \<le> a ! nat k)"
proof (induction a t l r rule: scan_right.induct)
  case (1 a t l r)
  have "aget a r \<noteq> None"
    using "1.prems"(1) by (auto simp: scan_right.simps [of a t l r] Option.bind_eq_Some_conv)
  then obtain x where x: "aget a r = Some x" by blast
  then have ax: "x = a ! nat r" by (auto simp: aget_def split: if_splits)
  show ?case
  proof (cases "t \<le> x \<and> l < r")
    case True
    have "scan_right a t l r = scan_right a t l (r - 1)"
      using x True by (subst scan_right.simps) simp
    with "1.prems"(1) have "scan_right a t l (r - 1) = Some r'" by simp
    with "1.IH" [OF x True] True have rest: "l \<le> r' \<and> r' \<le> r - 1 \<and> (l < r' \<longrightarrow> a ! nat r' < t)
        \<and> (\<forall>k. r' < k \<and> k \<le> r - 1 \<longrightarrow> t \<le> a ! nat k)" by simp
    have "t \<le> a ! nat k" if "r' < k \<and> k \<le> r" for k
      using that True ax rest by (cases "k = r") auto
    with rest show ?thesis by auto
  next
    case False
    with "1.prems" x have "r' = r" by (auto simp: scan_right.simps [of a t l r])
    with False "1.prems"(2) ax show ?thesis by auto
  qed
qed

lemma swap_cells_Some: "swap_cells a x y = Some b \<Longrightarrow>
    0 \<le> x \<and> x < int (length a) \<and> 0 \<le> y \<and> y < int (length a)
    \<and> b = a[nat x := a ! nat y, nat y := a ! nat x]"
  by (auto simp: swap_cells_def aget_def aset_def split: if_splits)

text \<open>The partition loop. After an exchange the cell at \<open>left\<close> is below the pivot, so the next
  round moves \<open>left\<close> on: the measure counts the gap twice, and that cell once.\<close>

function partition_loop :: "int list \<Rightarrow> int \<Rightarrow> int \<Rightarrow> int \<Rightarrow> (int list \<times> int \<times> int) option" where
  "partition_loop a temp left right =
     (if left < right then do {
        l \<leftarrow> scan_left a temp left right;
        r \<leftarrow> scan_right a temp l right;
        a' \<leftarrow> swap_cells a l r;
        partition_loop a' temp l r
      } else Some (a, left, right))"
  by pat_completeness auto
termination
proof (relation "measure (\<lambda>(a, t, l, r). 2 * nat (r - l) + (if t \<le> a ! nat l then 1 else 0))", simp)
  fix a :: "int list" and t l r l' r' a'
  assume lt: "l < r" and sl: "scan_left a t l r = Some l'" and sr: "scan_right a t l' r = Some r'"
    and sw: "swap_cells a l' r' = Some a'"
  have L: "l \<le> l' \<and> l' \<le> r \<and> (l' < r \<longrightarrow> t \<le> a ! nat l')"
    using scan_left_result [OF sl] lt by simp
  have R: "l' \<le> r' \<and> r' \<le> r \<and> (l' < r' \<longrightarrow> a ! nat r' < t)"
    using scan_right_result [OF sr] L by simp
  have sw': "0 \<le> l'" "r' < int (length a)" "a' = a[nat l' := a ! nat r', nat r' := a ! nat l']"
    using swap_cells_Some [OF sw] by auto
  show "((a', t, l', r'), a, t, l, r) \<in> measure (\<lambda>(a, t, l, r). 2 * nat (r - l) + (if t \<le> a ! nat l then 1 else 0))"
  proof (cases "l' = l \<and> r' = r")
    case True
    then have "a' ! nat l' = a ! nat r'" using sw' lt by (simp add: nth_list_update)
    with True lt L R show ?thesis by simp
  next
    case False
    with L R have "r' - l' < r - l" by linarith
    then show ?thesis using L R by auto
  qed
qed

declare partition_loop.simps [simp del]

lemma partition_bounds: "partition_loop a t l r = Some (a', l', r') \<Longrightarrow> l \<le> r \<Longrightarrow>
    l \<le> l' \<and> l' = r' \<and> r' \<le> r"
proof (induction a t l r rule: partition_loop.induct)
  case (1 a t l r)
  show ?case
  proof (cases "l < r")
    case True
    with "1.prems"(1) obtain l1 r1 a1 where st: "scan_left a t l r = Some l1"
        "scan_right a t l1 r = Some r1" "swap_cells a l1 r1 = Some a1"
        "partition_loop a1 t l1 r1 = Some (a', l', r')"
      by (subst (asm) partition_loop.simps) (auto split: Option.bind_splits)
    have "l \<le> l1 \<and> l1 \<le> r" using scan_left_result [OF st(1)] True by simp
    moreover from this have "l1 \<le> r1 \<and> r1 \<le> r" using scan_right_result [OF st(2)] by simp
    ultimately show ?thesis using "1.IH" [OF True st] by linarith
  next
    case False
    with "1.prems" show ?thesis by (subst (asm) partition_loop.simps) auto
  qed
qed

text \<open>\<open>_fastsort\<close>: the trace it prints is left out.\<close>

function fastsort_rec :: "int list \<Rightarrow> int \<Rightarrow> int \<Rightarrow> int list option" where
  "fastsort_rec a start end =
     (if start \<ge> end then Some a
      else do {
        temp \<leftarrow> aget a start;
        (a1, left, right) \<leftarrow> partition_loop a temp (start + 1) end;
        x \<leftarrow> aget a1 left;
        a2 \<leftarrow> (if x < temp then swap_cells a1 start left else Some a1);
        a3 \<leftarrow> fastsort_rec a2 start (left - 1);
        fastsort_rec a3 right end })"
  by pat_completeness auto
termination
  by (relation "measure (\<lambda>(a, s, e). nat (e - s))") (auto dest!: partition_bounds)

declare fastsort_rec.simps [simp del]

definition fastsort :: "int list \<Rightarrow> int \<Rightarrow> int list option" where
  "fastsort a len = fastsort_rec a 0 (len - 1)"

end
