(* ===== verification/Sorting_Correct.thy ===== *)
theory Sorting_Correct
  imports Sorting
begin

text \<open>
  Correctness of the sorting routines. Each loop gets one total-correctness lemma over
  \<open>within a b lo hi\<close> (\<open>b\<close> is a rearrangement of \<open>a\<close> that only moves cells of \<open>[lo, hi)\<close>) or
  over segments \<open>seg a lo hi\<close>; the routines then all meet one contract, the locale
  \<open>array_sort\<close>, from which the facts a caller needs follow once.
\<close>

section \<open>Segments and rearrangements\<close>

definition seg :: "'a list \<Rightarrow> int \<Rightarrow> int \<Rightarrow> 'a list" where
  "seg a lo hi = map (\<lambda>k. a ! nat k) [lo..hi - 1]"

definition within :: "int list \<Rightarrow> int list \<Rightarrow> int \<Rightarrow> int \<Rightarrow> bool" where
  "within a b lo hi \<longleftrightarrow> length b = length a \<and> mset b = mset a
     \<and> (\<forall>k. 0 \<le> k \<and> k < int (length a) \<and> \<not> (lo \<le> k \<and> k < hi) \<longrightarrow> b ! nat k = a ! nat k)
     \<and> (\<forall>k. lo \<le> k \<and> k < hi \<longrightarrow> (\<exists>k'. lo \<le> k' \<and> k' < hi \<and> b ! nat k = a ! nat k'))"

definition sorted_at :: "int list \<Rightarrow> int \<Rightarrow> int \<Rightarrow> bool" where
  "sorted_at a lo hi \<longleftrightarrow> (\<forall>p q. lo \<le> p \<and> p \<le> q \<and> q < hi \<longrightarrow> a ! nat p \<le> a ! nat q)"

text \<open>The contract of an in-place sort of \<open>[lo, hi)\<close>.\<close>

definition sorts :: "int list \<Rightarrow> int list \<Rightarrow> int \<Rightarrow> int \<Rightarrow> bool" where
  "sorts a b lo hi \<longleftrightarrow> length b = length a
     \<and> (\<forall>k. 0 \<le> k \<and> k < int (length a) \<and> \<not> (lo \<le> k \<and> k < hi) \<longrightarrow> b ! nat k = a ! nat k)
     \<and> seg b lo hi = sort (seg a lo hi)"

lemma seg_empty [simp]: "hi \<le> lo \<Longrightarrow> seg a lo hi = []"
  by (simp add: seg_def)

lemma seg_Cons: "lo < hi \<Longrightarrow> seg a lo hi = a ! nat lo # seg a (lo + 1) hi"
  by (simp add: seg_def upto_rec1)

lemma seg_snoc: "lo \<le> hi \<Longrightarrow> seg a lo (hi + 1) = seg a lo hi @ [a ! nat hi]"
  by (simp add: seg_def upto_rec2)

lemma seg_append: "lo \<le> m \<Longrightarrow> m \<le> hi \<Longrightarrow> seg a lo hi = seg a lo m @ seg a m hi"
  by (cases "m = hi") (auto simp: seg_def upto_split1 [of lo m "hi - 1"] simp flip: map_append)

lemma set_seg: "set (seg a lo hi) = (\<lambda>k. a ! nat k) ` {lo..<hi}"
  by (auto simp: seg_def)

lemma seg_cong: "(\<And>k. lo \<le> k \<Longrightarrow> k < hi \<Longrightarrow> a ! nat k = b ! nat k) \<Longrightarrow> seg a lo hi = seg b lo hi"
  by (auto simp: seg_def)

lemma seg_all: "seg a 0 (int (length a)) = a"
proof (rule nth_equalityI)
  show "seg a 0 (int (length a)) ! i = a ! i" if "i < length (seg a 0 (int (length a)))" for i
    using that by (simp add: seg_def)
qed (simp add: seg_def)

lemma seg_split3: "0 \<le> lo \<Longrightarrow> lo \<le> hi \<Longrightarrow> hi \<le> int (length a) \<Longrightarrow>
    a = seg a 0 lo @ seg a lo hi @ seg a hi (int (length a))"
  using seg_append [of 0 lo "int (length a)" a] seg_append [of lo hi "int (length a)" a]
  by (simp add: seg_all)

lemma sorted_seg: "sorted (seg a lo hi) \<longleftrightarrow> sorted_at a lo hi"
proof
  assume s: "sorted (seg a lo hi)"
  show "sorted_at a lo hi" unfolding sorted_at_def
  proof (intro allI impI)
    fix p q assume pq: "lo \<le> p \<and> p \<le> q \<and> q < hi"
    then have "seg a lo hi ! nat (p - lo) \<le> seg a lo hi ! nat (q - lo)"
      by (intro sorted_nth_mono [OF s] nat_mono) (simp_all add: seg_def)
    with pq show "a ! nat p \<le> a ! nat q" by (simp add: seg_def)
  qed
next
  assume "sorted_at a lo hi"
  then show "sorted (seg a lo hi)"
    by (auto simp: sorted_at_def sorted_iff_nth_mono seg_def)
qed

lemma within_refl [simp]: "within a a lo hi"
  by (auto simp: within_def)

lemma within_length: "within a b lo hi \<Longrightarrow> length b = length a"
  by (simp add: within_def)

lemma within_outside: "within a b lo hi \<Longrightarrow> 0 \<le> k \<Longrightarrow> k < int (length a) \<Longrightarrow>
    k < lo \<or> hi \<le> k \<Longrightarrow> b ! nat k = a ! nat k"
  unfolding within_def by auto

lemma within_all: "within a b lo hi \<Longrightarrow> (\<And>k. lo \<le> k \<Longrightarrow> k < hi \<Longrightarrow> P (a ! nat k)) \<Longrightarrow>
    lo \<le> k \<Longrightarrow> k < hi \<Longrightarrow> P (b ! nat k)"
  unfolding within_def by metis

lemma within_trans: "within a b lo hi \<Longrightarrow> within b c lo hi \<Longrightarrow> within a c lo hi"
  unfolding within_def by metis

lemma within_mono:
  assumes "within a b lo hi" "lo' \<le> lo" "hi \<le> hi'" "0 \<le> lo'" "hi' \<le> int (length a)"
  shows "within a b lo' hi'"
proof -
  have "\<exists>k'. lo' \<le> k' \<and> k' < hi' \<and> b ! nat k = a ! nat k'" if "lo' \<le> k \<and> k < hi'" for k
  proof (cases "lo \<le> k \<and> k < hi")
    case True
    then obtain k' where "lo \<le> k'" "k' < hi" "b ! nat k = a ! nat k'"
      using assms(1) unfolding within_def by blast
    with assms show ?thesis by (intro exI [of _ k']) auto
  next
    case False
    with that assms have "b ! nat k = a ! nat k" unfolding within_def by auto
    with that show ?thesis by blast
  qed
  with assms show ?thesis unfolding within_def by auto
qed

lemma mset_seg_within:
  assumes "within a b lo hi" "0 \<le> lo" "lo \<le> hi" "hi \<le> int (length a)"
  shows "mset (seg b lo hi) = mset (seg a lo hi)"
proof -
  have out: "seg b 0 lo = seg a 0 lo" "seg b hi (int (length a)) = seg a hi (int (length a))"
    using assms by (auto intro!: seg_cong within_outside [OF assms(1)])
  have "mset (seg a 0 lo @ seg a lo hi @ seg a hi (int (length a)))
      = mset (seg b 0 lo @ seg b lo hi @ seg b hi (int (length a)))"
    using assms seg_split3 [of lo hi a] seg_split3 [of lo hi b] by (simp add: within_def)
  then show ?thesis by (simp add: out)
qed

lemma sort_unique: "mset xs = mset ys \<Longrightarrow> sorted xs \<Longrightarrow> xs = sort (ys :: int list)"
  by (metis properties_for_sort)

lemma within_sorts: "within a b lo hi \<Longrightarrow> sorted_at b lo hi \<Longrightarrow> 0 \<le> lo \<Longrightarrow> lo \<le> hi \<Longrightarrow>
    hi \<le> int (length a) \<Longrightarrow> sorts a b lo hi"
  by (auto simp: sorts_def within_length within_outside sorted_seg intro!: sort_unique mset_seg_within)

lemma sorts_prefix:
  assumes "sorts (xs @ rest) b 0 (int (length xs))"
  shows "b = sort xs @ rest"
proof -
  let ?n = "int (length xs)"
  have len: "length b = length (xs @ rest)" using assms by (simp add: sorts_def)
  have "seg (xs @ rest) 0 ?n = seg xs 0 ?n"
    by (rule seg_cong) (auto simp: nth_append nat_less_iff)
  then have pre: "seg (xs @ rest) 0 ?n = xs" by (simp add: seg_all)
  have post: "seg (xs @ rest) ?n (int (length (xs @ rest))) = rest"
    using seg_split3 [of ?n "int (length (xs @ rest))" "xs @ rest"] pre by simp
  have "seg b ?n (int (length b)) = seg (xs @ rest) ?n (int (length (xs @ rest)))"
    using assms by (auto simp: sorts_def intro!: seg_cong)
  with post len have "seg b ?n (int (length b)) = rest" by simp
  moreover have "seg b 0 ?n = sort xs" using assms pre by (simp add: sorts_def)
  ultimately show ?thesis using seg_split3 [of 0 ?n b] len by simp
qed

text \<open>An exchange of two cells.\<close>

lemma within_swap:
  assumes "0 \<le> lo" "lo \<le> x" "x < hi" "lo \<le> y" "y < hi" "hi \<le> int (length a)"
  shows "within a (a[nat x := a ! nat y, nat y := a ! nat x]) lo hi" (is "within a ?b lo hi")
proof -
  have at: "?b ! nat k = (if k = y then a ! nat x else if k = x then a ! nat y else a ! nat k)"
    if "0 \<le> k" for k
    using assms that by (auto simp: nth_list_update)
  have "mset ?b = mset a"
    using assms by (intro mset_swap) (auto simp: nat_less_iff)
  moreover have "\<exists>k'. lo \<le> k' \<and> k' < hi \<and> ?b ! nat k = a ! nat k'" if "lo \<le> k" "k < hi" for k
  proof -
    have "0 \<le> k" using that assms by simp
    from at [OF this] consider "?b ! nat k = a ! nat x" | "?b ! nat k = a ! nat y" | "?b ! nat k = a ! nat k"
      by (cases "k = y"; cases "k = x") auto
    then show ?thesis using that assms by cases blast+
  qed
  ultimately show ?thesis using assms unfolding within_def by (auto simp: at)
qed

lemma swap_cells_wp:
  "wp (swap_cells a x y) Q \<longleftrightarrow> 0 \<le> x \<and> x < int (length a) \<and> 0 \<le> y \<and> y < int (length a)
     \<and> Q (a[nat x := a ! nat y, nat y := a ! nat x])"
  by (auto simp: swap_cells_def)


section \<open>Bubble sort\<close>

text \<open>A pass keeps the maximum of the cells seen so far at \<open>j\<close>, so it ends up at \<open>n\<close>.\<close>

lemma bubble_pass_wp:
  "0 \<le> j \<Longrightarrow> j \<le> n \<Longrightarrow> n < int (length a) \<Longrightarrow> (\<And>k. 0 \<le> k \<Longrightarrow> k \<le> j \<Longrightarrow> a ! nat k \<le> a ! nat j) \<Longrightarrow>
   wp (bubble_pass a j n)
     (\<lambda>b. within a b 0 (n + 1) \<and> (\<forall>k. 0 \<le> k \<and> k \<le> n \<longrightarrow> b ! nat k \<le> b ! nat n))"
proof (induction "nat (n - j)" arbitrary: a j)
  case 0
  then show ?case by (subst bubble_pass.simps) auto
next
  case (Suc m)
  let ?b = "if a ! nat j > a ! nat (j + 1)
    then a[nat j := a ! nat (j + 1), nat (j + 1) := a ! nat j] else a"
  have j: "j < n" "0 \<le> j + 1" "m = nat (n - (j + 1))" using Suc.hyps(2) Suc.prems(1) by linarith+
  have w: "within a ?b 0 (n + 1)"
    using within_swap [of 0 j "n + 1" "j + 1" a] Suc.prems j by simp
  have "?b ! nat k \<le> ?b ! nat (j + 1)" if "0 \<le> k" "k \<le> j + 1" for k
  proof (cases "k \<le> j")
    case True
    then show ?thesis using Suc.prems(1,3) Suc.prems(4) [OF that(1)] j that
      by (auto simp: nth_list_update)
  next
    case False
    with that have "k = j + 1" by simp
    then show ?thesis by simp
  qed
  with j Suc.prems have "wp (bubble_pass ?b (j + 1) n)
      (\<lambda>c. within ?b c 0 (n + 1) \<and> (\<forall>k. 0 \<le> k \<and> k \<le> n \<longrightarrow> c ! nat k \<le> c ! nat n))"
    by (intro Suc.hyps(1)) (simp_all add: within_length [OF w])
  then have "wp (bubble_pass ?b (j + 1) n)
      (\<lambda>c. within a c 0 (n + 1) \<and> (\<forall>k. 0 \<le> k \<and> k \<le> n \<longrightarrow> c ! nat k \<le> c ! nat n))"
    by (rule wp_mono) (use w in \<open>blast intro: within_trans\<close>)
  then show ?case using Suc.prems j
    by (subst bubble_pass.simps) (auto split: if_splits)
qed

text \<open>The outer loops: the top \<open>n - k\<close> cells are in place and above the rest.\<close>

definition top_sorted :: "int list \<Rightarrow> int \<Rightarrow> int \<Rightarrow> bool" where
  "top_sorted a k n \<longleftrightarrow> (\<forall>p q. 0 \<le> p \<and> p \<le> q \<and> k \<le> q \<and> q < n \<longrightarrow> a ! nat p \<le> a ! nat q)"

lemma top_sorted_step:
  assumes "top_sorted a k n" "within a b 0 k" "\<forall>i. 0 \<le> i \<and> i \<le> k - 1 \<longrightarrow> b ! nat i \<le> b ! nat (k - 1)"
    "k \<le> n" "n \<le> int (length a)" "1 \<le> k"
  shows "top_sorted b (k - 1) n"
proof -
  have "b ! nat p \<le> b ! nat q" if pq: "0 \<le> p" "p \<le> q" "k - 1 \<le> q" "q < n" for p q
  proof (cases "q = k - 1")
    case True
    then show ?thesis using assms(3) pq by simp
  next
    case False
    then have q: "b ! nat q = a ! nat q"
      using assms pq by (intro within_outside [OF assms(2)]) auto
    have le: "a ! nat i \<le> a ! nat q" if "0 \<le> i" "i \<le> q" for i
      using assms(1) pq False that unfolding top_sorted_def by auto
    show ?thesis
    proof (cases "p < k")
      case True
      then have "b ! nat p \<le> a ! nat q" using pq False
        by (intro within_all [OF assms(2), where P = "\<lambda>x. x \<le> a ! nat q"] le) auto
      then show ?thesis by (simp add: q)
    next
      case False
      then have "b ! nat p = a ! nat p" using assms pq by (intro within_outside [OF assms(2)]) auto
      then show ?thesis using le pq by (simp add: q)
    qed
  qed
  then show ?thesis unfolding top_sorted_def by blast
qed

lemma top_sorted_all: "top_sorted a k n \<Longrightarrow> k \<le> 1 \<Longrightarrow> sorted_at a 0 n"
  unfolding top_sorted_def sorted_at_def
  by (metis dual_order.trans order_antisym_conv zero_less_one_class.zero_less_one int_one_le_iff_zero_less order_le_less)

lemma bubblesort2_wp:
  "0 \<le> len \<Longrightarrow> len \<le> n \<Longrightarrow> n \<le> int (length a) \<Longrightarrow> top_sorted a len n \<Longrightarrow>
   wp (bubblesort2 a len) (\<lambda>b. within a b 0 n \<and> sorted_at b 0 n)"
proof (induction "nat len" arbitrary: a len)
  case 0
  then show ?case by (subst bubblesort2.simps) (auto intro: top_sorted_all)
next
  case (Suc m)
  show ?case
  proof (cases "len < 2")
    case True
    with Suc.prems show ?thesis by (subst bubblesort2.simps) (auto intro: top_sorted_all)
  next
    case False
    have "wp (bubble_pass a 0 (len - 1)) (\<lambda>b. within a b 0 (len - 1 + 1)
        \<and> (\<forall>k. 0 \<le> k \<and> k \<le> len - 1 \<longrightarrow> b ! nat k \<le> b ! nat (len - 1)))"
      using Suc.prems False by (intro bubble_pass_wp) auto
    then have "wp (bubble_pass a 0 (len - 1)) (\<lambda>b. wp (bubblesort2 b (len - 1))
        (\<lambda>c. within a c 0 n \<and> sorted_at c 0 n))"
    proof (rule wp_mono)
      fix b assume b: "within a b 0 (len - 1 + 1)
        \<and> (\<forall>k. 0 \<le> k \<and> k \<le> len - 1 \<longrightarrow> b ! nat k \<le> b ! nat (len - 1))"
      then have "within a b 0 n" using Suc.prems by (auto intro: within_mono)
      moreover have "top_sorted b (len - 1) n" using b Suc.prems False by (intro top_sorted_step) auto
      ultimately show "wp (bubblesort2 b (len - 1)) (\<lambda>c. within a c 0 n \<and> sorted_at c 0 n)"
        using Suc.hyps Suc.prems False
        by (intro wp_mono [OF Suc.hyps(1)]) (auto simp: within_length intro: within_trans)
    qed
    with False show ?thesis by (subst bubblesort2.simps) simp
  qed
qed

lemma bubble_outer_eq: "1 \<le> i \<Longrightarrow> i \<le> len \<Longrightarrow> bubble_outer a i len = bubblesort2 a (len - i + 1)"
proof (induction "nat (len - i)" arbitrary: a i)
  case 0
  then show ?case by (subst bubble_outer.simps, subst bubblesort2.simps) auto
next
  case (Suc m)
  have "bubble_outer b (i + 1) len = bubblesort2 b (len - i)" for b
    using Suc.hyps(1) [of "i + 1" b] Suc.hyps(2) Suc.prems by simp
  then show ?case using Suc.hyps(2) Suc.prems
    by (subst bubble_outer.simps, subst bubblesort2.simps) auto
qed


section \<open>Selection sort\<close>

lemma select_min_wp:
  "i \<le> j \<Longrightarrow> 0 \<le> i \<Longrightarrow> i \<le> m \<Longrightarrow> m < len \<Longrightarrow> len \<le> int (length a) \<Longrightarrow>
   (\<And>k. i \<le> k \<Longrightarrow> k < j \<Longrightarrow> a ! nat m \<le> a ! nat k) \<Longrightarrow>
   wp (select_min a j m len) (\<lambda>r. i \<le> r \<and> r < len \<and> (\<forall>k. i \<le> k \<and> k < len \<longrightarrow> a ! nat r \<le> a ! nat k))"
proof (induction "nat (len - j)" arbitrary: j m)
  case 0
  then show ?case by (subst select_min.simps) auto
next
  case (Suc d)
  let ?m = "if a ! nat j < a ! nat m then j else m"
  have j: "j < len" "d = nat (len - (j + 1))" using Suc.hyps(2) by linarith+
  have "a ! nat ?m \<le> a ! nat k" if "i \<le> k" "k < j + 1" for k
    using Suc.prems(6) [OF that(1)] that by (cases "k = j") force+
  then have "wp (select_min a (j + 1) ?m len)
      (\<lambda>r. i \<le> r \<and> r < len \<and> (\<forall>k. i \<le> k \<and> k < len \<longrightarrow> a ! nat r \<le> a ! nat k))"
    using Suc.prems(1-5) j by (intro Suc.hyps(1)) auto
  then show ?case using Suc.prems(1-5) j by (subst select_min.simps) auto
qed

text \<open>The first \<open>i\<close> cells are in place and below the rest.\<close>

definition low_sorted :: "int list \<Rightarrow> int \<Rightarrow> int \<Rightarrow> bool" where
  "low_sorted a i n \<longleftrightarrow> (\<forall>p q. 0 \<le> p \<and> p \<le> q \<and> p < i \<and> q < n \<longrightarrow> a ! nat p \<le> a ! nat q)"

lemma low_sorted_step:
  assumes "low_sorted a i n" "within a b i n" "\<forall>k. i \<le> k \<and> k < n \<longrightarrow> b ! nat i \<le> b ! nat k"
    "0 \<le> i" "n \<le> int (length a)"
  shows "low_sorted b (i + 1) n"
proof -
  have "b ! nat p \<le> b ! nat q" if pq: "0 \<le> p" "p \<le> q" "p < i + 1" "q < n" for p q
  proof (cases "p = i")
    case True
    then show ?thesis using assms(3) pq by simp
  next
    case False
    then have p: "b ! nat p = a ! nat p" using assms(5) pq by (intro within_outside [OF assms(2)]) auto
    have le: "a ! nat p \<le> a ! nat k" if "p \<le> k" "k < n" for k
      using assms(1) pq False that unfolding low_sorted_def by auto
    show ?thesis
    proof (cases "i \<le> q")
      case True
      have "a ! nat p \<le> b ! nat q" using pq True False
        by (intro within_all [OF assms(2), where P = "\<lambda>x. a ! nat p \<le> x"] le) auto
      then show ?thesis by (simp add: p)
    next
      case False
      then have "b ! nat q = a ! nat q" using assms(5) pq by (intro within_outside [OF assms(2)]) auto
      then show ?thesis using le pq by (simp add: p)
    qed
  qed
  then show ?thesis unfolding low_sorted_def by blast
qed

lemma selectsort2_wp:
  "0 \<le> i \<Longrightarrow> n \<le> int (length a) \<Longrightarrow> low_sorted a i n \<Longrightarrow>
   wp (selectsort2 a i n) (\<lambda>b. within a b 0 n \<and> sorted_at b 0 n)"
proof (induction "nat (n - i)" arbitrary: a i)
  case 0
  then show ?case by (subst selectsort2.simps) (auto simp: low_sorted_def sorted_at_def)
next
  case (Suc d)
  have i: "i < n" "d = nat (n - (i + 1))" using Suc.hyps(2) by linarith+
  have "wp (select_min a i i n) (\<lambda>r. i \<le> r \<and> r < n \<and> (\<forall>k. i \<le> k \<and> k < n \<longrightarrow> a ! nat r \<le> a ! nat k))"
    using Suc.prems i by (intro select_min_wp) auto
  then have "wp (select_min a i i n) (\<lambda>m. wp (swap_cells a i m) (\<lambda>b. wp (selectsort2 b (i + 1) n)
      (\<lambda>c. within a c 0 n \<and> sorted_at c 0 n)))"
  proof (rule wp_mono)
    fix r assume r: "i \<le> r \<and> r < n \<and> (\<forall>k. i \<le> k \<and> k < n \<longrightarrow> a ! nat r \<le> a ! nat k)"
    let ?b = "a[nat i := a ! nat r, nat r := a ! nat i]"
    have w: "within a ?b i n" "within a ?b 0 n" using r i Suc.prems by (auto intro!: within_swap)
    have "?b ! nat i = a ! nat r" using r i Suc.prems by (auto simp: nth_list_update)
    then have "?b ! nat i \<le> ?b ! nat k" if "i \<le> k" "k < n" for k
      using that r by (intro within_all [OF w(1), where P = "\<lambda>x. ?b ! nat i \<le> x"]) auto
    then have "low_sorted ?b (i + 1) n" using Suc.prems w by (intro low_sorted_step [OF Suc.prems(3)]) auto
    then have "wp (selectsort2 ?b (i + 1) n) (\<lambda>c. within ?b c 0 n \<and> sorted_at c 0 n)"
      using Suc.prems i by (intro Suc.hyps(1)) auto
    then have "wp (selectsort2 ?b (i + 1) n) (\<lambda>c. within a c 0 n \<and> sorted_at c 0 n)"
      by (rule wp_mono) (use w(2) in \<open>auto intro: within_trans\<close>)
    then show "wp (swap_cells a i r) (\<lambda>b. wp (selectsort2 b (i + 1) n)
        (\<lambda>c. within a c 0 n \<and> sorted_at c 0 n))"
      using r i Suc.prems by (simp add: swap_cells_wp)
  qed
  with i show ?case by (subst selectsort2.simps) simp
qed

lemma select_outer_eq: "select_outer a i len = selectsort2 a i len"
proof (induction a i len rule: selectsort2.induct)
  case (1 a i len)
  show ?case
  proof (cases "i < len")
    case True
    with 1 show ?thesis
      by (subst select_outer.simps, subst selectsort2.simps) (auto intro!: Option.bind_cong)
  next
    case False
    then show ?thesis by (subst select_outer.simps, subst selectsort2.simps) simp
  qed
qed

section \<open>Insertion with a hole: insertsort.c and groupsort of shellsort.c\<close>

text \<open>While cells shift up, one cell (the hole) is a stale copy; with the saved value put there
  the array is a rearrangement of the original. Moving the hole is then an exchange.\<close>

lemma mset_move_hole:
  assumes "h < length a" "j < length a" "h \<noteq> j"
  shows "mset (a[h := a ! j, j := temp]) = mset (a[h := temp])"
proof -
  let ?c = "a[h := temp]"
  have "a[h := a ! j, j := temp] = ?c[h := ?c ! j, j := ?c ! h]"
    using assms by simp
  then show ?thesis using assms mset_swap [of j ?c h] by simp
qed

lemma insert_find_wp:
  "0 \<le> i \<Longrightarrow> i \<le> j \<Longrightarrow> j < int (length a) \<Longrightarrow> (\<And>k. 0 \<le> k \<Longrightarrow> k < i \<Longrightarrow> a ! nat k < a ! nat j) \<Longrightarrow>
   wp (insert_find a i j) (\<lambda>r. 0 \<le> r \<and> r \<le> j \<and> (\<forall>k. 0 \<le> k \<and> k < r \<longrightarrow> a ! nat k < a ! nat j)
     \<and> a ! nat j \<le> a ! nat r)"
proof (induction "nat (j - i)" arbitrary: i)
  case 0
  then show ?case by (subst insert_find.simps) auto
next
  case (Suc d)
  have i: "i < j" "d = nat (j - (i + 1))" using Suc.hyps(2) by linarith+
  show ?case
  proof (cases "a ! nat i < a ! nat j")
    case True
    have "a ! nat k < a ! nat j" if "0 \<le> k" "k < i + 1" for k
      using Suc.prems(4) [OF that(1)] that True by (cases "k = i") auto
    then have "wp (insert_find a (i + 1) j) (\<lambda>r. 0 \<le> r \<and> r \<le> j
        \<and> (\<forall>k. 0 \<le> k \<and> k < r \<longrightarrow> a ! nat k < a ! nat j) \<and> a ! nat j \<le> a ! nat r)"
      using Suc.prems(1-3) i by (intro Suc.hyps(1)) auto
    with True Suc.prems(1-3) i show ?thesis by (subst insert_find.simps) simp
  next
    case False
    with Suc.prems i show ?thesis by (subst insert_find.simps) auto
  qed
qed

text \<open>\<open>hole a h n temp\<close>: leaving out cell \<open>h\<close>, \<open>[0, n)\<close> is sorted, and what lies above the hole
  is at least \<open>temp\<close>.\<close>

definition hole :: "int list \<Rightarrow> int \<Rightarrow> int \<Rightarrow> int \<Rightarrow> bool" where
  "hole a h n temp \<longleftrightarrow>
     (\<forall>p q. 0 \<le> p \<and> p \<le> q \<and> q < n \<and> p \<noteq> h \<and> q \<noteq> h \<longrightarrow> a ! nat p \<le> a ! nat q)
     \<and> (\<forall>q. h < q \<and> q < n \<longrightarrow> temp \<le> a ! nat q)"

lemma hole_start: "sorted_at a 0 h \<Longrightarrow> hole a h (h + 1) temp"
  by (auto simp: hole_def sorted_at_def)

lemma hole_move:
  assumes "hole a h n temp" "1 \<le> h" "h < n" "n \<le> int (length a)" "temp \<le> a ! nat (h - 1)"
  shows "hole (a[nat h := a ! nat (h - 1)]) (h - 1) n temp"
proof -
  let ?b = "a[nat h := a ! nat (h - 1)]"
  have at: "?b ! nat k = (if k = h then a ! nat (h - 1) else a ! nat k)" if "0 \<le> k" for k
    using assms that by (auto simp: nth_list_update)
  have s: "a ! nat p \<le> a ! nat q" if "0 \<le> p" "p \<le> q" "q < n" "p \<noteq> h" "q \<noteq> h" for p q
    using assms(1) that unfolding hole_def by blast
  have t: "temp \<le> a ! nat q" if "h < q" "q < n" for q
    using assms(1) that unfolding hole_def by blast
  show ?thesis unfolding hole_def
  proof (intro conjI allI impI)
    fix p q assume pq: "0 \<le> p \<and> p \<le> q \<and> q < n \<and> p \<noteq> h - 1 \<and> q \<noteq> h - 1"
    then show "?b ! nat p \<le> ?b ! nat q"
      using assms s [of p "h - 1"] s [of "h - 1" q] s [of p q] by (auto simp: at)
  next
    fix q assume "h - 1 < q \<and> q < n"
    then show "temp \<le> ?b ! nat q" using assms t [of q] by (auto simp: at)
  qed
qed

lemma hole_fill:
  assumes "hole a h n temp" "0 \<le> h" "h < n" "n \<le> int (length a)"
    "\<And>k. 0 \<le> k \<Longrightarrow> k < h \<Longrightarrow> a ! nat k \<le> temp"
  shows "sorted_at (a[nat h := temp]) 0 n"
  using assms unfolding sorted_at_def hole_def by (auto simp: nth_list_update)

text \<open>Shifting from the hole \<open>x\<close> down to \<open>i\<close>; \<open>same a b lo hi\<close> is the frame.\<close>

definition same :: "int list \<Rightarrow> int list \<Rightarrow> int \<Rightarrow> int \<Rightarrow> bool" where
  "same a b lo hi \<longleftrightarrow> length b = length a
     \<and> (\<forall>k. 0 \<le> k \<and> k < int (length a) \<and> \<not> (lo \<le> k \<and> k < hi) \<longrightarrow> b ! nat k = a ! nat k)"

lemma same_refl [simp]: "same a a lo hi"
  by (simp add: same_def)

lemma same_trans: "same a b lo hi \<Longrightarrow> same b c lo hi \<Longrightarrow> same a c lo hi"
  by (simp add: same_def)

lemma same_upd: "0 \<le> x \<Longrightarrow> lo \<le> x \<Longrightarrow> x < hi \<Longrightarrow> same a (a[nat x := v]) lo hi"
  by (auto simp: same_def nth_list_update)

lemma insert_shift_wp:
  "0 \<le> i \<Longrightarrow> i \<le> x \<Longrightarrow> x < n \<Longrightarrow> n \<le> int (length a) \<Longrightarrow> hole a x n temp \<Longrightarrow>
   (\<And>k. i \<le> k \<Longrightarrow> k < x \<Longrightarrow> temp \<le> a ! nat k) \<Longrightarrow>
   wp (insert_shift a i x) (\<lambda>b. same a b 0 n \<and> hole b i n temp
     \<and> (\<forall>k. 0 \<le> k \<and> k < i \<longrightarrow> b ! nat k = a ! nat k)
     \<and> mset (b[nat i := temp]) = mset (a[nat x := temp]))"
proof (induction "nat (x - i)" arbitrary: a x)
  case 0
  then show ?case by (subst insert_shift.simps) auto
next
  case (Suc d)
  let ?b = "a[nat x := a ! nat (x - 1)]"
  have x: "i < x" "i \<le> x - 1" "d = nat (x - 1 - i)" using Suc.hyps(2) by linarith+
  have at: "?b ! nat k = a ! nat k" if "0 \<le> k" "k \<noteq> x" for k
    using that Suc.prems(1,2) by (simp add: nth_list_update)
  have h: "hole ?b (x - 1) n temp"
    using Suc.prems(1-5) Suc.prems(6) [of "x - 1"] x by (intro hole_move) auto
  have "temp \<le> ?b ! nat k" if "i \<le> k" "k < x - 1" for k
    using that Suc.prems(1) Suc.prems(6) [of k] at [of k] by simp
  then have "wp (insert_shift ?b i (x - 1)) (\<lambda>c. same ?b c 0 n \<and> hole c i n temp
     \<and> (\<forall>k. 0 \<le> k \<and> k < i \<longrightarrow> c ! nat k = ?b ! nat k)
     \<and> mset (c[nat i := temp]) = mset (?b[nat (x - 1) := temp]))"
    using Suc.prems(1-4) h x by (intro Suc.hyps(1)) simp_all
  moreover have "mset (?b[nat (x - 1) := temp]) = mset (a[nat x := temp])"
    using Suc.prems(1-4) x by (intro mset_move_hole) auto
  moreover have "same a ?b 0 n" using Suc.prems(1-4) by (intro same_upd) auto
  ultimately have "wp (insert_shift ?b i (x - 1)) (\<lambda>c. same a c 0 n \<and> hole c i n temp
     \<and> (\<forall>k. 0 \<le> k \<and> k < i \<longrightarrow> c ! nat k = a ! nat k)
     \<and> mset (c[nat i := temp]) = mset (a[nat x := temp]))"
    using x at by (auto elim!: wp_mono intro: same_trans)
  with x Suc.prems(1-4) show ?case by (subst insert_shift.simps) simp
qed


lemma mset_seg_same:
  assumes "same a b lo hi" "mset b = mset a" "0 \<le> lo" "lo \<le> hi" "hi \<le> int (length a)"
  shows "mset (seg b lo hi) = mset (seg a lo hi)"
proof -
  have out: "seg b 0 lo = seg a 0 lo" "seg b hi (int (length a)) = seg a hi (int (length a))"
    using assms by (auto intro!: seg_cong simp: same_def)
  have "mset (seg a 0 lo @ seg a lo hi @ seg a hi (int (length a)))
      = mset (seg b 0 lo @ seg b lo hi @ seg b hi (int (length a)))"
    using assms seg_split3 [of lo hi a] seg_split3 [of lo hi b] by (simp add: same_def)
  then show ?thesis by (simp add: out)
qed

lemma sameD: "same a b lo hi \<Longrightarrow> mset b = mset a \<Longrightarrow> 0 \<le> lo \<Longrightarrow> hi \<le> int (length a) \<Longrightarrow>
    sorted_at b lo hi \<Longrightarrow> lo \<le> hi \<Longrightarrow> sorts a b lo hi"
  using mset_seg_same [of a b lo hi] by (auto simp: sorts_def same_def sorted_seg intro: sort_unique)

lemma insert_outer_wp:
  "1 \<le> j \<Longrightarrow> j \<le> len \<Longrightarrow> len \<le> int (length a) \<Longrightarrow> sorted_at a 0 j \<Longrightarrow>
   wp (insert_outer a j len) (\<lambda>b. same a b 0 len \<and> mset b = mset a \<and> sorted_at b 0 len)"
proof (induction "nat (len - j)" arbitrary: a j)
  case 0
  then show ?case by (subst insert_outer.simps) auto
next
  case (Suc d)
  have j: "j < len" "j + 1 \<le> len" "d = nat (len - (j + 1))" using Suc.hyps(2) by linarith+
  let ?t = "a ! nat j"
  let ?Q = "\<lambda>b. same a b 0 len \<and> mset b = mset a \<and> sorted_at b 0 len"
  have next_step: "wp (insert_outer b (j + 1) len) ?Q"
    if "same a b 0 len" "mset b = mset a" "sorted_at b 0 (j + 1)" for b
  proof -
    have "wp (insert_outer b (j + 1) len) (\<lambda>c. same b c 0 len \<and> mset c = mset b \<and> sorted_at c 0 len)"
      using that Suc.prems j by (intro Suc.hyps(1)) (auto simp: same_def)
    then show ?thesis by (rule wp_mono) (use that in \<open>auto intro: same_trans\<close>)
  qed
  have "wp (insert_find a 0 j) (\<lambda>r. 0 \<le> r \<and> r \<le> j \<and> (\<forall>k. 0 \<le> k \<and> k < r \<longrightarrow> a ! nat k < ?t)
     \<and> ?t \<le> a ! nat r)"
    using Suc.prems j by (intro insert_find_wp) auto
  then have "wp (insert_find a 0 j) (\<lambda>i. wp (if i \<noteq> j then do { a1 \<leftarrow> insert_shift a i j; aset a1 i ?t }
      else Some a) (\<lambda>b. wp (insert_outer b (j + 1) len) ?Q))"
  proof (rule wp_mono)
    fix i assume i: "0 \<le> i \<and> i \<le> j \<and> (\<forall>k. 0 \<le> k \<and> k < i \<longrightarrow> a ! nat k < ?t) \<and> ?t \<le> a ! nat i"
    show "wp (if i \<noteq> j then do { a1 \<leftarrow> insert_shift a i j; aset a1 i ?t } else Some a)
        (\<lambda>b. wp (insert_outer b (j + 1) len) ?Q)"
    proof (cases "i = j")
      case True
      have "a ! nat p \<le> a ! nat q" if "0 \<le> p" "p \<le> q" "q < j + 1" for p q
        using that Suc.prems(4) i True unfolding sorted_at_def
        by (cases "p = j"; cases "q = j") (auto simp: order_less_imp_le)
      then have "sorted_at a 0 (j + 1)" unfolding sorted_at_def by blast
      then show ?thesis using True next_step [of a] by simp
    next
      case False
      have "?t \<le> a ! nat k" if "i \<le> k" "k < j" for k
        using i that Suc.prems(4) unfolding sorted_at_def by (meson order_trans)
      then have "wp (insert_shift a i j) (\<lambda>b. same a b 0 (j + 1) \<and> hole b i (j + 1) ?t
         \<and> (\<forall>k. 0 \<le> k \<and> k < i \<longrightarrow> b ! nat k = a ! nat k)
         \<and> mset (b[nat i := ?t]) = mset (a[nat j := ?t]))"
        using i False Suc.prems j hole_start [OF Suc.prems(4)] by (intro insert_shift_wp) auto
      then have "wp (insert_shift a i j) (\<lambda>b. i < int (length b) \<and> wp (insert_outer (b[nat i := ?t]) (j + 1) len) ?Q)"
      proof (rule wp_mono)
        fix b assume b: "same a b 0 (j + 1) \<and> hole b i (j + 1) ?t
         \<and> (\<forall>k. 0 \<le> k \<and> k < i \<longrightarrow> b ! nat k = a ! nat k)
         \<and> mset (b[nat i := ?t]) = mset (a[nat j := ?t])"
        then have len: "length b = length a" by (simp add: same_def)
        have "sorted_at (b[nat i := ?t]) 0 (j + 1)"
          using b i False Suc.prems j by (intro hole_fill) (auto simp: len order_less_imp_le)
        moreover have "same a (b[nat i := ?t]) 0 len"
          using b i j by (auto simp: same_def nth_list_update)
        moreover have "mset (b[nat i := ?t]) = mset a" using b Suc.prems j by simp
        ultimately show "i < int (length b) \<and> wp (insert_outer (b[nat i := ?t]) (j + 1) len) ?Q"
          using next_step len i j Suc.prems by auto
      qed
      then show ?thesis using False i by simp
    qed
  qed
  with j Suc.prems show ?case by (subst insert_outer.simps) auto
qed

section \<open>Shell sort\<close>

text \<open>One insertion of \<open>groupsort\<close> for any step: a rearrangement. With step 1 it is the
  insertion of the previous section.\<close>

lemma group_shift_wp:
  "0 < step \<Longrightarrow> 0 \<le> j + step \<Longrightarrow> j + step < n \<Longrightarrow> n \<le> int (length a) \<Longrightarrow>
   (step = 1 \<Longrightarrow> hole a (j + 1) i temp) \<Longrightarrow> j + step < i \<Longrightarrow> i \<le> n \<Longrightarrow>
   wp (group_shift a j step temp) (\<lambda>(b, j'). same a b 0 n \<and> 0 \<le> j' + step \<and> j' + step < i
     \<and> mset (b[nat (j' + step) := temp]) = mset (a[nat (j + step) := temp])
     \<and> (step = 1 \<longrightarrow> hole b (j' + 1) i temp \<and> (\<forall>k. 0 \<le> k \<and> k \<le> j' \<longrightarrow> b ! nat k \<le> temp)))"
proof (induction "nat (j + step)" arbitrary: a j rule: less_induct)
  case less
  note prems = less.prems
  show ?case
  proof (cases "0 \<le> j")
    case False
    with prems show ?thesis by (subst group_shift.simps) auto
  next
    case j: True
    show ?thesis
    proof (cases "temp > a ! nat j")
      case True
      have "a ! nat k \<le> temp" if "step = 1" "0 \<le> k" "k \<le> j" for k
      proof -
        have "a ! nat k \<le> a ! nat j" using prems(5) that prems(6) unfolding hole_def by auto
        with True show ?thesis by simp
      qed
      with True j prems show ?thesis by (subst group_shift.simps) auto
    next
      case False
      let ?b = "a[nat (j + step) := a ! nat j]"
      have h: "hole ?b (j - step + 1) i temp" if "step = 1"
        using that prems False j hole_move [of a "j + 1" i temp] by auto
      have "wp (group_shift ?b (j - step) step temp) (\<lambda>(b, j'). same ?b b 0 n \<and> 0 \<le> j' + step \<and> j' + step < i
         \<and> mset (b[nat (j' + step) := temp]) = mset (?b[nat (j - step + step) := temp])
         \<and> (step = 1 \<longrightarrow> hole b (j' + 1) i temp \<and> (\<forall>k. 0 \<le> k \<and> k \<le> j' \<longrightarrow> b ! nat k \<le> temp)))"
        using prems j h by (intro less.hyps) auto
      moreover have "mset (?b[nat (j - step + step) := temp]) = mset (a[nat (j + step) := temp])"
        using prems j mset_move_hole [of "nat (j + step)" a "nat j" temp] by simp
      moreover have "same a ?b 0 n" using prems by (intro same_upd) auto
      ultimately have "wp (group_shift ?b (j - step) step temp) (\<lambda>(b, j'). same a b 0 n \<and> 0 \<le> j' + step
         \<and> j' + step < i \<and> mset (b[nat (j' + step) := temp]) = mset (a[nat (j + step) := temp])
         \<and> (step = 1 \<longrightarrow> hole b (j' + 1) i temp \<and> (\<forall>k. 0 \<le> k \<and> k \<le> j' \<longrightarrow> b ! nat k \<le> temp)))"
        by (auto elim!: wp_mono intro: same_trans)
      with False j prems show ?thesis by (subst group_shift.simps) auto
    qed
  qed
qed

lemma group_outer_wp:
  "0 < step \<Longrightarrow> step \<le> i \<Longrightarrow> n \<le> int (length a) \<Longrightarrow> (step = 1 \<Longrightarrow> sorted_at a 0 (min i n)) \<Longrightarrow>
   wp (group_outer a i n step) (\<lambda>b. same a b 0 n \<and> mset b = mset a \<and> (step = 1 \<longrightarrow> sorted_at b 0 n))"
proof (induction "nat (n - i)" arbitrary: a i rule: less_induct)
  case less
  note prems = less.prems
  show ?case
  proof (cases "i < n")
    case False
    with prems show ?thesis by (subst group_outer.simps) (auto simp: min_def split: if_splits)
  next
    case i: True
    let ?t = "a ! nat i"
    let ?Q = "\<lambda>b. same a b 0 n \<and> mset b = mset a \<and> (step = 1 \<longrightarrow> sorted_at b 0 n)"
    have "hole a (i - step + 1) (i + 1) ?t" if "step = 1"
      using prems(4) [OF that] that i hole_start [of a i ?t] by simp
    then have "wp (group_shift a (i - step) step ?t) (\<lambda>(b, j'). same a b 0 n \<and> 0 \<le> j' + step \<and> j' + step < i + 1
       \<and> mset (b[nat (j' + step) := ?t]) = mset (a[nat (i - step + step) := ?t])
       \<and> (step = 1 \<longrightarrow> hole b (j' + 1) (i + 1) ?t \<and> (\<forall>k. 0 \<le> k \<and> k \<le> j' \<longrightarrow> b ! nat k \<le> ?t)))"
      using prems i by (intro group_shift_wp) auto
    then have "wp (group_shift a (i - step) step ?t)
        (\<lambda>(b, j'). 0 \<le> j' + step \<and> j' + step < int (length b)
          \<and> wp (group_outer (b[nat (j' + step) := ?t]) (i + step) n step) ?Q)"
    proof (rule wp_mono, unfold split_paired_all prod.case, elim conjE)
      fix b j'
      assume b: "same a b 0 n" "0 \<le> j' + step" "j' + step < i + 1"
        "mset (b[nat (j' + step) := ?t]) = mset (a[nat (i - step + step) := ?t])"
        and h: "step = 1 \<longrightarrow> hole b (j' + 1) (i + 1) ?t \<and> (\<forall>k. 0 \<le> k \<and> k \<le> j' \<longrightarrow> b ! nat k \<le> ?t)"
      let ?c = "b[nat (j' + step) := ?t]"
      have len: "length b = length a" using b by (simp add: same_def)
      have c: "same a ?c 0 n" "mset ?c = mset a"
        using b i prems by (auto simp: same_def nth_list_update)
      have "sorted_at ?c 0 (min (i + step) n)" if "step = 1"
        using that h b i prems len by (auto intro!: hole_fill simp: min_def)
      then have "wp (group_outer ?c (i + step) n step)
          (\<lambda>d. same ?c d 0 n \<and> mset d = mset ?c \<and> (step = 1 \<longrightarrow> sorted_at d 0 n))"
        using prems i len by (intro less.hyps) auto
      then have "wp (group_outer ?c (i + step) n step) ?Q"
        by (rule wp_mono) (use c in \<open>auto intro: same_trans\<close>)
      then show "0 \<le> j' + step \<and> j' + step < int (length b) \<and> wp (group_outer ?c (i + step) n step) ?Q"
        using b i prems len by simp
    qed
    with i prems show ?thesis
      by (subst group_outer.simps) (auto simp: case_prod_beta elim!: wp_mono)
  qed
qed

lemma shell_groups_wp:
  "0 < step \<Longrightarrow> 0 \<le> i \<Longrightarrow> n \<le> int (length a) \<Longrightarrow> (step = 1 \<Longrightarrow> 0 < i \<Longrightarrow> sorted_at a 0 n) \<Longrightarrow>
   wp (shell_groups a n i step) (\<lambda>b. same a b 0 n \<and> mset b = mset a \<and> (step = 1 \<longrightarrow> sorted_at b 0 n))"
proof (induction "nat (step - i)" arbitrary: a i rule: less_induct)
  case less
  note prems = less.prems
  show ?case
  proof (cases "i < step")
    case False
    with prems show ?thesis by (subst shell_groups.simps) auto
  next
    case True
    let ?Q = "\<lambda>b. same a b 0 n \<and> mset b = mset a \<and> (step = 1 \<longrightarrow> sorted_at b 0 n)"
    have "sorted_at a 0 (min (i + step) n)" if "step = 1"
      using that True prems by (auto simp: sorted_at_def)
    then have "wp (groupsort a n i step) ?Q"
      unfolding groupsort_def using prems by (intro group_outer_wp) auto
    then have "wp (groupsort a n i step) (\<lambda>b. wp (shell_groups b n (i + 1) step) ?Q)"
    proof (rule wp_mono)
      fix b assume b: "same a b 0 n \<and> mset b = mset a \<and> (step = 1 \<longrightarrow> sorted_at b 0 n)"
      then have "wp (shell_groups b n (i + 1) step)
          (\<lambda>d. same b d 0 n \<and> mset d = mset b \<and> (step = 1 \<longrightarrow> sorted_at d 0 n))"
        using prems True by (intro less.hyps) (auto simp: same_def)
      then show "wp (shell_groups b n (i + 1) step) ?Q"
        by (rule wp_mono) (use b in \<open>auto intro: same_trans\<close>)
    qed
    with True show ?thesis by (subst shell_groups.simps) simp
  qed
qed

lemma shell_steps_wp:
  "0 \<le> step \<Longrightarrow> n \<le> int (length a) \<Longrightarrow> (step = 0 \<Longrightarrow> sorted_at a 0 n) \<Longrightarrow>
   wp (shell_steps a n step) (\<lambda>b. same a b 0 n \<and> mset b = mset a \<and> sorted_at b 0 n)"
proof (induction "nat step" arbitrary: a step rule: less_induct)
  case less
  note prems = less.prems
  show ?case
  proof (cases "0 < step")
    case False
    with prems show ?thesis by (subst shell_steps.simps) auto
  next
    case True
    let ?Q = "\<lambda>b. same a b 0 n \<and> mset b = mset a \<and> sorted_at b 0 n"
    have "wp (shell_groups a n 0 step) (\<lambda>b. same a b 0 n \<and> mset b = mset a \<and> (step = 1 \<longrightarrow> sorted_at b 0 n))"
      using True prems by (intro shell_groups_wp) auto
    then have "wp (shell_groups a n 0 step) (\<lambda>b. wp (shell_steps b n (step sdiv 2)) ?Q)"
    proof (rule wp_mono)
      fix b assume b: "same a b 0 n \<and> mset b = mset a \<and> (step = 1 \<longrightarrow> sorted_at b 0 n)"
      have "sorted_at b 0 n" if "step sdiv 2 = 0"
        using that True b by (simp add: zdiv_eq_0_iff) 
      then have "wp (shell_steps b n (step sdiv 2)) (\<lambda>d. same b d 0 n \<and> mset d = mset b \<and> sorted_at d 0 n)"
        using prems True b by (intro less.hyps) (auto simp: same_def)
      then show "wp (shell_steps b n (step sdiv 2)) ?Q"
        by (rule wp_mono) (use b in \<open>auto intro: same_trans\<close>)
    qed
    with True show ?thesis by (subst shell_steps.simps) simp
  qed
qed


section \<open>Merge sort\<close>

text \<open>The functional merge the loop computes: on a tie the right run goes first.\<close>

fun merge_runs :: "int list \<Rightarrow> int list \<Rightarrow> int list" where
  "merge_runs [] ys = ys"
| "merge_runs xs [] = xs"
| "merge_runs (x # xs) (y # ys) =
     (if x < y then x # merge_runs xs (y # ys) else y # merge_runs (x # xs) ys)"

lemma mset_merge_runs: "mset (merge_runs xs ys) = mset xs + mset ys"
  by (induction xs ys rule: merge_runs.induct) auto

lemma set_merge_runs: "set (merge_runs xs ys) = set xs \<union> set ys"
  by (metis mset_merge_runs set_mset_mset set_mset_union)

lemma sorted_merge_runs: "sorted xs \<Longrightarrow> sorted ys \<Longrightarrow> sorted (merge_runs xs ys)"
  by (induction xs ys rule: merge_runs.induct) (auto simp: set_merge_runs)

lemma merge_runs_sort: "merge_runs (sort xs) (sort ys) = sort (xs @ ys)"
  by (rule sort_unique) (simp_all add: mset_merge_runs sorted_merge_runs)

lemma merge_runs_Nil2 [simp]: "merge_runs xs [] = xs"
  by (cases xs) auto

text \<open>What the merge loop leaves when it is entered with \<open>temp\<close> filled up to \<open>i\<close> and the runs
  from \<open>ls\<close> and \<open>rs\<close> on still to merge.\<close>

fun merge_post :: "int list \<Rightarrow> int list \<Rightarrow> int \<Rightarrow> int \<Rightarrow> int \<Rightarrow> int \<Rightarrow> int
    \<Rightarrow> int list \<times> int \<times> int \<times> int \<Rightarrow> bool" where
  "merge_post arr t i ls le rs re (t', i', ls', rs') \<longleftrightarrow> length t' = length t
     \<and> (\<forall>k. 0 \<le> k \<and> k < i \<longrightarrow> t' ! nat k = t ! nat k) \<and> i \<le> i'
     \<and> i' = i + (ls' - ls) + (rs' - rs) \<and> ls \<le> ls' \<and> ls' \<le> le + 1 \<and> rs \<le> rs' \<and> rs' \<le> re + 1
     \<and> (le < ls' \<or> re < rs')
     \<and> merge_runs (seg arr ls (le + 1)) (seg arr rs (re + 1))
         = seg t' i i' @ seg arr ls' (le + 1) @ seg arr rs' (re + 1)"

lemma merge_post_step:
  assumes "merge_post arr (t[nat i := v]) (i + 1) ls2 le rs2 re x" "0 \<le> i" "i < int (length t)"
    and runs: "merge_runs (seg arr ls (le + 1)) (seg arr rs (re + 1))
      = v # merge_runs (seg arr ls2 (le + 1)) (seg arr rs2 (re + 1))"
    and nxt: "ls2 = ls + 1 \<and> rs2 = rs \<or> ls2 = ls \<and> rs2 = rs + 1"
  shows "merge_post arr t i ls le rs re x"
proof -
  obtain t' i' ls' rs' where x: "x = (t', i', ls', rs')" by (cases x)
  have fr: "t' ! nat k = t[nat i := v] ! nat k" if "0 \<le> k" "k < i + 1" for k
    using assms(1) that x by simp
  have "\<forall>k. 0 \<le> k \<and> k < i \<longrightarrow> t' ! nat k = t ! nat k"
    using fr assms(2) by simp
  moreover have "t' ! nat i = v" using fr [of i] assms(2,3) by (simp add: nth_list_update)
  moreover have "ls \<le> ls'" "rs \<le> rs'" "i' = i + (ls' - ls) + (rs' - rs)"
    using assms(1) nxt x by auto
  moreover have "merge_runs (seg arr ls (le + 1)) (seg arr rs (re + 1))
      = v # seg t' (i + 1) i' @ seg arr ls' (le + 1) @ seg arr rs' (re + 1)"
    using assms(1) x runs by simp
  moreover have "i + 1 \<le> i'" using assms(1) x by simp
  ultimately show ?thesis using assms(1) x by (auto simp: seg_Cons [of i])
qed

lemma merge_loop_wp:
  "0 \<le> i \<Longrightarrow> 0 \<le> ls \<Longrightarrow> ls \<le> le + 1 \<Longrightarrow> 0 \<le> rs \<Longrightarrow> rs \<le> re + 1 \<Longrightarrow> le < int (length arr) \<Longrightarrow>
   re < int (length arr) \<Longrightarrow> i + (le + 1 - ls) + (re + 1 - rs) \<le> int (length t) \<Longrightarrow>
   wp (merge_loop arr t i ls le rs re) (merge_post arr t i ls le rs re)"
proof (induction "nat (le + 1 - ls) + nat (re + 1 - rs)" arbitrary: t i ls rs rule: less_induct)
  case less
  note prems = less.prems
  show ?case
  proof (cases "ls \<le> le \<and> rs \<le> re")
    case False
    with prems show ?thesis by (subst merge_loop.simps) auto
  next
    case True
    let ?l = "arr ! nat ls < arr ! nat rs"
    let ?v = "if ?l then arr ! nat ls else arr ! nat rs"
    let ?ls = "if ?l then ls + 1 else ls" and ?rs = "if ?l then rs else rs + 1"
    let ?t = "t[nat i := ?v]"
    have i: "i < int (length t)" using prems True by linarith
    have "wp (merge_loop arr ?t (i + 1) ?ls le ?rs re) (merge_post arr ?t (i + 1) ?ls le ?rs re)"
      using prems True by (intro less.hyps) auto
    then have "wp (merge_loop arr ?t (i + 1) ?ls le ?rs re) (merge_post arr t i ls le rs re)"
      by (rule wp_mono, elim merge_post_step)
        (use prems True i in \<open>auto simp: seg_Cons [of ls] seg_Cons [of rs]\<close>)
    with True prems i show ?thesis by (subst merge_loop.simps) (auto split: if_splits)
  qed
qed

text \<open>A block copy over a segment.\<close>

lemma seg_memcpy:
  assumes "0 \<le> n" "0 \<le> di" "di + n \<le> int (length dst)" "0 \<le> si" "si + n \<le> int (length src)"
  defines "c \<equiv> take (nat di) dst @ take (nat n) (drop (nat si) src) @ drop (nat (di + n)) dst"
  shows "seg c di (di + n) = seg src si (si + n)"
    and "0 \<le> lo \<Longrightarrow> hi \<le> int (length dst) \<Longrightarrow> hi \<le> di \<or> di + n \<le> lo \<Longrightarrow> seg c lo hi = seg dst lo hi"
    and "same dst c di (di + n)"
proof -
  have at: "c ! nat k = (if di \<le> k \<and> k < di + n then src ! nat (si + k - di) else dst ! nat k)"
    if "0 \<le> k" "k < int (length dst)" for k
    unfolding c_def by (rule nth_memcpy [OF assms(1-5) that])
  show "seg c di (di + n) = seg src si (si + n)"
  proof (rule nth_equalityI)
    fix i assume "i < length (seg c di (di + n))"
    then show "seg c di (di + n) ! i = seg src si (si + n) ! i"
      using assms(1-5) by (auto simp: seg_def at add.commute zless_nat_eq_int_zless)
  qed (simp add: seg_def)
  show "0 \<le> lo \<Longrightarrow> hi \<le> int (length dst) \<Longrightarrow> hi \<le> di \<or> di + n \<le> lo \<Longrightarrow> seg c lo hi = seg dst lo hi"
    by (rule seg_cong) (auto simp: at)
  show "same dst c di (di + n)"
    using length_memcpy [OF assms(1-5)] by (auto simp: same_def at simp flip: c_def)
qed


lemma sorts_length: "sorts a b lo hi \<Longrightarrow> length b = length a"
  by (simp add: sorts_def)

lemma seg_same: "same a b lo hi \<Longrightarrow> 0 \<le> p \<Longrightarrow> q \<le> int (length a) \<Longrightarrow> q \<le> lo \<or> hi \<le> p \<Longrightarrow>
    seg b p q = seg a p q"
  by (rule seg_cong) (auto simp: same_def)

lemma sorts_same: "sorts a b lo hi \<longleftrightarrow> same a b lo hi \<and> seg b lo hi = sort (seg a lo hi)"
  by (auto simp: sorts_def same_def)

lemma same_mono: "same a b lo hi \<Longrightarrow> lo' \<le> lo \<Longrightarrow> hi \<le> hi' \<Longrightarrow> same a b lo' hi'"
  by (auto simp: same_def)

text \<open>The merge step of \<open>_mergesort\<close>: two sorted runs, the loop, the copies.\<close>

definition merge_step :: "int list \<Rightarrow> int list \<Rightarrow> int \<Rightarrow> int \<Rightarrow> int \<Rightarrow> (int list \<times> int list) option" where
  "merge_step arr2 temp2 start mid end = do {
     (temp3, i, ls, rs) \<leftarrow> merge_loop arr2 temp2 start start mid (mid + 1) end;
     temp4 \<leftarrow> (if ls \<le> mid then memcpy temp3 i arr2 ls (mid - ls + 1) else Some temp3);
     temp5 \<leftarrow> (if rs \<le> end then memcpy temp4 i arr2 rs (end - rs + 1) else Some temp4);
     arr3 \<leftarrow> memcpy arr2 start temp5 start (end - start + 1);
     Some (arr3, temp5) }"

text \<open>After the loop one run is used up; the copy of the other fills \<open>temp\<close> up to \<open>end\<close>.\<close>

lemma merge_tail_wp:
  fixes t arr :: "int list"
  assumes "0 \<le> i" "i + (hi + 1 - lo) = end + 1" "0 \<le> lo" "lo \<le> hi" "hi < int (length arr)"
    "end < int (length t)" "start \<le> i" "0 \<le> start"
  shows "wp (memcpy t i arr lo (hi - lo + 1))
    (\<lambda>u. length u = length t \<and> seg u start (end + 1) = seg t start i @ seg arr lo (hi + 1))"
proof -
  have ok: "0 \<le> hi - lo + 1" "i + (hi - lo + 1) \<le> int (length t)" "lo + (hi - lo + 1) \<le> int (length arr)"
    using assms by linarith+
  have e: "i + (hi - lo + 1) = end + 1" "lo + (hi - lo + 1) = hi + 1" using assms by linarith+
  note c = seg_memcpy [OF ok(1) assms(1) ok(2) assms(3) ok(3)]
  have "seg u start (i + (hi - lo + 1)) = seg u start i @ seg u i (i + (hi - lo + 1))" for u :: "int list"
    using assms ok by (intro seg_append) auto
  moreover have "start \<le> i" "i \<le> int (length t)" using assms ok by linarith+
  ultimately show ?thesis
    using assms ok c(1) c(2) [of start i] length_memcpy [OF ok(1) assms(1) ok(2) assms(3) ok(3)]
    unfolding e(1) [symmetric] e(2) by (simp add: wp_memcpy e(2))
qed


lemma merge_step_wp:
  assumes "0 \<le> start" "start \<le> mid" "mid < end" "end < int (length a)" "end < int (length t)"
    and "seg a start (mid + 1) = sort xs" "seg a (mid + 1) (end + 1) = sort ys"
  shows "wp (merge_step a t start mid end)
    (\<lambda>(b, u). length u = length t \<and> same a b start (end + 1) \<and> seg b start (end + 1) = sort (xs @ ys))"
proof -
  have loop: "wp (merge_loop a t start start mid (mid + 1) end) (merge_post a t start start mid (mid + 1) end)"
    using assms by (intro merge_loop_wp) auto
  let ?copy = "\<lambda>u. wp (memcpy a start u start (end - start + 1)) (\<lambda>b. same a b start (end + 1)
    \<and> seg b start (end + 1) = sort (xs @ ys))"
  have copy: "?copy u" if "length u = length t" "seg u start (end + 1) = sort (xs @ ys)" for u
  proof -
    have ok: "0 \<le> end - start + 1" "start + (end - start + 1) \<le> int (length a)"
      "start + (end - start + 1) \<le> int (length u)" using assms that by linarith+
    have e: "start + (end - start + 1) = end + 1" by simp
    note c = seg_memcpy [OF ok(1) assms(1) ok(2) assms(1) ok(3)]
    show ?thesis using that(2) ok assms(1) c(1,3) unfolding e by (simp add: wp_memcpy e)
  qed
  show ?thesis unfolding merge_step_def wp_bind
  proof (rule wp_mono [OF loop], unfold split_paired_all prod.case wp_bind wp_Some)
    fix t3 i ls rs assume post: "merge_post a t start start mid (mid + 1) end (t3, i, ls, rs)"
    have sorted: "sort (xs @ ys) = seg t3 start i @ seg a ls (mid + 1) @ seg a rs (end + 1)"
      using post assms(6,7) by (simp flip: merge_runs_sort)
    show "wp (if ls \<le> mid then memcpy t3 i a ls (mid - ls + 1) else Some t3) (\<lambda>t4.
        wp (if rs \<le> end then memcpy t4 i a rs (end - rs + 1) else Some t4) (\<lambda>t5.
        wp (memcpy a start t5 start (end - start + 1)) (\<lambda>x. length t5 = length t \<and>
          same a x start (end + 1) \<and> seg x start (end + 1) = sort (xs @ ys))))"
    proof (cases "ls \<le> mid")
      case True
      then have rs: "rs = end + 1" using post assms by auto
      have "wp (memcpy t3 i a ls (mid - ls + 1)) (\<lambda>u. length u = length t3
          \<and> seg u start (end + 1) = seg t3 start i @ seg a ls (mid + 1))"
        using post assms True rs by (intro merge_tail_wp) auto
      then show ?thesis using True rs post sorted copy by (auto elim!: wp_mono intro: wp_conj)
    next
      case ls: False
      show ?thesis
      proof (cases "rs \<le> end")
        case True
        have "wp (memcpy t3 i a rs (end - rs + 1)) (\<lambda>u. length u = length t3
            \<and> seg u start (end + 1) = seg t3 start i @ seg a rs (end + 1))"
          using post assms True ls by (intro merge_tail_wp) auto
        then show ?thesis using True ls post sorted copy by (auto elim!: wp_mono)
      next
        case False
        with ls post assms have "i = end + 1" "rs = end + 1" "ls = mid + 1" by auto
        with ls False sorted post copy [of t3] show ?thesis by auto
      qed
    qed
  qed
qed

lemma mergesort_rec_step: "start < end \<Longrightarrow> mergesort_rec arr temp start end = (do {
    let mid = start + (end - start) sdiv 2;
    (arr1, temp1) \<leftarrow> mergesort_rec arr temp start mid;
    (arr2, temp2) \<leftarrow> mergesort_rec arr1 temp1 (mid + 1) end;
    merge_step arr2 temp2 start mid end })"
  by (subst mergesort_rec.simps) (simp add: merge_step_def Let_def)

lemma mergesort_rec_wp:
  "0 \<le> start \<Longrightarrow> start \<le> end + 1 \<Longrightarrow> end < int (length a) \<Longrightarrow> end < int (length t) \<Longrightarrow>
   wp (mergesort_rec a t start end)
     (\<lambda>(b, u). length u = length t \<and> same a b start (end + 1)
        \<and> seg b start (end + 1) = sort (seg a start (end + 1)))"
proof (induction "nat (end - start)" arbitrary: a t start "end" rule: less_induct)
  case less
  note prems = less.prems
  let ?P = "\<lambda>(b, u). length u = length t \<and> same a b start (end + 1)
        \<and> seg b start (end + 1) = sort (seg a start (end + 1))"
  show ?case
  proof (cases "start < end")
    case False
    then have "seg a start (end + 1) = [] \<or> seg a start (end + 1) = [a ! nat start]"
      using prems by (cases "start = end") (simp_all add: seg_Cons)
    then show ?thesis using False by (subst mergesort_rec.simps) auto
  next
    case True
    let ?mid = "start + (end - start) sdiv 2"
    have mid: "start \<le> ?mid" "?mid < end" using True by auto
    show ?thesis unfolding mergesort_rec_step [OF True] Let_def wp_bind
    proof (rule wp_mono [OF less.hyps], unfold split_paired_all prod.case wp_bind)
      fix b u :: "int list"
      assume b: "length u = length t \<and> same a b start (?mid + 1)
        \<and> seg b start (?mid + 1) = sort (seg a start (?mid + 1))"
      have lb: "length b = length a" using b by (simp add: same_def)
      show "wp (mergesort_rec b u (?mid + 1) end) (\<lambda>x. wp (case x of (arr2, temp2) \<Rightarrow>
          merge_step arr2 temp2 start ?mid end) ?P)"
      proof (rule wp_mono [OF less.hyps], unfold split_paired_all prod.case)
        fix c v :: "int list"
        assume c: "length v = length u \<and> same b c (?mid + 1) (end + 1)
          \<and> seg c (?mid + 1) (end + 1) = sort (seg b (?mid + 1) (end + 1))"
        have lc: "length c = length a" using c lb by (simp add: same_def)
        have s1: "seg c start (?mid + 1) = sort (seg a start (?mid + 1))"
          using c b prems mid lb by (subst seg_same [of b c]) auto
        have s2: "seg c (?mid + 1) (end + 1) = sort (seg a (?mid + 1) (end + 1))"
          using c b prems mid seg_same [of a b start "?mid + 1" "?mid + 1" "end + 1"] by simp
        have all: "seg a start (?mid + 1) @ seg a (?mid + 1) (end + 1) = seg a start (end + 1)"
          using mid by (intro seg_append [symmetric]) auto
        have fr: "same a c start (end + 1)"
        proof (rule same_trans)
          show "same a b start (end + 1)"
            using b mid by (elim conjE) (erule same_mono, simp, linarith)
          show "same b c start (end + 1)"
            using c mid by (elim conjE) (erule same_mono, linarith, simp)
        qed
        have "wp (merge_step c v start ?mid end) (\<lambda>(d, w). length w = length v
            \<and> same c d start (end + 1) \<and> seg d start (end + 1) = sort (seg a start (end + 1)))"
          unfolding all [symmetric] using prems mid lc b c s1 s2 by (intro merge_step_wp) auto
        then show "wp (merge_step c v start ?mid end) ?P"
          by (rule wp_mono) (use b c fr in \<open>auto intro: same_trans\<close>)
      qed (use prems mid lb b in auto)
    qed (use prems mid in auto)
  qed
qed


section \<open>Quick sort\<close>

lemma scan_left_wp: "0 \<le> l \<Longrightarrow> l \<le> r \<Longrightarrow> r < int (length a) \<Longrightarrow> wp (scan_left a t l r)
    (\<lambda>l'. l \<le> l' \<and> l' \<le> r \<and> (l' < r \<longrightarrow> t \<le> a ! nat l') \<and> (\<forall>k. l \<le> k \<and> k < l' \<longrightarrow> a ! nat k < t))"
proof -
  assume lr: "0 \<le> l" "l \<le> r" "r < int (length a)"
  have "\<exists>l'. scan_left a t l r = Some l'"
    using lr
  proof (induction "nat (r - l)" arbitrary: l)
    case (Suc d)
    then have "\<exists>l'. scan_left a t (l + 1) r = Some l'" by (intro Suc.hyps(1)) auto
    with Suc.prems Suc.hyps(2) show ?case by (subst scan_left.simps) (auto simp: aget_def)
  qed (subst scan_left.simps, auto simp: aget_def)
  then show ?thesis using scan_left_result lr by fastforce
qed

lemma scan_right_wp: "0 \<le> l \<Longrightarrow> l \<le> r \<Longrightarrow> r < int (length a) \<Longrightarrow> wp (scan_right a t l r)
    (\<lambda>r'. l \<le> r' \<and> r' \<le> r \<and> (l < r' \<longrightarrow> a ! nat r' < t) \<and> (\<forall>k. r' < k \<and> k \<le> r \<longrightarrow> t \<le> a ! nat k))"
proof -
  assume lr: "0 \<le> l" "l \<le> r" "r < int (length a)"
  have "\<exists>r'. scan_right a t l r = Some r'"
    using lr
  proof (induction "nat (r - l)" arbitrary: r)
    case (Suc d)
    then have "\<exists>r'. scan_right a t l (r - 1) = Some r'" by (intro Suc.hyps(1)) auto
    with Suc.prems Suc.hyps(2) show ?case by (subst scan_right.simps) (auto simp: aget_def)
  qed (subst scan_right.simps, auto simp: aget_def)
  then show ?thesis using scan_right_result lr by fastforce
qed

text \<open>Everything passed on the left is below the pivot, everything passed on the right is not.\<close>

definition split_at :: "int list \<Rightarrow> int \<Rightarrow> int \<Rightarrow> int \<Rightarrow> int \<Rightarrow> int \<Rightarrow> bool" where
  "split_at a t lo l r hi \<longleftrightarrow> (\<forall>k. lo \<le> k \<and> k < l \<longrightarrow> a ! nat k < t) \<and> (\<forall>k. r < k \<and> k \<le> hi \<longrightarrow> t \<le> a ! nat k)"

lemma partition_loop_wp:
  "0 \<le> lo \<Longrightarrow> lo \<le> l \<Longrightarrow> l \<le> r \<Longrightarrow> r \<le> hi \<Longrightarrow> hi < int (length a) \<Longrightarrow> split_at a t lo l r hi \<Longrightarrow>
   wp (partition_loop a t l r) (\<lambda>(b, p, q). p = q \<and> l \<le> p \<and> p \<le> r \<and> within a b lo (hi + 1)
     \<and> split_at b t lo p p hi)"
proof (induction a t l r rule: partition_loop.induct)
  case (1 a t l r)
  note prems = "1.prems"
  show ?case
  proof (cases "l < r")
    case False
    with prems show ?thesis by (subst partition_loop.simps) auto
  next
    case True
    let ?Q = "\<lambda>(b, p, q). p = q \<and> l \<le> p \<and> p \<le> r \<and> within a b lo (hi + 1) \<and> split_at b t lo p p hi"
    obtain l' where l': "scan_left a t l r = Some l'" "l \<le> l'" "l' \<le> r"
        "l' < r \<longrightarrow> t \<le> a ! nat l'" "\<forall>k. l \<le> k \<and> k < l' \<longrightarrow> a ! nat k < t"
      using scan_left_wp [of l r a t] prems by (auto simp: wp_iff)
    obtain r' where r': "scan_right a t l' r = Some r'" "l' \<le> r'" "r' \<le> r"
        "l' < r' \<longrightarrow> a ! nat r' < t" "\<forall>k. r' < k \<and> k \<le> r \<longrightarrow> t \<le> a ! nat k"
      using scan_right_wp [of l' r a t] prems l' by (auto simp: wp_iff)
    let ?b = "a[nat l' := a ! nat r', nat r' := a ! nat l']"
    have sw: "swap_cells a l' r' = Some ?b"
      using prems l'(2,3) r'(2,3) by (intro wp_eqI) (simp add: swap_cells_wp)
    have w: "within a ?b lo (hi + 1)" using prems l' r' by (intro within_swap) auto
    have "split_at ?b t lo l' r' hi"
    proof -
      have "a ! nat k < t" if "lo \<le> k" "k < l'" for k
        using that l' prems(6) unfolding split_at_def by (cases "k < l") auto
      moreover have "t \<le> a ! nat k" if "r' < k" "k \<le> hi" for k
        using that r' prems(6) unfolding split_at_def by (cases "r < k") auto
      ultimately show ?thesis unfolding split_at_def using prems l'(2) r'(2) by auto
    qed
    then have "wp (partition_loop ?b t l' r') (\<lambda>(c, p, q). p = q \<and> l' \<le> p \<and> p \<le> r'
        \<and> within ?b c lo (hi + 1) \<and> split_at c t lo p p hi)"
      using prems l' r' by (intro "1.IH" [OF True l'(1) r'(1) sw]) auto
    then have "wp (partition_loop ?b t l' r') ?Q"
      by (rule wp_mono) (use w l' r' in \<open>auto intro: within_trans\<close>)
    then show ?thesis using True l'(1) r'(1) sw by (subst partition_loop.simps) simp
  qed
qed

lemma sort_append_le: "\<forall>x\<in>set xs. \<forall>y\<in>set ys. x \<le> y \<Longrightarrow> sort (xs @ ys) = sort xs @ sort (ys :: int list)"
  by (rule sort_unique [symmetric]) (auto simp: sorted_append)

text \<open>Sorting both sides of a split sorts the whole.\<close>

lemma sorts_split:
  assumes "sorts a b s p" "sorts b c p e" "0 \<le> s" "s \<le> p" "p \<le> e" "e \<le> int (length a)"
    and le: "\<And>i j. s \<le> i \<Longrightarrow> i < p \<Longrightarrow> p \<le> j \<Longrightarrow> j < e \<Longrightarrow> a ! nat i \<le> a ! nat j"
  shows "sorts a c s e"
proof -
  have fr: "same a b s p" "same b c p e" using assms by (simp_all add: sorts_same)
  have len: "length b = length a" using assms by (simp add: sorts_length)
  have "seg c s p = seg b s p" using assms len by (intro seg_same [OF fr(2)]) auto
  moreover have "seg b p e = seg a p e" using assms by (intro seg_same [OF fr(1)]) auto
  ultimately have "seg c s e = sort (seg a s p) @ sort (seg a p e)"
    using assms by (simp add: sorts_same seg_append [of s p e])
  also have "\<dots> = sort (seg a s e)"
    using assms(4,5) le by (subst sort_append_le [symmetric]) (auto simp: set_seg seg_append [of s p e])
  finally show ?thesis
    using fr assms by (auto simp: sorts_same intro: same_trans same_mono)
qed

lemma within_then_sorts: "within a b s e \<Longrightarrow> sorts b c s e \<Longrightarrow> 0 \<le> s \<Longrightarrow> s \<le> e \<Longrightarrow>
    e \<le> int (length a) \<Longrightarrow> sorts a c s e"
  using mset_seg_within [of a b s e]
  by (auto simp: sorts_def within_length within_outside intro: sort_unique)

lemma fastsort_rec_wp:
  "0 \<le> s \<Longrightarrow> s \<le> e + 1 \<Longrightarrow> e < int (length a) \<Longrightarrow> wp (fastsort_rec a s e) (\<lambda>b. sorts a b s (e + 1))"
proof (induction "nat (e - s)" arbitrary: a s e rule: less_induct)
  case less
  note prems = less.prems
  show ?case
  proof (cases "s < e")
    case False
    then have "seg a s (e + 1) = [] \<or> seg a s (e + 1) = [a ! nat s]"
      using prems by (cases "s = e") (simp_all add: seg_Cons)
    then show ?thesis using False by (subst fastsort_rec.simps) (auto simp: sorts_def)
  next
    case True
    let ?t = "a ! nat s"
    have "wp (partition_loop a ?t (s + 1) e) (\<lambda>(b, p, q). p = q \<and> s + 1 \<le> p \<and> p \<le> e
        \<and> within a b (s + 1) (e + 1) \<and> split_at b ?t (s + 1) p p e)"
      using prems True by (intro partition_loop_wp) (auto simp: split_at_def)
    then obtain b p where pl: "partition_loop a ?t (s + 1) e = Some (b, p, p)" "s + 1 \<le> p" "p \<le> e"
        and w: "within a b (s + 1) (e + 1)" and sp: "split_at b ?t (s + 1) p p e"
      by (auto simp: wp_iff)
    have bs: "b ! nat s = ?t" using prems True by (intro within_outside [OF w]) auto
    have lb: "length b = length a" by (rule within_length [OF w])
    let ?c = "if b ! nat p < ?t then b[nat s := b ! nat p, nat p := b ! nat s] else b"
    have sw: "(if b ! nat p < ?t then swap_cells b s p else Some b) = Some ?c"
      using prems True pl lb by (auto intro!: wp_eqI simp: swap_cells_wp)
    have wc: "within a ?c s (e + 1)"
    proof -
      have "within a b s (e + 1)" using w prems by (auto intro: within_mono)
      moreover have "within b ?c s (e + 1)" using prems pl lb by (auto intro!: within_swap)
      ultimately show ?thesis by (rule within_trans)
    qed
    have lo: "?c ! nat k \<le> ?t" if "s \<le> k" "k < p" for k
      using that sp bs prems pl lb unfolding split_at_def
      by (cases "k = s") (auto simp: nth_list_update order_less_imp_le)
    have hi: "?t \<le> ?c ! nat k" if "p \<le> k" "k \<le> e" for k
      using that sp bs prems pl lb unfolding split_at_def
      by (cases "k = p") (auto simp: nth_list_update)
    have "wp (fastsort_rec ?c s (p - 1)) (\<lambda>d. sorts ?c d s (p - 1 + 1))"
      using prems pl True lb by (intro less.hyps) auto
    then have "wp (fastsort_rec ?c s (p - 1)) (\<lambda>d. wp (fastsort_rec d p e) (\<lambda>f. sorts a f s (e + 1)))"
    proof (rule wp_mono)
      fix d assume d: "sorts ?c d s (p - 1 + 1)"
      have ld: "length d = length a" using sorts_length [OF d] lb by simp
      have "wp (fastsort_rec d p e) (\<lambda>f. sorts d f p (e + 1))"
        using prems pl ld by (intro less.hyps) auto
      then show "wp (fastsort_rec d p e) (\<lambda>f. sorts a f s (e + 1))"
      proof (rule wp_mono)
        fix f assume f: "sorts d f p (e + 1)"
        have le: "?c ! nat i \<le> ?c ! nat j" if "s \<le> i" "i < p" "p \<le> j" "j < e + 1" for i j
          by (rule order_trans [OF lo hi]) (use that in simp_all)
        have lr: "sorts ?c d s p" "s \<le> p" "p \<le> e + 1" "e + 1 \<le> int (length ?c)"
          using d prems pl(2,3) lb by auto
        have "sorts ?c f s (e + 1)" by (rule sorts_split [OF lr(1) f prems(1) lr(2-4) le])
        moreover have "e + 1 \<le> int (length a)" using prems(3) by linarith
        ultimately show "sorts a f s (e + 1)" by (rule within_then_sorts [OF wc _ prems(1,2)])
      qed
    qed
    with True prems pl sw show ?thesis
      by (subst fastsort_rec.simps) (cases "b ! nat p < ?t"; simp add: lb)
  qed
qed

section \<open>One contract for all routines\<close>

text \<open>The contract of a routine: it returns, without leaving the array, and what it returns is
  the first \<open>len\<close> cells in order, the rest untouched.\<close>

locale array_sort =
  fixes srt :: "int list \<Rightarrow> int \<Rightarrow> int list option"
  assumes sorts_front: "srt (xs @ rest) (int (length xs)) = Some (sort xs @ rest)"
begin

lemma sorts_whole: "srt xs (int (length xs)) = Some (sort xs)"
  using sorts_front [of xs "[]"] by simp

lemma idempotent: "srt xs (int (length xs)) = Some ys \<Longrightarrow> srt ys (int (length ys)) = Some ys"
  using sorts_whole [of xs] sorts_whole [of ys] by (auto simp: sorted_sort_id)

lemma order_irrelevant: "mset xs = mset ys \<Longrightarrow>
    srt xs (int (length xs)) = srt ys (int (length ys))"
  using sort_unique [of "sort xs" ys] by (simp add: sorts_whole)

end

locale array_sort_pair = fst: array_sort srt1 + snd: array_sort srt2
  for srt1 :: "int list \<Rightarrow> int \<Rightarrow> int list option" and srt2 :: "int list \<Rightarrow> int \<Rightarrow> int list option"
begin

lemma agree: "0 \<le> n \<Longrightarrow> n \<le> int (length xs) \<Longrightarrow> srt1 xs n = srt2 xs n"
proof -
  assume n: "0 \<le> n" "n \<le> int (length xs)"
  then have "int (length (take (nat n) xs)) = n" by auto
  then show ?thesis
    using fst.sorts_front [of "take (nat n) xs" "drop (nat n) xs"]
      snd.sorts_front [of "take (nat n) xs" "drop (nat n) xs"] by simp
qed

end

lemma array_sortI:
  assumes "\<And>a n. 0 \<le> n \<Longrightarrow> n \<le> int (length a) \<Longrightarrow> wp (srt a n) (\<lambda>b. sorts a b 0 n)"
  shows "array_sort srt"
proof
  fix xs rest :: "int list"
  have "wp (srt (xs @ rest) (int (length xs))) (\<lambda>b. sorts (xs @ rest) b 0 (int (length xs)))"
    by (rule assms) auto
  then have "wp (srt (xs @ rest) (int (length xs))) (\<lambda>b. b = sort xs @ rest)"
    by (rule wp_mono) (rule sorts_prefix)
  then show "srt (xs @ rest) (int (length xs)) = Some (sort xs @ rest)" by (rule wp_eqI)
qed

interpretation bubble2: array_sort bubblesort2
proof (rule array_sortI)
  fix a :: "int list" and n :: int assume n: "0 \<le> n" "n \<le> int (length a)"
  then have "wp (bubblesort2 a n) (\<lambda>b. within a b 0 n \<and> sorted_at b 0 n)"
    by (intro bubblesort2_wp) (auto simp: top_sorted_def)
  then show "wp (bubblesort2 a n) (\<lambda>b. sorts a b 0 n)"
    by (rule wp_mono) (use n in \<open>auto intro: within_sorts\<close>)
qed

interpretation bubble1: array_sort bubblesort1
proof
  fix xs rest :: "int list"
  have "bubblesort1 (xs @ rest) (int (length xs)) = bubblesort2 (xs @ rest) (int (length xs))"
    by (cases xs) (auto simp: bubblesort1_def bubble_outer_eq bubble_outer.simps [of _ 1 0]
        bubblesort2.simps [of _ 0] add.commute)
  then show "bubblesort1 (xs @ rest) (int (length xs)) = Some (sort xs @ rest)"
    by (simp add: bubble2.sorts_front)
qed

interpretation insertion: array_sort insertsort
proof (rule array_sortI)
  fix a :: "int list" and n :: int assume n: "0 \<le> n" "n \<le> int (length a)"
  have "wp (insertsort a n) (\<lambda>b. same a b 0 n \<and> mset b = mset a \<and> sorted_at b 0 n)"
  proof (cases "n = 0")
    case True
    then show ?thesis by (simp add: insertsort_def insert_outer.simps [of a 1 0] sorted_at_def)
  next
    case False
    with n show ?thesis unfolding insertsort_def by (intro insert_outer_wp) (auto simp: sorted_at_def)
  qed
  then show "wp (insertsort a n) (\<lambda>b. sorts a b 0 n)"
    by (rule wp_mono) (use n in \<open>auto intro: sameD\<close>)
qed

interpretation selection2: array_sort "\<lambda>a. selectsort2 a 0"
proof (rule array_sortI)
  fix a :: "int list" and n :: int assume n: "0 \<le> n" "n \<le> int (length a)"
  then have "wp (selectsort2 a 0 n) (\<lambda>b. within a b 0 n \<and> sorted_at b 0 n)"
    by (intro selectsort2_wp) (auto simp: low_sorted_def)
  then show "wp (selectsort2 a 0 n) (\<lambda>b. sorts a b 0 n)"
    by (rule wp_mono) (use n in \<open>auto intro: within_sorts\<close>)
qed

interpretation selection1: array_sort selectsort1
  by unfold_locales (simp add: selectsort1_def select_outer_eq selection2.sorts_front)

interpretation shell: array_sort shellsort
proof (rule array_sortI)
  fix a :: "int list" and n :: int assume n: "0 \<le> n" "n \<le> int (length a)"
  have "sorted_at a 0 n" if "n sdiv 2 = 0"
    using that n by (auto simp: sorted_at_def)
  then have "wp (shellsort a n) (\<lambda>b. same a b 0 n \<and> mset b = mset a \<and> sorted_at b 0 n)"
    unfolding shellsort_def using n by (intro shell_steps_wp) auto
  then show "wp (shellsort a n) (\<lambda>b. sorts a b 0 n)"
    by (rule wp_mono) (use n in \<open>auto intro: sameD\<close>)
qed

interpretation merging: array_sort "mergesort stack" for stack
proof (rule array_sortI)
  fix a :: "int list" and n :: int assume n: "0 \<le> n" "n \<le> int (length a)"
  have "wp (mergesort_rec a (map stack [0..<nat n]) 0 (n - 1)) (\<lambda>(b, u). length u = length (map stack [0..<nat n])
      \<and> same a b 0 (n - 1 + 1) \<and> seg b 0 (n - 1 + 1) = sort (seg a 0 (n - 1 + 1)))"
    using n by (intro mergesort_rec_wp) auto
  then show "wp (mergesort stack a n) (\<lambda>b. sorts a b 0 n)"
    using n by (auto simp: mergesort_def sorts_same case_prod_beta elim!: wp_mono)
qed

interpretation quick: array_sort fastsort
proof (rule array_sortI)
  fix a :: "int list" and n :: int assume n: "0 \<le> n" "n \<le> int (length a)"
  show "wp (fastsort a n) (\<lambda>b. sorts a b 0 n)"
    using fastsort_rec_wp [of 0 "n - 1" a] n by (simp add: fastsort_def)
qed

interpretation agree_insert_merge: array_sort_pair insertsort "mergesort stack" for stack ..

section \<open>What the routines guarantee\<close>

text \<open>both bubble sorts return for every array, never touch a cell outside it, and leave the
  first \<open>len\<close> cells sorted (the same multiset, in order) and the rest untouched.\<close>

theorem bubblesort_correct:
  "bubblesort1 (xs @ rest) (int (length xs)) = Some (sort xs @ rest)
   \<and> bubblesort2 (xs @ rest) (int (length xs)) = Some (sort xs @ rest)"
  using bubble1.sorts_front bubble2.sorts_front by (rule conjI)

text \<open>C33: the insertion sort returns for every array, reads and writes inside it only, and sorts the
  first \<open>len\<close> cells in place.\<close>

theorem insertsort_correct:
  "insertsort (xs @ rest) (int (length xs)) = Some (sort xs @ rest)"
  by (rule insertion.sorts_front)

text \<open>C32: both selection sorts (the loop and the recursion) return for every array, without an
  access outside it, and sort its first \<open>len\<close> cells.\<close>

theorem selectsort_correct:
  "selectsort1 (xs @ rest) (int (length xs)) = Some (sort xs @ rest)
   \<and> selectsort2 (xs @ rest) 0 (int (length xs)) = Some (sort xs @ rest)"
  using selection1.sorts_front selection2.sorts_front by (rule conjI)


text \<open>C35: the merge sort returns for every array, whatever the uninitialised temporary array held on
  the stack, without an access outside either array, and sorts the first \<open>len\<close> cells.\<close>

theorem mergesort_correct:
  "mergesort stack (xs @ rest) (int (length xs)) = Some (sort xs @ rest)"
  by (rule merging.sorts_front)

text \<open>C9: the quick sort returns for every array, its two scans never run past the range they
  were given, and the first \<open>len\<close> cells come out sorted.\<close>

theorem fastsort_correct:
  "fastsort (xs @ rest) (int (length xs)) = Some (sort xs @ rest)"
  by (rule quick.sorts_front)

end
