(* ===== verification/Veeprom.thy ===== *)
theory Veeprom
  imports Prelude
begin

unbundle bit_operations_syntax

text \<open>
  The virtual EEPROM of \<open>Application/ota/ota_tool/sub_src/veeprom.c\<close> and \<open>include/veeprom.h\<close>: a
  region of 512 bytes at the start of a storage device (eMMC partition, NAND volume or NOR
  partition), read and written through a 2048-byte buffer.

  The record \<open>os\<close> is the part of the operating system the code calls: the sysfs files it reads,
  the device nodes with their bytes and capacity, the open file descriptions with their offsets,
  and a script of failures (each \<open>lseek\<close>, \<open>read\<close>, \<open>write\<close> or \<open>ioctl\<close> takes the next entry; the
  empty script never fails). The record \<open>veeprom\<close> is the file's global variables over it.
  The \<open>DEBUG\<close>, \<open>WARN\<close> and \<open>ERROR\<close> macros are empty in this file.
\<close>

section \<open>veeprom.h\<close>

text \<open>The fields of the region, as (offset, size), in the header's order.\<close>

definition VEEPROM_BOARD_ID :: "int \<times> int" where "VEEPROM_BOARD_ID = (0, 2)"
definition VEEPROM_UPDATE_FLAG :: "int \<times> int" where "VEEPROM_UPDATE_FLAG = (8, 1)"
definition VEEPROM_RESET_REASON :: "int \<times> int" where "VEEPROM_RESET_REASON = (9, 8)"

definition VEEPROM_FIELDS :: "(int \<times> int) list" where
  "VEEPROM_FIELDS = [
     VEEPROM_BOARD_ID, (2, 6) \<comment> \<open>MACADDR\<close>, VEEPROM_UPDATE_FLAG, VEEPROM_RESET_REASON,
     (17, 4) \<comment> \<open>IPADDR\<close>, (21, 4) \<comment> \<open>IPMASK\<close>, (25, 4) \<comment> \<open>IPGATE\<close>, (29, 8) \<comment> \<open>UPDATE_MODE\<close>,
     (37, 1) \<comment> \<open>ABMODE_STATUS\<close>, (38, 1) \<comment> \<open>COUNT\<close>, (39, 1) \<comment> \<open>SOMID\<close>, (40, 16) \<comment> \<open>PERI_PLL\<close>,
     (56, 10) \<comment> \<open>LOG_MASK\<close>, (66, 64) \<comment> \<open>SECCHIP\<close>, (130, 1) \<comment> \<open>CAMTYPE\<close>, (131, 1) \<comment> \<open>COUNT_FLAG\<close>,
     (132, 4) \<comment> \<open>X3_BOARD_ID\<close>, (220, 32) \<comment> \<open>DUID\<close>]"

definition VEEPROM_MAX_SIZE :: int where "VEEPROM_MAX_SIZE = 256"
definition SECTOR_SIZE :: int where "SECTOR_SIZE = 512"
definition BUFFER_SIZE :: nat where "BUFFER_SIZE = 2048"

text \<open>The second-boot modes of the boot pin.\<close>

definition PIN_2ND_EMMC :: int where "PIN_2ND_EMMC = 0"
definition PIN_2ND_SPINAND :: int where "PIN_2ND_SPINAND = 1"
definition PIN_2ND_SPINOR :: int where "PIN_2ND_SPINOR = 5"

lemmas pin_defs = PIN_2ND_EMMC_def PIN_2ND_SPINAND_def PIN_2ND_SPINOR_def

section \<open>The operating system underneath\<close>

record os =
  board_id :: "byte list option" \<comment> \<open>\<open>/sys/class/socinfo/board_id\<close>, if it opens\<close>
  boot_mode :: "byte list option" \<comment> \<open>\<open>/sys/class/socinfo/boot_mode\<close>, if it opens\<close>
  mtd_dir :: "(string \<times> byte list option) list option" \<comment> \<open>\<open>/sys/class/mtd/\<close>: entries, each with its \<open>name\<close> file\<close>
  nodes :: "string \<Rightarrow> (byte list \<times> nat) option" \<comment> \<open>device nodes: bytes and capacity\<close>
  ubi_volume :: "int \<Rightarrow> (byte list \<times> nat) option" \<comment> \<open>what attaching an mtd number to UBI brings up\<close>
  fds :: "int \<Rightarrow> (string \<times> nat) option" \<comment> \<open>open descriptors: node and offset\<close>
  new_fd :: int
  faults :: "bool list"

definition fault :: "os \<Rightarrow> bool" where
  "fault w = (case faults w of [] \<Rightarrow> False | b # _ \<Rightarrow> b)"

definition tick :: "os \<Rightarrow> os" where
  "tick w = w\<lparr>faults := tl (faults w)\<rparr>"

definition sys_open :: "string \<Rightarrow> os \<Rightarrow> int \<times> os" where
  "sys_open path w = (if path = [] \<or> nodes w path = None then (- 1, w)
     else (new_fd w, w\<lparr>fds := (fds w)(new_fd w \<mapsto> (path, 0)), new_fd := new_fd w + 1\<rparr>))"

definition sys_close :: "int \<Rightarrow> os \<Rightarrow> os" where
  "sys_close d w = w\<lparr>fds := (fds w)(d := None)\<rparr>"

definition sys_lseek :: "int \<Rightarrow> int \<Rightarrow> os \<Rightarrow> int \<times> os" where
  "sys_lseek d off w = (case fds w d of
     None \<Rightarrow> (- 1, tick w)
   | Some (p, _) \<Rightarrow> if fault w then (- 1, tick w)
       else (off, (tick w)\<lparr>fds := (fds w)(d \<mapsto> (p, nat off))\<rparr>))"

text \<open>\<open>read(d, buf, n)\<close> with \<open>n \<le> length buf\<close>: a short count at the end of the device.\<close>

definition sys_read :: "int \<Rightarrow> nat \<Rightarrow> byte list \<Rightarrow> os \<Rightarrow> int \<times> byte list \<times> os" where
  "sys_read d n buf w = (case fds w d of
     None \<Rightarrow> (- 1, buf, tick w)
   | Some (p, pos) \<Rightarrow> (case nodes w p of
       None \<Rightarrow> (- 1, buf, tick w)
     | Some (bytes, cap) \<Rightarrow> if fault w then (- 1, buf, tick w)
         else let got = take n (drop pos bytes) in
           (int (length got), got @ drop (length got) buf,
            (tick w)\<lparr>fds := (fds w)(d \<mapsto> (p, pos + length got))\<rparr>)))"

text \<open>\<open>write\<close> stores what fits below the capacity, and fails when nothing does.\<close>

definition sys_write :: "int \<Rightarrow> byte list \<Rightarrow> os \<Rightarrow> int \<times> os" where
  "sys_write d data w = (case fds w d of
     None \<Rightarrow> (- 1, tick w)
   | Some (p, pos) \<Rightarrow> (case nodes w p of
       None \<Rightarrow> (- 1, tick w)
     | Some (bytes, cap) \<Rightarrow>
         let put = take (cap - pos) data in
         if fault w \<or> (data \<noteq> [] \<and> put = []) then (- 1, tick w)
         else (int (length put),
           (tick w)\<lparr>nodes := (nodes w)(p \<mapsto>
               (take pos bytes @ put @ drop (pos + length put) bytes, cap)),
             fds := (fds w)(d \<mapsto> (p, pos + length put))\<rparr>)))"

text \<open>\<open>ioctl(UBI_IOCVOLUP)\<close> starts a volume update: the old contents go, the next write starts at 0.\<close>

definition sys_ubi_update :: "int \<Rightarrow> os \<Rightarrow> int \<times> os" where
  "sys_ubi_update d w = (case fds w d of
     None \<Rightarrow> (- 1, tick w)
   | Some (p, pos) \<Rightarrow> (case nodes w p of
       None \<Rightarrow> (- 1, tick w)
     | Some (bytes, cap) \<Rightarrow> if fault w then (- 1, tick w)
         else (0, (tick w)\<lparr>nodes := (nodes w)(p \<mapsto> ([], cap)), fds := (fds w)(d \<mapsto> (p, 0))\<rparr>)))"

text \<open>\<open>ioctl(MEMERASE)\<close> on a NOR device: the block reads as ones afterwards.\<close>

definition sys_memerase :: "int \<Rightarrow> nat \<Rightarrow> nat \<Rightarrow> os \<Rightarrow> os" where
  "sys_memerase d start len w = (case fds w d of
     None \<Rightarrow> tick w
   | Some (p, pos) \<Rightarrow> (case nodes w p of
       None \<Rightarrow> tick w
     | Some (bytes, cap) \<Rightarrow> if fault w then tick w
         else (tick w)\<lparr>nodes := (nodes w)(p \<mapsto>
           (map (\<lambda>i. if start \<le> i \<and> i < start + len then 255 else bytes ! i) [0..<length bytes], cap))\<rparr>))"

section \<open>The globals\<close>

record veeprom =
  device_path :: string
  start_sector :: int \<comment> \<open>unsigned int\<close>
  end_sector :: int \<comment> \<open>unsigned int\<close>
  fd :: int
  buffer :: "byte list"
  bootmode :: int \<comment> \<open>char\<close>
  sync_flag :: int
  os :: os

definition veeprom_globals :: "os \<Rightarrow> veeprom" where
  "veeprom_globals w = \<lparr>device_path = [], start_sector = 0, end_sector = 0, fd = - 1,
     buffer = replicate BUFFER_SIZE 0, bootmode = 0, sync_flag = 0, os = w\<rparr>"

section \<open>get_boot_mode, parameter_check, is_parameter_valid\<close>

text \<open>\<open>fread\<close> of \<open>n\<close> bytes into the zeroed \<open>cmd_buf\<close>.\<close>

definition cmd_buf :: "nat \<Rightarrow> byte list \<Rightarrow> byte list" where
  "cmd_buf n file = take n file @ replicate (64 - length (take n file)) 0"

definition get_boot_mode :: "os \<Rightarrow> int" where
  "get_boot_mode w = (case board_id w of
     None \<Rightarrow> PIN_2ND_EMMC
   | Some f \<Rightarrow>
       let b = cmd_buf 4 f in
       if b ! 0 = 51 \<and> b ! 1 = 48 \<and> b ! 2 = 48 then PIN_2ND_EMMC \<comment> \<open>board id 300\<close>
       else
         let b = (case boot_mode w of None \<Rightarrow> replicate 64 0 | Some g \<Rightarrow> cmd_buf 1 g) in
         if b ! 0 = 49 then PIN_2ND_SPINAND
         else if b ! 0 = 53 then PIN_2ND_SPINOR
         else PIN_2ND_EMMC)"

text \<open>1 when a character lies outside \<open>'0' .. 'f'\<close>.\<close>

fun parameter_check :: "byte list \<Rightarrow> int" where
  "parameter_check [] = 0"
| "parameter_check (c # cs) = (if uint c < 48 \<or> 102 < uint c then 1 else parameter_check cs)"

text \<open>The sum \<open>offset + size\<close> of two \<open>int\<close>s may overflow, which is undefined: then the result is \<open>None\<close>.\<close>

definition is_parameter_valid :: "veeprom \<Rightarrow> int \<Rightarrow> int \<Rightarrow> bool option" where
  "is_parameter_valid s offset sz =
     (let offset_left = 0;
          offset_right = s32 (u32 (u32 (end_sector s - start_sector s + 1) * SECTOR_SIZE));
          max_size = offset_right - offset_left
      in if s32 (offset + sz) \<noteq> offset + sz then None else Some (\<not> (offset + sz > max_size)))"


section \<open>veeprom_init, veeprom_exit, veeprom_setsync\<close>

text \<open>\<open>snprintf("%d", n)\<close> and \<open>atoi\<close> on a run of digits.\<close>

fun dec :: "nat \<Rightarrow> string" where
  "dec n = (if n < 10 then [char_of (48 + n)] else dec (n div 10) @ [char_of (48 + n mod 10)])"

declare dec.simps [simp del]

definition is_digit :: "char \<Rightarrow> bool" where
  "is_digit c \<longleftrightarrow> 48 \<le> (of_char c :: nat) \<and> (of_char c :: nat) \<le> 57"

definition digits_value :: "string \<Rightarrow> nat" where
  "digits_value ds = foldl (\<lambda>v c. 10 * v + (of_char c - 48)) 0 (takeWhile is_digit ds)"

text \<open>The scan of \<open>d_name\<close>: each maximal run of digits overwrites \<open>mtd_num_tmp\<close>, which keeps
  15 characters; \<open>atoi\<close> of the last one is the mtd number (0 if there is none).\<close>

function mtd_num_scan :: "string \<Rightarrow> string \<Rightarrow> string" where
  "mtd_num_scan tmp [] = tmp"
| "mtd_num_scan tmp (c # cs) =
     (if is_digit c then mtd_num_scan (take 15 (dec (digits_value (c # cs)))) (dropWhile is_digit (c # cs))
      else mtd_num_scan tmp cs)"
  by pat_completeness auto
termination
  by (relation "measure (\<lambda>(t, cs). length cs)") (auto simp: le_imp_less_Suc length_dropWhile_le)

definition bytes_of :: "string \<Rightarrow> byte list" where
  "bytes_of s = map of_char s"

text \<open>The C string in a char array, and \<open>strncmp(a, b, n) == 0\<close> on C strings.\<close>

definition c_str :: "byte list \<Rightarrow> byte list" where
  "c_str b = takeWhile (\<lambda>x. x \<noteq> 0) b"

definition strncmp_eq :: "byte list \<Rightarrow> byte list \<Rightarrow> nat \<Rightarrow> bool" where
  "strncmp_eq a b n \<longleftrightarrow> take n (c_str a @ [0]) = take n (c_str b @ [0])"

text \<open>One directory entry matches when its name file, without its last character, is a prefix of
  the target; an empty file makes the length wrap around, so that all characters count.\<close>

definition mtd_match :: "byte list \<Rightarrow> string \<Rightarrow> bool" where
  "mtd_match name_file target =
     (let buf = take 128 name_file; n = length (c_str buf) in
      strncmp_eq buf (bytes_of target) (if n = 0 then Suc (length target) else n - 1))"

fun mtd_search :: "(string \<times> byte list option) list \<Rightarrow> string \<Rightarrow> int" where
  "mtd_search [] target = - 1"
| "mtd_search ((d_name, name_file) # es) target =
     (case name_file of
        None \<Rightarrow> mtd_search es target
      | Some f \<Rightarrow> if mtd_match f target then int (digits_value (mtd_num_scan [] d_name))
                  else mtd_search es target)"

definition get_mtdnum_partname :: "string \<Rightarrow> os \<Rightarrow> int" where
  "get_mtdnum_partname target w = (case mtd_dir w of None \<Rightarrow> - 1 | Some es \<Rightarrow> mtd_search es target)"

text \<open>\<open>convert_partname\<close>: \<open>sizeof(str)\<close> is the size of a pointer, so 8 code units are converted.\<close>

definition isprint :: "byte \<Rightarrow> bool" where
  "isprint c \<longleftrightarrow> 32 \<le> uint c \<and> uint c \<le> 126"

definition convert_unit :: "16 word \<Rightarrow> byte" where
  "convert_unit u = (let c = ucast (u AND 0xff) in if c \<noteq> 0 \<and> \<not> isprint c then 33 else c)"

definition GPT_NAME_LEN_BYTES :: nat where "GPT_NAME_LEN_BYTES = 72"

definition convert_partname :: "16 word list \<Rightarrow> byte list \<Rightarrow> byte list" where
  "convert_partname str result =
     (let label_max = min (GPT_NAME_LEN_BYTES - 1) 8 in
      map convert_unit (take label_max str) @ drop label_max result)"

text \<open>The name of GPT entry \<open>i\<close>: 36 little-endian units at offset 56 of its 128 bytes.\<close>

definition gpt_part_name :: "byte list \<Rightarrow> nat \<Rightarrow> 16 word list" where
  "gpt_part_name table i = map (\<lambda>k. ucast (table ! (128 * i + 56 + 2 * k))
     OR push_bit 8 (ucast (table ! (128 * i + 57 + 2 * k)))) [0..<36]"

text \<open>The loop over the entries: the last one named veeprom gives the path.\<close>

definition gpt_device_path :: "byte list \<Rightarrow> string \<Rightarrow> string" where
  "gpt_device_path table path = fold (\<lambda>i p.
     if c_str (convert_partname (gpt_part_name table i) (replicate GPT_NAME_LEN_BYTES 0)) = bytes_of ''veeprom''
     then ''/dev/mmcblk0p'' @ dec (i + 1) else p) [0..<128] path"

definition ubi_path :: string where "ubi_path = ''/dev/ubi10_0''"

text \<open>The path of the device for each boot mode, or failure; \<open>ubi_ctrl\<close> stands for a
  \<open>/dev/ubi_ctrl\<close> node. Attaching makes the volume's node appear.\<close>

definition find_device :: "int \<Rightarrow> veeprom \<Rightarrow> (string \<times> os) option" where
  "find_device mode s = (let w = os s in
     if mode = PIN_2ND_SPINAND then
       (if nodes w ubi_path = None then
          (let n = get_mtdnum_partname ''boot'' w in
           if n < 0 then None
           else if nodes w ''/dev/ubi_ctrl'' = None then None
           else Some (ubi_path, w\<lparr>nodes := (nodes w)(ubi_path := ubi_volume w n)\<rparr>))
        else Some (ubi_path, w))
     else if mode = PIN_2ND_SPINOR then
       (let n = get_mtdnum_partname ''veeprom'' w in
        Some (''/dev/mtd'' @ (if n < 0 then ''-1'' else dec (nat n)), w))
     else
       (case nodes w ''/dev/mmcblk0'' of
          None \<Rightarrow> None
        | Some (bytes, cap) \<Rightarrow>
            let table = take 16384 (drop 1024 bytes) in
            if length table < 16384 then None
            else Some (gpt_device_path table (device_path s), w)))"

text \<open>On eMMC and NOR \<open>device_path\<close> is left pointing to an array of an inner block, which has ended when
  \<open>open\<close> reads it (and again in a later call): the model takes the text to be still there.\<close>

definition veeprom_init :: "veeprom \<Rightarrow> int \<times> veeprom" where
  "veeprom_init s =
     (let (d, w) = sys_open (device_path s) (os s); s1 = s\<lparr>fd := d, os := w\<rparr> in
      if d < 0 then
        (let mode = get_boot_mode w; s2 = s1\<lparr>bootmode := mode\<rparr> in
         case find_device mode s2 of
           None \<Rightarrow> (- 1, s2)
         | Some (path, w2) \<Rightarrow>
             let (d2, w3) = sys_open path w2;
                 s3 = s2\<lparr>device_path := path, start_sector := 0, end_sector := 0, fd := d2, os := w3\<rparr>
             in if d2 < 0 then (- 1, s3) else (0, s3))
      else (0, s1))"

definition veeprom_exit :: "veeprom \<Rightarrow> veeprom" where
  "veeprom_exit s = s\<lparr>os := sys_close (fd s) (os s), fd := - 1\<rparr>"

definition veeprom_setsync :: "int \<Rightarrow> veeprom \<Rightarrow> veeprom" where
  "veeprom_setsync flag s = s\<lparr>sync_flag := flag\<rparr>"

section \<open>The sector arithmetic\<close>

text \<open>\<open>sector_left\<close> and \<open>sector_count\<close>, in unsigned int; \<open>offset_inner\<close> and \<open>operate_count\<close> of the
  \<open>i\<close>th sector.\<close>

definition sector_span :: "veeprom \<Rightarrow> int \<Rightarrow> int \<Rightarrow> int \<times> int" where
  "sector_span s offset sz =
     (let sector_left = u32 (start_sector s + offset sdiv SECTOR_SIZE);
          sector_right = u32 (start_sector s + (offset + sz - 1) sdiv SECTOR_SIZE)
      in (sector_left, u32 (sector_right - sector_left + 1)))"

definition sector_part :: "veeprom \<Rightarrow> int \<Rightarrow> int \<Rightarrow> int \<Rightarrow> int \<times> int" where
  "sector_part s sector offset sz =
     (let offset_inner = u32 (offset - u32 (u32 (sector - start_sector s) * SECTOR_SIZE));
          remain_inner = u32 (SECTOR_SIZE - offset_inner);
          operate_count = s32 (if remain_inner \<ge> u32 sz then u32 sz else remain_inner)
      in (offset_inner, operate_count))"

text \<open>\<open>lseek(fd, sector * SECTOR_SIZE, SEEK_SET)\<close> on the globals.\<close>

definition seek_sector :: "veeprom \<Rightarrow> int \<Rightarrow> int \<times> veeprom" where
  "seek_sector s sector = (let (r, w) = sys_lseek (fd s) (u32 (sector * SECTOR_SIZE)) (os s) in (r, s\<lparr>os := w\<rparr>))"

text \<open>The head of each loop: clear the buffer, seek, fill the buffer. \<open>False\<close> is the error return.\<close>

definition fetch_sector :: "veeprom \<Rightarrow> int \<Rightarrow> bool \<times> veeprom" where
  "fetch_sector s sector =
     (let (r, s1) = seek_sector (s\<lparr>buffer := replicate BUFFER_SIZE 0\<rparr>) sector in
      if r < 0 then (False, s1)
      else let (r2, b, w) = sys_read (fd s1) BUFFER_SIZE (buffer s1) (os s1);
               s2 = s1\<lparr>buffer := b, os := w\<rparr>
           in (\<not> r2 < 0, s2))"

text \<open>The tail of the writing loops: seek back, write the whole buffer.\<close>

definition store_sector :: "veeprom \<Rightarrow> int \<Rightarrow> bool \<times> veeprom" where
  "store_sector s sector =
     (let (r, s1) = seek_sector s sector in
      if r < 0 then (False, s1)
      else let (r2, w) = sys_write (fd s1) (buffer s1) (os s1) in (\<not> r2 < 0, s1\<lparr>os := w\<rparr>))"

section \<open>veeprom_read, veeprom_write, veeprom_clear, veeprom_format, veeprom_dump\<close>

text \<open>\<open>None\<close> is an access outside \<open>buffer\<close> or the caller's array; the array is at \<open>buf + at\<close>.\<close>

function read_sectors :: "veeprom \<Rightarrow> byte list \<Rightarrow> int \<Rightarrow> int \<Rightarrow> int \<Rightarrow> int \<Rightarrow> int \<Rightarrow> int
    \<Rightarrow> (int \<times> byte list \<times> veeprom) option" where
  "read_sectors s buf at offset sz sector_left sector_count i =
     (if i < sector_count then
        (let (ok, s1) = fetch_sector s (u32 (sector_left + i)) in
         if \<not> ok then Some (- 1, buf, s1)
         else
           (let (offset_inner, operate_count) = sector_part s1 (u32 (sector_left + i)) offset sz in
            do {
              buf' \<leftarrow> memcpy buf at (buffer s1) offset_inner operate_count;
              read_sectors s1 buf' (at + operate_count) (offset + operate_count) (sz - operate_count)
                sector_left sector_count (i + 1) }))
      else Some (0, buf, s))"
  by pat_completeness auto
termination by (relation "measure (\<lambda>(s, buf, at, off, sz, sl, sc, i). nat (sc - i))") auto

definition veeprom_read :: "veeprom \<Rightarrow> int \<Rightarrow> byte list \<Rightarrow> int \<Rightarrow> (int \<times> byte list \<times> veeprom) option" where
  "veeprom_read s offset buf sz =
     (if get_boot_mode (os s) = PIN_2ND_SPINAND then
        (let s1 = s\<lparr>buffer := replicate BUFFER_SIZE 0\<rparr>;
             s2 = (if fd s1 = - 1 then snd (veeprom_init s1) else s1);
             (r, b, w) = sys_read (fd s2) BUFFER_SIZE (buffer s2) (os s2);
             s3 = s2\<lparr>buffer := b, os := w\<rparr>
         in do { buf' \<leftarrow> memcpy buf 0 (buffer s3) offset sz; Some (0, buf', veeprom_exit s3) })
      else do {
        valid \<leftarrow> is_parameter_valid s offset sz;
        if \<not> valid then Some (- 1, buf, s)
        else let (sector_left, sector_count) = sector_span s offset sz in
             read_sectors s buf 0 offset sz sector_left sector_count 0 })"

text \<open>Both writing loops, told apart by what they put into the buffer: the caller's bytes from
  \<open>at\<close> on (after the NOR erase), or zeros.\<close>

function write_sectors :: "veeprom \<Rightarrow> byte list \<Rightarrow> int \<Rightarrow> int \<Rightarrow> int \<Rightarrow> int \<Rightarrow> int \<Rightarrow> int
    \<Rightarrow> (int \<times> veeprom) option" where
  "write_sectors s buf at offset sz sector_left sector_count i =
     (if i < sector_count then
        (let (ok, s1) = fetch_sector s (u32 (sector_left + i)) in
         if \<not> ok then Some (- 1, s1)
         else
           (let s2 = (if bootmode s1 = PIN_2ND_SPINOR
                then s1\<lparr>os := sys_memerase (fd s1) 0 (1024 * 64) (os s1)\<rparr> else s1);
                (offset_inner, operate_count) = sector_part s2 (u32 (sector_left + i)) offset sz in
            do {
              b \<leftarrow> memcpy (buffer s2) offset_inner buf at operate_count;
              let (ok2, s3) = store_sector (s2\<lparr>buffer := b\<rparr>) (u32 (sector_left + i));
              if \<not> ok2 then Some (- 1, s3)
              else write_sectors s3 buf (at + operate_count) (offset + operate_count) (sz - operate_count)
                sector_left sector_count (i + 1) }))
      else Some (0, s))"
  by pat_completeness auto
termination by (relation "measure (\<lambda>(s, buf, at, off, sz, sl, sc, i). nat (sc - i))") auto

definition veeprom_write :: "veeprom \<Rightarrow> int \<Rightarrow> byte list \<Rightarrow> int \<Rightarrow> (int \<times> veeprom) option" where
  "veeprom_write s offset buf sz =
     (if get_boot_mode (os s) = PIN_2ND_SPINAND then
        (let s1 = s\<lparr>buffer := replicate BUFFER_SIZE 0\<rparr>;
             s2 = (if fd s1 = - 1 then snd (veeprom_init s1) else s1);
             (r, b, w) = sys_read (fd s2) BUFFER_SIZE (buffer s2) (os s2);
             s3 = s2\<lparr>os := w\<rparr>
         in do {
           b' \<leftarrow> memcpy b offset buf 0 sz;
           let s4 = s3\<lparr>buffer := b'\<rparr>;
           let (e, w4) = sys_ubi_update (fd s4) (os s4);
           if e \<noteq> 0 then Some (- 1, s4\<lparr>os := w4\<rparr>)
           else let (r5, w5) = sys_write (fd s4) (buffer s4) w4 in
                Some (0, veeprom_exit (s4\<lparr>os := w5\<rparr>)) })
      else do {
        valid \<leftarrow> is_parameter_valid s offset sz;
        if \<not> valid then Some (- 1, s)
        else let (sector_left, sector_count) = sector_span s offset sz in
             write_sectors s buf 0 offset sz sector_left sector_count 0 })"

function clear_sectors :: "veeprom \<Rightarrow> int \<Rightarrow> int \<Rightarrow> int \<Rightarrow> int \<Rightarrow> int \<Rightarrow> (int \<times> veeprom) option" where
  "clear_sectors s offset sz sector_left sector_count i =
     (if i < sector_count then
        (let (ok, s1) = fetch_sector s (u32 (sector_left + i)) in
         if \<not> ok then Some (- 1, s1)
         else
           (let (offset_inner, operate_count) = sector_part s1 (u32 (sector_left + i)) offset sz in
            do {
              b \<leftarrow> memset (buffer s1) offset_inner 0 operate_count;
              let (ok2, s2) = store_sector (s1\<lparr>buffer := b\<rparr>) (u32 (sector_left + i));
              if \<not> ok2 then Some (- 1, s2)
              else clear_sectors s2 (offset + operate_count) (sz - operate_count)
                sector_left sector_count (i + 1) }))
      else Some (0, s))"
  by pat_completeness auto
termination by (relation "measure (\<lambda>(s, off, sz, sl, sc, i). nat (sc - i))") auto

text \<open>On NAND the bytes to write come from \<open>malloc(size)\<close>, of which \<open>sizeof(buf)\<close>, the size of a
  pointer, are zeroed: \<open>heap\<close> is what \<open>malloc\<close> left in the rest.\<close>

definition veeprom_clear :: "(nat \<Rightarrow> byte) \<Rightarrow> veeprom \<Rightarrow> int \<Rightarrow> int \<Rightarrow> (int \<times> veeprom) option" where
  "veeprom_clear heap s offset sz =
     (if get_boot_mode (os s) = PIN_2ND_SPINAND then
        do { buf \<leftarrow> memset (map heap [0..<nat sz]) 0 0 8; veeprom_write s offset buf sz }
      else do {
        valid \<leftarrow> is_parameter_valid s offset sz;
        if \<not> valid then Some (- 1, s)
        else let (sector_left, sector_count) = sector_span s offset sz in
             clear_sectors s offset sz sector_left sector_count 0 })"

definition veeprom_format :: "(nat \<Rightarrow> byte) \<Rightarrow> veeprom \<Rightarrow> (int \<times> veeprom) option" where
  "veeprom_format heap s = veeprom_clear heap s 0 256"

text \<open>\<open>veeprom_dump\<close> returns the bytes it prints.\<close>

definition veeprom_dump :: "veeprom \<Rightarrow> int \<times> byte list \<times> veeprom" where
  "veeprom_dump s =
     (let (r, s1) = seek_sector s (start_sector s) in
      if r < 0 then (- 1, [], s1)
      else let s2 = s1\<lparr>buffer := replicate BUFFER_SIZE 0\<rparr>;
               (r2, b, w) = sys_read (fd s2) (nat VEEPROM_MAX_SIZE) (buffer s2) (os s2);
               s3 = s2\<lparr>buffer := b, os := w\<rparr>
           in if r2 < 0 then (- 1, [], s3) else (0, take (nat VEEPROM_MAX_SIZE) b, s3))"

declare read_sectors.simps [simp del] write_sectors.simps [simp del] clear_sectors.simps [simp del]

end
