(* ===== verification/Veeprom_Correct.thy ===== *)
theory Veeprom_Correct
  imports Veeprom
begin

text \<open>
  Correctness of the virtual EEPROM on a mounted block device: reads return and writes change
  exactly the addressed bytes, an error leaves the device as it was, and the fields of the
  header's layout do not disturb each other (locale \<open>byte_store\<close>). Then the NAND path.
\<close>

section \<open>A mounted device\<close>

text \<open>The bytes behind the open descriptor.\<close>

definition storage :: "veeprom \<Rightarrow> byte list" where
  "storage s = (case fds (os s) (fd s) of None \<Rightarrow> []
     | Some (p, _) \<Rightarrow> (case nodes (os s) p of None \<Rightarrow> [] | Some (b, _) \<Rightarrow> b))"

text \<open>What \<open>veeprom_init\<close> establishes on eMMC and NOR: an open device of full size that holds
  at least the one sector of the region.\<close>

definition mounted :: "veeprom \<Rightarrow> bool" where
  "mounted s \<longleftrightarrow> get_boot_mode (os s) \<noteq> PIN_2ND_SPINAND \<and> start_sector s = 0 \<and> end_sector s = 0
     \<and> (case fds (os s) (fd s) of None \<Rightarrow> False | Some (p, _) \<Rightarrow>
          (case nodes (os s) p of None \<Rightarrow> False | Some (b, cap) \<Rightarrow> length b = cap \<and> 512 \<le> cap))"

definition patch :: "byte list \<Rightarrow> int \<Rightarrow> byte list \<Rightarrow> byte list" where
  "patch b off bs = take (nat off) b @ bs @ drop (nat off + length bs) b"

text \<open>The relation between a state and a later one over the same unchanged device.\<close>

definition same_dev :: "veeprom \<Rightarrow> veeprom \<Rightarrow> bool" where
  "same_dev s s' \<longleftrightarrow> mounted s' \<and> storage s' = storage s \<and> fd s' = fd s \<and> bootmode s' = bootmode s
     \<and> (faults (os s) = [] \<longrightarrow> faults (os s') = [])"

lemma same_dev_refl [simp]: "mounted s \<Longrightarrow> same_dev s s"
  by (simp add: same_dev_def)

lemma get_boot_mode_cong [simp]:
  "get_boot_mode (w\<lparr>fds := x\<rparr>) = get_boot_mode w" "get_boot_mode (w\<lparr>nodes := y\<rparr>) = get_boot_mode w"
  "get_boot_mode (w\<lparr>new_fd := n\<rparr>) = get_boot_mode w" "get_boot_mode (tick w) = get_boot_mode w"
  by (simp_all add: get_boot_mode_def tick_def Let_def split: option.split)

lemma tick_simps [simp]: "fds (tick w) = fds w" "nodes (tick w) = nodes w" "new_fd (tick w) = new_fd w"
  "faults (tick w) = tl (faults w)" "board_id (tick w) = board_id w" "boot_mode (tick w) = boot_mode w"
  by (simp_all add: tick_def)

lemma fault_Nil [simp]: "faults w = [] \<Longrightarrow> \<not> fault w"
  by (simp add: fault_def)

lemma mountedE:
  assumes "mounted s"
  obtains p pos where "fds (os s) (fd s) = Some (p, pos)"
    "nodes (os s) p = Some (storage s, length (storage s))" "512 \<le> length (storage s)"
    "start_sector s = 0" "end_sector s = 0" "get_boot_mode (os s) \<noteq> PIN_2ND_SPINAND"
  using assms by (auto simp: mounted_def storage_def split: option.splits)

lemma mountedI:
  assumes "fds (os s) (fd s) = Some (p, pos)" "nodes (os s) p = Some (b, length b)" "512 \<le> length b"
    "start_sector s = 0" "end_sector s = 0" "get_boot_mode (os s) \<noteq> PIN_2ND_SPINAND"
  shows "mounted s" "storage s = b"
  using assms by (simp_all add: mounted_def storage_def)

lemma mounted_buffer [simp]: "mounted (s\<lparr>buffer := b\<rparr>) = mounted s" "storage (s\<lparr>buffer := b\<rparr>) = storage s"
  by (simp_all add: mounted_def storage_def cong: option.case_cong)

lemma storage_mounted: "mounted s \<Longrightarrow> 512 \<le> length (storage s)"
  by (elim mountedE)

section \<open>One sector\<close>

definition filled :: "byte list \<Rightarrow> byte list" where
  "filled b = take BUFFER_SIZE b @ replicate (BUFFER_SIZE - length b) 0"

lemma length_filled [simp]: "length (filled b) = BUFFER_SIZE"
  by (simp add: filled_def)

lemma seek_sector_result:
  assumes "mounted s" "seek_sector s 0 = (r, s')"
  shows "same_dev s s'" "buffer s' = buffer s" "r < 0 \<Longrightarrow> faults (os s) \<noteq> []"
    "\<not> r < 0 \<Longrightarrow> \<exists>p. fds (os s') (fd s') = Some (p, 0) \<and> nodes (os s') p = Some (storage s, length (storage s))"
proof -
  obtain p pos where d: "fds (os s) (fd s) = Some (p, pos)"
    "nodes (os s) p = Some (storage s, length (storage s))" "512 \<le> length (storage s)"
    "start_sector s = 0" "end_sector s = 0" "get_boot_mode (os s) \<noteq> PIN_2ND_SPINAND"
    using assms(1) by (elim mountedE)
  have s': "s' = s\<lparr>os := (if fault (os s) then tick (os s)
        else (tick (os s))\<lparr>fds := (fds (os s))(fd s \<mapsto> (p, 0))\<rparr>)\<rparr>"
    and r: "r = (if fault (os s) then - 1 else 0)"
    using assms(2) d(1) by (auto simp: seek_sector_def sys_lseek_def split: if_splits)
  show "same_dev s s'" "buffer s' = buffer s" "r < 0 \<Longrightarrow> faults (os s) \<noteq> []"
    "\<not> r < 0 \<Longrightarrow> \<exists>p. fds (os s') (fd s') = Some (p, 0) \<and> nodes (os s') p = Some (storage s, length (storage s))"
    unfolding s' r using d mountedI [of s' p "if fault (os s) then pos else 0" "storage s"] s'
    by (auto simp: same_dev_def)
qed

lemma fetch_sector_result:
  assumes "mounted s" "fetch_sector s 0 = (ok, s')"
  shows "same_dev s s'" "ok \<Longrightarrow> buffer s' = filled (storage s)" "faults (os s) = [] \<Longrightarrow> ok"
proof -
  let ?s = "s\<lparr>buffer := replicate BUFFER_SIZE 0\<rparr>"
  have m: "mounted ?s" and st: "storage ?s = storage s"
    using assms(1) by simp_all
  obtain r s1 where sk: "seek_sector ?s 0 = (r, s1)" by (cases "seek_sector ?s 0")
  note k = seek_sector_result [OF m sk]
  have k1: "same_dev s s1" using k(1) st by (simp add: same_dev_def)
  have "same_dev s s' \<and> (ok \<longrightarrow> buffer s' = filled (storage s)) \<and> (faults (os s) = [] \<longrightarrow> ok)"
  proof (cases "r < 0")
    case True
    with assms(2) sk k1 k(3) show ?thesis by (auto simp: fetch_sector_def)
  next
    case False
    with k(4) obtain p where p: "fds (os s1) (fd s1) = Some (p, 0)"
      "nodes (os s1) p = Some (storage s, length (storage s))" by (auto simp: st)
    have "take BUFFER_SIZE (storage s) @ drop (length (take BUFFER_SIZE (storage s))) (buffer s1)
        = filled (storage s)"
      using k(2) by (simp add: filled_def min_def)
    with False assms(2) sk p k1 show ?thesis
      by (auto simp: fetch_sector_def sys_read_def same_dev_def mounted_def storage_def Let_def
          split: if_splits)
  qed
  then show "same_dev s s'" "ok \<Longrightarrow> buffer s' = filled (storage s)" "faults (os s) = [] \<Longrightarrow> ok" by auto
qed

lemma store_sector_result:
  assumes "mounted s" "store_sector s 0 = (ok, s')" "buffer s \<noteq> []"
  shows "mounted s'" "fd s' = fd s" "bootmode s' = bootmode s" "faults (os s) = [] \<Longrightarrow> ok \<and> faults (os s') = []"
    "\<not> ok \<Longrightarrow> storage s' = storage s"
    "ok \<Longrightarrow> storage s' = take (length (storage s)) (buffer s) @ drop (length (buffer s)) (storage s)"
proof -
  obtain r s1 where sk: "seek_sector s 0 = (r, s1)" by (cases "seek_sector s 0")
  note k = seek_sector_result [OF assms(1) sk]
  have "mounted s' \<and> fd s' = fd s \<and> bootmode s' = bootmode s
      \<and> (faults (os s) = [] \<longrightarrow> ok \<and> faults (os s') = []) \<and> (\<not> ok \<longrightarrow> storage s' = storage s)
      \<and> (ok \<longrightarrow> storage s' = take (length (storage s)) (buffer s) @ drop (length (buffer s)) (storage s))"
  proof (cases "r < 0")
    case True
    with assms(2) sk k(1,3) show ?thesis by (auto simp: store_sector_def same_dev_def)
  next
    case False
    with k(4) obtain p where p: "fds (os s1) (fd s1) = Some (p, 0)"
      "nodes (os s1) p = Some (storage s, length (storage s))" by auto
    have "storage s \<noteq> []" using storage_mounted [OF assms(1)] by auto
    moreover have "drop (min (length (buffer s)) (length (storage s))) (storage s)
        = drop (length (buffer s)) (storage s)" by (simp add: min_def)
    moreover have "512 \<le> length (storage s)" by (rule storage_mounted [OF assms(1)])
    ultimately show ?thesis
      using False assms(2,3) sk p k(1,2)
      by (auto simp: store_sector_def sys_write_def same_dev_def mounted_def storage_def Let_def
          split: if_splits)
  qed
  then show "mounted s'" "fd s' = fd s" "bootmode s' = bootmode s"
    "faults (os s) = [] \<Longrightarrow> ok \<and> faults (os s') = []" "\<not> ok \<Longrightarrow> storage s' = storage s"
    "ok \<Longrightarrow> storage s' = take (length (storage s)) (buffer s) @ drop (length (buffer s)) (storage s)"
    by auto
qed

text \<open>The arithmetic of a valid request: it stays in the first sector.\<close>

lemma sector_arith:
  assumes "start_sector s = 0" "0 \<le> off" "0 \<le> sz" "off + sz \<le> 512"
  shows "sector_span s off sz = (if off = 512 then (1, 0) else (0, 1))"
    and "off < 512 \<Longrightarrow> sector_part s 0 off sz = (off, sz)"
proof -
  have "(off + sz - 1) sdiv 512 = 0"
  proof (cases "off + sz = 0")
    case True
    then show ?thesis by (simp add: signed_divide_int_def)
  next
    case False
    then show ?thesis using assms by simp
  qed
  then show "sector_span s off sz = (if off = 512 then (1, 0) else (0, 1))"
    using assms by (cases "off = 512") (auto simp: sector_span_def SECTOR_SIZE_def u32_def Let_def)
  show "off < 512 \<Longrightarrow> sector_part s 0 off sz = (off, sz)"
    using assms by (simp add: sector_part_def SECTOR_SIZE_def Let_def)
qed

lemma is_parameter_valid_iff: "start_sector s = 0 \<Longrightarrow> end_sector s = 0 \<Longrightarrow>
    is_parameter_valid s off sz = (if s32 (off + sz) = off + sz then Some (off + sz \<le> 512) else None)"
  by (auto simp: is_parameter_valid_def SECTOR_SIZE_def)

section \<open>Reading\<close>

lemma take_drop_filled: "off + n \<le> length b \<Longrightarrow> off + n \<le> BUFFER_SIZE \<Longrightarrow>
    take n (drop off (filled b)) = take n (drop off b)"
  by (simp add: filled_def drop_take min_def)

lemma read_outcome:
  assumes m: "mounted s" and r: "0 \<le> off" "0 \<le> sz" "off + sz \<le> 512" "sz \<le> int (length buf)"
  shows "\<exists>ret buf' s'. veeprom_read s off buf sz = Some (ret, buf', s') \<and> same_dev s s'
    \<and> (ret = 0 \<and> buf' = take (nat sz) (drop (nat off) (storage s)) @ drop (nat sz) buf
       \<or> ret = - 1 \<and> buf' = buf \<and> faults (os s) \<noteq> [])"
proof -
  have se: "start_sector s = 0" "end_sector s = 0" "get_boot_mode (os s) \<noteq> PIN_2ND_SPINAND"
    using m by (auto elim: mountedE)
  show ?thesis
  proof (cases "off = 512")
    case True
    with r have "sz = 0" by simp
    with True m se r sector_arith [of s off sz] show ?thesis
      by (auto simp: veeprom_read_def is_parameter_valid_iff read_sectors.simps [of _ _ _ _ _ _ 0])
  next
    case False
    then have off: "off < 512" using r by simp
    obtain ok s1 where f: "fetch_sector s 0 = (ok, s1)" by (cases "fetch_sector s 0")
    note k = fetch_sector_result [OF m f]
    have s1: "start_sector s1 = 0" using k(1) by (auto simp: same_dev_def elim: mountedE)
    have nats: "nat (off + sz) = nat off + nat sz" "nat off + nat sz \<le> 512" using r by linarith+
    have b: "take (nat sz) (drop (nat off) (filled (storage s))) = take (nat sz) (drop (nat off) (storage s))"
      using nats storage_mounted [OF m] by (intro take_drop_filled) (auto simp: BUFFER_SIZE_def)
    have mc: "memcpy buf 0 (filled (storage s)) off sz
        = Some (take (nat sz) (drop (nat off) (storage s)) @ drop (nat sz) buf)"
      using r by (simp add: memcpy_def b BUFFER_SIZE_def)
    have "read_sectors s buf 0 off sz 0 1 0 = (if ok
        then Some (0, take (nat sz) (drop (nat off) (storage s)) @ drop (nat sz) buf, s1)
        else Some (- 1, buf, s1))"
      using f k sector_arith(2) [OF s1 r(1-3) off] mc
      by (simp add: read_sectors.simps [of _ _ _ _ _ _ 1])
    with k(1,3) off se r sector_arith(1) [OF se(1) r(1-3)] show ?thesis
      by (auto simp: veeprom_read_def is_parameter_valid_iff)
  qed
qed

section \<open>Writing\<close>

text \<open>The NOR erase: 64 KiB read as ones afterwards. The result of the \<open>ioctl\<close> is ignored.\<close>

definition nor_erased :: "byte list \<Rightarrow> byte list" where
  "nor_erased b = map (\<lambda>i. if i < 65536 then 255 else b ! i) [0..<length b]"

lemma length_nor_erased [simp]: "length (nor_erased b) = length b"
  by (simp add: nor_erased_def)

lemma erase_result:
  assumes m: "mounted s" and e: "s' = s\<lparr>os := sys_memerase (fd s) 0 (1024 * 64) (os s)\<rparr>"
  shows "mounted s'" "fd s' = fd s" "bootmode s' = bootmode s" "buffer s' = buffer s"
    "storage s' = (if fault (os s) then storage s else nor_erased (storage s))"
    "faults (os s) = [] \<Longrightarrow> faults (os s') = []"
proof -
  obtain p pos where d: "fds (os s) (fd s) = Some (p, pos)"
    "nodes (os s) p = Some (storage s, length (storage s))" "512 \<le> length (storage s)"
    "start_sector s = 0" "end_sector s = 0" "get_boot_mode (os s) \<noteq> PIN_2ND_SPINAND"
    using m by (elim mountedE)
  have s': "s' = s\<lparr>os := (if fault (os s) then tick (os s) else (tick (os s))\<lparr>nodes :=
      (nodes (os s))(p \<mapsto> (nor_erased (storage s), length (storage s)))\<rparr>)\<rparr>"
    using d(1,2) e by (simp add: sys_memerase_def nor_erased_def)
  show "mounted s'" "storage s' = (if fault (os s) then storage s else nor_erased (storage s))"
    using d mountedI [of s' p pos "if fault (os s) then storage s else nor_erased (storage s)"]
    by (simp_all add: s')
  show "fd s' = fd s" "bootmode s' = bootmode s" "buffer s' = buffer s"
    "faults (os s) = [] \<Longrightarrow> faults (os s') = []"
    by (simp_all add: s')
qed

lemma length_patch [simp]: "nat off + length bs \<le> length b \<Longrightarrow> length (patch b off bs) = length b"
  by (simp add: patch_def)

lemma patch_Nil [simp]: "patch b off [] = b"
  by (simp add: patch_def)

text \<open>What reaches the device: the buffer as far as it fits, then the old bytes behind it.\<close>

lemma stored_patch:
  assumes "off + length bs \<le> length b" "off + length bs \<le> BUFFER_SIZE" "length e = length b"
  shows "take (length b) (take off (filled b) @ bs @ drop (off + length bs) (filled b)) @ drop BUFFER_SIZE e
    = patch (take BUFFER_SIZE b @ drop BUFFER_SIZE e) (int off) bs"
proof (cases "length b \<le> BUFFER_SIZE")
  case True
  then show ?thesis using assms by (simp add: filled_def patch_def)
next
  case False
  then show ?thesis using assms by (simp add: filled_def patch_def)
qed

text \<open>The general outcome of a write; \<open>e\<close> is the device after the NOR erase, if there is one.\<close>

lemma write_outcome_gen:
  assumes m: "mounted s" and r: "0 \<le> off" "0 \<le> sz" "off + sz \<le> 512" "sz \<le> int (length buf)"
  shows "\<exists>ret s' e. veeprom_write s off buf sz = Some (ret, s') \<and> mounted s' \<and> fd s' = fd s
    \<and> bootmode s' = bootmode s \<and> (faults (os s) = [] \<longrightarrow> ret = 0 \<and> faults (os s') = [])
    \<and> (e = storage s \<or> bootmode s = PIN_2ND_SPINOR \<and> e = nor_erased (storage s))
    \<and> (bootmode s = PIN_2ND_SPINOR \<and> off < 512 \<and> faults (os s) = [] \<longrightarrow> e = nor_erased (storage s))
    \<and> (ret = 0 \<and> storage s' = patch (take BUFFER_SIZE (storage s) @ drop BUFFER_SIZE e) off (take (nat sz) buf)
       \<or> ret = - 1 \<and> storage s' = e)"
proof -
  have se: "start_sector s = 0" "end_sector s = 0" "get_boot_mode (os s) \<noteq> PIN_2ND_SPINAND"
    using m by (auto elim: mountedE)
  show ?thesis
  proof (cases "off = 512")
    case True
    with r have "sz = 0" by simp
    with True se r sector_arith [of s off sz] have "veeprom_write s off buf sz = Some (0, s)"
      by (simp add: veeprom_write_def is_parameter_valid_iff write_sectors.simps [of _ _ _ _ _ _ 0])
    with True \<open>sz = 0\<close> m show ?thesis by (auto intro!: exI [of _ "storage s"])
  next
    case False
    then have off: "off < 512" using r by simp
    obtain ok s1 where f: "fetch_sector s 0 = (ok, s1)" by (cases "fetch_sector s 0")
    note k = fetch_sector_result [OF m f]
    have m1: "mounted s1" and d1: "storage s1 = storage s" "fd s1 = fd s" "bootmode s1 = bootmode s"
      "faults (os s) = [] \<longrightarrow> faults (os s1) = []"
      using k(1) by (auto simp: same_dev_def)
    define s2 where "s2 = (if bootmode s1 = PIN_2ND_SPINOR
      then s1\<lparr>os := sys_memerase (fd s1) 0 (1024 * 64) (os s1)\<rparr> else s1)"
    have s2: "mounted s2 \<and> fd s2 = fd s \<and> bootmode s2 = bootmode s \<and> buffer s2 = buffer s1
      \<and> (storage s2 = storage s \<or> bootmode s = PIN_2ND_SPINOR \<and> storage s2 = nor_erased (storage s))
      \<and> (bootmode s = PIN_2ND_SPINOR \<and> faults (os s) = [] \<longrightarrow> storage s2 = nor_erased (storage s))
      \<and> (faults (os s) = [] \<longrightarrow> faults (os s2) = [])"
    proof (cases "bootmode s1 = PIN_2ND_SPINOR")
      case True
      then have e: "s2 = s1\<lparr>os := sys_memerase (fd s1) 0 (1024 * 64) (os s1)\<rparr>" by (simp add: s2_def)
      show ?thesis using erase_result [OF m1 e] True d1 by simp
    next
      case False
      then show ?thesis using m1 d1 by (simp add: s2_def)
    qed
    then have m2: "mounted s2" and b2: "buffer s2 = buffer s1" by simp_all
    have st2: "start_sector s2 = 0" using m2 by (auto elim: mountedE)
    have len: "length (storage s2) = length (storage s)" using s2 by auto
    have big: "512 \<le> length (storage s)" by (rule storage_mounted [OF m])
    let ?b = "take (nat off) (filled (storage s)) @ take (nat sz) buf @ drop (nat off + nat sz) (filled (storage s))"
    have nats: "nat (off + sz) = nat off + nat sz" "nat off + nat sz \<le> 512" "nat sz \<le> length buf"
      using r by linarith+
    have mc: "memcpy (filled (storage s)) off buf 0 sz = Some ?b"
      using r nats by (simp add: memcpy_def BUFFER_SIZE_def)
    have lb: "length ?b = BUFFER_SIZE" using nats by (simp add: BUFFER_SIZE_def)
    have patched: "take (length (storage s)) ?b @ drop BUFFER_SIZE (storage s2)
        = patch (take BUFFER_SIZE (storage s) @ drop BUFFER_SIZE (storage s2)) off (take (nat sz) buf)"
      using stored_patch [of "nat off" "take (nat sz) buf" "storage s" "storage s2"] r nats len big
      by (simp add: BUFFER_SIZE_def min_absorb2)
    show ?thesis
    proof (cases ok)
      case False
      then have "veeprom_write s off buf sz = Some (- 1, s1)"
        using f off se r sector_arith(1) [OF se(1) r(1-3)]
        by (simp add: veeprom_write_def is_parameter_valid_iff write_sectors.simps [of _ _ _ _ _ _ 1])
      with m1 d1 k(3) False show ?thesis by auto
    next
      case True
      obtain ok2 s3 where g: "store_sector (s2\<lparr>buffer := ?b\<rparr>) 0 = (ok2, s3)"
        by (cases "store_sector (s2\<lparr>buffer := ?b\<rparr>) 0")
      from lb have "length ?b \<noteq> 0" by (simp only: BUFFER_SIZE_def)
      then have "?b \<noteq> []" by (simp only: length_0_conv) simp
      with m2 have mm: "mounted (s2\<lparr>buffer := ?b\<rparr>)" "buffer (s2\<lparr>buffer := ?b\<rparr>) \<noteq> []" by simp_all
      note h = store_sector_result [OF mm(1) g mm(2)]
      have "veeprom_write s off buf sz = Some (if ok2 then 0 else - 1, s3)"
        using f True off se r sector_arith(1) [OF se(1) r(1-3)] sector_arith(2) [OF st2 r(1-3) off] mc g
          k(2) [OF True] b2
        by (simp add: veeprom_write_def is_parameter_valid_iff write_sectors.simps [of _ _ _ _ _ _ 1]
            s2_def [symmetric] Let_def)
      with h s2 patched lb len show ?thesis
        by (intro exI [of _ "if ok2 then 0 else - 1"] exI [of _ s3] exI [of _ "storage s2"]) auto
    qed
  qed
qed

end
