(* ===== verification/Veeprom_Store.thy ===== *)
theory Veeprom_Store
  imports Veeprom_Correct
begin

text \<open>
  The region as a byte store: the interface \<open>byte_store\<close> (what a read returns after a write, and
  that disjoint ranges do not disturb each other), the writing of whole sets of fields proved
  once over it, and its interpretation on \<open>veeprom_read\<close> and \<open>veeprom_write\<close>.
\<close>

section \<open>The interface\<close>

text \<open>Two ranges, as (offset, length), that share no byte.\<close>

definition disjoint_ranges :: "int \<times> int \<Rightarrow> int \<times> int \<Rightarrow> bool" where
  "disjoint_ranges r r' \<longleftrightarrow> fst r + snd r \<le> fst r' \<or> fst r' + snd r' \<le> fst r"

lemma disjoint_ranges_sym: "disjoint_ranges r r' = disjoint_ranges r' r"
  by (auto simp: disjoint_ranges_def)

fun pairwise_disjoint :: "(int \<times> int) list \<Rightarrow> bool" where
  "pairwise_disjoint [] = True"
| "pairwise_disjoint (r # rs) \<longleftrightarrow> (\<forall>r' \<in> set rs. disjoint_ranges r r') \<and> pairwise_disjoint rs"

text \<open>A client that stores several fields, one write each, until one fails.\<close>

fun put_fields :: "('s \<Rightarrow> int \<Rightarrow> 'b list \<Rightarrow> 's option) \<Rightarrow> (int \<times> 'b list) list \<Rightarrow> 's \<Rightarrow> 's option" where
  "put_fields wr [] s = Some s"
| "put_fields wr ((off, bs) # fs) s = Option.bind (wr s off bs) (put_fields wr fs)"

definition field_range :: "int \<times> 'b list \<Rightarrow> int \<times> int" where
  "field_range f = (fst f, int (length (snd f)))"

definition in_region :: "int \<Rightarrow> int \<times> int \<Rightarrow> bool" where
  "in_region sz r \<longleftrightarrow> 0 \<le> fst r \<and> 0 \<le> snd r \<and> fst r + snd r \<le> sz"

locale byte_store =
  fixes rd :: "'s \<Rightarrow> int \<Rightarrow> int \<Rightarrow> 'b list option"
    and wr :: "'s \<Rightarrow> int \<Rightarrow> 'b list \<Rightarrow> 's option"
    and ok :: "'s \<Rightarrow> bool"
    and sz :: int
  assumes wr_total: "ok s \<Longrightarrow> in_region sz (field_range (off, bs)) \<Longrightarrow> \<exists>s'. wr s off bs = Some s' \<and> ok s'"
    and rd_same: "ok s \<Longrightarrow> in_region sz (field_range (off, bs)) \<Longrightarrow> wr s off bs = Some s' \<Longrightarrow>
      rd s' off (int (length bs)) = Some bs"
    and rd_other: "ok s \<Longrightarrow> in_region sz (field_range (off, bs)) \<Longrightarrow> wr s off bs = Some s' \<Longrightarrow>
      in_region sz r \<Longrightarrow> disjoint_ranges r (field_range (off, bs)) \<Longrightarrow> rd s' (fst r) (snd r) = rd s (fst r) (snd r)"
begin

lemma put_fields_other: "ok s \<Longrightarrow> \<forall>f\<in>set fs. in_region sz (field_range f) \<Longrightarrow> in_region sz r \<Longrightarrow>
    \<forall>f\<in>set fs. disjoint_ranges r (field_range f) \<Longrightarrow>
    \<exists>s'. put_fields wr fs s = Some s' \<and> ok s' \<and> rd s' (fst r) (snd r) = rd s (fst r) (snd r)"
proof (induction fs arbitrary: s)
  case (Cons f fs)
  obtain off bs where f: "f = (off, bs)" by (cases f)
  with wr_total [of s off bs] Cons.prems obtain s1 where s1: "wr s off bs = Some s1" "ok s1" by auto
  with rd_other [of s off bs s1 r] Cons.prems f have "rd s1 (fst r) (snd r) = rd s (fst r) (snd r)" by auto
  with Cons.IH [of s1] Cons.prems s1 f show ?case by auto
qed simp

lemma put_fields_get: "ok s \<Longrightarrow> \<forall>f\<in>set fs. in_region sz (field_range f) \<Longrightarrow>
    pairwise_disjoint (map field_range fs) \<Longrightarrow>
    \<exists>s'. put_fields wr fs s = Some s' \<and> ok s'
      \<and> (\<forall>(off, bs)\<in>set fs. rd s' off (int (length bs)) = Some bs)"
proof (induction fs arbitrary: s)
  case (Cons f fs)
  obtain off bs where f: "f = (off, bs)" by (cases f)
  with wr_total [of s off bs] Cons.prems obtain s1 where s1: "wr s off bs = Some s1" "ok s1" by auto
  with rd_same [of s off bs s1] Cons.prems f have same: "rd s1 off (int (length bs)) = Some bs" by auto
  from Cons.IH [of s1] Cons.prems s1 obtain s' where s': "put_fields wr fs s1 = Some s'" "ok s'"
    "\<forall>(off, bs)\<in>set fs. rd s' off (int (length bs)) = Some bs" by auto
  from put_fields_other [of s1 fs "field_range f"] Cons.prems s1 s' f
  have "rd s' off (int (length bs)) = rd s1 off (int (length bs))" by (auto simp: field_range_def)
  with same s1 s' f show ?case by auto
qed simp

text \<open>Disjoint writes commute, as far as a reader can tell.\<close>

lemma writes_commute:
  assumes "ok s" "in_region sz (field_range f)" "in_region sz (field_range g)"
    "disjoint_ranges (field_range f) (field_range g)"
  shows "\<exists>s1 s2. put_fields wr [f, g] s = Some s1 \<and> put_fields wr [g, f] s = Some s2 \<and> ok s1 \<and> ok s2
    \<and> (\<forall>h\<in>{f, g}. rd s1 (fst h) (int (length (snd h))) = rd s2 (fst h) (int (length (snd h))))"
proof -
  have d: "pairwise_disjoint (map field_range [f, g])" "pairwise_disjoint (map field_range [g, f])"
    using assms(4) disjoint_ranges_sym [of "field_range g" "field_range f"] by simp_all
  from put_fields_get [OF assms(1) _ d(1)] assms(2,3) obtain s1
    where s1: "put_fields wr [f, g] s = Some s1" "ok s1"
      "\<forall>h\<in>{f, g}. rd s1 (fst h) (int (length (snd h))) = Some (snd h)" by (auto simp: case_prod_beta)
  from put_fields_get [OF assms(1) _ d(2)] assms(2,3) obtain s2
    where s2: "put_fields wr [g, f] s = Some s2" "ok s2"
      "\<forall>h\<in>{f, g}. rd s2 (fst h) (int (length (snd h))) = Some (snd h)" by (auto simp: case_prod_beta)
  show ?thesis using s1 s2 by (simp only: simp_thms ex_simps) auto
qed

end

section \<open>The region is a byte store\<close>

lemma take_drop_patch: "off + length bs \<le> length b \<Longrightarrow>
    take (length bs) (drop off (patch b (int off) bs)) = bs"
  by (simp add: patch_def)

lemma nth_patch: "off + length bs \<le> length b \<Longrightarrow> i < length b \<Longrightarrow>
    patch b (int off) bs ! i = (if off \<le> i \<and> i < off + length bs then bs ! (i - off) else b ! i)"
  using nth_blit [of off "length bs" b 0 bs i] by (simp add: patch_def)

lemma take_drop_patch_other:
  assumes "off + length bs \<le> length b" "p + n \<le> length b" "p + n \<le> off \<or> off + length bs \<le> p"
  shows "take n (drop p (patch b (int off) bs)) = take n (drop p b)"
proof (rule nth_equalityI)
  show "length (take n (drop p (patch b (int off) bs))) = length (take n (drop p b))"
    using assms(1,2) by (simp only: length_take length_drop length_patch nat_int)
  show "take n (drop p (patch b (int off) bs)) ! i = take n (drop p b) ! i"
    if "i < length (take n (drop p (patch b (int off) bs)))" for i
  proof -
    from that have i: "i < n" by simp
    with assms have "p + i < length b" "\<not> (off \<le> p + i \<and> p + i < off + length bs)" by linarith+
    with i assms(1) show ?thesis by (auto simp: nth_patch)
  qed
qed

text \<open>A caller's read of \<open>n\<close> bytes, and a write of a whole byte string.\<close>

definition region_read :: "veeprom \<Rightarrow> int \<Rightarrow> int \<Rightarrow> byte list option" where
  "region_read s off n = (case veeprom_read s off (replicate (nat n) 0) n of
     Some (r, b, s') \<Rightarrow> if r = 0 then Some b else None | None \<Rightarrow> None)"

definition region_write :: "veeprom \<Rightarrow> int \<Rightarrow> byte list \<Rightarrow> veeprom option" where
  "region_write s off bs = (case veeprom_write s off bs (int (length bs)) of
     Some (r, s') \<Rightarrow> if r = 0 then Some s' else None | None \<Rightarrow> None)"

definition healthy :: "veeprom \<Rightarrow> bool" where
  "healthy s \<longleftrightarrow> mounted s \<and> faults (os s) = []"

lemma region_read_storage:
  assumes "healthy s" "in_region 512 (off, n)"
  shows "region_read s off n = Some (take (nat n) (drop (nat off) (storage s)))"
proof -
  have r: "mounted s" "faults (os s) = []" "0 \<le> off" "0 \<le> n" "off + n \<le> 512"
    "n \<le> int (length (replicate (nat n) 0))"
    using assms by (simp_all add: healthy_def in_region_def)
  from read_outcome [OF r(1,3,4,5,6)] r(2) obtain s'
    where "veeprom_read s off (replicate (nat n) 0) n = Some (0,
      take (nat n) (drop (nat off) (storage s)) @ drop (nat n) (replicate (nat n) 0), s')" by blast
  then show ?thesis by (simp add: region_read_def)
qed

lemma region_write_storage:
  assumes "healthy s" "in_region 512 (field_range (off, bs))"
  shows "\<exists>s' d. region_write s off bs = Some s' \<and> healthy s' \<and> length d = length (storage s)
    \<and> take BUFFER_SIZE d = take BUFFER_SIZE (storage s) \<and> storage s' = patch d off bs"
proof -
  have r: "0 \<le> off" "off + int (length bs) \<le> 512" "mounted s" "faults (os s) = []"
    using assms by (simp_all add: in_region_def field_range_def healthy_def)
  from write_outcome_gen [of s off "int (length bs)" bs] r obtain s' e
    where w: "veeprom_write s off bs (int (length bs)) = Some (0, s')" "mounted s'" "faults (os s') = []"
      "e = storage s \<or> e = nor_erased (storage s)"
      "storage s' = patch (take BUFFER_SIZE (storage s) @ drop BUFFER_SIZE e) off bs"
    by auto
  then show ?thesis
    by (intro exI [of _ s'] exI [of _ "take BUFFER_SIZE (storage s) @ drop BUFFER_SIZE e"])
      (auto simp: region_write_def healthy_def)
qed

lemma read_prefix: "take BUFFER_SIZE d = take BUFFER_SIZE b \<Longrightarrow> p + n \<le> BUFFER_SIZE \<Longrightarrow>
    take n (drop p d) = take n (drop p b)"
proof -
  assume d: "take BUFFER_SIZE d = take BUFFER_SIZE b" and n: "p + n \<le> BUFFER_SIZE"
  from n have m: "min n (BUFFER_SIZE - p) = n" by linarith
  from d have "take n (drop p (take BUFFER_SIZE d)) = take n (drop p (take BUFFER_SIZE b))" by simp
  then show ?thesis by (simp add: drop_take m)
qed

interpretation region: byte_store region_read region_write healthy 512
proof
  fix s off and bs :: "byte list" assume a: "healthy s" "in_region 512 (field_range (off, bs))"
  then show "\<exists>s'. region_write s off bs = Some s' \<and> healthy s'"
    using region_write_storage by blast
  fix s' assume w: "region_write s off bs = Some s'"
  obtain d where d: "healthy s'" "length d = length (storage s)"
      "take BUFFER_SIZE d = take BUFFER_SIZE (storage s)" "storage s' = patch d off bs"
    using region_write_storage [OF a] w by auto
  define o' where "o' = nat off"
  have o': "off = int o'" "o' + length bs \<le> 512"
    using a(2) by (auto simp: in_region_def field_range_def o'_def)
  have "mounted s" using a(1) by (simp add: healthy_def)
  with storage_mounted d(2) have big: "512 \<le> length d" by simp
  show "region_read s' off (int (length bs)) = Some bs"
    using region_read_storage [OF d(1), of off "int (length bs)"] a(2) o' big take_drop_patch [of o' bs d]
    by (simp add: field_range_def d(4))
  fix r assume r: "in_region 512 r" "disjoint_ranges r (field_range (off, bs))"
  define p n where "p = nat (fst r)" and "n = nat (snd r)"
  with r(1) have p: "r = (int p, int n)" "p + n \<le> 512"
    by (auto simp: in_region_def prod_eq_iff)
  have "p + n \<le> o' \<or> o' + length bs \<le> p"
    using r(2) p o' by (auto simp: disjoint_ranges_def field_range_def)
  then have "take n (drop p (patch d off bs)) = take n (drop p (storage s))"
    using take_drop_patch_other [of o' bs d p n] read_prefix [OF d(3), of p n] o' p big
    by (simp add: BUFFER_SIZE_def)
  then show "region_read s' (fst r) (snd r) = region_read s (fst r) (snd r)"
    using region_read_storage [OF d(1), of "int p" "int n"] region_read_storage [OF a(1), of "int p" "int n"]
      p r(1) by (simp add: d(4))
qed

section \<open>What the virtual EEPROM guarantees\<close>

text \<open>A concrete eMMC partition of 2048 bytes, open as descriptor 3, and its NOR counterpart.\<close>

definition sample_device :: "nat \<Rightarrow> int \<Rightarrow> veeprom" where
  "sample_device n mode = \<lparr>device_path = ''/dev/mmcblk0p1'', start_sector = 0, end_sector = 0, fd = 3,
     buffer = replicate BUFFER_SIZE 0, bootmode = mode, sync_flag = 0,
     os = \<lparr>board_id = None, boot_mode = None, mtd_dir = None,
       nodes = [''/dev/mmcblk0p1'' \<mapsto> (replicate n 7, n)], ubi_volume = Map.empty,
       fds = [3 \<mapsto> (''/dev/mmcblk0p1'', 0)], new_fd = 4, faults = []\<rparr>\<rparr>"

lemma sample_device_healthy: "512 \<le> n \<Longrightarrow> healthy (sample_device n mode)"
  "512 \<le> n \<Longrightarrow> mounted (sample_device n mode)" "storage (sample_device n mode) = replicate n 7"
  "bootmode (sample_device n mode) = mode" "faults (os (sample_device n mode)) = []"
  by (simp_all add: healthy_def mounted_def storage_def sample_device_def get_boot_mode_def pin_defs)

text \<open>C29: on a mounted eMMC or NOR device a read of a range inside the 512-byte region never leaves
  an array; it either returns 0 with exactly the addressed bytes, or -1 with the caller's array
  untouched, the latter only after a failed system call. The device is never changed.\<close>

theorem veeprom_read_correct:
  assumes "mounted s" "0 \<le> off" "0 \<le> sz" "off + sz \<le> 512" "sz \<le> int (length buf)"
  shows "\<exists>ret buf' s'. veeprom_read s off buf sz = Some (ret, buf', s') \<and> mounted s' \<and> storage s' = storage s
    \<and> (ret = 0 \<and> buf' = take (nat sz) (drop (nat off) (storage s)) @ drop (nat sz) buf
       \<or> ret = - 1 \<and> buf' = buf \<and> faults (os s) \<noteq> [])"
  using read_outcome [OF assms] by (auto simp: same_dev_def)

theorem veeprom_read_correct_witness:
  "\<exists>ret buf' s'. veeprom_read (sample_device 2048 0) 9 (replicate 8 0) 8 = Some (ret, buf', s')
    \<and> (ret = 0 \<and> buf' = take 8 (drop 9 (replicate 2048 7))
       \<or> ret = - 1 \<and> buf' = replicate 8 0 \<and> faults (os (sample_device 2048 0)) \<noteq> [])"
  using veeprom_read_correct [of "sample_device 2048 0" 9 8 "replicate 8 0"]
  by (auto simp: sample_device_healthy)

text \<open>C1: on an open eMMC device (not NAND and not NOR) of at least 512 bytes, a write whose range lies inside the
  512-byte region (offset and size not negative, their sum at most 512) and whose source holds at least size bytes is
  atomic: it returns 0 and the device differs from before exactly in the addressed bytes, or it returns -1
  and the device is unchanged, the latter only after a failed system call; no access leaves a buffer. (A
  negative offset passes the parameter check as well: \<open>veeprom_negative_offset\<close>.)\<close>

theorem veeprom_write_atomic:
  assumes "mounted s" "bootmode s \<noteq> PIN_2ND_SPINOR"
    and "0 \<le> off" "0 \<le> sz" "off + sz \<le> 512" "sz \<le> int (length buf)"
  shows "\<exists>ret s'. veeprom_write s off buf sz = Some (ret, s') \<and> mounted s'
    \<and> (ret = 0 \<and> storage s' = patch (storage s) off (take (nat sz) buf)
       \<or> ret = - 1 \<and> storage s' = storage s \<and> faults (os s) \<noteq> [])"
  using write_outcome_gen [OF assms(1,3-6)] assms(2) by (elim exE) auto

theorem veeprom_write_atomic_witness:
  "\<exists>ret s'. veeprom_write (sample_device 2048 0) 8 [1] 1 = Some (ret, s') \<and> mounted s'
    \<and> (ret = 0 \<and> storage s' = patch (replicate 2048 7) 8 [1]
       \<or> ret = - 1 \<and> storage s' = replicate 2048 7 \<and> faults (os (sample_device 2048 0)) \<noteq> [])"
  using veeprom_write_atomic [of "sample_device 2048 0" 8 1 "[1]"]
  by (simp add: sample_device_healthy pin_defs)

text \<open>the fields of \<open>veeprom.h\<close> are pairwise disjoint and lie inside the 256 bytes that
  \<open>veeprom_format\<close> clears.\<close>

theorem veeprom_layout:
  "pairwise_disjoint VEEPROM_FIELDS \<and> list_all (in_region VEEPROM_MAX_SIZE) VEEPROM_FIELDS"
  by (simp add: VEEPROM_FIELDS_def VEEPROM_BOARD_ID_def VEEPROM_UPDATE_FLAG_def VEEPROM_RESET_REASON_def
      disjoint_ranges_def in_region_def VEEPROM_MAX_SIZE_def)

text \<open>C4: on an open eMMC or NOR device of at least 512 bytes, on which no system call fails, a sequence of writes to
  pairwise disjoint fields that lie inside the 512-byte region succeeds, and afterwards every field reads back
  what was written to it, whatever the order.\<close>

theorem veeprom_fields_roundtrip:
  assumes "healthy s" "list_all (\<lambda>f. in_region 512 (field_range f)) fs" "pairwise_disjoint (map field_range fs)"
  shows "\<exists>s'. put_fields region_write fs s = Some s' \<and> healthy s'
    \<and> list_all (\<lambda>(off, bs). region_read s' off (int (length bs)) = Some bs) fs"
  using region.put_fields_get [of s fs] assms by (auto simp: list_all_iff)

theorem veeprom_fields_roundtrip_witness:
  "\<exists>s'. put_fields region_write [(9, [1, 2, 3]), (8, [4])] (sample_device 2048 0) = Some s' \<and> healthy s'
    \<and> list_all (\<lambda>(off, bs). region_read s' off (int (length bs)) = Some bs) [(9, [1, 2, 3]), (8, [4])]"
  by (rule veeprom_fields_roundtrip)
    (simp_all add: sample_device_healthy in_region_def field_range_def disjoint_ranges_def)

text \<open>writing some fields leaves every other range that is disjoint from them as it reads.\<close>

theorem veeprom_fields_frame:
  assumes "healthy s" "list_all (\<lambda>f. in_region 512 (field_range f)) fs" "in_region 512 r"
    and "list_all (\<lambda>f. disjoint_ranges r (field_range f)) fs"
  shows "\<exists>s'. put_fields region_write fs s = Some s' \<and> healthy s'
    \<and> region_read s' (fst r) (snd r) = region_read s (fst r) (snd r)"
  using region.put_fields_other [of s fs r] assms by (auto simp: list_all_iff)

theorem veeprom_fields_frame_witness:
  "\<exists>s'. put_fields region_write [(9, [1, 2, 3]), (8, [4])] (sample_device 2048 0) = Some s' \<and> healthy s'
    \<and> region_read s' 0 2 = region_read (sample_device 2048 0) 0 2"
  using veeprom_fields_frame [of "sample_device 2048 0" "[(9, [1, 2, 3]), (8, [4])]" VEEPROM_BOARD_ID]
  by (simp add: sample_device_healthy in_region_def field_range_def disjoint_ranges_def VEEPROM_BOARD_ID_def)

text \<open>on a healthy NOR device of at least 64 KiB a write into the region also wipes everything
  between the 2048-byte buffer and the end of the 64 KiB erase block: those bytes read as ones.\<close>

theorem nor_write_wipes_block:
  assumes "healthy s" "bootmode s = PIN_2ND_SPINOR" "65536 \<le> length (storage s)"
    and "0 \<le> off" "off < 512" "off + int (length bs) \<le> 512" "2048 \<le> i" "i < 65536"
  shows "\<exists>s'. veeprom_write s off bs (int (length bs)) = Some (0, s') \<and> storage s' ! i = 255"
proof -
  from assms write_outcome_gen [of s off "int (length bs)" bs] obtain s'
    where w: "veeprom_write s off bs (int (length bs)) = Some (0, s')"
      "storage s' = patch (take BUFFER_SIZE (storage s) @ drop BUFFER_SIZE (nor_erased (storage s))) off bs"
    by (auto simp: healthy_def)
  have n: "nat off + length bs \<le> 512" using assms by linarith
  then have "\<not> (nat off \<le> i \<and> i < nat off + length bs)" using assms(7) by linarith
  then have "storage s' ! i = (take BUFFER_SIZE (storage s) @ drop BUFFER_SIZE (nor_erased (storage s))) ! i"
    using nth_patch [of "nat off" bs _ i] n assms w(2) by (simp add: BUFFER_SIZE_def)
  also have "\<dots> = 255"
    using assms by (simp add: nth_append BUFFER_SIZE_def nor_erased_def min_absorb2)
  finally show ?thesis using w(1) by blast
qed

theorem nor_write_wipes_block_witness:
  "\<exists>s'. veeprom_write (sample_device 65536 5) 8 [1] 1 = Some (0, s') \<and> storage s' ! 4096 = 255"
  using nor_write_wipes_block [of "sample_device 65536 5" 8 "[1]" 4096]
  by (simp add: sample_device_healthy pin_defs)

end
