(* ===== verification/Veeprom_Paths.thy ===== *)
theory Veeprom_Paths
  imports Veeprom_Store
begin

text \<open>
  The remaining paths of the virtual EEPROM: refused and negative requests, clearing and
  formatting, opening the device, and the NAND volume, which is rewritten as a whole.
\<close>

section \<open>Refused and negative requests\<close>

text \<open>a request that ends beyond the region, at an offset that \<open>int\<close> can hold, is refused: read, write and clear return -1 and
  leave the caller's array, the globals and the device as they were.\<close>

theorem veeprom_refuses:
  assumes "get_boot_mode (os s) \<noteq> PIN_2ND_SPINAND" "start_sector s = 0" "end_sector s = 0" "512 < off + sz" "off + sz < 2147483648"
  shows "veeprom_read s off buf sz = Some (- 1, buf, s) \<and> veeprom_write s off buf sz = Some (- 1, s)
    \<and> veeprom_clear heap s off sz = Some (- 1, s)"
  using assms by (simp add: veeprom_read_def veeprom_write_def veeprom_clear_def is_parameter_valid_iff)

theorem veeprom_refuses_witness:
  "veeprom_read (sample_device 2048 0) 500 [] 13 = Some (- 1, [], sample_device 2048 0)
   \<and> veeprom_write (sample_device 2048 0) 500 [] 13 = Some (- 1, sample_device 2048 0)
   \<and> veeprom_clear (\<lambda>_. 0) (sample_device 2048 0) 500 13 = Some (- 1, sample_device 2048 0)"
  by (rule veeprom_refuses) (simp_all add: sample_device_def get_boot_mode_def pin_defs)

lemma sector_arith_negative:
  assumes "start_sector s = 0" "- 512 < off" "off < 0" "0 < sz" "sz \<le> 512"
  shows "sector_span s off sz = (0, 1)"
    and "fst (sector_part s 0 off sz) = off + 4294967296" "snd (sector_part s 0 off sz) > 0"
proof -
  have q: "off sdiv 512 = 0"
    using assms by (simp add: signed_divide_int_def sgn_if)
  have "(off + sz - 1) sdiv 512 = 0"
  proof (cases "0 \<le> off + sz - 1")
    case True
    then show ?thesis using assms by simp
  next
    case False
    then show ?thesis using assms by (simp add: signed_divide_int_def sgn_if)
  qed
  with q show "sector_span s off sz = (0, 1)"
    using assms by (simp add: sector_span_def SECTOR_SIZE_def Let_def)
  have u: "u32 off = off + 4294967296"
  proof -
    have "(off + 4294967296) mod 4294967296 = off mod 4294967296" by (rule mod_add_self2)
    moreover have "(off + 4294967296) mod 4294967296 = off + 4294967296"
      using assms by (intro mod_pos_pos_trivial) auto
    ultimately show ?thesis by (simp only: u32_def)
  qed
  have v: "u32 (512 - (off + 4294967296)) = 512 - off"
  proof -
    have "(512 - (off + 4294967296) + 4294967296) mod 4294967296 = (512 - (off + 4294967296)) mod 4294967296"
      by (rule mod_add_self2)
    moreover have "512 - (off + 4294967296) + 4294967296 = 512 - off" by simp
    moreover have "(512 - off) mod 4294967296 = 512 - off"
      using assms by (intro mod_pos_pos_trivial) auto
    ultimately show ?thesis by (simp only: u32_def)
  qed
  show "fst (sector_part s 0 off sz) = off + 4294967296" "snd (sector_part s 0 off sz) > 0"
    using assms u v by (simp_all add: sector_part_def SECTOR_SIZE_def Let_def)
qed

text \<open>there is no lower bound on the offset: on a healthy device a negative one passes the
  parameter check, and the read then copies from far outside the 2048-byte buffer.\<close>

theorem veeprom_negative_offset:
  assumes "healthy s" "- 512 < off" "off < 0" "0 < sz" "sz \<le> 512"
  shows "is_parameter_valid s off sz = Some True \<and> veeprom_read s off buf sz = None"
proof -
  have se: "start_sector s = 0" "end_sector s = 0" "get_boot_mode (os s) \<noteq> PIN_2ND_SPINAND" "mounted s"
    "faults (os s) = []"
    using assms(1) by (auto simp: healthy_def elim: mountedE)
  obtain ok s1 where f: "fetch_sector s 0 = (ok, s1)" by (cases "fetch_sector s 0")
  note k = fetch_sector_result [OF se(4) f]
  have s1: "start_sector s1 = 0" using k(1) by (auto simp: same_dev_def elim: mountedE)
  obtain c where part: "sector_part s1 0 off sz = (off + 4294967296, c)" "0 < c"
    using sector_arith_negative(2,3) [OF s1 assms(2-5)] by (cases "sector_part s1 0 off sz") auto
  have "memcpy buf 0 (buffer s1) (off + 4294967296) c = None"
    using k(2,3) se(5) part(2) assms(2) by (simp add: memcpy_def BUFFER_SIZE_def)
  then have "read_sectors s buf 0 off sz 0 1 0 = None"
    using f k(3) [OF se(5)] part by (simp add: read_sectors.simps [of _ _ _ _ _ _ 1])
  then show ?thesis
    using se assms sector_arith_negative(1) [OF se(1) assms(2-5)]
    by (simp add: veeprom_read_def is_parameter_valid_iff)
qed

theorem veeprom_negative_offset_witness:
  "is_parameter_valid (sample_device 2048 0) (- 1) 1 = Some True \<and> veeprom_read (sample_device 2048 0) (- 1) [0] 1 = None"
  by (rule veeprom_negative_offset) (simp_all add: sample_device_healthy)

section \<open>Clearing\<close>

lemma clear_outcome:
  assumes m: "mounted s" and r: "0 \<le> off" "0 \<le> sz" "off + sz \<le> 512"
  shows "\<exists>ret s'. veeprom_clear heap s off sz = Some (ret, s') \<and> mounted s' \<and> fd s' = fd s
    \<and> (faults (os s) = [] \<longrightarrow> ret = 0 \<and> faults (os s') = [])
    \<and> (ret = 0 \<and> storage s' = patch (storage s) off (replicate (nat sz) 0)
       \<or> ret = - 1 \<and> storage s' = storage s)"
proof -
  have se: "start_sector s = 0" "end_sector s = 0" "get_boot_mode (os s) \<noteq> PIN_2ND_SPINAND"
    using m by (auto elim: mountedE)
  show ?thesis
  proof (cases "off = 512")
    case True
    with r have "sz = 0" by simp
    with True se r sector_arith [of s off sz] have "veeprom_clear heap s off sz = Some (0, s)"
      by (simp add: veeprom_clear_def is_parameter_valid_iff clear_sectors.simps [of _ _ _ _ 0])
    with \<open>sz = 0\<close> m show ?thesis by auto
  next
    case False
    then have off: "off < 512" using r by simp
    obtain ok s1 where f: "fetch_sector s 0 = (ok, s1)" by (cases "fetch_sector s 0")
    note k = fetch_sector_result [OF m f]
    have m1: "mounted s1" and d1: "storage s1 = storage s" "fd s1 = fd s"
      "faults (os s) = [] \<longrightarrow> faults (os s1) = []" and st1: "start_sector s1 = 0"
      using k(1) by (auto simp: same_dev_def elim: mountedE)
    have big: "512 \<le> length (storage s)" by (rule storage_mounted [OF m])
    let ?z = "replicate (nat sz) 0"
    let ?b = "take (nat off) (filled (storage s)) @ ?z @ drop (nat off + nat sz) (filled (storage s))"
    have nats: "nat (off + sz) = nat off + nat sz" "nat off + nat sz \<le> 512"
      using r by linarith+
    have mc: "memset (filled (storage s)) off 0 sz = Some ?b"
      using r nats by (simp add: memset_def BUFFER_SIZE_def)
    have lb: "length ?b = BUFFER_SIZE" using nats by (simp add: BUFFER_SIZE_def)
    have patched: "take (length (storage s)) ?b @ drop BUFFER_SIZE (storage s) = patch (storage s) off ?z"
      using stored_patch [of "nat off" ?z "storage s" "storage s"] r nats big
      by (simp add: BUFFER_SIZE_def)
    show ?thesis
    proof (cases ok)
      case False
      then have "veeprom_clear heap s off sz = Some (- 1, s1)"
        using f off se r sector_arith(1) [OF se(1) r]
        by (simp add: veeprom_clear_def is_parameter_valid_iff clear_sectors.simps [of _ _ _ _ 1])
      with m1 d1 k(3) False show ?thesis by auto
    next
      case True
      obtain ok2 s3 where g: "store_sector (s1\<lparr>buffer := ?b\<rparr>) 0 = (ok2, s3)"
        by (cases "store_sector (s1\<lparr>buffer := ?b\<rparr>) 0")
      from lb have "length ?b \<noteq> 0" by (simp only: BUFFER_SIZE_def)
      then have "?b \<noteq> []" by (simp only: length_0_conv) simp
      with m1 have mm: "mounted (s1\<lparr>buffer := ?b\<rparr>)" "buffer (s1\<lparr>buffer := ?b\<rparr>) \<noteq> []" by simp_all
      note h = store_sector_result [OF mm(1) g mm(2)]
      have "veeprom_clear heap s off sz = Some (if ok2 then 0 else - 1, s3)"
        using f True off se r sector_arith(1) [OF se(1) r] sector_arith(2) [OF st1 r off] mc g k(2) [OF True]
        by (simp add: veeprom_clear_def is_parameter_valid_iff clear_sectors.simps [of _ _ _ _ 1])
      with h d1 patched lb show ?thesis
        by (intro exI [of _ "if ok2 then 0 else - 1"] exI [of _ s3]) auto
    qed
  qed
qed

text \<open>\<open>veeprom_format\<close> on a mounted eMMC or NOR device zeroes the first 256 bytes and nothing
  else when it returns 0, and changes nothing when it returns -1. It does not depend on the heap.\<close>

theorem veeprom_format_zeroes:
  assumes "mounted s"
  shows "\<exists>ret s'. veeprom_format heap s = Some (ret, s') \<and> mounted s'
    \<and> (ret = 0 \<and> storage s' = replicate 256 0 @ drop 256 (storage s) \<or> ret = - 1 \<and> storage s' = storage s)"
  using clear_outcome [OF assms, of 0 256 heap] by (auto simp: veeprom_format_def patch_def)

theorem veeprom_format_zeroes_witness:
  "\<exists>ret s'. veeprom_format (\<lambda>_. 9) (sample_device 2048 0) = Some (ret, s') \<and> mounted s'
    \<and> (ret = 0 \<and> storage s' = replicate 256 0 @ replicate 1792 7 \<or> ret = - 1 \<and> storage s' = replicate 2048 7)"
  using veeprom_format_zeroes [of "sample_device 2048 0" "\<lambda>_. 9"] by (simp add: sample_device_healthy)

section \<open>The NAND volume\<close>

text \<open>A closed NAND volume with the bytes \<open>b\<close>: its UBI node exists and the file's globals are those
  of a fresh start or of an earlier \<open>veeprom_exit\<close>.\<close>

definition nand_volume :: "veeprom \<Rightarrow> byte list \<Rightarrow> nat \<Rightarrow> bool" where
  "nand_volume s b cap \<longleftrightarrow> get_boot_mode (os s) = PIN_2ND_SPINAND \<and> fd s = - 1 \<and> faults (os s) = []
     \<and> nodes (os s) ubi_path = Some (b, cap) \<and> BUFFER_SIZE \<le> cap
     \<and> (device_path s = [] \<or> device_path s = ubi_path) \<and> 0 \<le> new_fd (os s)"

text \<open>The same volume while it is open at its start.\<close>

definition nand_open :: "veeprom \<Rightarrow> byte list \<Rightarrow> nat \<Rightarrow> bool" where
  "nand_open s b cap \<longleftrightarrow> get_boot_mode (os s) = PIN_2ND_SPINAND \<and> fd s \<noteq> - 1 \<and> faults (os s) = []
     \<and> nodes (os s) ubi_path = Some (b, cap) \<and> BUFFER_SIZE \<le> cap \<and> device_path s = ubi_path
     \<and> fds (os s) (fd s) = Some (ubi_path, 0) \<and> 0 \<le> new_fd (os s)"

lemma nand_init: "nand_volume s b cap \<Longrightarrow> nand_open (snd (veeprom_init s)) b cap \<and> fst (veeprom_init s) = 0
    \<and> buffer (snd (veeprom_init s)) = buffer s"
  by (auto simp: nand_volume_def nand_open_def veeprom_init_def sys_open_def find_device_def ubi_path_def Let_def)

lemma nand_volume_buffer [simp]: "nand_volume (s\<lparr>buffer := x\<rparr>) b cap = nand_volume s b cap"
  by (simp add: nand_volume_def)

lemma nand_fetch: "nand_open s b cap \<Longrightarrow> buffer s = replicate BUFFER_SIZE 0 \<Longrightarrow>
    sys_read (fd s) BUFFER_SIZE (buffer s) (os s) = (int (length (take BUFFER_SIZE b)), filled b,
      (os s)\<lparr>faults := [], fds := (fds (os s))(fd s \<mapsto> (ubi_path, length (take BUFFER_SIZE b)))\<rparr>)"
  by (auto simp: nand_open_def sys_read_def filled_def tick_def min_def)

lemma get_boot_mode_faults [simp]: "get_boot_mode (w\<lparr>faults := x\<rparr>) = get_boot_mode w"
  by (simp add: get_boot_mode_def Let_def split: option.split)

lemma nand_read:
  assumes v: "nand_volume s b cap" and r: "0 \<le> off" "0 \<le> sz" "off + sz \<le> int BUFFER_SIZE" "sz \<le> int (length buf)"
  shows "\<exists>s'. veeprom_read s off buf sz = Some (0, take (nat sz) (drop (nat off) (filled b)) @ drop (nat sz) buf, s')
    \<and> nand_volume s' b cap"
proof -
  let ?s = "snd (veeprom_init (s\<lparr>buffer := replicate BUFFER_SIZE 0\<rparr>))"
  have o: "nand_open ?s b cap" "buffer ?s = replicate BUFFER_SIZE 0"
    using nand_init [of "s\<lparr>buffer := replicate BUFFER_SIZE 0\<rparr>" b cap] v by simp_all
  have mc: "memcpy buf 0 (filled b) off sz = Some (take (nat sz) (drop (nat off) (filled b)) @ drop (nat sz) buf)"
    using r by (simp add: memcpy_def)
  show ?thesis
    using v o mc nand_fetch [OF o]
    by (simp add: veeprom_read_def nand_volume_def Let_def)
      (simp add: nand_open_def veeprom_exit_def sys_close_def)
qed

lemma nand_write:
  assumes v: "nand_volume s b cap" and r: "0 \<le> off" "0 \<le> sz" "off + sz \<le> int BUFFER_SIZE" "sz \<le> int (length buf)"
  shows "\<exists>s'. veeprom_write s off buf sz = Some (0, s')
    \<and> nand_volume s' (patch (filled b) off (take (nat sz) buf)) cap"
proof -
  let ?s = "snd (veeprom_init (s\<lparr>buffer := replicate BUFFER_SIZE 0\<rparr>))"
  have o: "nand_open ?s b cap" "buffer ?s = replicate BUFFER_SIZE 0"
    using nand_init [of "s\<lparr>buffer := replicate BUFFER_SIZE 0\<rparr>" b cap] v by simp_all
  have n: "nat (off + sz) = nat off + nat sz" "nat sz \<le> length buf" "nat off + nat sz \<le> BUFFER_SIZE"
    using r by linarith+
  let ?p = "patch (filled b) off (take (nat sz) buf)"
  have mc: "memcpy (filled b) off buf 0 sz = Some ?p"
    using r n by (simp add: memcpy_def patch_def min_absorb2)
  have lp: "length ?p = BUFFER_SIZE" using n by (simp add: min_absorb2)
  then have ne: "?p \<noteq> []" by (auto simp: BUFFER_SIZE_def)
  have cap: "take cap ?p = ?p" "0 < cap" using v lp by (simp_all add: nand_volume_def BUFFER_SIZE_def)
  show ?thesis
    using v o mc nand_fetch [OF o] ne lp cap
    by (simp add: veeprom_write_def nand_volume_def Let_def)
      (simp add: nand_open_def veeprom_exit_def sys_close_def sys_ubi_update_def sys_write_def Let_def)
qed

lemma patch_filled: "0 \<le> off \<Longrightarrow> nat off + length bs \<le> BUFFER_SIZE \<Longrightarrow>
    filled (patch (filled b) off bs) = patch (filled b) off bs"
  by (simp add: filled_def [of "patch _ _ _"])

text \<open>on NAND a write inside the 2048-byte buffer is followed by reads that return the written
  bytes, also after the device was closed in between: both calls open and close it themselves.\<close>

theorem nand_roundtrip:
  assumes "nand_volume s b cap" "0 \<le> off" "off + int (length bs) \<le> 2048" "length buf = length bs"
  shows "\<exists>s1 s2. veeprom_write s off bs (int (length bs)) = Some (0, s1)
    \<and> veeprom_read s1 off buf (int (length bs)) = Some (0, bs, s2) \<and> fd s1 = - 1 \<and> fd s2 = - 1"
proof -
  have r: "off + int (length bs) \<le> int BUFFER_SIZE" using assms(3) by (simp add: BUFFER_SIZE_def)
  then have n: "nat off + length bs \<le> BUFFER_SIZE" using assms(2) by linarith
  obtain s1 where s1: "veeprom_write s off bs (int (length bs)) = Some (0, s1)"
    "nand_volume s1 (patch (filled b) off bs) cap"
    using nand_write [OF assms(1,2) _ r, of bs] by auto
  obtain s2 where s2: "veeprom_read s1 off buf (int (length bs)) = Some (0,
      take (length bs) (drop (nat off) (patch (filled b) off bs)), s2)"
    "nand_volume s2 (patch (filled b) off bs) cap"
    using nand_read [OF s1(2) assms(2) _ r, of buf] assms(4) patch_filled [OF assms(2) n] by auto
  have "take (length bs) (drop (nat off) (patch (filled b) off bs)) = bs"
    using take_drop_patch [of "nat off" bs "filled b"] assms(2) n by simp
  with s1 s2 show ?thesis by (auto simp: nand_volume_def)
qed

text \<open>A fresh start on a NAND board whose volume holds 2048 bytes.\<close>

definition sample_nand :: veeprom where
  "sample_nand = veeprom_globals \<lparr>board_id = Some [], boot_mode = Some [49], mtd_dir = None,
     nodes = [''/dev/ubi10_0'' \<mapsto> (replicate 2048 7, 4096)], ubi_volume = Map.empty,
     fds = Map.empty, new_fd = 3, faults = []\<rparr>"

lemma sample_nand_volume: "nand_volume sample_nand (replicate 2048 7) 4096"
  by (simp add: nand_volume_def sample_nand_def veeprom_globals_def get_boot_mode_def cmd_buf_def
      pin_defs ubi_path_def BUFFER_SIZE_def Let_def)

theorem nand_roundtrip_witness:
  "\<exists>s1 s2. veeprom_write sample_nand 9 [1, 2] 2 = Some (0, s1)
    \<and> veeprom_read s1 9 [0, 0] 2 = Some (0, [1, 2], s2) \<and> fd s1 = - 1 \<and> fd s2 = - 1"
  using nand_roundtrip [OF sample_nand_volume, of 9 "[1, 2]" "[0, 0]"] by simp

text \<open>on NAND \<open>veeprom_format\<close> does not clear the region: only \<open>sizeof\<close> a pointer bytes of its
  \<open>malloc\<close>ed array are zeroed, so bytes 8 to 255 of the volume become what the heap held.\<close>

theorem nand_format_writes_heap:
  assumes "nand_volume s b cap" "8 \<le> i" "i < 256"
  shows "\<exists>s1 b'. veeprom_format heap s = Some (0, s1) \<and> nand_volume s1 b' cap \<and> b' ! i = heap i"
proof -
  define n where "n = (256 :: nat)"
  define h where "h = replicate 8 0 @ drop 8 (map heap [0..<n])"
  have h: "length h = 256" "h ! i = heap i"
    using assms(2,3) by (simp_all add: h_def nth_append) (simp_all add: n_def)
  have ms: "memset (map heap [0..<nat 256]) 0 0 8 = Some h"
    by (simp add: memset_def h_def n_def [symmetric]) (simp add: n_def)
  obtain s1 where s1: "veeprom_write s 0 h 256 = Some (0, s1)" "nand_volume s1 (patch (filled b) 0 h) cap"
    using nand_write [OF assms(1), of 0 256 h] h(1) by (auto simp: BUFFER_SIZE_def)
  have "get_boot_mode (os s) = PIN_2ND_SPINAND" using assms(1) by (simp add: nand_volume_def)
  with s1(1) have "veeprom_format heap s = Some (0, s1)"
    unfolding veeprom_format_def veeprom_clear_def ms by simp
  moreover have "patch (filled b) 0 h ! i = heap i"
    using assms(3) h by (simp add: patch_def nth_append)
  ultimately show ?thesis using s1(2) by blast
qed

theorem nand_format_writes_heap_witness:
  "\<exists>s1 b'. veeprom_format (\<lambda>_. 90) sample_nand = Some (0, s1) \<and> nand_volume s1 b' 4096 \<and> b' ! 9 = 90"
  using nand_format_writes_heap [OF sample_nand_volume, of 9 "\<lambda>_. 90"] by simp

end
