(* ===== verification/Ota_Tool.thy ===== *)
theory Ota_Tool
  imports Veeprom_Store
begin

unbundle bit_operations_syntax

text \<open>
  The command \<open>ota_tool\<close> (\<open>Application/ota/ota_tool/ota_tool.c\<close>) over the virtual EEPROM: it gets
  and sets the update flag and the reset reason. Local arrays are byte lists whose initial
  contents (the stack) are a parameter; \<open>None\<close> is an access outside one of them. What the
  tool prints on standard output is returned.
\<close>

section \<open>C strings in arrays\<close>

text \<open>\<open>strcmp(a, b) == 0\<close>, reading both arrays up to the first difference.\<close>

fun strcmp_eq :: "byte list \<Rightarrow> byte list \<Rightarrow> bool option" where
  "strcmp_eq (a # as) (b # bs) = (if a \<noteq> b then Some False else if a = 0 then Some True else strcmp_eq as bs)"
| "strcmp_eq _ _ = None"

text \<open>\<open>strcpy(dst, src)\<close> of a text.\<close>

definition strcpy :: "byte list \<Rightarrow> byte list \<Rightarrow> byte list option" where
  "strcpy dst src = (if length src < length dst then Some (src @ 0 # drop (Suc (length src)) dst) else None)"

text \<open>\<open>atoi\<close> on a text that starts with a digit or has no number; an overflow is undefined.\<close>

definition atoi_digits :: "byte list \<Rightarrow> int option" where
  "atoi_digits b = (let v = foldl (\<lambda>v c. 10 * v + (uint c - 48)) 0 (takeWhile (\<lambda>c. 48 \<le> uint c \<and> uint c \<le> 57) b)
     in if v \<le> 2147483647 then Some v else None)"

section \<open>The update flag\<close>

datatype printed = Flag int | Reason "byte list"

text \<open>\<open>updateflag_get\<close>: the result, what it prints, the state; \<open>flag\<close> is the uninitialised byte.\<close>

definition updateflag_get :: "byte \<Rightarrow> veeprom \<Rightarrow> (int \<times> printed list \<times> veeprom) option" where
  "updateflag_get flag s = do {
     (ret, b, s1) \<leftarrow> veeprom_read s (fst VEEPROM_UPDATE_FLAG) [flag] (snd VEEPROM_UPDATE_FLAG);
     if ret < 0 then Some (- 1, [], veeprom_exit s1)
     else Some (0, [Flag (sint (hd b))], s1) }"

text \<open>\<open>updateflag_set(flag)\<close> on an array that holds a C string.\<close>

definition updateflag_set :: "byte \<Rightarrow> byte list \<Rightarrow> veeprom \<Rightarrow> (int \<times> veeprom) option" where
  "updateflag_set read_flag flag s = do {
     msg \<leftarrow> string_at flag;
     if parameter_check msg \<noteq> 0 then Some (- 1, veeprom_exit s)
     else do {
       n \<leftarrow> atoi_digits msg;
       let set_flag = word_of_int n;
       (ret, s1) \<leftarrow> veeprom_write s (fst VEEPROM_UPDATE_FLAG) [set_flag] (snd VEEPROM_UPDATE_FLAG);
       if ret < 0 then Some (- 1, veeprom_exit s1)
       else do {
         (ret, b, s2) \<leftarrow> veeprom_read s1 (fst VEEPROM_UPDATE_FLAG) [read_flag] (snd VEEPROM_UPDATE_FLAG);
         if ret < 0 then Some (- 1, veeprom_exit s2)
         else if set_flag \<noteq> hd b then Some (- 1, veeprom_exit s2)
         else Some (0, s2) } } }"

section \<open>The reset reason\<close>

definition reset_reasons :: "byte list list" where
  "reset_reasons = map bytes_of [''normal'', ''recovery'', ''uboot'', ''boot'', ''system'', ''all'']"

text \<open>\<open>strcpy\<close> into \<open>buffer[64]\<close>, then the comparisons.\<close>

definition resetreason_para_check :: "byte list \<Rightarrow> int option" where
  "resetreason_para_check para = do {
     msg \<leftarrow> string_at para;
     buffer \<leftarrow> strcpy (replicate 64 0) msg;
     msg' \<leftarrow> string_at buffer;
     Some (if msg' \<in> set reset_reasons then 0 else - 1) }"

text \<open>\<open>stack\<close> is what \<open>buffer[32]\<close> holds before the read.\<close>

definition resetreason_read :: "byte list \<Rightarrow> veeprom \<Rightarrow> (int \<times> printed list \<times> veeprom) option" where
  "resetreason_read stack s = do {
     (ret, buffer, s1) \<leftarrow> veeprom_read s (fst VEEPROM_RESET_REASON) stack (snd VEEPROM_RESET_REASON);
     if ret < 0 then Some (- 1, [], s1)
     else do { msg \<leftarrow> string_at buffer; Some (0, [Reason msg], s1) } }"

definition resetreason_write :: "byte list \<Rightarrow> byte list \<Rightarrow> veeprom \<Rightarrow> (int \<times> veeprom) option" where
  "resetreason_write stack para s = do {
     c \<leftarrow> resetreason_para_check para;
     if c < 0 then Some (- 1, s)
     else do {
       (ret, s1) \<leftarrow> veeprom_write s (fst VEEPROM_RESET_REASON) para (snd VEEPROM_RESET_REASON);
       if ret < 0 then Some (- 1, s1)
       else do {
         (ret, buffer, s2) \<leftarrow> veeprom_read s1 (fst VEEPROM_RESET_REASON) stack (snd VEEPROM_RESET_REASON);
         if ret < 0 then Some (- 1, s2)
         else do {
           eq \<leftarrow> strcmp_eq buffer para;
           Some (if eq then 0 else - 1, s2) } } } }"

section \<open>main\<close>

text \<open>What \<open>getopt_long\<close> returns, one call after another; \<open>-s\<close> comes with its argument. \<open>-h\<close> and
  unknown options match no case.\<close>

datatype opt = Opt_u | Opt_r | Opt_s "byte list" | Opt_g | Opt_other

fun parse_options :: "opt list \<Rightarrow> int \<Rightarrow> byte list \<Rightarrow> (int \<times> byte list) option" where
  "parse_options [] function_index para = Some (function_index, para)"
| "parse_options (o1 # rest) function_index para = (case o1 of
     Opt_u \<Rightarrow> parse_options rest (function_index OR 0x00) para
   | Opt_r \<Rightarrow> parse_options rest (function_index OR 0x10) para
   | Opt_s optarg \<Rightarrow> do { p \<leftarrow> strcpy para optarg; parse_options rest (function_index OR 0x01) p }
   | Opt_g \<Rightarrow> parse_options rest (function_index OR 0x00) para
   | Opt_other \<Rightarrow> parse_options rest function_index para)"

text \<open>The result is the exit status, the output and the final state; \<open>stack\<close> is the contents of
  \<open>para[32]\<close>, \<open>stack'\<close> that of the 32 bytes the callee uses for its own buffer.\<close>

definition ota_main :: "byte list \<Rightarrow> byte list \<Rightarrow> int \<Rightarrow> opt list \<Rightarrow> veeprom \<Rightarrow> (int \<times> printed list \<times> veeprom) option" where
  "ota_main stack stack' argc opts s =
     (let (r, s1) = veeprom_init s in
      if r < 0 then Some (- 1, [], s1)
      else if argc < 2 then Some (- 1, [], s1)
      else do {
        (function_index, para) \<leftarrow> parse_options opts 0x00 stack;
        (out, s2) \<leftarrow>
          (if function_index = 0x00 then do { (r, out, t) \<leftarrow> updateflag_get (hd stack') s1; Some (out, t) }
           else if function_index = 0x01 then do { (r, t) \<leftarrow> updateflag_set (hd stack') para s1; Some ([], t) }
           else if function_index = 0x10 then do { (r, out, t) \<leftarrow> resetreason_read stack' s1; Some (out, t) }
           else if function_index = 0x11 then do { (r, t) \<leftarrow> resetreason_write stack' para s1; Some ([], t) }
           else Some ([], s1));
        Some (0, out, veeprom_exit s2) })"

section \<open>On a healthy device\<close>

lemma healthy_read:
  assumes "healthy s" "0 \<le> off" "0 \<le> n" "off + n \<le> 512" "n \<le> int (length buf)"
  shows "\<exists>s'. veeprom_read s off buf n = Some (0, take (nat n) (drop (nat off) (storage s)) @ drop (nat n) buf, s')
    \<and> healthy s' \<and> storage s' = storage s"
proof -
  have "mounted s" "faults (os s) = []" using assms(1) by (simp_all add: healthy_def)
  with read_outcome [OF this(1) assms(2-5)] show ?thesis
    unfolding healthy_def same_dev_def by blast
qed

lemma healthy_write:
  assumes "healthy s" "0 \<le> off" "0 \<le> n" "off + n \<le> 512" "n \<le> int (length buf)"
  shows "\<exists>s' d. veeprom_write s off buf n = Some (0, s') \<and> healthy s' \<and> length d = length (storage s)
    \<and> take BUFFER_SIZE d = take BUFFER_SIZE (storage s) \<and> storage s' = patch d off (take (nat n) buf)
    \<and> take (nat n) (drop (nat off) (storage s')) = take (nat n) buf"
proof -
  have m: "mounted s" "faults (os s) = []" using assms(1) by (simp_all add: healthy_def)
  obtain s' e where w: "veeprom_write s off buf n = Some (0, s')" "mounted s'" "faults (os s') = []"
      "e = storage s \<or> e = nor_erased (storage s)"
      "storage s' = patch (take BUFFER_SIZE (storage s) @ drop BUFFER_SIZE e) off (take (nat n) buf)"
    using write_outcome_gen [OF m(1) assms(2-5)] m(2) by auto
  let ?d = "take BUFFER_SIZE (storage s) @ drop BUFFER_SIZE e"
  have len: "length ?d = length (storage s)" "take BUFFER_SIZE ?d = take BUFFER_SIZE (storage s)"
    using w(4) by auto
  have nats: "nat off + nat n \<le> 512" "nat n \<le> length buf" using assms by linarith+
  then have "length (take (nat n) buf) = nat n" by simp
  note nats = nats this
  have "nat off + length (take (nat n) buf) \<le> length ?d"
    using storage_mounted [OF m(1)] nats(1,3) len by linarith
  from take_drop_patch [OF this] have "take (nat n) (drop (nat off) (storage s')) = take (nat n) buf"
    using w(5) nats(3) assms(2) by simp
  with w len show ?thesis unfolding healthy_def by blast
qed

lemma take_1_eq: "take (nat 1) b = [x] \<Longrightarrow> b \<noteq> [] \<and> hd b = x"
  by (cases b) auto

lemma updateflag_set_result:
  assumes "healthy s" "string_at flag = Some msg" "parameter_check msg = 0" "atoi_digits msg = Some n"
  shows "\<exists>s1. updateflag_set x flag s = Some (0, s1) \<and> healthy s1
    \<and> take 1 (drop 8 (storage s1)) = [word_of_int n]"
proof -
  obtain s1 where s1: "veeprom_write s 8 [word_of_int n] 1 = Some (0, s1)" "healthy s1"
    "take (nat 1) (drop (nat 8) (storage s1)) = take (nat 1) [word_of_int n]"
    using healthy_write [OF assms(1), of 8 1 "[word_of_int n]"] by auto
  then have one: "take 1 (drop 8 (storage s1)) = [word_of_int n]" by simp
  obtain s2 where s2: "veeprom_read s1 8 [x] 1 = Some (0, [word_of_int n], s2)" "healthy s2"
      "storage s2 = storage s1"
    using healthy_read [OF s1(2), of 8 1 "[x]"] one by auto
  have "updateflag_set x flag s = Some (0, s2)"
    using assms s1(1) s2(1) by (simp add: updateflag_set_def VEEPROM_UPDATE_FLAG_def Let_def)
  with s2(2,3) one show ?thesis by simp
qed

text \<open>C36: on an open eMMC or NOR device on which no system call fails, \<open>updateflag_set\<close> with a text that
  passes \<open>parameter_check\<close> and whose value \<open>n\<close> under \<open>atoi\<close> fits an \<open>int\<close> returns 0, and \<open>updateflag_get\<close> then
  prints \<open>n\<close> cut to a signed \<open>char\<close>: 0 to 127 as they are, 200 as -56.\<close>

theorem updateflag_roundtrip:
  assumes "healthy s" "string_at flag = Some msg" "parameter_check msg = 0" "atoi_digits msg = Some n"
  shows "\<exists>s1 s2. updateflag_set x flag s = Some (0, s1)
    \<and> updateflag_get y s1 = Some (0, [Flag (sint (word_of_int n :: byte))], s2)"
proof -
  obtain s1 where s1: "updateflag_set x flag s = Some (0, s1)" "healthy s1"
    "take 1 (drop 8 (storage s1)) = [word_of_int n]"
    using updateflag_set_result [OF assms] by blast
  obtain s2 where "veeprom_read s1 8 [y] 1 = Some (0, [word_of_int n], s2)"
    using healthy_read [OF s1(2), of 8 1 "[y]"] s1(3) by auto
  with s1(1) show ?thesis by (simp add: updateflag_get_def VEEPROM_UPDATE_FLAG_def)
qed

theorem updateflag_roundtrip_witness:
  "\<exists>s1 s2. updateflag_set 0 [50, 48, 48, 0, 9] (sample_device 2048 0) = Some (0, s1)
    \<and> updateflag_get 0 s1 = Some (0, [Flag (- 56)], s2)"
  using updateflag_roundtrip [of "sample_device 2048 0" "[50, 48, 48, 0, 9]" "[50, 48, 48]" 200 0 0]
  by (simp add: sample_device_healthy atoi_digits_def)

text \<open>\<open>parameter_check\<close> lets every character from '0' to 'f' pass, but \<open>atoi\<close> stops at the
  first one that is no digit: setting the flag to such a letter succeeds and clears the flag.\<close>

theorem updateflag_letter_clears:
  assumes "healthy s" "58 \<le> uint c" "uint c \<le> 102"
  shows "\<exists>s1. updateflag_set x [c, 0] s = Some (0, s1) \<and> take 1 (drop 8 (storage s1)) = [0]"
proof -
  have "c \<noteq> 0" using assms(2) by auto
  then have "string_at [c, 0] = Some [c]" "parameter_check [c] = 0" "atoi_digits [c] = Some 0"
    using assms(2,3) by (simp_all add: atoi_digits_def)
  from updateflag_set_result [OF assms(1) this] show ?thesis by auto
qed

theorem updateflag_letter_clears_witness:
  "\<exists>s1. updateflag_set 0 [102, 0] (sample_device 2048 0) = Some (0, s1) \<and> take 1 (drop 8 (storage s1)) = [0]"
  by (rule updateflag_letter_clears) (simp_all add: sample_device_healthy)

lemma strcmp_eq_append: "0 \<notin> set msg \<Longrightarrow> strcmp_eq (msg @ a # as) (msg @ 0 # bs) = Some (a = 0)"
  by (induction msg) auto

lemma reset_reasons_short: "msg \<in> set reset_reasons \<Longrightarrow>
    length msg \<le> 8 \<and> (length msg = 8 \<longleftrightarrow> msg = bytes_of ''recovery'')"
  by (auto simp: reset_reasons_def bytes_of_def)

lemma para_check_ok: "string_at para = Some msg \<Longrightarrow> msg \<in> set reset_reasons \<Longrightarrow> resetreason_para_check para = Some 0"
  using reset_reasons_short [of msg] string_at_Some [of para msg]
  by (auto simp: resetreason_para_check_def strcpy_def string_at_append)

text \<open>What \<open>resetreason_write\<close> leaves behind for an accepted reason.\<close>

lemma resetreason_write_result:
  assumes "healthy s" "length stack = 32" "length para = 32" "string_at para = Some msg" "msg \<in> set reset_reasons"
  shows "\<exists>s1. resetreason_write stack para s =
      Some (if length msg = 8 \<and> stack ! 8 \<noteq> 0 then - 1 else 0, s1) \<and> healthy s1
    \<and> take 8 (drop 9 (storage s1)) = take 8 para"
proof -
  obtain s1 where s1: "veeprom_write s 9 para 8 = Some (0, s1)" "healthy s1"
    "take (nat 8) (drop (nat 9) (storage s1)) = take (nat 8) para"
    using healthy_write [OF assms(1), of 9 8 para] assms(3) by auto
  then have st: "take 8 (drop 9 (storage s1)) = take 8 para" by simp
  obtain s2 where s2: "veeprom_read s1 9 stack 8 = Some (0, take 8 para @ drop 8 stack, s2)" "healthy s2"
    "storage s2 = storage s1"
    using healthy_read [OF s1(2), of 9 8 stack] assms(2) st by auto
  obtain r where r: "para = msg @ 0 # r" "0 \<notin> set msg" using string_at_Some [OF assms(4)] by auto
  have cmp: "strcmp_eq (take 8 para @ drop 8 stack) para = Some (length msg = 8 \<longrightarrow> stack ! 8 = 0)"
  proof (cases "length msg = 8")
    case True
    then have e: "take 8 para @ drop 8 stack = msg @ stack ! 8 # drop 9 stack"
      using r(1) assms(2) by (simp add: Cons_nth_drop_Suc [symmetric])
    show ?thesis unfolding e using strcmp_eq_append [OF r(2)] True by (simp add: r(1))
  next
    case False
    with reset_reasons_short [OF assms(5)] have "length msg < 8" by simp
    then obtain k where k: "8 - length msg = Suc k" "length msg \<le> 8" by (metis Suc_diff_Suc less_imp_le)
    then have e: "take 8 para @ drop 8 stack = msg @ 0 # (take k r @ drop 8 stack)"
      using r(1) by simp
    show ?thesis unfolding e using strcmp_eq_append [OF r(2)] False by (simp add: r(1))
  qed
  have "resetreason_write stack para s = Some (if length msg = 8 \<and> stack ! 8 \<noteq> 0 then - 1 else 0, s2)"
    using para_check_ok [OF assms(4,5)] s1(1) s2(1) cmp
    by (simp add: resetreason_write_def VEEPROM_RESET_REASON_def)
  with s2(2,3) st show ?thesis by auto
qed

text \<open>a reset reason other than "recovery" is stored, verified and read back as it was given.\<close>

theorem resetreason_roundtrip:
  assumes "healthy s" "length stack = 32" "length stack' = 32" "length para = 32"
    and "string_at para = Some msg" "msg \<in> set reset_reasons" "msg \<noteq> bytes_of ''recovery''"
  shows "\<exists>s1 s2. resetreason_write stack para s = Some (0, s1) \<and> resetreason_read stack' s1 = Some (0, [Reason msg], s2)"
proof -
  have short: "length msg < 8" using reset_reasons_short [OF assms(6)] assms(7) by auto
  then obtain s1 where s1: "resetreason_write stack para s = Some (0, s1)" "healthy s1"
    "take 8 (drop 9 (storage s1)) = take 8 para"
    using resetreason_write_result [OF assms(1,2,4,5,6)] by auto
  obtain s2 where s2: "veeprom_read s1 9 stack' 8 = Some (0, take 8 para @ drop 8 stack', s2)"
    using healthy_read [OF s1(2), of 9 8 stack'] assms(3) s1(3) by auto
  obtain r where r: "para = msg @ 0 # r" "0 \<notin> set msg" using string_at_Some [OF assms(5)] by auto
  obtain k where k: "8 - length msg = Suc k" using short by (metis Suc_diff_Suc)
  then have "take 8 para @ drop 8 stack' = msg @ 0 # (take k r @ drop 8 stack')"
    using r(1) short by simp
  then have "string_at (take 8 para @ drop 8 stack') = Some msg"
    using string_at_append [OF r(2), of "take k r @ drop 8 stack'"] by simp
  with s1(1) s2 show ?thesis by (simp add: resetreason_read_def VEEPROM_RESET_REASON_def)
qed

definition sample_para :: "string \<Rightarrow> byte list" where
  "sample_para s = bytes_of s @ 0 # replicate (31 - length s) 255"

theorem resetreason_roundtrip_witness:
  "\<exists>s1 s2. resetreason_write (replicate 32 1) (sample_para ''normal'') (sample_device 2048 0) = Some (0, s1)
    \<and> resetreason_read (replicate 32 1) s1 = Some (0, [Reason (bytes_of ''normal'')], s2)"
  by (rule resetreason_roundtrip)
    (simp_all add: sample_device_healthy sample_para_def bytes_of_def reset_reasons_def)

text \<open>the reason "recovery" fills its field, so it is stored without a terminating zero: the
  verification compares with whatever \<open>buffer[8]\<close> held on the stack, and unless that happens to be 0
  \<open>resetreason_write\<close> reports a failure although the eight bytes were stored.\<close>

theorem resetreason_recovery:
  assumes "healthy s" "length stack = 32" "length para = 32" "string_at para = Some (bytes_of ''recovery'')"
  shows "\<exists>s1. resetreason_write stack para s = Some (if stack ! 8 = 0 then 0 else - 1, s1)
    \<and> take 8 (drop 9 (storage s1)) = bytes_of ''recovery''"
proof -
  have t: "bytes_of ''recovery'' \<in> set reset_reasons" "length (bytes_of ''recovery'') = 8"
    by (simp_all add: reset_reasons_def bytes_of_def)
  obtain r where r: "para = bytes_of ''recovery'' @ 0 # r" using string_at_Some [OF assms(4)] by auto
  have "take 8 para = bytes_of ''recovery''" unfolding r using t(2) by simp
  with resetreason_write_result [OF assms t(1)] t(2) show ?thesis by auto
qed

theorem resetreason_recovery_witness:
  "\<exists>s1. resetreason_write (replicate 32 1) (sample_para ''recovery'') (sample_device 2048 0) = Some (- 1, s1)
    \<and> take 8 (drop 9 (storage s1)) = bytes_of ''recovery''"
  using resetreason_recovery [of "sample_device 2048 0" "replicate 32 1" "sample_para ''recovery''"]
  by (simp add: sample_device_healthy sample_para_def bytes_of_def)

section \<open>The command line\<close>

lemma strcpy_length: "strcpy dst src = Some p \<Longrightarrow> length p = length dst"
  by (auto simp: strcpy_def split: if_splits)

lemma parse_options_overflow: "length para = 32 \<Longrightarrow> 32 \<le> length arg \<Longrightarrow>
    parse_options (opts @ Opt_s arg # rest) i para = None"
proof (induction opts arbitrary: i para)
  case Nil
  then show ?case by (simp add: strcpy_def)
next
  case (Cons o1 opts)
  have "Option.bind (strcpy para a) (parse_options (opts @ Opt_s arg # rest) (i OR 1)) = None" for a
    using Cons strcpy_length [of para a] by (cases "strcpy para a") auto
  with Cons show ?case by (cases o1) auto
qed

text \<open>once the device opened, an argument of \<open>-s\<close> of 32 or more characters overflows \<open>para[32]\<close>,
  wherever it stands on the command line.\<close>

theorem ota_main_overflow:
  assumes "fst (veeprom_init s) = 0" "2 \<le> argc" "length stack = 32" "32 \<le> length arg"
  shows "ota_main stack stack' argc (opts @ Opt_s arg # rest) s = None"
  using assms parse_options_overflow [OF assms(3,4)]
  by (simp add: ota_main_def case_prod_beta Let_def)

text \<open>A board that finds its partition at the path it already knows.\<close>

definition sample_board :: veeprom where
  "sample_board = (sample_device 2048 0)\<lparr>fd := - 1, os := (os (sample_device 2048 0))\<lparr>fds := Map.empty\<rparr>\<rparr>"

theorem ota_main_overflow_witness:
  "ota_main (replicate 32 0) (replicate 32 0) 2 [Opt_r, Opt_s (replicate 40 65)] sample_board = None"
  using ota_main_overflow [of sample_board 2 "replicate 32 0" "replicate 40 65" "replicate 32 0" "[Opt_r]" "[]"]
  by (simp add: sample_board_def sample_device_def veeprom_init_def sys_open_def)

end
