(* ===== verification/Global_Fifo.thy ===== *)
theory Global_Fifo
  imports Prelude
begin

unbundle bit_operations_syntax

text \<open>
  The character device \<open>process_schedule/fork/globalfifo.c\<close>: a 4096-byte queue behind a misc
  device, with blocking reads and writes. A call of \<open>globalfifo_read\<close> or \<open>globalfifo_write\<close> is a
  sequence of steps of one task, so that calls of several tasks can interleave; one step is the
  code between two points where another task can observe the device.

  The kernel underneath is modelled by what its documentation says: a mutex and a wait queue must be initialised
  before they are used; a mutex has an owner, \<open>mutex_lock\<close> waits until there is none, and only the owner may
  call \<open>mutex_unlock\<close>; a wait queue is a list of tasks, and waking it makes those among them that sleep
  runnable. A wait entry is on the stack of its task: once the call has returned, whoever walks or
  changes the list touches dead memory. Each misuse is \<open>Oops\<close>. Whether a user copy faults and whether a
  signal is pending is a choice of the environment.
\<close>

definition GLOBALFIFO_SIZE :: nat where "GLOBALFIFO_SIZE = 4096"
definition FIFO_CLEAR :: nat where "FIFO_CLEAR = 1"

text \<open>The error codes of the kernel.\<close>

definition EAGAIN :: int where "EAGAIN = 11"
definition ENOMEM :: int where "ENOMEM = 12"
definition EFAULT :: int where "EFAULT = 14"
definition EINVAL :: int where "EINVAL = 22"
definition ERESTARTSYS :: int where "ERESTARTSYS = 512"

section \<open>struct globalfifo_dev\<close>

text \<open>\<open>initialised\<close> says that \<open>mutex_init\<close> and \<open>init_waitqueue_head\<close> were called; \<open>dead_entry\<close>, that \<open>r_wait\<close> holds
  the entry of a call that has returned; \<open>asleep\<close> is the scheduler's set of tasks in \<open>TASK_INTERRUPTIBLE\<close>; \<open>sigio\<close>
  counts the \<open>SIGIO\<close> signals sent.\<close>

record globalfifo_dev =
  current_len :: nat
  mem :: "byte list"
  mutex :: "nat option"
  r_wait :: "nat list"
  w_wait :: "nat list"
  async_queue :: "nat list"
  initialised :: bool
  dead_entry :: bool
  asleep :: "nat list"
  sigio :: nat

definition mutex_unlock :: "globalfifo_dev \<Rightarrow> globalfifo_dev" where
  "mutex_unlock d = d\<lparr>mutex := None\<rparr>"

text \<open>What \<open>mutex_unlock\<close> and the operations on \<open>r_wait\<close> need.\<close>

definition owns_mutex :: "nat \<Rightarrow> globalfifo_dev \<Rightarrow> bool" where
  "owns_mutex t d \<longleftrightarrow> initialised d \<and> mutex d = Some t"

definition r_wait_ok :: "globalfifo_dev \<Rightarrow> bool" where
  "r_wait_ok d \<longleftrightarrow> initialised d \<and> \<not> dead_entry d"

definition mutex_lock :: "nat \<Rightarrow> globalfifo_dev \<Rightarrow> globalfifo_dev option" where
  "mutex_lock t d = (if mutex d = None then Some (d\<lparr>mutex := Some t\<rparr>) else None)"

definition wake_up :: "nat list \<Rightarrow> globalfifo_dev \<Rightarrow> globalfifo_dev" where
  "wake_up q d = d\<lparr>asleep := filter (\<lambda>t. t \<notin> set q) (asleep d)\<rparr>"

definition set_running :: "nat \<Rightarrow> globalfifo_dev \<Rightarrow> globalfifo_dev" where
  "set_running t d = d\<lparr>asleep := removeAll t (asleep d)\<rparr>"

text \<open>\<open>memcpy(mem, mem + c, n)\<close>: undefined when the ranges overlap or leave the array.\<close>

definition copy_down :: "byte list \<Rightarrow> nat \<Rightarrow> nat \<Rightarrow> byte list option" where
  "copy_down m c n = (if (n \<noteq> 0 \<and> c < n) \<or> length m < c + n then None else Some (take n (drop c m) @ drop n m))"

section \<open>A call in progress\<close>

datatype pc = Start | Queue | Test | Set_State | Drop_Lock | Schedule | Relock | Clamp | Copy | Shift
  | Publish | Out | Out2 | Return | Oops

record call =
  at :: pc
  count :: nat
  nonblock :: bool
  buf :: "byte list"
  ret :: int

datatype choice = Go | Signal | Fault

text \<open>One step of \<open>globalfifo_read\<close> by task \<open>t\<close>; \<open>None\<close> when it cannot go on now (or has returned).
  \<open>Oops\<close> is undefined behaviour: a mutex or list that was not initialised, a mutex unlocked by a task that does
  not own it, a dead wait entry, overlapping ranges, a length that wrapped around. On success the call returns
  without \<open>remove_wait_queue\<close>.\<close>

definition globalfifo_read :: "nat \<Rightarrow> choice \<Rightarrow> call \<Rightarrow> globalfifo_dev \<Rightarrow> (call \<times> globalfifo_dev) option" where
  "globalfifo_read t ch c d = (case at c of
     Start \<Rightarrow> if r_wait_ok d then Some (c\<lparr>at := Test\<rparr>, d\<lparr>r_wait := t # r_wait d\<rparr>)
              else Some (c\<lparr>at := Oops\<rparr>, d)
   | Test \<Rightarrow> if current_len d = 0 then
               (if nonblock c then Some (c\<lparr>ret := - EAGAIN, at := Out\<rparr>, d) else Some (c\<lparr>at := Set_State\<rparr>, d))
             else Some (c\<lparr>at := Clamp\<rparr>, d)
   | Set_State \<Rightarrow> Some (c\<lparr>at := Drop_Lock\<rparr>, d\<lparr>asleep := t # asleep d\<rparr>)
   | Drop_Lock \<Rightarrow> if owns_mutex t d then Some (c\<lparr>at := Schedule\<rparr>, mutex_unlock d) else Some (c\<lparr>at := Oops\<rparr>, d)
   | Schedule \<Rightarrow> if ch = Signal then Some (c\<lparr>ret := - ERESTARTSYS, at := Out2\<rparr>, set_running t d)
                 else if t \<in> set (asleep d) then None
                 else Some (c\<lparr>at := Relock\<rparr>, d)
   | Relock \<Rightarrow> map_option (\<lambda>d'. (c\<lparr>at := Test\<rparr>, d')) (mutex_lock t d)
   | Clamp \<Rightarrow> Some (c\<lparr>count := (if count c > current_len d then current_len d else count c), at := Copy\<rparr>, d)
   | Copy \<Rightarrow> if ch = Fault then Some (c\<lparr>ret := - EFAULT, at := Out\<rparr>, d)
             else Some (c\<lparr>buf := take (count c) (mem d), at := Shift\<rparr>, d)
   | Shift \<Rightarrow> if current_len d < count c then Some (c\<lparr>at := Oops\<rparr>, d)
              else (case copy_down (mem d) (count c) (current_len d - count c) of
                None \<Rightarrow> Some (c\<lparr>at := Oops\<rparr>, d)
              | Some m \<Rightarrow> Some (c\<lparr>ret := int (count c), at := Return\<rparr>,
                  (wake_up (w_wait d) (d\<lparr>mem := m, current_len := current_len d - count c\<rparr>))\<lparr>dead_entry := True\<rparr>))
   | Out \<Rightarrow> if owns_mutex t d then Some (c\<lparr>at := Out2\<rparr>, mutex_unlock d) else Some (c\<lparr>at := Oops\<rparr>, d)
   | Out2 \<Rightarrow> if r_wait_ok d then Some (c\<lparr>at := Return\<rparr>, set_running t (d\<lparr>r_wait := remove1 t (r_wait d)\<rparr>))
             else Some (c\<lparr>at := Oops\<rparr>, d)
   | _ \<Rightarrow> None)"

text \<open>One step of \<open>globalfifo_write\<close>. A copy that would run over the end of \<open>mem\<close> is \<open>Oops\<close> too.\<close>

definition globalfifo_write :: "nat \<Rightarrow> choice \<Rightarrow> call \<Rightarrow> globalfifo_dev \<Rightarrow> (call \<times> globalfifo_dev) option" where
  "globalfifo_write t ch c d = (case at c of
     Start \<Rightarrow> if initialised d then map_option (\<lambda>d'. (c\<lparr>at := Queue\<rparr>, d')) (mutex_lock t d)
              else Some (c\<lparr>at := Oops\<rparr>, d)
   | Queue \<Rightarrow> Some (c\<lparr>at := Test\<rparr>, d\<lparr>w_wait := t # w_wait d\<rparr>)
   | Test \<Rightarrow> if current_len d = GLOBALFIFO_SIZE then
               (if nonblock c then Some (c\<lparr>ret := - EAGAIN, at := Out\<rparr>, d) else Some (c\<lparr>at := Set_State\<rparr>, d))
             else Some (c\<lparr>at := Clamp\<rparr>, d)
   | Set_State \<Rightarrow> Some (c\<lparr>at := Drop_Lock\<rparr>, d\<lparr>asleep := t # asleep d\<rparr>)
   | Drop_Lock \<Rightarrow> if owns_mutex t d then Some (c\<lparr>at := Schedule\<rparr>, mutex_unlock d) else Some (c\<lparr>at := Oops\<rparr>, d)
   | Schedule \<Rightarrow> if ch = Signal then Some (c\<lparr>ret := - ERESTARTSYS, at := Out2\<rparr>, set_running t d)
                 else if t \<in> set (asleep d) then None
                 else Some (c\<lparr>at := Relock\<rparr>, d)
   | Relock \<Rightarrow> map_option (\<lambda>d'. (c\<lparr>at := Test\<rparr>, d')) (mutex_lock t d)
   | Clamp \<Rightarrow> Some (c\<lparr>count := (if count c > GLOBALFIFO_SIZE - current_len d
                                then GLOBALFIFO_SIZE - current_len d else count c), at := Copy\<rparr>, d)
   | Copy \<Rightarrow> if ch = Fault then Some (c\<lparr>ret := - EFAULT, at := Out\<rparr>, d)
             else if length (mem d) < current_len d + count c then Some (c\<lparr>at := Oops\<rparr>, d)
             else Some (c\<lparr>at := Publish\<rparr>, d\<lparr>mem := take (current_len d) (mem d) @ take (count c) (buf c)
                            @ drop (current_len d + count c) (mem d)\<rparr>)
   | Publish \<Rightarrow> if r_wait_ok d then
                  Some (c\<lparr>ret := int (count c), at := Out\<rparr>,
                    (let d1 = wake_up (r_wait d) (d\<lparr>current_len := current_len d + count c\<rparr>) in
                     if async_queue d1 \<noteq> [] then d1\<lparr>sigio := sigio d1 + 1\<rparr> else d1))
                else Some (c\<lparr>at := Oops\<rparr>, d)
   | Out \<Rightarrow> if owns_mutex t d then Some (c\<lparr>at := Out2\<rparr>, mutex_unlock d) else Some (c\<lparr>at := Oops\<rparr>, d)
   | Out2 \<Rightarrow> Some (c\<lparr>at := Return\<rparr>, set_running t (d\<lparr>w_wait := remove1 t (w_wait d)\<rparr>))
   | _ \<Rightarrow> None)"

section \<open>The other operations\<close>

definition globalfifo_open :: int where "globalfifo_open = 0"

text \<open>The poll bits: readable is \<open>POLL_IN | POLLRDNORM\<close>, where \<open>POLL_IN\<close> is the \<open>SIGIO\<close> code 1 and
  not \<open>POLLIN\<close> (they happen to agree); writable is \<open>POLLOUT | POLLWRNORM\<close>. \<open>None\<close> when it does not return: it
  waits for the mutex, or uses what is not initialised or a dead wait entry.\<close>

definition globalfifo_poll :: "globalfifo_dev \<Rightarrow> nat option" where
  "globalfifo_poll d = (if mutex d \<noteq> None \<or> \<not> r_wait_ok d then None
     else Some ((if current_len d \<noteq> 0 then 0x01 OR 0x40 else 0)
       OR (if current_len d \<noteq> GLOBALFIFO_SIZE then 0x04 OR 0x100 else 0)))"

definition globalfifo_ioctl :: "nat \<Rightarrow> globalfifo_dev \<Rightarrow> (int \<times> globalfifo_dev) option" where
  "globalfifo_ioctl cmd d = (if cmd = FIFO_CLEAR then
       (if mutex d \<noteq> None \<or> \<not> initialised d then None
        else Some (0, d\<lparr>current_len := 0, mem := replicate GLOBALFIFO_SIZE 0\<rparr>))
     else Some (- EINVAL, d))"

text \<open>\<open>fasync_helper\<close> adds the file to the queue or removes it; its result is a parameter.\<close>

definition globalfifo_fasync :: "(nat \<Rightarrow> int \<Rightarrow> nat list \<Rightarrow> int \<times> nat list) \<Rightarrow> nat \<Rightarrow> int \<Rightarrow> globalfifo_dev
    \<Rightarrow> int \<times> globalfifo_dev" where
  "globalfifo_fasync fasync_helper filp mode d =
     (let (r, q) = fasync_helper filp mode (async_queue d) in (r, d\<lparr>async_queue := q\<rparr>))"

text \<open>\<open>globalfifo_release\<close> has no return statement: what it returns is a parameter.\<close>

definition globalfifo_release :: "(nat \<Rightarrow> int \<Rightarrow> nat list \<Rightarrow> int \<times> nat list) \<Rightarrow> int \<Rightarrow> nat \<Rightarrow> globalfifo_dev
    \<Rightarrow> int \<times> globalfifo_dev" where
  "globalfifo_release fasync_helper garbage filp d = (garbage, snd (globalfifo_fasync fasync_helper filp 0 d))"

text \<open>\<open>globalfifo_probe\<close>: whether \<open>devm_kzalloc\<close> gave memory and what \<open>misc_register\<close> returned are
  parameters. No \<open>mutex_init\<close> and no \<open>init_waitqueue_head\<close> is called.\<close>

definition globalfifo_probe :: "bool \<Rightarrow> int \<Rightarrow> int \<times> globalfifo_dev option" where
  "globalfifo_probe allocated registered =
     (if \<not> allocated then (- ENOMEM, None)
      else let gl = \<lparr>current_len = 0, mem = replicate GLOBALFIFO_SIZE 0, mutex = None, r_wait = [], w_wait = [],
             async_queue = [], initialised = False, dead_entry = False, asleep = [], sigio = 0\<rparr>
           in if registered < 0 then (registered, None) else (0, Some gl))"

text \<open>\<open>globalfifo_remove\<close> takes the device away.\<close>

definition globalfifo_remove :: "globalfifo_dev option \<Rightarrow> int \<times> globalfifo_dev option" where
  "globalfifo_remove gl = (0, None)"

section \<open>Runs\<close>

text \<open>A task is a reader or a writer in the middle of a call.\<close>

datatype task = Reader call | Writer call

fun task_step :: "nat \<Rightarrow> choice \<Rightarrow> task \<Rightarrow> globalfifo_dev \<Rightarrow> (task \<times> globalfifo_dev) option" where
  "task_step t ch (Reader c) d = map_option (\<lambda>(c', d'). (Reader c', d')) (globalfifo_read t ch c d)"
| "task_step t ch (Writer c) d = map_option (\<lambda>(c', d'). (Writer c', d')) (globalfifo_write t ch c d)"

text \<open>A schedule names the task that makes the next step and the environment's choice for it.\<close>

fun run :: "(nat \<times> choice) list \<Rightarrow> task list \<Rightarrow> globalfifo_dev \<Rightarrow> (task list \<times> globalfifo_dev) option" where
  "run [] ts d = Some (ts, d)"
| "run ((t, ch) # sched) ts d = (if t < length ts then
      (case task_step t ch (ts ! t) d of None \<Rightarrow> None | Some (k, d') \<Rightarrow> run sched (ts[t := k]) d')
     else None)"

definition read_call :: "nat \<Rightarrow> bool \<Rightarrow> call" where
  "read_call n nb = \<lparr>at = Start, count = n, nonblock = nb, buf = [], ret = 0\<rparr>"

definition write_call :: "byte list \<Rightarrow> bool \<Rightarrow> call" where
  "write_call bs nb = \<lparr>at = Start, count = length bs, nonblock = nb, buf = bs, ret = 0\<rparr>"

text \<open>A call that runs alone, to its end or until it blocks.\<close>

fun alone_read :: "nat \<Rightarrow> nat \<Rightarrow> call \<Rightarrow> globalfifo_dev \<Rightarrow> call \<times> globalfifo_dev" where
  "alone_read 0 t c d = (c, d)"
| "alone_read (Suc k) t c d = (case globalfifo_read t Go c d of None \<Rightarrow> (c, d) | Some (c', d') \<Rightarrow> alone_read k t c' d')"

fun alone_write :: "nat \<Rightarrow> nat \<Rightarrow> call \<Rightarrow> globalfifo_dev \<Rightarrow> call \<times> globalfifo_dev" where
  "alone_write 0 t c d = (c, d)"
| "alone_write (Suc k) t c d = (case globalfifo_write t Go c d of None \<Rightarrow> (c, d) | Some (c', d') \<Rightarrow> alone_write k t c' d')"

end
