(* ===== verification/Global_Fifo_Correct.thy ===== *)
theory Global_Fifo_Correct
  imports Global_Fifo
begin

text \<open>
  What globalfifo guarantees and what it does not. The device that \<open>globalfifo_probe\<close> registers can serve no call.
  On a device that something else has initialised, writes are a correct bounded append, also when any number of
  tasks write at once; a read works at most once, and only in the way that \<open>fifo_read_outcome\<close> describes.
\<close>

section \<open>The device that is registered\<close>

lemmas handler_defs = globalfifo_read_def globalfifo_write_def mutex_lock_def mutex_unlock_def
  wake_up_def set_running_def owns_mutex_def r_wait_ok_def

text \<open>A call that has not begun, or that has run into undefined behaviour.\<close>

definition no_service :: "task \<Rightarrow> bool" where
  "no_service k \<longleftrightarrow> (case k of Reader c \<Rightarrow> at c = Start \<or> at c = Oops | Writer c \<Rightarrow> at c = Start \<or> at c = Oops)"

lemma task_step_uninitialised: "no_service k \<Longrightarrow> \<not> initialised d \<Longrightarrow> task_step t ch k d = Some (k', d') \<Longrightarrow>
    no_service k' \<and> d' = d"
  by (cases k) (auto simp: no_service_def handler_defs)

lemma run_uninitialised: "\<forall>k\<in>set ts. no_service k \<Longrightarrow> \<not> initialised d \<Longrightarrow> run sched ts d = Some (ts', d') \<Longrightarrow>
    (\<forall>k\<in>set ts'. no_service k) \<and> d' = d"
proof (induction sched ts d rule: run.induct)
  case (2 t ch sched ts d)
  from 2(4) have t: "t < length ts" by (simp split: if_splits)
  with 2(4) obtain k d1 where k: "task_step t ch (ts ! t) d = Some (k, d1)" "run sched (ts[t := k]) d1 = Some (ts', d')"
    by (auto split: option.splits)
  from 2(2) t have "no_service (ts ! t)" by simp
  from task_step_uninitialised [OF this 2(3) k(1)] have s: "no_service k" "d1 = d" by simp_all
  have "\<forall>k\<in>set (ts[t := k]). no_service k" using 2(2) s(1) set_update_subset_insert [of ts t k] by auto
  from 2(1) [OF t k(1) refl this] s(2) 2(3) k(2) show ?case by simp
qed simp



section \<open>A device that was initialised by other means\<close>

definition contents :: "globalfifo_dev \<Rightarrow> byte list" where
  "contents d = take (current_len d) (mem d)"

definition idle_dev :: "globalfifo_dev \<Rightarrow> bool" where
  "idle_dev d \<longleftrightarrow> length (mem d) = GLOBALFIFO_SIZE \<and> current_len d \<le> GLOBALFIFO_SIZE
     \<and> mutex d = None \<and> r_wait_ok d"

definition ready_dev :: "byte list \<Rightarrow> globalfifo_dev" where
  "ready_dev m = \<lparr>current_len = 0, mem = m, mutex = None, r_wait = [], w_wait = [], async_queue = [],
     initialised = True, dead_entry = False, asleep = [], sigio = 0\<rparr>"

lemma ready_dev_idle: "length m = GLOBALFIFO_SIZE \<Longrightarrow> idle_dev (ready_dev m)" "contents (ready_dev m) = []"
  by (simp_all add: ready_dev_def idle_dev_def contents_def r_wait_ok_def)

text \<open>a read that runs alone is defined exactly when the device holds something and the bytes that stay behind are
  no more than those that are taken (otherwise the mutex is unlocked by a task that does not own it, or the
  ranges of \<open>memcpy\<close> overlap). Then it returns the oldest bytes, keeps the rest in order, and leaves its wait entry behind.\<close>

theorem fifo_read_outcome:
  assumes "idle_dev d"
  shows "\<exists>c d'. alone_read 6 t (read_call n nb) d = (c, d') \<and>
    (if current_len d \<noteq> 0 \<and> current_len d \<le> 2 * min n (current_len d)
     then at c = Return \<and> ret c = int (min n (current_len d)) \<and> buf c = take n (contents d)
       \<and> contents d' = drop n (contents d) \<and> dead_entry d'
     else at c = Oops)"
  using assms
  by (cases nb; cases "n \<le> current_len d")
    (auto simp: eval_nat_numeral handler_defs read_call_def idle_dev_def contents_def copy_down_def min_def drop_take)

theorem fifo_read_outcome_witness:
  "\<exists>c d'. alone_read 6 1 (read_call 2 False) ((ready_dev (5 # replicate 4095 0))\<lparr>current_len := 1\<rparr>) = (c, d')
    \<and> at c = Return \<and> ret c = 1 \<and> buf c = [5] \<and> contents d' = [] \<and> dead_entry d'"
  using fifo_read_outcome [of "(ready_dev (5 # replicate 4095 0))\<lparr>current_len := 1\<rparr>" 1 2 False]
  by (simp add: ready_dev_def idle_dev_def contents_def GLOBALFIFO_SIZE_def r_wait_ok_def)

text \<open>after a read that succeeded, every further read, every poll, and every write that finds room touches the wait entry
  that the read left in \<open>r_wait\<close>, on a stack frame that is gone.\<close>

theorem after_read_oops:
  assumes "dead_entry d" "mutex d = None" "length (mem d) = GLOBALFIFO_SIZE" "current_len d < GLOBALFIFO_SIZE"
  shows "(\<exists>c d'. alone_read 1 t (read_call n nb) d = (c, d') \<and> at c = Oops)
    \<and> (\<exists>c d'. alone_write 6 t (write_call bs nb) d = (c, d') \<and> at c = Oops) \<and> globalfifo_poll d = None"
  using assms
  by (cases "initialised d")
    (auto simp: eval_nat_numeral handler_defs read_call_def write_call_def globalfifo_poll_def)

theorem after_read_oops_witness:
  "globalfifo_poll ((ready_dev (replicate 4096 0))\<lparr>dead_entry := True\<rparr>) = None"
  using after_read_oops [of "(ready_dev (replicate 4096 0))\<lparr>dead_entry := True\<rparr>"]
  by (simp add: ready_dev_def GLOBALFIFO_SIZE_def)

text \<open>two readers that meet: both clamp their count to the one byte that is there, both receive
  it, and the second \<open>memcpy\<close> runs with a length that wrapped around.\<close>

theorem two_readers_oops:
  "\<exists>r1 r2 d. run (map (\<lambda>t. (t, Go)) [0, 0, 0, 1, 1, 1, 0, 1, 0, 1]) [Reader (read_call 1 False), Reader (read_call 1 False)]
      ((ready_dev (x # replicate 4095 0))\<lparr>current_len := 1\<rparr>)
    = Some ([Reader r1, Reader r2], d) \<and> buf r1 = [x] \<and> buf r2 = [x] \<and> at r1 = Return \<and> at r2 = Oops"
  by (simp add: handler_defs ready_dev_def read_call_def copy_down_def)

section \<open>Writers\<close>

text \<open>Any number of tasks that write, each making its calls one after another; the log collects what was accepted,
  in the order in which the length is updated.\<close>

inductive writers :: "globalfifo_dev \<Rightarrow> call list \<Rightarrow> byte list \<Rightarrow> globalfifo_dev \<Rightarrow> bool" for d0 where
  init: "\<forall>c\<in>set ws. \<exists>bs nb. c = write_call bs nb \<Longrightarrow> writers d0 ws [] d0"
| step: "writers d0 ws log d \<Longrightarrow> t < length ws \<Longrightarrow> globalfifo_write t ch (ws ! t) d = Some (c, d') \<Longrightarrow>
    writers d0 (ws[t := c]) (if at (ws ! t) = Publish then log @ take (count (ws ! t)) (buf (ws ! t)) else log) d'"
| again: "writers d0 ws log d \<Longrightarrow> t < length ws \<Longrightarrow> at (ws ! t) = Return \<Longrightarrow> writers d0 (ws[t := write_call bs nb]) log d"

text \<open>What holds of task \<open>t\<close> in the call \<open>c\<close>: it owns the mutex in the critical part, and from the test for room on its
  count fits.\<close>

definition critical :: "pc \<Rightarrow> bool" where
  "critical p \<longleftrightarrow> p \<in> {Queue, Test, Set_State, Drop_Lock, Clamp, Copy, Publish, Out}"

lemma critical_simps [simp]: "critical Queue" "critical Test" "critical Set_State" "critical Drop_Lock" "critical Clamp"
  "critical Copy" "critical Publish" "critical Out" "\<not> critical Start" "\<not> critical Schedule" "\<not> critical Relock"
  "\<not> critical Out2" "\<not> critical Return" "\<not> critical Oops" "\<not> critical Shift"
  by (simp_all add: critical_def)

definition writer_ok :: "globalfifo_dev \<Rightarrow> nat \<Rightarrow> call \<Rightarrow> bool" where
  "writer_ok d t c \<longleftrightarrow> at c \<noteq> Oops \<and> at c \<noteq> Shift \<and> count c \<le> length (buf c)
     \<and> (critical (at c) \<longrightarrow> mutex d = Some t)
     \<and> (at c = Copy \<or> at c = Publish \<longrightarrow> current_len d + count c \<le> GLOBALFIFO_SIZE)
     \<and> (at c = Publish \<longrightarrow> take (count c) (drop (current_len d) (mem d)) = take (count c) (buf c))"

definition dev_ok :: "globalfifo_dev \<Rightarrow> bool" where
  "dev_ok d \<longleftrightarrow> length (mem d) = GLOBALFIFO_SIZE \<and> current_len d \<le> GLOBALFIFO_SIZE \<and> r_wait_ok d"

text \<open>What one step does to the device: the mutex, the bytes, the length.\<close>

lemma writer_step_self:
  assumes "writer_ok d t c" "dev_ok d" "globalfifo_write t ch c d = Some (c', d')"
  shows "writer_ok d' t c' \<and> dev_ok d'"
proof (cases "at c")
  case Copy
  with assms show ?thesis
    by (cases "ch = Fault") (auto simp: writer_ok_def dev_ok_def handler_defs)
next
  case Publish
  with assms show ?thesis
    by (cases "async_queue d = []") (auto simp: writer_ok_def dev_ok_def handler_defs)
qed (use assms in \<open>auto simp: writer_ok_def dev_ok_def handler_defs split: if_splits\<close>)

lemma writer_step_other:
  assumes "writer_ok d t c" "globalfifo_write t ch c d = Some (c', d')" "writer_ok d u k" "u \<noteq> t"
  shows "writer_ok d' u k"
proof (cases "critical (at c)")
  case True
  with assms have "\<not> critical (at k)" by (auto simp: writer_ok_def)
  with assms(3) show ?thesis by (auto simp: writer_ok_def)
next
  case False
  with assms show ?thesis
    by (cases "at c") (auto simp: writer_ok_def handler_defs split: if_splits)
qed

lemma writer_step_contents:
  assumes "writer_ok d t c" "dev_ok d" "globalfifo_write t ch c d = Some (c', d')"
  shows "contents d' = contents d @ (if at c = Publish then take (count c) (buf c) else [])"
proof (cases "at c")
  case Publish
  with assms have "mem d' = mem d" "current_len d' = current_len d + count c"
    by (auto simp: dev_ok_def handler_defs Let_def split: if_splits)
  with assms(1) Publish show ?thesis by (simp add: contents_def take_add writer_ok_def)
next
  case Copy
  with assms show ?thesis
    by (cases "ch = Fault") (auto simp: writer_ok_def dev_ok_def contents_def handler_defs)
qed (use assms in \<open>auto simp: writer_ok_def contents_def handler_defs split: if_splits\<close>)

lemma writer_ok_start: "writer_ok d t (write_call bs nb)"
  by (simp add: writer_ok_def write_call_def)

lemma writers_invariant:
  assumes "writers d0 ws log d" "idle_dev d0"
  shows "dev_ok d \<and> (\<forall>u<length ws. writer_ok d u (ws ! u)) \<and> contents d = contents d0 @ log"
  using assms
proof (induction rule: writers.induct)
  case (init ws)
  have "\<forall>u<length ws. \<exists>bs nb. ws ! u = write_call bs nb" using init(1) nth_mem by blast
  then have "\<forall>u<length ws. writer_ok d0 u (ws ! u)" using writer_ok_start by metis
  with init(2) show ?case by (simp add: idle_dev_def dev_ok_def)
next
  case (step ws log d t ch c d')
  then have ok: "dev_ok d" "writer_ok d t (ws ! t)" "\<forall>u<length ws. writer_ok d u (ws ! u)"
    "contents d = contents d0 @ log" by auto
  note self = writer_step_self [OF ok(2,1) step(3)]
  have "writer_ok d' u (ws[t := c] ! u)" if "u < length ws" for u
    using self writer_step_other [OF ok(2) step(3)] ok(3) that by (cases "u = t") auto
  with self writer_step_contents [OF ok(2,1) step(3)] ok(4) show ?case by simp
next
  case (again ws log d t bs nb)
  then show ?case using writer_ok_start by (simp add: nth_list_update)
qed


text \<open>A schedule of writers that meet no fault and no signal.\<close>

fun write_run :: "nat list \<Rightarrow> call list \<Rightarrow> byte list \<Rightarrow> globalfifo_dev \<Rightarrow> (call list \<times> byte list \<times> globalfifo_dev) option" where
  "write_run [] ws log d = Some (ws, log, d)"
| "write_run (t # ts) ws log d = (if t < length ws then
      (case globalfifo_write t Go (ws ! t) d of None \<Rightarrow> None
       | Some (c, d') \<Rightarrow> write_run ts (ws[t := c])
           (if at (ws ! t) = Publish then log @ take (count (ws ! t)) (buf (ws ! t)) else log) d')
     else None)"

lemma write_run_writers: "writers d0 ws log d \<Longrightarrow> write_run ts ws log d = Some (ws', log', d') \<Longrightarrow> writers d0 ws' log' d'"
proof (induction ts arbitrary: ws log d)
  case (Cons t ts)
  then have t: "t < length ws" by (simp split: if_splits)
  with Cons.prems(2) obtain c d1 where c: "globalfifo_write t Go (ws ! t) d = Some (c, d1)" by (auto split: option.splits)
  with t Cons.prems(2) have "write_run ts (ws[t := c])
      (if at (ws ! t) = Publish then log @ take (count (ws ! t)) (buf (ws ! t)) else log) d1 = Some (ws', log', d')" by simp
  with Cons.IH [OF writers.step [OF Cons.prems(1) t c]] show ?case by blast
qed simp


end
