(* ===== verification/Sem_Prodcons.thy ===== *)
theory Sem_Prodcons
  imports Prelude
begin

text \<open>
  The producer and the consumer of \<open>Application/ipc/sem/sem.c\<close>: two threads that share ten cells
  and three named semaphores. A step is one semaphore operation or one access to the cells. No other
  process uses the semaphores while the threads run, but they may exist from an earlier run that did not come to
  its end: \<open>sem_open\<close> with \<open>O_CREAT\<close> and without \<open>O_EXCL\<close> gives its value only to a semaphore that does not exist yet.
\<close>

definition NBUFF :: nat where "NBUFF = 10"

section \<open>The shared state and the two threads\<close>

datatype at = Wait_Count | Wait_Mutex | Access | Post_Mutex | Post_Count | Returned

record shared =
  buf :: "int list"
  mutex :: nat
  nempty :: nat
  nstored :: nat
  p_at :: at
  p_i :: nat
  c_at :: at
  c_i :: nat
  printed :: "(int \<times> int) list" \<comment> \<open>what \<open>consume\<close> prints: index and value\<close>

text \<open>The head of the \<open>for\<close> loops.\<close>

definition loop_test :: "nat \<Rightarrow> nat \<Rightarrow> at" where
  "loop_test nitems i = (if i < nitems then Wait_Count else Returned)"

definition produce :: "nat \<Rightarrow> shared \<Rightarrow> shared option" where
  "produce nitems s = (case p_at s of
     Wait_Count \<Rightarrow> if nempty s = 0 then None else Some (s\<lparr>nempty := nempty s - 1, p_at := Wait_Mutex\<rparr>)
   | Wait_Mutex \<Rightarrow> if mutex s = 0 then None else Some (s\<lparr>mutex := mutex s - 1, p_at := Access\<rparr>)
   | Access \<Rightarrow> Some (s\<lparr>buf := (buf s)[p_i s mod NBUFF := int (p_i s)], p_at := Post_Mutex\<rparr>)
   | Post_Mutex \<Rightarrow> Some (s\<lparr>mutex := mutex s + 1, p_at := Post_Count\<rparr>)
   | Post_Count \<Rightarrow> Some (s\<lparr>nstored := nstored s + 1, p_i := p_i s + 1, p_at := loop_test nitems (p_i s + 1)\<rparr>)
   | Returned \<Rightarrow> None)"

definition consume :: "nat \<Rightarrow> shared \<Rightarrow> shared option" where
  "consume nitems s = (case c_at s of
     Wait_Count \<Rightarrow> if nstored s = 0 then None else Some (s\<lparr>nstored := nstored s - 1, c_at := Wait_Mutex\<rparr>)
   | Wait_Mutex \<Rightarrow> if mutex s = 0 then None else Some (s\<lparr>mutex := mutex s - 1, c_at := Access\<rparr>)
   | Access \<Rightarrow> Some (s\<lparr>printed := printed s @ [(int (c_i s), buf s ! (c_i s mod NBUFF))], c_at := Post_Mutex\<rparr>)
   | Post_Mutex \<Rightarrow> Some (s\<lparr>mutex := mutex s + 1, c_at := Post_Count\<rparr>)
   | Post_Count \<Rightarrow> Some (s\<lparr>nempty := nempty s + 1, c_i := c_i s + 1, c_at := loop_test nitems (c_i s + 1)\<rparr>)
   | Returned \<Rightarrow> None)"

text \<open>\<open>main\<close> up to the creation of the threads; the static cells are zero.\<close>

definition prodcons :: "nat \<Rightarrow> nat \<Rightarrow> nat \<Rightarrow> nat \<Rightarrow> shared" where
  "prodcons nitems m e st = \<lparr>buf = replicate NBUFF 0, mutex = m, nempty = e, nstored = st,
     p_at = loop_test nitems 0, p_i = 0, c_at = loop_test nitems 0, c_i = 0, printed = []\<rparr>"

text \<open>What \<open>sem_open\<close> finds: the value of a semaphore of the name, if there is one. \<open>main\<close> passes 1 in the three calls.\<close>

definition sem_open :: "nat option \<Rightarrow> nat \<Rightarrow> nat" where
  "sem_open old v = (case old of None \<Rightarrow> v | Some k \<Rightarrow> k)"

record named =
  SEM_MUTEX :: "nat option"
  SEM_NEMPTY :: "nat option"
  SEM_NSTORED :: "nat option"

definition sem_main :: "named \<Rightarrow> nat \<Rightarrow> shared" where
  "sem_main old nitems =
     prodcons nitems (sem_open (SEM_MUTEX old) 1) (sem_open (SEM_NEMPTY old) 1) (sem_open (SEM_NSTORED old) 1)"

definition fresh :: named where
  "fresh = \<lparr>SEM_MUTEX = None, SEM_NEMPTY = None, SEM_NSTORED = None\<rparr>"

inductive step :: "nat \<Rightarrow> shared \<Rightarrow> shared \<Rightarrow> bool" for n where
  producer: "produce n s = Some s' \<Longrightarrow> step n s s'"
| consumer: "consume n s = Some s' \<Longrightarrow> step n s s'"

inductive reach :: "nat \<Rightarrow> shared \<Rightarrow> shared \<Rightarrow> bool" for n s0 where
  start: "reach n s0 s0"
| step: "reach n s0 s \<Longrightarrow> step n s s' \<Longrightarrow> reach n s0 s'"

inductive_cases stepE: "step n s s'"

text \<open>A schedule: \<open>True\<close> is a step of the producer.\<close>

fun schedule :: "nat \<Rightarrow> bool list \<Rightarrow> shared \<Rightarrow> shared option" where
  "schedule n [] s = Some s"
| "schedule n (b # bs) s = Option.bind (if b then produce n s else consume n s) (schedule n bs)"

lemma schedule_reach: "schedule n bs s = Some s' \<Longrightarrow> reach n s0 s \<Longrightarrow> reach n s0 s'"
proof (induction bs arbitrary: s)
  case (Cons b bs)
  obtain t where t: "(if b then produce n s else consume n s) = Some t" "schedule n bs t = Some s'"
    using Cons.prems(1) by (auto split: Option.bind_splits)
  have "step n s t" using t(1) by (cases b) (auto intro: step.intros)
  then show ?case using Cons.IH [OF t(2)] Cons.prems(2) reach.step by blast
qed simp

section \<open>Invariants\<close>

fun inside :: "at \<Rightarrow> nat" where
  "inside Wait_Count = 0" | "inside Wait_Mutex = 0" | "inside Access = 1"
| "inside Post_Mutex = 1" | "inside Post_Count = 0" | "inside Returned = 0"

fun taken :: "at \<Rightarrow> nat" where
  "taken Wait_Count = 0" | "taken Wait_Mutex = 1" | "taken Access = 1"
| "taken Post_Mutex = 1" | "taken Post_Count = 1" | "taken Returned = 0"

fun accessed :: "at \<Rightarrow> nat" where
  "accessed Wait_Count = 0" | "accessed Wait_Mutex = 0" | "accessed Access = 0"
| "accessed Post_Mutex = 1" | "accessed Post_Count = 1" | "accessed Returned = 0"

lemma loop_test_simps [simp]: "loop_test n i = Returned \<longleftrightarrow> n \<le> i" "Returned = loop_test n i \<longleftrightarrow> n \<le> i"
  "inside (loop_test n i) = 0" "taken (loop_test n i) = 0" "accessed (loop_test n i) = 0"
  by (auto simp: loop_test_def)

text \<open>The tokens: those of the mutex, and every stored or empty token is in a semaphore or in hand.\<close>

definition tokens :: "nat \<Rightarrow> nat \<Rightarrow> nat \<Rightarrow> nat \<Rightarrow> shared \<Rightarrow> bool" where
  "tokens n m e st s \<longleftrightarrow> mutex s + inside (p_at s) + inside (c_at s) = m
     \<and> nstored s + c_i s + taken (c_at s) = st + p_i s
     \<and> nempty s + p_i s + taken (p_at s) = e + c_i s
     \<and> (p_at s = Returned \<longleftrightarrow> p_i s = n) \<and> (c_at s = Returned \<longleftrightarrow> c_i s = n) \<and> p_i s \<le> n \<and> c_i s \<le> n"

lemma tokens_init: "tokens n m e st (prodcons n m e st)"
  by (auto simp: tokens_def prodcons_def)

lemma tokens_produce: "tokens n m e st s \<Longrightarrow> produce n s = Some s' \<Longrightarrow> tokens n m e st s'"
  by (cases "p_at s") (auto simp: tokens_def produce_def split: if_splits)

lemma tokens_consume: "tokens n m e st s \<Longrightarrow> consume n s = Some s' \<Longrightarrow> tokens n m e st s'"
  by (cases "c_at s") (auto simp: tokens_def consume_def split: if_splits)

lemma tokens_step: "step n s s' \<Longrightarrow> tokens n m e st s \<Longrightarrow> tokens n m e st s'"
  by (elim stepE) (auto intro: tokens_produce tokens_consume)

lemma reach_tokens: "reach n (prodcons n m e st) s \<Longrightarrow> tokens n m e st s"
  by (induction rule: reach.induct) (rule tokens_init, rule tokens_step)

lemma main_tokens: "reach n (sem_main old n) s \<Longrightarrow>
    tokens n (sem_open (SEM_MUTEX old) 1) (sem_open (SEM_NEMPTY old) 1) (sem_open (SEM_NSTORED old) 1) s"
  unfolding sem_main_def by (rule reach_tokens)

text \<open>The contents: a cell holds the last item written to it, or the 0 it starts with; and the line of an
  index shows its item or what the cell held before.\<close>

definition written :: "shared \<Rightarrow> nat" where
  "written s = p_i s + accessed (p_at s)"

definition cells_ok :: "shared \<Rightarrow> bool" where
  "cells_ok s \<longleftrightarrow> length (buf s) = NBUFF
     \<and> (\<forall>k. k < written s \<and> written s \<le> k + NBUFF \<longrightarrow> buf s ! (k mod NBUFF) = int k)
     \<and> (\<forall>k < NBUFF. written s \<le> k \<longrightarrow> buf s ! k = 0)"

definition line_ok :: "int \<times> int \<Rightarrow> bool" where
  "line_ok l \<longleftrightarrow> (case l of (i, v) \<Rightarrow> v = i \<or> v = (if i < int NBUFF then 0 else i - int NBUFF))"

definition lines_ok :: "shared \<Rightarrow> bool" where
  "lines_ok s \<longleftrightarrow> map fst (printed s) = map int [0..<c_i s + accessed (c_at s)] \<and> list_all line_ok (printed s)"

lemma mod_window: "k mod N = j mod N \<Longrightarrow> k < j \<Longrightarrow> j < k + N \<Longrightarrow> (False :: bool)" for k j N :: nat
proof -
  assume a: "k mod N = j mod N" "k < j" "j < k + N"
  then have "N dvd j - k" by (metis mod_eq_dvd_iff_nat less_imp_le)
  moreover have "0 < j - k" "j - k < N" using a by linarith+
  ultimately show False using nat_dvd_not_less by blast
qed

lemma cells_produce:
  assumes f: "cells_ok s" and p: "produce n s = Some s'"
  shows "cells_ok s'"
proof (cases "p_at s = Access")
  case True
  then have w: "written s = p_i s" by (simp add: written_def)
  have "(buf s)[p_i s mod NBUFF := int (p_i s)] ! (k mod NBUFF) = int k"
    if "k < Suc (p_i s)" "Suc (p_i s) \<le> k + NBUFF" for k
  proof (cases "k = p_i s")
    case True
    then show ?thesis using f by (simp add: cells_ok_def NBUFF_def)
  next
    case False
    then have "k mod NBUFF \<noteq> p_i s mod NBUFF"
      using mod_window [of k NBUFF "p_i s"] that by force
    then show ?thesis using f that False w by (simp add: cells_ok_def)
  qed
  moreover have "(buf s)[p_i s mod NBUFF := int (p_i s)] ! k = 0" if "k < NBUFF" "Suc (p_i s) \<le> k" for k
    using f that w by (simp add: cells_ok_def)
  ultimately show ?thesis using f p True by (auto simp: cells_ok_def produce_def written_def)
next
  case False
  then show ?thesis
    using f p by (cases "p_at s") (auto simp: cells_ok_def produce_def written_def split: if_splits)
qed

lemma cells_consume: "cells_ok s \<Longrightarrow> consume n s = Some s' \<Longrightarrow> cells_ok s'"
  by (cases "c_at s") (auto simp: cells_ok_def written_def consume_def split: if_splits)

lemma lines_produce: "lines_ok s \<Longrightarrow> produce n s = Some s' \<Longrightarrow> lines_ok s'"
  by (cases "p_at s") (auto simp: lines_ok_def produce_def split: if_splits)

text \<open>With one token of each kind the producer has written the item the consumer looks at, or the one before it.\<close>

lemma access_line:
  assumes c: "cells_ok s" and t: "tokens n m 1 1 s" and a: "c_at s = Access"
  shows "line_ok (int (c_i s), buf s ! (c_i s mod NBUFF))"
proof -
  have "taken (p_at s) \<ge> accessed (p_at s)" by (cases "p_at s") simp_all
  then have w: "written s = c_i s \<or> written s = Suc (c_i s)"
    using t a by (auto simp: tokens_def written_def)
  show ?thesis
  proof (cases "written s = Suc (c_i s)")
    case True
    then show ?thesis using c by (simp add: cells_ok_def line_ok_def NBUFF_def)
  next
    case False
    with w have w: "written s = c_i s" by simp
    show ?thesis
    proof (cases "c_i s < NBUFF")
      case True
      then show ?thesis using c w by (simp add: cells_ok_def line_ok_def)
    next
      case False
      have "buf s ! ((c_i s - NBUFF) mod NBUFF) = int (c_i s - NBUFF)"
        using c w False unfolding cells_ok_def by (simp add: NBUFF_def)
      then show ?thesis using False by (simp add: line_ok_def of_nat_diff le_mod_geq [symmetric])
    qed
  qed
qed

lemma lines_consume:
  assumes "lines_ok s" "cells_ok s" "tokens n m 1 1 s" "consume n s = Some s'"
  shows "lines_ok s'"
proof (cases "c_at s = Access")
  case True
  then show ?thesis using assms access_line [OF assms(2,3)] by (auto simp: lines_ok_def consume_def)
next
  case False
  then show ?thesis using assms(1,4) by (cases "c_at s") (auto simp: lines_ok_def consume_def split: if_splits)
qed

lemma reach_lines: "reach n (prodcons n m 1 1) s \<Longrightarrow> cells_ok s \<and> lines_ok s"
proof (induction rule: reach.induct)
  case start
  then show ?case by (simp add: cells_ok_def lines_ok_def written_def prodcons_def)
next
  case (step s s')
  then show ?case using reach_tokens [OF step.hyps(1)]
    by (elim stepE) (blast intro: cells_produce cells_consume lines_produce lines_consume)+
qed

text \<open>The work that is left, in steps, and that every step uses some of it up.\<close>

fun left_in :: "at \<Rightarrow> nat" where
  "left_in Wait_Count = 5" | "left_in Wait_Mutex = 4" | "left_in Access = 3"
| "left_in Post_Mutex = 2" | "left_in Post_Count = 1" | "left_in Returned = 0"

definition work :: "nat \<Rightarrow> shared \<Rightarrow> nat" where
  "work n s = 5 * (n - p_i s) + left_in (p_at s) + 5 * (n - c_i s) + left_in (c_at s)"

lemma left_in_loop_test: "Suc i \<le> n \<Longrightarrow> 5 * (n - Suc i) + left_in (loop_test n (Suc i)) \<le> 5 * (n - i)"
  by (auto simp: loop_test_def)

lemma work_produce: "tokens n m e st s \<Longrightarrow> produce n s = Some s' \<Longrightarrow> work n s' < work n s"
  using left_in_loop_test [of "p_i s" n]
  by (cases "p_at s") (auto simp: tokens_def work_def produce_def split: if_splits)

lemma work_consume: "tokens n m e st s \<Longrightarrow> consume n s = Some s' \<Longrightarrow> work n s' < work n s"
  using left_in_loop_test [of "c_i s" n]
  by (cases "c_at s") (auto simp: tokens_def work_def consume_def split: if_splits)

section \<open>What the program guarantees\<close>

text \<open>C14: whatever semaphores are left from an earlier run, as long as an old one of the name of the mutex is not above 1, the two
  threads are never at the cells together; without old semaphores, in particular.\<close>

theorem sem_mutual_exclusion:
  assumes "reach n (sem_main old n) s" "sem_open (SEM_MUTEX old) 1 \<le> 1"
  shows "\<not> (p_at s \<in> {Access, Post_Mutex} \<and> c_at s \<in> {Access, Post_Mutex})"
  using main_tokens [OF assms(1)] assms(2) by (auto simp: tokens_def)

text \<open>A state with the producer at the cells, and the consumer in front of the mutex.\<close>

definition at_cells :: shared where
  "at_cells = the (schedule 3 [True, True, True, False] (sem_main fresh 3))"

lemma at_cells: "reach 3 (sem_main fresh 3) at_cells" "p_at at_cells = Post_Mutex" "c_at at_cells = Wait_Mutex" "mutex at_cells = 0"
proof -
  have run: "schedule 3 [True, True, True, False] (sem_main fresh 3) = Some at_cells"
    by (simp add: at_cells_def sem_main_def fresh_def sem_open_def prodcons_def loop_test_def produce_def consume_def NBUFF_def)
  show "reach 3 (sem_main fresh 3) at_cells" by (rule schedule_reach [OF run reach.start])
  show "p_at at_cells = Post_Mutex" "c_at at_cells = Wait_Mutex" "mutex at_cells = 0"
    by (simp_all add: at_cells_def sem_main_def fresh_def sem_open_def prodcons_def loop_test_def produce_def consume_def NBUFF_def)
qed

theorem sem_mutual_exclusion_witness:
  "p_at at_cells = Post_Mutex \<and> \<not> c_at at_cells \<in> {Access, Post_Mutex}"
  using sem_mutual_exclusion [OF at_cells(1)] at_cells(2) by (simp add: fresh_def sem_open_def)

text \<open>C19: unless an old semaphore is left with the mutex at 0, or old ones with both counts at 0, the program cannot get stuck: in every
  reachable state a thread can make a step, or both have returned; and every step uses up work, so that every execution ends with
  both returned. Without old semaphores the condition holds.\<close>

theorem sem_terminates:
  assumes "reach n (sem_main old n) s" "1 \<le> sem_open (SEM_MUTEX old) 1"
    "1 \<le> sem_open (SEM_NEMPTY old) 1 + sem_open (SEM_NSTORED old) 1"
  shows "(p_at s = Returned \<and> c_at s = Returned \<or> (\<exists>s'. step n s s')) \<and> (\<forall>s'. step n s s' \<longrightarrow> work n s' < work n s)"
proof -
  note t = main_tokens [OF assms(1)]
  have "produce n s \<noteq> None \<or> consume n s \<noteq> None" if "\<not> (p_at s = Returned \<and> c_at s = Returned)"
    using t assms(2,3) that by (cases "p_at s"; cases "c_at s") (auto simp: tokens_def produce_def consume_def)
  then have live: "p_at s = Returned \<and> c_at s = Returned \<or> (\<exists>s'. step n s s')"
    using step.producer [of n s] step.consumer [of n s] by fast
  have "work n s' < work n s" if "step n s s'" for s'
    using that t by (elim stepE) (blast intro: work_produce work_consume)+
  with live show ?thesis by blast
qed

theorem sem_terminates_witness: "\<exists>s'. step 3 at_cells s'"
  using sem_terminates [OF at_cells(1)] at_cells(2) by (simp add: fresh_def sem_open_def)

text \<open>a run that is killed between its wait for the mutex and the post leaves the mutex at 0; the next run then comes to a
  state in which neither thread can go on.\<close>

theorem sem_stale_mutex:
  assumes "0 < n"
  shows "\<exists>s. reach n (sem_main (fresh\<lparr>SEM_MUTEX := Some 0\<rparr>) n) s \<and> p_at s = Wait_Mutex \<and> c_at s = Wait_Mutex \<and> (\<nexists>s'. step n s s')"
proof -
  have "\<exists>s. schedule n [True, False] (sem_main (fresh\<lparr>SEM_MUTEX := Some 0\<rparr>) n) = Some s
      \<and> p_at s = Wait_Mutex \<and> c_at s = Wait_Mutex \<and> mutex s = 0"
    using assms by (simp add: sem_main_def fresh_def sem_open_def prodcons_def loop_test_def produce_def consume_def)
  then obtain s where s: "schedule n [True, False] (sem_main (fresh\<lparr>SEM_MUTEX := Some 0\<rparr>) n) = Some s"
      "p_at s = Wait_Mutex" "c_at s = Wait_Mutex" "mutex s = 0" by blast
  have "\<nexists>s'. step n s s'" using s by (auto elim!: stepE simp: produce_def consume_def)
  then show ?thesis using schedule_reach [OF s(1) reach.start] s by blast
qed

theorem sem_stale_mutex_witness:
  "\<exists>s. reach 1 (sem_main (fresh\<lparr>SEM_MUTEX := Some 0\<rparr>) 1) s \<and> p_at s = Wait_Mutex \<and> c_at s = Wait_Mutex \<and> (\<nexists>s'. step 1 s s')"
  by (rule sem_stale_mutex) simp

text \<open>C26: when no semaphore for the counts is left from an earlier run, the consumer prints one line for each index, in order, however the
  threads interleave, and all of them before it returns. But a line does not always show the item of its index: it shows that
  or, when the consumer is ahead of the producer, what the cell held before, the item of ten indices earlier or the 0 of the
  first round.\<close>

theorem sem_prints_lag:
  assumes "reach n (sem_main old n) s" "SEM_NEMPTY old = None" "SEM_NSTORED old = None"
  shows "\<exists>k \<le> n. map fst (printed s) = map int [0..<k] \<and> (c_at s = Returned \<longrightarrow> k = n)
    \<and> (\<forall>(i, v) \<in> set (printed s). v = i \<or> v = (if i < 10 then 0 else i - 10))"
proof -
  have st: "sem_main old n = prodcons n (sem_open (SEM_MUTEX old) 1) 1 1"
    using assms(2,3) by (simp add: sem_main_def sem_open_def)
  have t: "tokens n (sem_open (SEM_MUTEX old) 1) 1 1 s" and l: "lines_ok s"
    using reach_tokens reach_lines assms(1) unfolding st by blast+
  have "c_i s + accessed (c_at s) \<le> n" using t by (cases "c_at s") (auto simp: tokens_def)
  moreover have "c_at s = Returned \<longrightarrow> c_i s + accessed (c_at s) = n" using t by (auto simp: tokens_def)
  moreover have "\<forall>(i, v) \<in> set (printed s). v = i \<or> v = (if i < 10 then 0 else i - 10)"
    using l unfolding lines_ok_def line_ok_def list_all_iff NBUFF_def of_nat_numeral by (rule conjunct2)
  moreover have "map fst (printed s) = map int [0..<c_i s + accessed (c_at s)]"
    using l by (simp only: lines_ok_def)
  ultimately show ?thesis by blast
qed

text \<open>as the program stands, with one stored item announced at the start, the consumer runs one
  item ahead: it can print the second item as 0 when only the first has been produced.\<close>

theorem sem_consumes_unproduced:
  "\<exists>s. reach 2 (sem_main fresh 2) s \<and> p_i s = 1 \<and> p_at s = Wait_Count \<and> printed s = [(0, 0), (1, 0)]"
proof -
  have "\<exists>s. schedule 2 [False, False, False, False, False, True, True, True, True, True, False, False, False] (sem_main fresh 2) = Some s
    \<and> p_i s = 1 \<and> p_at s = Wait_Count \<and> printed s = [(0, 0), (1, 0)]"
    by (simp add: sem_main_def fresh_def sem_open_def prodcons_def loop_test_def produce_def consume_def NBUFF_def)
  then show ?thesis using schedule_reach [OF _ reach.start] by blast
qed

text \<open>One of the runs in which the second item is printed as 0.\<close>

definition one_ahead :: shared where
  "one_ahead = the (schedule 2 [False, False, False, False, False, True, True, True, True, True, False, False, False] (sem_main fresh 2))"

lemma one_ahead: "reach 2 (sem_main fresh 2) one_ahead" "printed one_ahead = [(0, 0), (1, 0)]"
proof -
  have run: "schedule 2 [False, False, False, False, False, True, True, True, True, True, False, False, False] (sem_main fresh 2) = Some one_ahead"
    by (simp add: one_ahead_def sem_main_def fresh_def sem_open_def prodcons_def loop_test_def produce_def consume_def NBUFF_def)
  show "reach 2 (sem_main fresh 2) one_ahead" by (rule schedule_reach [OF run reach.start])
  show "printed one_ahead = [(0, 0), (1, 0)]"
    by (simp add: one_ahead_def sem_main_def fresh_def sem_open_def prodcons_def loop_test_def produce_def consume_def NBUFF_def)
qed

theorem sem_prints_lag_witness:
  "\<exists>k \<le> 2. map fst (printed one_ahead) = map int [0..<k] \<and> printed one_ahead = [(0, 0), (1, 0)]"
  using sem_prints_lag [OF one_ahead(1)] one_ahead(2) by (auto simp: fresh_def)

end
