(* ===== verification/Mutex_Cond.thy ===== *)
theory Mutex_Cond
  imports Prelude
begin

text \<open>
  The producers and consumers of \<open>Application/ipc/mutex_cond/mutex_cond.c\<close>: threads that share an
  array under one mutex and a count of ready items under another mutex with a condition variable.
  A step is one critical section, which the mutexes make atomic; \<open>pthread_cond_wait\<close> ends one and
  its return begins another; \<open>spurious\<close> says whether it may return without a signal. The threads begin when
  \<open>main\<close> has created all of them, as the sleep of the producers intends. \<open>None\<close> is an access outside an array
  or an overflow: of the count of ready items, or of a producer's own count.
\<close>

definition MAXSIZE :: nat where "MAXSIZE = 102400"
definition MAXCONSUMER :: nat where "MAXCONSUMER = 1000"

text \<open>Where a producer and a consumer stand.\<close>

datatype p_at = Put | Notify | Count
datatype c_at = Take | Waiting | Print | Returned

record threads =
  buf :: "int list"
  nput :: int
  nval :: int
  nready :: int
  cnt :: int
  producers :: "p_at list"
  counts :: "int list"
  consumers :: "c_at list"
  printed :: "(int \<times> int) list"

section \<open>produce\<close>

text \<open>The first critical section of thread \<open>t\<close>.\<close>

definition produce_put :: "int \<Rightarrow> nat \<Rightarrow> threads \<Rightarrow> threads option" where
  "produce_put nitems t s = (let s1 = (if nput s \<ge> nitems then s\<lparr>nput := 0, nval := 0\<rparr> else s) in do {
     b \<leftarrow> aset (buf s1) (nput s1) (nval s1);
     Some (s1\<lparr>buf := b, nval := nval s1 + 1, nput := nput s1 + 1, producers := (producers s1)[t := Notify]\<rparr>) })"

text \<open>The second one: \<open>w\<close> is the waiting consumer that \<open>pthread_cond_signal\<close> picks, if one waits.\<close>

definition cond_signal :: "nat \<Rightarrow> threads \<Rightarrow> threads" where
  "cond_signal w s = (if w < length (consumers s) \<and> consumers s ! w = Waiting
     then s\<lparr>consumers := (consumers s)[w := Take]\<rparr> else s)"

definition INT_MAX :: int where "INT_MAX = 2147483647"

definition produce_notify :: "nat \<Rightarrow> nat \<Rightarrow> threads \<Rightarrow> threads option" where
  "produce_notify w t s = (let s1 = (if nready s = 0 then cond_signal w s else s)
     in if nready s1 = INT_MAX then None
        else Some (s1\<lparr>nready := nready s1 + 1, producers := (producers s1)[t := Count]\<rparr>))"

text \<open>And \<open>*((int *)arg) += 1\<close>, which no mutex protects and no other thread touches.\<close>

definition produce_count :: "nat \<Rightarrow> threads \<Rightarrow> threads option" where
  "produce_count t s = do {
     c \<leftarrow> aget (counts s) (int t);
     if c = INT_MAX then None
     else Some (s\<lparr>counts := (counts s)[t := c + 1], producers := (producers s)[t := Put]\<rparr>) }"

section \<open>consume\<close>

definition consume_take :: "nat \<Rightarrow> threads \<Rightarrow> threads" where
  "consume_take t s = (if nready s = 0 then s\<lparr>consumers := (consumers s)[t := Waiting]\<rparr>
     else s\<lparr>nready := nready s - 1, consumers := (consumers s)[t := Print]\<rparr>)"

definition consume_print :: "int \<Rightarrow> nat \<Rightarrow> threads \<Rightarrow> threads option" where
  "consume_print nitems t s = (let c = cnt s + 1; s1 = s\<lparr>cnt := c\<rparr> in
     if c \<ge> nitems then Some (s1\<lparr>consumers := (consumers s1)[t := Returned]\<rparr>)
     else do {
       v \<leftarrow> aget (buf s1) c;
       if v \<noteq> 0 then do {
         b \<leftarrow> aset (buf s1) c 0;
         Some (s1\<lparr>buf := b, printed := printed s1 @ [(c, v)], consumers := (consumers s1)[t := Take]\<rparr>) }
       else Some (s1\<lparr>consumers := (consumers s1)[t := Take]\<rparr>) })"

section \<open>main\<close>

text \<open>\<open>main\<close> stores a counter and a thread id for each of its threads in arrays of \<open>MAXCONSUMER\<close>.\<close>

definition mutex_cond_main :: "int \<Rightarrow> int \<Rightarrow> threads option" where
  "mutex_cond_main nitems nthreads =
     (if nthreads > int MAXCONSUMER \<or> nthreads * 40 > int MAXCONSUMER then None
      else Some \<lparr>buf = replicate MAXSIZE 0, nput = 0, nval = 0, nready = 0, cnt = 0,
        producers = replicate (nat nthreads) Put, counts = replicate (nat nthreads) 0, consumers = replicate (nat (nthreads * 40)) Take, printed = []\<rparr>)"

text \<open>The steps; \<open>None\<close> is a step into undefined behaviour.\<close>

inductive step :: "bool \<Rightarrow> int \<Rightarrow> threads \<Rightarrow> threads option \<Rightarrow> bool" for spurious nitems where
  put: "t < length (producers s) \<Longrightarrow> producers s ! t = Put \<Longrightarrow> step spurious nitems s (produce_put nitems t s)"
| notify: "t < length (producers s) \<Longrightarrow> producers s ! t = Notify \<Longrightarrow> step spurious nitems s (produce_notify w t s)"
| count_item: "t < length (producers s) \<Longrightarrow> producers s ! t = Count \<Longrightarrow> step spurious nitems s (produce_count t s)"
| take_item: "t < length (consumers s) \<Longrightarrow> consumers s ! t = Take \<Longrightarrow> step spurious nitems s (Some (consume_take t s))"
| print_item: "t < length (consumers s) \<Longrightarrow> consumers s ! t = Print \<Longrightarrow> step spurious nitems s (consume_print nitems t s)"
| wake: "spurious \<Longrightarrow> t < length (consumers s) \<Longrightarrow> consumers s ! t = Waiting
    \<Longrightarrow> step spurious nitems s (Some (s\<lparr>consumers := (consumers s)[t := Take]\<rparr>))"

inductive reach :: "bool \<Rightarrow> int \<Rightarrow> threads \<Rightarrow> threads \<Rightarrow> bool" for spurious nitems s0 where
  start: "reach spurious nitems s0 s0"
| step: "reach spurious nitems s0 s \<Longrightarrow> step spurious nitems s (Some s') \<Longrightarrow> reach spurious nitems s0 s'"

section \<open>Invariant\<close>

text \<open>A cell holds its own index or nothing; the next cell and the next value go together; what was
  printed are cells below the count, in increasing order, with their index as value.\<close>

definition tidy :: "int \<Rightarrow> threads \<Rightarrow> bool" where
  "tidy nitems s \<longleftrightarrow> length (buf s) = MAXSIZE \<and> 0 \<le> nput s \<and> nput s \<le> max 1 nitems \<and> nval s = nput s
     \<and> 0 \<le> nready s \<and> 0 \<le> cnt s \<and> length (counts s) = length (producers s) \<and> (\<forall>i < MAXSIZE. buf s ! i = 0 \<or> buf s ! i = int i)
     \<and> sorted_wrt (<) (map fst (printed s)) \<and> (\<forall>(i, v) \<in> set (printed s). 0 < i \<and> i < nitems \<and> v = i \<and> i \<le> cnt s)"

lemma tidy_start: "mutex_cond_main nitems nthreads = Some s \<Longrightarrow> tidy nitems s"
  by (auto simp: mutex_cond_main_def tidy_def split: if_splits)

lemma tidy_put: "tidy nitems s \<Longrightarrow> nitems \<le> int MAXSIZE \<Longrightarrow> \<exists>s'. produce_put nitems t s = Some s' \<and> tidy nitems s'"
  by (auto simp: produce_put_def Let_def aset_def tidy_def MAXSIZE_def nth_list_update)

lemma tidy_notify: "tidy nitems s \<Longrightarrow> produce_notify w t s = Some s' \<Longrightarrow> tidy nitems s'"
  by (auto simp: produce_notify_def cond_signal_def tidy_def Let_def split: if_splits)

lemma tidy_count: "tidy nitems s \<Longrightarrow> produce_count t s = Some s' \<Longrightarrow> tidy nitems s'"
  by (auto simp: produce_count_def tidy_def split: if_splits Option.bind_splits)

lemma tidy_take: "tidy nitems s \<Longrightarrow> tidy nitems (consume_take t s)"
  by (auto simp: consume_take_def tidy_def)

lemma tidy_print:
  assumes "tidy nitems s" "nitems \<le> int MAXSIZE"
  shows "\<exists>s'. consume_print nitems t s = Some s' \<and> tidy nitems s'"
proof (cases "cnt s + 1 \<ge> nitems")
  case True
  then show ?thesis using assms(1) by (auto simp: consume_print_def tidy_def Let_def)
next
  case False
  then have c: "0 \<le> cnt s + 1" "cnt s + 1 < int MAXSIZE" using assms by (auto simp: tidy_def)
  then have a: "aget (buf s) (cnt s + 1) = Some (buf s ! nat (cnt s + 1))"
    using assms(1) by (simp add: aget_def tidy_def)
  have v: "buf s ! nat (cnt s + 1) = 0 \<or> buf s ! nat (cnt s + 1) = cnt s + 1"
    using assms(1) c by (auto simp: tidy_def dest!: spec [of _ "nat (cnt s + 1)"])
  have srt: "sorted_wrt (<) (map fst (printed s) @ [cnt s + 1])"
    using assms(1) by (fastforce simp: tidy_def sorted_wrt_append)
  show ?thesis
  proof (cases "buf s ! nat (cnt s + 1) = 0")
    case True
    then show ?thesis using a assms(1) False by (fastforce simp: consume_print_def tidy_def Let_def)
  next
    case nz: False
    then show ?thesis using a v c srt assms(1) False
      by (fastforce simp: consume_print_def tidy_def Let_def aset_def nth_list_update)
  qed
qed

lemma tidy_wake: "tidy nitems s \<Longrightarrow> tidy nitems (s\<lparr>consumers := cs\<rparr>)"
  by (simp add: tidy_def)

lemma tidy_step:
  assumes "step spurious nitems s (Some s')" "tidy nitems s" "nitems \<le> int MAXSIZE"
  shows "tidy nitems s'"
  using assms(1)
proof (cases rule: step.cases)
  case (put t) then show ?thesis using tidy_put [OF assms(2,3), of t] by auto
next
  case (notify t w) then show ?thesis using tidy_notify [OF assms(2), of w t s'] by simp
next
  case (count_item t) then show ?thesis using tidy_count [OF assms(2), of t s'] by simp
next
  case (take_item t) then show ?thesis using tidy_take [OF assms(2), of t] by simp
next
  case (print_item t) then show ?thesis using tidy_print [OF assms(2,3), of t] by auto
next
  case (wake t) then show ?thesis using tidy_wake [OF assms(2)] by simp
qed

lemma tidy_defined:
  assumes "step spurious nitems s None" "tidy nitems s" "nitems \<le> int MAXSIZE"
  shows "nready s = INT_MAX \<or> INT_MAX \<in> set (counts s)"
  using assms(1)
proof (cases rule: step.cases)
  case (put t) then show ?thesis using tidy_put [OF assms(2,3), of t] by simp
next
  case (notify t w) then show ?thesis by (auto simp: produce_notify_def cond_signal_def Let_def split: if_splits)
next
  case (count_item t)
  then have "t < length (counts s)" using assms(2) by (simp add: tidy_def)
  with count_item show ?thesis by (auto simp: produce_count_def aget_def split: if_splits) (metis nth_mem)
next
  case (print_item t) then show ?thesis using tidy_print [OF assms(2,3), of t] by simp
qed

lemma tidy_reach: "reach spurious nitems s0 s \<Longrightarrow> tidy nitems s0 \<Longrightarrow> nitems \<le> int MAXSIZE \<Longrightarrow> tidy nitems s"
proof (induction rule: reach.induct)
  case (step s s')
  then show ?case using tidy_step by fastforce
qed

section \<open>What the program guarantees\<close>

text \<open>C13: with at most MAXSIZE items and at most 25 threads, in every interleaving, whether or not waiting may end without a
  signal: no step leaves an array, and a step is undefined only by an overflow, of the count of ready items (2147483647
  of them that no consumer took) or of a producer's own count; the count of ready items is never negative, and every
  index is printed at most once, in increasing order, with its own value.\<close>

theorem mutex_cond_safe:
  assumes "nitems \<le> 102400" "nthreads \<le> 25"
  shows "\<exists>s0. mutex_cond_main nitems nthreads = Some s0 \<and> (\<forall>s. reach spurious nitems s0 s \<longrightarrow>
    (step spurious nitems s None \<longrightarrow> nready s = INT_MAX \<or> INT_MAX \<in> set (counts s)) \<and> 0 \<le> nready s
    \<and> sorted_wrt (<) (map fst (printed s)) \<and> list_all (\<lambda>(i, v). v = i \<and> 0 < i \<and> i < nitems) (printed s))"
proof -
  obtain s0 where s0: "mutex_cond_main nitems nthreads = Some s0" using assms(2) by (simp add: mutex_cond_main_def MAXCONSUMER_def)
  have n: "nitems \<le> int MAXSIZE" using assms(1) by (simp add: MAXSIZE_def)
  have "(step spurious nitems s None \<longrightarrow> nready s = INT_MAX \<or> INT_MAX \<in> set (counts s)) \<and> 0 \<le> nready s
    \<and> sorted_wrt (<) (map fst (printed s)) \<and> list_all (\<lambda>(i, v). v = i \<and> 0 < i \<and> i < nitems) (printed s)"
    if "reach spurious nitems s0 s" for s
  proof -
    have t: "tidy nitems s" using tidy_reach [OF that tidy_start [OF s0] n] .
    then have "step spurious nitems s None \<longrightarrow> nready s = INT_MAX \<or> INT_MAX \<in> set (counts s)" using tidy_defined n by blast
    with t show ?thesis by (auto simp: tidy_def list_all_iff)
  qed
  with s0 show ?thesis by blast
qed

text \<open>One producer puts two of three items and counts both; a consumer prints the second.\<close>

lemma printed_reachable: "\<exists>s. reach spurious 3 (the (mutex_cond_main 3 1)) s \<and> printed s = [(1, 1)] \<and> nready s = 1 \<and> counts s = [2]"
proof -
  define b where "b = replicate MAXSIZE (0 :: int)"
  have n: "length b = MAXSIZE" "b ! 0 = 0" "b ! 1 = 0" "1 < MAXSIZE" by (simp_all add: b_def MAXSIZE_def)
  have u: "b[0 := 0] = b" "b[1 := 0] = b" using list_update_id [of b 0] list_update_id [of b 1] unfolding n by simp_all
  have b: "aset b 0 0 = Some b" "aset b 1 1 = Some (b[1 := 1])" "aget (b[1 := 1]) 1 = Some 1" "aset (b[1 := 1]) 1 0 = Some b"
    using n u by (simp_all add: aset_def aget_def)
  have c40: "replicate 40 Take = Take # replicate 39 Take" by (simp add: numeral_eq_Suc)
  let ?s = "\<lambda>b n r p k. \<lparr>buf = b, nput = n, nval = n, nready = r, cnt = 0, producers = [p], counts = [k],
     consumers = Take # replicate 39 Take, printed = []\<rparr>"
  have m: "the (mutex_cond_main 3 1) = ?s b 0 0 Put 0" by (simp add: mutex_cond_main_def MAXCONSUMER_def b_def c40)
  have g: "reach spurious 3 s0 s \<Longrightarrow> step spurious 3 s r \<Longrightarrow> r = Some s' \<Longrightarrow> reach spurious 3 s0 s'" for s0 s r s'
    using reach.step by blast
  have r0: "reach spurious 3 (?s b 0 0 Put 0) (?s b 0 0 Put 0)" by (rule reach.start)
  have r1: "reach spurious 3 (?s b 0 0 Put 0) (?s b 1 0 Notify 0)"
    by (rule g [OF r0], rule step.put [of 0]) (simp_all add: produce_put_def b)
  have r2: "reach spurious 3 (?s b 0 0 Put 0) (?s b 1 1 Count 0)"
    by (rule g [OF r1], rule step.notify [of 0 _ _ _ 0]) (simp_all add: produce_notify_def cond_signal_def INT_MAX_def)
  have r3: "reach spurious 3 (?s b 0 0 Put 0) (?s b 1 1 Put 1)"
    by (rule g [OF r2], rule step.count_item [of 0]) (simp_all add: produce_count_def aget_def INT_MAX_def)
  have r4: "reach spurious 3 (?s b 0 0 Put 0) (?s (b[1 := 1]) 2 1 Notify 1)"
    by (rule g [OF r3], rule step.put [of 0]) (simp_all add: produce_put_def b)
  have r5: "reach spurious 3 (?s b 0 0 Put 0) (?s (b[1 := 1]) 2 2 Count 1)"
    by (rule g [OF r4], rule step.notify [of 0 _ _ _ 0]) (simp_all add: produce_notify_def INT_MAX_def)
  have r6: "reach spurious 3 (?s b 0 0 Put 0) (?s (b[1 := 1]) 2 2 Put 2)"
    by (rule g [OF r5], rule step.count_item [of 0]) (simp_all add: produce_count_def aget_def INT_MAX_def)
  have r7: "reach spurious 3 (?s b 0 0 Put 0) ((?s (b[1 := 1]) 2 1 Put 2)\<lparr>consumers := Print # replicate 39 Take\<rparr>)"
    by (rule g [OF r6], rule step.take_item [of 0]) (simp_all add: consume_take_def)
  have r8: "reach spurious 3 (?s b 0 0 Put 0) ((?s b 2 1 Put 2)\<lparr>cnt := 1, printed := [(1, 1)]\<rparr>)"
    by (rule g [OF r7], rule step.print_item [of 0]) (simp_all add: consume_print_def b Let_def del: One_nat_def)
  then show ?thesis unfolding m by (intro exI conjI, assumption) simp_all
qed

theorem mutex_cond_safe_witness:
  "\<exists>s. reach True 3 (the (mutex_cond_main 3 1)) s \<and> printed s = [(1, 1)] \<and> \<not> step True 3 s None"
proof -
  obtain s where s: "reach True 3 (the (mutex_cond_main 3 1)) s" "printed s = [(1, 1)]" "nready s = 1" "counts s = [2]"
    using printed_reachable by blast
  obtain s0 where s0: "mutex_cond_main 3 1 = Some s0" "\<And>s. reach True 3 s0 s \<Longrightarrow> step True 3 s None \<longrightarrow> nready s = INT_MAX \<or> INT_MAX \<in> set (counts s)"
    using mutex_cond_safe [of 3 1 True] by auto
  with s(1) have "step True 3 s None \<longrightarrow> nready s = INT_MAX \<or> INT_MAX \<in> set (counts s)" by simp
  with s(3,4) have "\<not> step True 3 s None" by (simp add: INT_MAX_def)
  with s(1,2) show ?thesis by blast
qed

text \<open>nothing limits the number of items: with more than MAXSIZE the put after the last cell writes
  beyond the array; nor the number of threads: with more than 25, \<open>main\<close> overruns its own arrays.\<close>

theorem mutex_cond_overrun:
  "(nput s = int MAXSIZE \<and> length (buf s) = MAXSIZE \<and> int MAXSIZE < nitems \<longrightarrow> produce_put nitems t s = None)
   \<and> (25 < nthreads \<longrightarrow> mutex_cond_main nitems nthreads = None)"
  by (simp add: produce_put_def aset_def mutex_cond_main_def MAXCONSUMER_def)

theorem mutex_cond_overrun_witness:
  "produce_put 200000 0 ((the (mutex_cond_main 5 2))\<lparr>nput := 102400\<rparr>) = None \<and> mutex_cond_main 200000 26 = None"
  using mutex_cond_overrun [of "(the (mutex_cond_main 5 2))\<lparr>nput := 102400\<rparr>" 200000 0 26]
  by (simp add: mutex_cond_main_def MAXSIZE_def MAXCONSUMER_def)

text \<open>Every consumer waits or is gone, and items are ready.\<close>

definition stuck :: "threads \<Rightarrow> bool" where
  "stuck s \<longleftrightarrow> 0 < nready s \<and> list_all (\<lambda>c. c = Waiting \<or> c = Returned) (consumers s)"

text \<open>Such a state is reached with one producer, forty consumers and one item: all consumers wait, the
  first of two notifications wakes one of them, the second finds the count at 1 and wakes nobody.\<close>

definition all_waiting :: "nat \<Rightarrow> nat \<Rightarrow> threads \<Rightarrow> threads" where
  "all_waiting k n s = s\<lparr>consumers := replicate k Waiting @ replicate (n - k) Take\<rparr>"

lemma reach_waiting: "nready s = 0 \<Longrightarrow> consumers s = replicate n Take \<Longrightarrow> k \<le> n \<Longrightarrow> reach spurious nitems s (all_waiting k n s)"
proof (induction k)
  case 0
  then have "all_waiting 0 n s = s" by (simp add: all_waiting_def)
  then show ?case using reach.start by metis
next
  case (Suc k)
  let ?s = "all_waiting k n s"
  have k: "k < length (consumers ?s)" "consumers ?s ! k = Take" using Suc.prems by (auto simp: all_waiting_def nth_append)
  have "(replicate k Waiting @ replicate (n - k) Take)[k := Waiting] = replicate (Suc k) Waiting @ replicate (n - Suc k) Take"
  proof -
    obtain m where "n - k = Suc m" "n - Suc k = m" using Suc.prems(3) by (metis Suc_diff_Suc Suc_le_eq)
    then show ?thesis by (simp add: list_update_append replicate_app_Cons_same)
  qed
  then have "consume_take k ?s = all_waiting (Suc k) n s"
    using Suc.prems by (simp add: consume_take_def all_waiting_def)
  with step.take_item [OF k, of spurious nitems] Suc show ?case using reach.step by fastforce
qed

lemma stuck_reachable: "\<exists>s. reach spurious 1 (the (mutex_cond_main 1 1)) s \<and> stuck s \<and> consumers s = Returned # replicate 39 Waiting"
proof -
  define b where "b = replicate MAXSIZE (0 :: int)"
  have b: "aset b 0 0 = Some b" by (simp add: aset_def b_def MAXSIZE_def) (metis list_update_id nth_replicate zero_less_numeral)
  let ?w = "\<lparr>buf = b, nput = 0, nval = 0, nready = 0, cnt = 0, producers = [Put], counts = [0], consumers = replicate 40 Waiting, printed = []\<rparr>"
  have "mutex_cond_main 1 1 = Some (?w\<lparr>consumers := replicate 40 Take\<rparr>)"
    by (simp add: mutex_cond_main_def MAXCONSUMER_def b_def)
  with reach_waiting [of "?w\<lparr>consumers := replicate 40 Take\<rparr>" 40 40 spurious 1]
  have r0: "reach spurious 1 (the (mutex_cond_main 1 1)) ?w" by (simp add: all_waiting_def)
  have w40: "replicate 40 Waiting = Waiting # replicate 39 Waiting" by (simp add: numeral_eq_Suc)
  let ?s = "\<lambda>n r p k c. ?w\<lparr>nput := n, nval := n, nready := r, producers := [p], counts := [k], consumers := c # replicate 39 Waiting\<rparr>"
  have count: "reach spurious 1 s0 s \<Longrightarrow> 0 < length (producers s) \<Longrightarrow> producers s ! 0 = Count \<Longrightarrow> produce_count 0 s = Some s'
      \<Longrightarrow> reach spurious 1 s0 s'" for s0 s s'
    using step.count_item [of 0 s spurious 1] reach.step by fastforce
  have "produce_put 1 0 ?w = Some (?s 1 0 Notify 0 Waiting)" by (simp add: produce_put_def b w40 Let_def)
  with step.put [of 0 ?w spurious 1] r0 have r1: "reach spurious 1 (the (mutex_cond_main 1 1)) (?s 1 0 Notify 0 Waiting)"
    by (intro reach.step [OF r0]) simp
  have "produce_notify 0 0 (?s 1 0 Notify 0 Waiting) = Some (?s 1 1 Count 0 Take)" by (simp add: produce_notify_def cond_signal_def Let_def INT_MAX_def)
  with step.notify [of 0 "?s 1 0 Notify 0 Waiting" spurious 1 0] have "reach spurious 1 (the (mutex_cond_main 1 1)) (?s 1 1 Count 0 Take)"
    by (intro reach.step [OF r1]) simp
  then have r2: "reach spurious 1 (the (mutex_cond_main 1 1)) (?s 1 1 Put 1 Take)"
    by (rule count) (simp_all add: produce_count_def aget_def INT_MAX_def)
  have "produce_put 1 0 (?s 1 1 Put 1 Take) = Some (?s 1 1 Notify 1 Take)" by (simp add: produce_put_def b Let_def)
  with step.put [of 0 "?s 1 1 Put 1 Take" spurious 1] have r3: "reach spurious 1 (the (mutex_cond_main 1 1)) (?s 1 1 Notify 1 Take)"
    by (intro reach.step [OF r2]) simp
  have "produce_notify 0 0 (?s 1 1 Notify 1 Take) = Some (?s 1 2 Count 1 Take)" by (simp add: produce_notify_def Let_def INT_MAX_def)
  with step.notify [of 0 "?s 1 1 Notify 1 Take" spurious 1 0] have "reach spurious 1 (the (mutex_cond_main 1 1)) (?s 1 2 Count 1 Take)"
    by (intro reach.step [OF r3]) simp
  then have r4: "reach spurious 1 (the (mutex_cond_main 1 1)) (?s 1 2 Put 2 Take)"
    by (rule count) (simp_all add: produce_count_def aget_def INT_MAX_def)
  have "consume_take 0 (?s 1 2 Put 2 Take) = ?s 1 1 Put 2 Print" by (simp add: consume_take_def)
  with step.take_item [of 0 "?s 1 2 Put 2 Take" spurious 1] have r5: "reach spurious 1 (the (mutex_cond_main 1 1)) (?s 1 1 Put 2 Print)"
    by (intro reach.step [OF r4]) simp
  have "consume_print 1 0 (?s 1 1 Put 2 Print) = Some ((?s 1 1 Put 2 Returned)\<lparr>cnt := 1\<rparr>)" by (simp add: consume_print_def)
  with step.print_item [of 0 "?s 1 1 Put 2 Print" spurious 1] have "reach spurious 1 (the (mutex_cond_main 1 1)) ((?s 1 1 Put 2 Returned)\<lparr>cnt := 1\<rparr>)"
    by (intro reach.step [OF r5]) simp
  then show ?thesis
    by (intro exI [of _ "(?s 1 1 Put 2 Returned)\<lparr>cnt := 1\<rparr>"] conjI) (simp_all add: stuck_def list_all_iff)
qed

text \<open>C40: a signal is sent only when the count was 0: if \<open>pthread_cond_wait\<close> returns only when signalled, once all consumers that were woken have returned
  while items are ready, the others wait for ever, whatever the producers go on to do.\<close>

theorem mutex_cond_lost_signal:
  assumes "reach False nitems s0 s" "stuck s0"
  shows "stuck s \<and> consumers s = consumers s0"
  using assms
proof (induction rule: reach.induct)
  case (step s s')
  then have s: "stuck s" "consumers s = consumers s0" by auto
  from step.hyps(2) s show ?case
  proof (cases rule: step.cases)
    case (put t)
    then show ?thesis using s by (auto simp: produce_put_def Let_def stuck_def split: if_splits Option.bind_splits)
  next
    case (notify t w)
    then show ?thesis using s by (auto simp: produce_notify_def Let_def stuck_def split: if_splits)
  next
    case (count_item t)
    then show ?thesis using s by (auto simp: produce_count_def stuck_def split: if_splits Option.bind_splits)
  next
    case (take_item t)
    then show ?thesis using s by (auto simp: stuck_def list_all_length)
  next
    case (print_item t)
    then show ?thesis using s by (auto simp: stuck_def list_all_length)
  qed simp
qed simp

theorem mutex_cond_lost_signal_witness:
  "\<exists>s. reach False 1 (the (mutex_cond_main 1 1)) s \<and> stuck s \<and> consumers s = Returned # replicate 39 Waiting"
proof -
  obtain s where s: "reach False 1 (the (mutex_cond_main 1 1)) s" "stuck s" "consumers s = Returned # replicate 39 Waiting"
    using stuck_reachable by blast
  from mutex_cond_lost_signal [OF reach.start s(2)] s show ?thesis by blast
qed

end
