(* ===== verification/Binary_Tree.thy ===== *)
theory Binary_Tree
  imports Prelude
begin

text \<open>
  \<open>Algorithem/tree/binary-tree/basic/binary.c\<close> and the tree part of
  \<open>Algorithem/list/single-list/list_expriment.c\<close>: trees built from an array in which -1 stands for
  an absent child, their traversals, depth, leaf count and sum. A tree is a value: the code never
  shares or changes a node after it was linked. What \<open>malloc\<close> can still give is a counter of nodes;
  \<open>None\<close> is a read outside the array or through the null pointer of a failed \<open>malloc\<close>.
\<close>

section \<open>binary.c\<close>

datatype binary_node = NULL | Node (idx: int) (left_of: binary_node) (right_of: binary_node)

definition Perfect_BinaryTree_data :: "int list" where
  "Perfect_BinaryTree_data = [200, 143, 754, 6, -1, -1, 3, -1, -1, 386, 7,
     -1, -1, 9, -1, -1, 876, 486, 8, -1, -1, 2, -1, -1, 740, 1, -1, -1, 5, -1, -1]"

text \<open>The globals \<open>BinaryTree_data\<close> and \<open>counter\<close>, the nodes left in the heap; the result with them.\<close>

partial_function (option) Preorder_Create_BinaryTree :: "int list \<Rightarrow> nat \<Rightarrow> int \<Rightarrow> (binary_node \<times> nat \<times> int) option" where
  "Preorder_Create_BinaryTree data heap counter = do {
     ch \<leftarrow> aget data counter;
     if ch = - 1 then Some (NULL, heap, counter + 1)
     else if heap = 0 then None
     else do {
       (l, heap1, counter1) \<leftarrow> Preorder_Create_BinaryTree data (heap - 1) (counter + 1);
       (r, heap2, counter2) \<leftarrow> Preorder_Create_BinaryTree data heap1 counter1;
       Some (Node ch l r, heap2, counter2) } }"

text \<open>The "postorder" creation reads the node, then its right child, then its left child.\<close>

partial_function (option) Postorder_Create_BinaryTree :: "int list \<Rightarrow> nat \<Rightarrow> int \<Rightarrow> (binary_node \<times> nat \<times> int) option" where
  "Postorder_Create_BinaryTree data heap counter = do {
     ch \<leftarrow> aget data counter;
     if ch = - 1 then Some (NULL, heap, counter + 1)
     else if heap = 0 then None
     else do {
       (r, heap1, counter1) \<leftarrow> Postorder_Create_BinaryTree data (heap - 1) (counter + 1);
       (l, heap2, counter2) \<leftarrow> Postorder_Create_BinaryTree data heap1 counter1;
       Some (Node ch l r, heap2, counter2) } }"

text \<open>The traversals, with what they print.\<close>

fun Preorder_Traverse_BinaryTree :: "binary_node \<Rightarrow> int list" where
  "Preorder_Traverse_BinaryTree NULL = []"
| "Preorder_Traverse_BinaryTree (Node x l r) =
     [x] @ Preorder_Traverse_BinaryTree l @ Preorder_Traverse_BinaryTree r"

fun Middorder_Traverse_BinaryTree :: "binary_node \<Rightarrow> int list" where
  "Middorder_Traverse_BinaryTree NULL = []"
| "Middorder_Traverse_BinaryTree (Node x l r) =
     Middorder_Traverse_BinaryTree l @ [x] @ Middorder_Traverse_BinaryTree r"

fun Postorder_Traverse_BinaryTree :: "binary_node \<Rightarrow> int list" where
  "Postorder_Traverse_BinaryTree NULL = []"
| "Postorder_Traverse_BinaryTree (Node x l r) =
     Postorder_Traverse_BinaryTree l @ Postorder_Traverse_BinaryTree r @ [x]"

fun BinaryTree_Deep :: "binary_node \<Rightarrow> int" where
  "BinaryTree_Deep NULL = 0"
| "BinaryTree_Deep (Node x l r) =
     (let leftdeep = BinaryTree_Deep l; rightdeep = BinaryTree_Deep r
      in if leftdeep \<ge> rightdeep then leftdeep + 1 else rightdeep + 1)"

text \<open>\<open>count\<close> is a static variable: its value before is an argument, the result its value after.\<close>

fun BinaryTree_LeafCount :: "binary_node \<Rightarrow> int \<Rightarrow> int" where
  "BinaryTree_LeafCount NULL leaves = leaves"
| "BinaryTree_LeafCount (Node x l r) leaves =
     (let leaves1 = (if l = NULL \<and> r = NULL then leaves + 1 else leaves)
      in BinaryTree_LeafCount r (BinaryTree_LeafCount l leaves1))"

text \<open>The nodes come back to the heap, children first.\<close>

fun Postorder_Free_BinaryTree :: "binary_node \<Rightarrow> nat \<Rightarrow> nat" where
  "Postorder_Free_BinaryTree NULL heap = heap"
| "Postorder_Free_BinaryTree (Node x l r) heap =
     Suc (Postorder_Free_BinaryTree r (Postorder_Free_BinaryTree l heap))"

text \<open>\<open>main\<close>: the three traversals, the depth, the leaves, and the heap in the end.\<close>

definition binary_main :: "nat \<Rightarrow> (int list \<times> int list \<times> int list \<times> int \<times> int \<times> nat) option" where
  "binary_main heap = do {
     (basic_root, heap1, counter) \<leftarrow> Preorder_Create_BinaryTree Perfect_BinaryTree_data heap 0;
     Some (Preorder_Traverse_BinaryTree basic_root, Middorder_Traverse_BinaryTree basic_root,
       Postorder_Traverse_BinaryTree basic_root, BinaryTree_Deep basic_root,
       BinaryTree_LeafCount basic_root 0, Postorder_Free_BinaryTree basic_root heap1) }"

section \<open>The tree of list_expriment.c\<close>

definition Tree_data :: "int list" where
  "Tree_data = [2, 1, 4, 6, -1, -1, 3, -1, -1, 6, 7, -1, -1, 9, -1, -1, 6, 6, 8, -1, -1, 2, -1,
     -1, 0, 1, -1, -1, 5, -1, -1]"

partial_function (option) create_tree :: "int list \<Rightarrow> nat \<Rightarrow> int \<Rightarrow> (binary_node \<times> nat \<times> int) option" where
  "create_tree tree_data heap cnt = do {
     data \<leftarrow> aget tree_data cnt;
     if data = - 1 then Some (NULL, heap, cnt + 1)
     else if heap = 0 then None
     else do {
       (l, heap1, cnt1) \<leftarrow> create_tree tree_data (heap - 1) (cnt + 1);
       (r, heap2, cnt2) \<leftarrow> create_tree tree_data heap1 cnt1;
       Some (Node data l r, heap2, cnt2) } }"

text \<open>The static \<open>result\<close> after a call; the sum is an \<open>int\<close>, and its overflow is undefined.\<close>

fun calculate_tree :: "binary_node \<Rightarrow> int \<Rightarrow> int option" where
  "calculate_tree NULL result = Some result"
| "calculate_tree (Node x l r) result =
     (let result1 = result + x in
      if - 2147483648 \<le> result1 \<and> result1 < 2147483648
      then Option.bind (calculate_tree l result1) (calculate_tree r) else None)"

text \<open>What the call itself returns: nothing usable on a null pointer (a bare \<open>return\<close>).\<close>

definition calculate_tree_result :: "int \<Rightarrow> binary_node \<Rightarrow> int \<Rightarrow> int option" where
  "calculate_tree_result garbage t result = (if t = NULL then Some garbage else calculate_tree t result)"

fun traverse_tree :: "binary_node \<Rightarrow> int list" where
  "traverse_tree NULL = []"
| "traverse_tree (Node x l r) = x # traverse_tree l @ traverse_tree r"

section \<open>Creation and the array\<close>

text \<open>The array form of a tree, and its mirror image.\<close>

fun preorder_array :: "binary_node \<Rightarrow> int list" where
  "preorder_array NULL = [- 1]"
| "preorder_array (Node x l r) = x # preorder_array l @ preorder_array r"

fun mirror :: "binary_node \<Rightarrow> binary_node" where
  "mirror NULL = NULL"
| "mirror (Node x l r) = Node x (mirror r) (mirror l)"

fun nodes :: "binary_node \<Rightarrow> nat" where
  "nodes NULL = 0"
| "nodes (Node x l r) = Suc (nodes l + nodes r)"

definition storable :: "binary_node \<Rightarrow> bool" where
  "storable t \<longleftrightarrow> - 1 \<notin> set (Preorder_Traverse_BinaryTree t)"

lemma aget_append: "aget (pre @ x # post) (int (length pre)) = Some x"
  by (simp add: aget_def)

lemma create_preorder: "storable t \<Longrightarrow> nodes t \<le> heap \<Longrightarrow>
    Preorder_Create_BinaryTree (pre @ preorder_array t @ post) heap (int (length pre))
      = Some (t, heap - nodes t, int (length pre + length (preorder_array t)))"
proof (induction t arbitrary: pre post heap)
  case NULL
  then show ?case by (subst Preorder_Create_BinaryTree.simps) (simp add: aget_append)
next
  case (Node x l r)
  have s: "x \<noteq> - 1" "storable l" "storable r" using Node.prems(1) by (auto simp: storable_def)
  have L: "Preorder_Create_BinaryTree (pre @ x # preorder_array l @ preorder_array r @ post) (heap - 1) (int (length pre) + 1)
      = Some (l, heap - 1 - nodes l, int (length pre + 1 + length (preorder_array l)))"
    using Node.IH(1) [of "heap - 1" "pre @ [x]" "preorder_array r @ post"] s Node.prems(2) by (simp add: add.commute)
  have R: "Preorder_Create_BinaryTree (pre @ x # preorder_array l @ preorder_array r @ post) (heap - 1 - nodes l)
      (int (length pre + 1 + length (preorder_array l)))
      = Some (r, heap - 1 - nodes l - nodes r, int (length pre + 1 + length (preorder_array l) + length (preorder_array r)))"
    using Node.IH(2) [of "heap - 1 - nodes l" "pre @ x # preorder_array l" "post"] s Node.prems(2) by simp
  show ?case
    using s Node.prems(2) L R
    by (subst Preorder_Create_BinaryTree.simps) (simp add: aget_append add.commute add.left_commute)
qed

text \<open>Any array the creation accepts starts with the array of the tree it returns.\<close>

lemma create_sound:
  assumes "Preorder_Create_BinaryTree data heap counter = Some (t, heap', counter')"
  shows "storable t \<and> heap = heap' + nodes t \<and> counter' = counter + int (length (preorder_array t))
    \<and> 0 \<le> counter \<and> take (length (preorder_array t)) (drop (nat counter) data) = preorder_array t"
  using assms
proof (induction data heap counter "(t, heap', counter')" arbitrary: t heap' counter' rule: Preorder_Create_BinaryTree.raw_induct [rotated, consumes 1])
  case (1 rec data heap counter t heap' counter')
  obtain ch where ch: "aget data counter = Some ch" using 1(2) by (cases "aget data counter") auto
  then have c: "0 \<le> counter" "counter < int (length data)" "ch = data ! nat counter"
    by (auto simp: aget_def split: if_splits)
  then have d: "drop (nat counter) data = ch # drop (nat (counter + 1)) data"
    by (simp add: Cons_nth_drop_Suc nat_add_distrib)
  show ?case
  proof (cases "ch = - 1")
    case True
    with 1(2) ch c d show ?thesis by (auto simp: storable_def)
  next
    case False
    with 1(2) ch obtain l h1 c1 r h2 c2 where rec: "0 < heap" "rec data (heap - 1) (counter + 1) = Some (l, h1, c1)"
      "rec data h1 c1 = Some (r, h2, c2)" "t = Node ch l r" "heap' = h2" "counter' = c2"
      by (auto split: if_splits Option.bind_splits)
    note L = 1(1) [OF rec(2)] and R = 1(1) [OF rec(3)]
    have n: "nat c1 = nat (counter + 1) + length (preorder_array l)" using L c(1) by linarith
    have "take (length (preorder_array l) + length (preorder_array r)) (drop (nat (counter + 1)) data)
        = preorder_array l @ preorder_array r"
    proof -
      have "take (length (preorder_array l)) (drop (nat (counter + 1)) data) = preorder_array l"
        "take (length (preorder_array r)) (drop (nat c1) data) = preorder_array r"
        using L R by blast+
      then show ?thesis by (simp add: take_add n add.commute)
    qed
    with L R rec False d c show ?thesis by (auto simp: storable_def)
  qed
qed

lemma create_postorder: "storable t \<Longrightarrow> nodes t \<le> heap \<Longrightarrow>
    Postorder_Create_BinaryTree (pre @ preorder_array t @ post) heap (int (length pre))
      = Some (mirror t, heap - nodes t, int (length pre + length (preorder_array t)))"
proof (induction t arbitrary: pre post heap)
  case NULL
  then show ?case by (subst Postorder_Create_BinaryTree.simps) (simp add: aget_append)
next
  case (Node x l r)
  have s: "x \<noteq> - 1" "storable l" "storable r" using Node.prems(1) by (auto simp: storable_def)
  have L: "Postorder_Create_BinaryTree (pre @ x # preorder_array l @ preorder_array r @ post) (heap - 1) (int (length pre) + 1)
      = Some (mirror l, heap - 1 - nodes l, int (length pre + 1 + length (preorder_array l)))"
    using Node.IH(1) [of "heap - 1" "pre @ [x]" "preorder_array r @ post"] s Node.prems(2) by (simp add: add.commute)
  have R: "Postorder_Create_BinaryTree (pre @ x # preorder_array l @ preorder_array r @ post) (heap - 1 - nodes l)
      (int (length pre + 1 + length (preorder_array l)))
      = Some (mirror r, heap - 1 - nodes l - nodes r, int (length pre + 1 + length (preorder_array l) + length (preorder_array r)))"
    using Node.IH(2) [of "heap - 1 - nodes l" "pre @ x # preorder_array l" "post"] s Node.prems(2) by simp
  show ?case
    using s Node.prems(2) L R
    by (subst Postorder_Create_BinaryTree.simps) (simp add: aget_append add.commute add.left_commute)
qed

text \<open>\<open>create_tree\<close> is the same function on the other file's array.\<close>

lemma create_tree_eq: "create_tree data heap cnt = Some (t, heap', cnt') \<longleftrightarrow>
    Preorder_Create_BinaryTree data heap cnt = Some (t, heap', cnt')"
proof
  assume "create_tree data heap cnt = Some (t, heap', cnt')"
  then show "Preorder_Create_BinaryTree data heap cnt = Some (t, heap', cnt')"
  proof (induction data heap cnt "(t, heap', cnt')" arbitrary: t heap' cnt' rule: create_tree.raw_induct [rotated, consumes 1])
    case (1 rec data heap cnt)
    then show ?case
      by (subst Preorder_Create_BinaryTree.simps) (auto split: if_splits Option.bind_splits)
  qed
next
  assume "Preorder_Create_BinaryTree data heap cnt = Some (t, heap', cnt')"
  then show "create_tree data heap cnt = Some (t, heap', cnt')"
  proof (induction data heap cnt "(t, heap', cnt')" arbitrary: t heap' cnt' rule: Preorder_Create_BinaryTree.raw_induct [rotated, consumes 1])
    case (1 rec data heap cnt)
    then show ?case
      by (subst create_tree.simps) (auto split: if_splits Option.bind_splits)
  qed
qed

section \<open>What the functions guarantee\<close>

fun height :: "binary_node \<Rightarrow> int" where
  "height NULL = 0"
| "height (Node x l r) = 1 + max (height l) (height r)"

fun leaves :: "binary_node \<Rightarrow> int" where
  "leaves NULL = 0"
| "leaves (Node x l r) = (if l = NULL \<and> r = NULL then 1 else leaves l + leaves r)"

lemma deep_height: "BinaryTree_Deep t = height t"
  by (induction t) (auto simp: Let_def)

lemma leafcount_leaves: "BinaryTree_LeafCount t c = c + leaves t"
  by (induction t arbitrary: c) (auto simp: Let_def)

lemma free_nodes: "Postorder_Free_BinaryTree t heap = heap + nodes t"
  by (induction t arbitrary: heap) auto

lemma middorder_mirror: "Middorder_Traverse_BinaryTree (mirror t) = rev (Middorder_Traverse_BinaryTree t)"
  by (induction t) auto

lemma calculate_sum: "\<forall>x \<in> set (Preorder_Traverse_BinaryTree t). 0 \<le> x \<Longrightarrow> 0 \<le> res \<Longrightarrow>
    res + sum_list (Preorder_Traverse_BinaryTree t) < 2147483648 \<Longrightarrow>
    calculate_tree t res = Some (res + sum_list (Preorder_Traverse_BinaryTree t))"
proof (induction t arbitrary: res)
  case (Node x l r)
  have "0 \<le> sum_list (Preorder_Traverse_BinaryTree l)" "0 \<le> sum_list (Preorder_Traverse_BinaryTree r)"
    using Node.prems(1) by (auto intro: sum_list_nonneg)
  with Node show ?case by (auto simp: Let_def add.assoc)
qed simp

text \<open>C27: building a tree from its array gives it back, whatever stands before and behind: the counter
  ends after the last cell used, no cell outside is read, and exactly its nodes are allocated.\<close>

theorem preorder_create_roundtrip:
  assumes "storable t" "nodes t \<le> heap"
  shows "Preorder_Create_BinaryTree (pre @ preorder_array t @ post) heap (int (length pre))
      = Some (t, heap - nodes t, int (length pre + length (preorder_array t)))"
  by (rule create_preorder [OF assms])

theorem preorder_create_roundtrip_witness:
  "Preorder_Create_BinaryTree ([9] @ preorder_array (Node 5 NULL (Node 6 NULL NULL)) @ []) 4 1
    = Some (Node 5 NULL (Node 6 NULL NULL), 2, 6)"
  using preorder_create_roundtrip [of "Node 5 NULL (Node 6 NULL NULL)" 4 "[9]" "[]"] by (simp add: storable_def)

text \<open>conversely every array the creation accepts held the array of the tree it returned at that
  place; so arrays and trees without -1 correspond one to one.\<close>

theorem preorder_create_sound:
  assumes "Preorder_Create_BinaryTree data heap counter = Some (t, heap', counter')"
  shows "storable t \<and> heap = heap' + nodes t \<and> counter' = counter + int (length (preorder_array t))
    \<and> take (length (preorder_array t)) (drop (nat counter) data) = preorder_array t"
  using create_sound [OF assms] by blast

theorem preorder_create_sound_witness:
  "storable (Node 5 NULL NULL) \<and> take 3 (drop 0 [5, - 1, - 1, 7 :: int]) = preorder_array (Node 5 NULL NULL)"
proof -
  have "Preorder_Create_BinaryTree [5, - 1, - 1, 7] 1 0 = Some (Node 5 NULL NULL, 0, 3)"
    using create_preorder [of "Node 5 NULL NULL" 1 "[]" "[7]"] by (simp add: storable_def)
  from preorder_create_sound [OF this] show ?thesis by simp
qed

text \<open>the "postorder" creation reads the same array as the mirrored tree: its inorder traversal is
  that of the preorder creation read backwards.\<close>

theorem postorder_create_mirror:
  assumes "storable t" "nodes t \<le> heap"
  shows "\<exists>t'. Postorder_Create_BinaryTree (pre @ preorder_array t @ post) heap (int (length pre))
      = Some (t', heap - nodes t, int (length pre + length (preorder_array t)))
    \<and> Middorder_Traverse_BinaryTree t' = rev (Middorder_Traverse_BinaryTree t)"
  using create_postorder [OF assms] middorder_mirror by blast

theorem postorder_create_mirror_witness:
  "\<exists>t'. Postorder_Create_BinaryTree ([] @ preorder_array (Node 5 (Node 4 NULL NULL) NULL) @ []) 2 0
      = Some (t', 0, 5) \<and> Middorder_Traverse_BinaryTree t' = [5, 4]"
  using postorder_create_mirror [of "Node 5 (Node 4 NULL NULL) NULL" 2 "[]" "[]"] by (simp add: storable_def)

text \<open>the depth is the height, freeing gives every node back, and the leaf count is right on the
  first call; its counter is static and never reset, so a second call on the same tree doubles it.\<close>

theorem tree_measures:
  "BinaryTree_Deep t = height t \<and> Postorder_Free_BinaryTree t heap = heap + nodes t
   \<and> BinaryTree_LeafCount t 0 = leaves t \<and> BinaryTree_LeafCount t (BinaryTree_LeafCount t 0) = 2 * leaves t"
  by (simp add: deep_height free_nodes leafcount_leaves)

text \<open>the program on its own array: it needs fifteen nodes, prints the three traversals of the perfect
  tree of depth four, finds its eight leaves, and frees every node again.\<close>

theorem binary_main_correct:
  assumes "15 \<le> heap"
  shows "\<exists>pre mid. binary_main heap = Some (pre, mid, [6, 3, 754, 7, 9, 386, 143, 8, 2, 486, 1, 5, 740, 876, 200], 4, 8, heap)
    \<and> pre = filter (\<lambda>x. x \<noteq> - 1) Perfect_BinaryTree_data
    \<and> mid = [6, 754, 3, 143, 7, 386, 9, 200, 8, 486, 2, 876, 1, 740, 5]"
proof -
  define t where "t = Node 200 (Node 143 (Node 754 (Node 6 NULL NULL) (Node 3 NULL NULL)) (Node 386 (Node 7 NULL NULL) (Node 9 NULL NULL)))
      (Node 876 (Node 486 (Node 8 NULL NULL) (Node 2 NULL NULL)) (Node 740 (Node 1 NULL NULL) (Node 5 NULL NULL)))"
  have "Preorder_Create_BinaryTree Perfect_BinaryTree_data heap 0 = Some (t, heap - 15, 31)"
    using create_preorder [of t heap "[]" "[]"] assms
    by (simp add: t_def storable_def Perfect_BinaryTree_data_def eval_nat_numeral)
  then show ?thesis
    using assms by (simp add: binary_main_def t_def Perfect_BinaryTree_data_def leafcount_leaves free_nodes)
qed

theorem binary_main_correct_witness:
  "\<exists>pre mid. binary_main 20 = Some (pre, mid, [6, 3, 754, 7, 9, 386, 143, 8, 2, 486, 1, 5, 740, 876, 200], 4, 8, 20)
    \<and> pre = filter (\<lambda>x. x \<noteq> - 1) Perfect_BinaryTree_data
    \<and> mid = [6, 754, 3, 143, 7, 386, 9, 200, 8, 486, 2, 876, 1, 740, 5]"
  by (rule binary_main_correct) simp

text \<open>on a tree of non-negative numbers whose sum fits an \<open>int\<close>, \<open>calculate_tree\<close> returns the sum of
  the tree that \<open>create_tree\<close> built, added to what earlier calls left in its static result.\<close>

theorem calculate_tree_sum:
  assumes "create_tree data heap cnt = Some (t, heap', cnt')" "t \<noteq> NULL"
    and "list_all (\<lambda>x. 0 \<le> x) (traverse_tree t)" "0 \<le> res" "res + sum_list (traverse_tree t) < 2147483648"
  shows "calculate_tree_result garbage t res = Some (res + sum_list (traverse_tree t))
    \<and> sum_list (traverse_tree t) = sum_list (filter (\<lambda>x. x \<noteq> - 1) (preorder_array t))"
proof -
  have tr: "traverse_tree s = Preorder_Traverse_BinaryTree s" for s by (induction s) auto
  have "storable t" using create_sound assms(1) by (simp add: create_tree_eq)
  then have "filter (\<lambda>x. x \<noteq> - 1) (preorder_array t) = Preorder_Traverse_BinaryTree t"
    by (induction t) (auto simp: storable_def)
  with assms(2-5) calculate_sum [of t res] show ?thesis
    by (simp add: calculate_tree_result_def tr list_all_iff)
qed

theorem calculate_tree_sum_witness:
  "calculate_tree_result 0 (Node 5 NULL NULL) 3 = Some 8"
proof -
  have "create_tree [5, - 1, - 1] 1 0 = Some (Node 5 NULL NULL, 0, 3)"
    using create_preorder [of "Node 5 NULL NULL" 1 "[]" "[]"] by (simp add: storable_def create_tree_eq)
  from calculate_tree_sum [OF this, of 3 0] show ?thesis by simp
qed

end
