(* ===== verification/Linked_List.thy ===== *)
theory Linked_List
  imports Prelude
begin

text \<open>
  The linked lists of \<open>Algorithem/list/single-list\<close>: \<open>create_list\<close>, \<open>insert_list\<close> and
  \<open>insert_list_posion\<close> of \<open>list_expriment.c\<close> and the insertion through a pointer to a pointer of
  \<open>single_list.c\<close>, over an explicit heap. \<open>None\<close> is an access through a null or dangling pointer,
  or a walk that does not end.
\<close>

section \<open>The heap\<close>

text \<open>A pointer is \<open>None\<close> for \<open>NULL\<close>, or an address.\<close>

type_synonym ptr = "nat option"

record list_node =
  data :: int
  nxt :: ptr

type_synonym heap = "nat \<Rightarrow> list_node option"

definition load :: "heap \<Rightarrow> ptr \<Rightarrow> list_node option" where
  "load h p = Option.bind p h"

definition set_next :: "heap \<Rightarrow> nat \<Rightarrow> ptr \<Rightarrow> heap option" where
  "set_next h a q = (case h a of None \<Rightarrow> None | Some n \<Rightarrow> Some (h(a \<mapsto> n\<lparr>nxt := q\<rparr>)))"

section \<open>list_expriment.c\<close>

text \<open>\<open>a\<close> is the address \<open>malloc\<close> returns, \<open>NULL\<close> when it fails.\<close>

definition create_list :: "ptr \<Rightarrow> int \<Rightarrow> heap \<Rightarrow> (ptr \<times> heap) option" where
  "create_list a val h = (case a of None \<Rightarrow> None | Some p \<Rightarrow> Some (a, h(p \<mapsto> \<lparr>data = val, nxt = None\<rparr>)))"

text \<open>\<open>while (tmp->next) tmp = tmp->next;\<close>\<close>

partial_function (option) last_node :: "heap \<Rightarrow> nat \<Rightarrow> nat option" where
  "last_node h tmp = do {
     n \<leftarrow> h tmp;
     case nxt n of None \<Rightarrow> Some tmp | Some q \<Rightarrow> last_node h q }"

text \<open>There is no return statement at the end: \<open>garbage\<close> is what the caller sees then.\<close>

definition insert_list :: "int \<Rightarrow> ptr \<Rightarrow> ptr \<Rightarrow> heap \<Rightarrow> (int \<times> heap) option" where
  "insert_list garbage lst node h = (case lst of
     None \<Rightarrow> Some (- 1, h)
   | Some a \<Rightarrow> (case node of
       None \<Rightarrow> Some (- 1, h)
     | Some b \<Rightarrow> do { tmp \<leftarrow> last_node h a; h' \<leftarrow> set_next h tmp (Some b); Some (garbage, h') }))"

text \<open>The loop of \<open>insert_list_posion\<close> from \<open>tmp\<close> on.\<close>

partial_function (option) posion_loop :: "heap \<Rightarrow> ptr \<Rightarrow> int \<Rightarrow> nat \<Rightarrow> heap option" where
  "posion_loop h tmp val node = (case tmp of
     None \<Rightarrow> Some h
   | Some a \<Rightarrow> do {
       t \<leftarrow> h a;
       s \<leftarrow> load h (nxt t);
       if data s = val then do {
         h1 \<leftarrow> set_next h node (nxt s);
         set_next h1 a (Some node) }
       else posion_loop h (nxt t) val node })"

definition insert_list_posion :: "ptr \<Rightarrow> int \<Rightarrow> nat \<Rightarrow> heap \<Rightarrow> heap option" where
  "insert_list_posion lst val node h = posion_loop h lst val node"

text \<open>The printing loop of both \<open>main\<close> functions, with what it prints.\<close>

partial_function (option) print_list :: "heap \<Rightarrow> ptr \<Rightarrow> int list option" where
  "print_list h p = (case p of None \<Rightarrow> Some []
     | Some a \<Rightarrow> do { n \<leftarrow> h a; xs \<leftarrow> print_list h (nxt n); Some (data n # xs) })"

section \<open>single_list.c\<close>

text \<open>\<open>list\<close> points to the next field of some node, here that node's address; the insertion stores
  \<open>node\<close> there and moves \<open>list\<close> to the next field of \<open>node\<close>.\<close>

definition single_list_insert :: "nat \<Rightarrow> nat \<Rightarrow> heap \<Rightarrow> (nat \<times> heap) option" where
  "single_list_insert lst node h = do { h' \<leftarrow> set_next h lst (Some node); Some (node, h') }"

fun insert_nodes :: "nat list \<Rightarrow> nat \<Rightarrow> heap \<Rightarrow> (nat \<times> heap) option" where
  "insert_nodes [] lst h = Some (lst, h)"
| "insert_nodes (a # as) lst h = do { (lst', h') \<leftarrow> single_list_insert lst a h; insert_nodes as lst' h' }"

text \<open>\<open>main\<close> on its four static nodes: the list starts at the next field of \<open>n0\<close>.\<close>

definition single_list_main :: "(nat \<times> heap) option" where
  "single_list_main = insert_nodes [0, 1, 2, 3] 0 (\<lambda>a. if a < 4 then Some \<lparr>data = int a, nxt = None\<rparr> else None)"

section \<open>main of list_expriment.c\<close>

text \<open>The node of \<open>malloc\<close> at address 0, \<open>list_node0\<close> to \<open>list_node4\<close> at 1 to 5; what it prints.\<close>

definition list_main :: "int list option" where
  "list_main = (let h = (\<lambda>a. if a = 0 then None else map_of (zip [1..<6] (map (\<lambda>v. \<lparr>data = v, nxt = None\<rparr>) [2, 4, 3, 8, 0])) a) in
   do {
     (lst, h) \<leftarrow> create_list (Some 0) 10 h;
     (_, h) \<leftarrow> insert_list 0 lst (Some 1) h;
     (_, h) \<leftarrow> insert_list 0 lst (Some 2) h;
     (_, h) \<leftarrow> insert_list 0 lst (Some 3) h;
     (_, h) \<leftarrow> insert_list 0 lst (Some 4) h;
     h \<leftarrow> insert_list_posion lst 3 5 h;
     print_list h lst })"

section \<open>Lists in the heap\<close>

text \<open>\<open>chain h p as q\<close>: from \<open>p\<close> the nodes \<open>as\<close> lead to \<open>q\<close>.\<close>

fun chain :: "heap \<Rightarrow> ptr \<Rightarrow> nat list \<Rightarrow> ptr \<Rightarrow> bool" where
  "chain h p [] q \<longleftrightarrow> p = q"
| "chain h p (a # as) q \<longleftrightarrow> p = Some a \<and> (\<exists>n. h a = Some n \<and> chain h (nxt n) as q)"

definition vals :: "heap \<Rightarrow> nat list \<Rightarrow> int list" where
  "vals h as = map (\<lambda>a. data (the (h a))) as"

lemma chain_append [simp]: "chain h p (as @ bs) q \<longleftrightarrow> (\<exists>m. chain h p as m \<and> chain h m bs q)"
  by (induction "as" arbitrary: p) auto

lemma chain_upd [simp]: "a \<notin> set as \<Longrightarrow> chain (h(a \<mapsto> n)) p as q = chain h p as q"
  by (induction "as" arbitrary: p) auto

lemma vals_upd [simp]: "a \<notin> set as \<Longrightarrow> vals (h(a \<mapsto> n)) as = vals h as"
  by (auto simp: vals_def)

lemma vals_simps [simp]: "vals h [] = []" "vals h (a # as) = data (the (h a)) # vals h as"
  "vals h (as @ bs) = vals h as @ vals h bs"
  by (simp_all add: vals_def)

lemma print_chain: "chain h p as None \<Longrightarrow> print_list h p = Some (vals h as)"
proof (induction "as" arbitrary: p)
  case Nil
  then show ?case by (subst print_list.simps) simp
next
  case (Cons a as)
  then show ?case by (subst print_list.simps) auto
qed

lemma last_node_chain: "chain h (Some a) (as @ [b]) None \<Longrightarrow> last_node h a = Some b"
proof (induction "as" arbitrary: a)
  case Nil
  then show ?case by (subst last_node.simps) auto
next
  case (Cons c as)
  then obtain n where n: "h a = Some n" "chain h (nxt n) (as @ [b]) None" by auto
  then obtain d where "nxt n = Some d" by (cases "as") auto
  with n Cons.IH [of d] show ?case by (subst last_node.simps) simp
qed

text \<open>Appending a node that is not in the list.\<close>

lemma insert_list_chain:
  assumes "chain h (Some a) as None" "as \<noteq> []" "distinct as" "b \<notin> set as" "h b = Some n" "nxt n = None"
  shows "\<exists>h'. insert_list garbage (Some a) (Some b) h = Some (garbage, h') \<and> chain h' (Some a) (as @ [b]) None
    \<and> vals h' (as @ [b]) = vals h as @ [data n]"
proof -
  obtain ys z where as_split: "as = ys @ [z]" using assms(2) by (cases "as" rule: rev_cases) auto
  have last: "last_node h a = Some z" using assms(1) as_split last_node_chain by simp
  obtain m where m: "h z = Some m" "nxt m = None" using assms(1) as_split by auto
  have "z \<notin> set ys" "b \<notin> set ys" "b \<noteq> z" using assms(3,4) as_split by auto
  with last m assms(1,5,6) as_split show ?thesis
    by (auto simp: insert_list_def set_next_def)
qed

text \<open>The loop of \<open>insert_list_posion\<close> on a list whose first match, after the head, is \<open>b\<close>.\<close>

lemma posion_found:
  assumes "chain h p (as @ [a, b]) q" "val \<notin> set (vals h (tl (as @ [a])))" "data (the (h b)) = val"
    and "distinct (as @ [a, b])" "c \<notin> set (as @ [a, b])" "h c = Some n"
  shows "\<exists>h'. posion_loop h p val c = Some h' \<and> chain h' p (as @ [a, c]) q
    \<and> (\<forall>xs. set xs \<inter> {a, c} = {} \<longrightarrow> (\<forall>r s. chain h' r xs s = chain h r xs s)) \<and> (\<forall>x. vals h' x = vals h x)"
  using assms
proof (induction "as" arbitrary: p)
  case Nil
  then obtain na nb where n: "p = Some a" "h a = Some na" "nxt na = Some b" "h b = Some nb" "nxt nb = q" by auto
  have "c \<noteq> a" "c \<noteq> b" using Nil.prems(5) by auto
  let ?h = "h(c \<mapsto> n\<lparr>nxt := q\<rparr>, a \<mapsto> na\<lparr>nxt := Some c\<rparr>)"
  have step: "posion_loop h p val c = Some ?h"
    using n Nil.prems(3,6) \<open>c \<noteq> a\<close> by (subst posion_loop.simps) (auto simp: load_def set_next_def)
  have "vals ?h x = vals h x" for x
    using n Nil.prems(6) by (induction x) auto
  moreover have "chain ?h r xs s = chain h r xs s" if "set xs \<inter> {a, c} = {}" for xs r s
    using that by auto
  ultimately show ?case using step n \<open>c \<noteq> a\<close> by auto
next
  case (Cons d as)
  then obtain nd e where n: "p = Some d" "h d = Some nd" "chain h (nxt nd) (as @ [a, b]) q" by auto
  obtain e es where e: "as @ [a, b] = e # es" "as @ [a] \<noteq> []" "hd (as @ [a]) = e" by (cases "as") auto
  have "e \<in> set (as @ [a])" using e(2,3) by (metis hd_in_set)
  then have "data (the (h e)) \<noteq> val" using Cons.prems(2) by (auto simp: vals_def)
  moreover obtain ne where "h e = Some ne" "nxt nd = Some e" using n(3) e(1) by auto
  ultimately have skip: "posion_loop h p val c = posion_loop h (nxt nd) val c"
    using n by (subst posion_loop.simps) (auto simp: load_def)
  have "val \<notin> set (vals h (tl (as @ [a])))"
    using Cons.prems(2) by (cases "as") (auto simp: vals_def)
  with Cons.IH [OF n(3)] Cons.prems obtain h' where h': "posion_loop h (nxt nd) val c = Some h'"
      "chain h' (nxt nd) (as @ [a, c]) q" "\<forall>xs. set xs \<inter> {a, c} = {} \<longrightarrow> (\<forall>r s. chain h' r xs s = chain h r xs s)"
      "\<forall>x. vals h' x = vals h x"
    by auto
  have "chain h' p [d] (nxt nd) = chain h p [d] (nxt nd)"
    using h'(3) Cons.prems(4,5) by (auto simp del: chain.simps)
  with n have "chain h' p [d] (nxt nd)" by simp
  then have "chain h' p (d # as @ [a, c]) q" using h'(2) n(1) by auto
  with h' skip show ?case by auto
qed

lemma posion_missing:
  assumes "chain h p as None" "as \<noteq> []" "val \<notin> set (vals h (tl as))"
  shows "posion_loop h p val c = None"
  using assms
proof (induction "as" arbitrary: p)
  case (Cons a as)
  then obtain n where n: "p = Some a" "h a = Some n" "chain h (nxt n) as None" by auto
  show ?case
  proof (cases "as")
    case Nil
    with n show ?thesis by (subst posion_loop.simps) (auto simp: load_def)
  next
    case (Cons b bs)
    with n obtain m where m: "nxt n = Some b" "h b = Some m" by auto
    have "data m \<noteq> val" "val \<notin> set (vals h (tl as))" using Cons.prems(3) Cons m by (auto simp: vals_def)
    with Cons.IH [OF n(3)] Cons have "posion_loop h (nxt n) val c = None" by simp
    with n m \<open>data m \<noteq> val\<close> show ?thesis by (subst posion_loop.simps) (simp add: load_def)
  qed
qed simp

text \<open>Inserting the nodes \<open>as\<close> one after another behind \<open>a\<close>.\<close>

lemma insert_nodes_chain: "distinct (a # as) \<Longrightarrow> h a = Some n \<Longrightarrow> (\<forall>b \<in> set as. \<exists>m. h b = Some m) \<Longrightarrow>
    as = [] \<longrightarrow> nxt n = None \<Longrightarrow> (\<forall>m. as \<noteq> [] \<longrightarrow> h (last as) = Some m \<longrightarrow> nxt m = None) \<Longrightarrow>
    \<exists>h'. insert_nodes as a h = Some (last (a # as), h') \<and> chain h' (Some a) (a # as) None
      \<and> vals h' (a # as) = vals h (a # as) \<and> (\<forall>x. x \<notin> set (a # as) \<longrightarrow> h' x = h x)"
proof (induction "as" arbitrary: a h n)
  case Nil
  then show ?case by auto
next
  case (Cons b bs)
  let ?h = "h(a \<mapsto> n\<lparr>nxt := Some b\<rparr>)"
  have "a \<noteq> b" "a \<notin> set bs" using Cons.prems(1) by auto
  obtain m where m: "h b = Some m" using Cons.prems(3) by auto
  have "\<exists>h'. insert_nodes bs b ?h = Some (last (b # bs), h') \<and> chain h' (Some b) (b # bs) None
      \<and> vals h' (b # bs) = vals ?h (b # bs) \<and> (\<forall>x. x \<notin> set (b # bs) \<longrightarrow> h' x = ?h x)"
    using Cons.prems \<open>a \<noteq> b\<close> \<open>a \<notin> set bs\<close> m by (intro Cons.IH [of b ?h m]) (auto split: if_splits)
  then obtain h' where h': "insert_nodes bs b ?h = Some (last (b # bs), h')" "chain h' (Some b) (b # bs) None"
      "vals h' (b # bs) = vals ?h (b # bs)" "\<forall>x. x \<notin> set (b # bs) \<longrightarrow> h' x = ?h x" by blast
  have a': "h' a = Some (n\<lparr>nxt := Some b\<rparr>)" using h'(4) \<open>a \<noteq> b\<close> \<open>a \<notin> set bs\<close> by simp
  have "vals ?h (b # bs) = vals h (b # bs)" using \<open>a \<noteq> b\<close> \<open>a \<notin> set bs\<close> by simp
  with h' a' Cons.prems(2) show ?case
    by (auto simp: single_list_insert_def set_next_def simp del: fun_upd_apply) (auto simp: fun_upd_apply)
qed

section \<open>What the functions guarantee\<close>

text \<open>A heap that holds the nodes 0, 1, .. in a row with the given numbers, and one more loose node.\<close>

definition row :: "int list \<Rightarrow> heap" where
  "row vs = (\<lambda>a. if a < length vs then Some \<lparr>data = vs ! a, nxt = (if Suc a < length vs then Some (Suc a) else None)\<rparr>
     else if a = length vs then Some \<lparr>data = 99, nxt = None\<rparr> else None)"

text \<open>C37: \<open>insert_list\<close> appends: on a proper list and a node outside it whose next pointer is null, it
  ends, touches only the last node, and the list then reads as before with the new value at its end.\<close>

theorem insert_list_appends:
  assumes "chain h (Some a) as None" "as \<noteq> []" "distinct as" "b \<notin> set as" "h b = Some n" "nxt n = None"
  shows "\<exists>h'. insert_list garbage (Some a) (Some b) h = Some (garbage, h')
    \<and> print_list h (Some a) = Some (vals h as) \<and> print_list h' (Some a) = Some (vals h as @ [data n])"
proof -
  obtain h' where h': "insert_list garbage (Some a) (Some b) h = Some (garbage, h')"
      "chain h' (Some a) (as @ [b]) None" "vals h' (as @ [b]) = vals h as @ [data n]"
    using insert_list_chain [OF assms] by blast
  then show ?thesis using print_chain [OF assms(1)] print_chain [OF h'(2)] by simp
qed

theorem insert_list_appends_witness:
  "\<exists>h'. insert_list 0 (Some 0) (Some 2) (row [5, 6]) = Some (0, h') \<and> print_list h' (Some 0) = Some [5, 6, 99]"
  using insert_list_appends [of "row [5, 6]" 0 "[0, 1]" 2 "\<lparr>data = 99, nxt = None\<rparr>" 0]
  by (auto simp: row_def vals_def)

text \<open>\<open>insert_list_posion\<close> does not insert: the first node after the head that holds the value drops
  out of the list, and the new node stands in its place.\<close>

theorem insert_list_posion_replaces:
  assumes "chain h p (as @ [a, b]) q" "chain h q bs None" "val \<notin> set (vals h (tl (as @ [a])))" "data (the (h b)) = val"
    and "distinct (as @ [a, b] @ bs)" "c \<notin> set (as @ [a, b] @ bs)" "h c = Some n"
  shows "\<exists>h'. insert_list_posion p val c h = Some h'
    \<and> print_list h p = Some (vals h (as @ [a, b] @ bs)) \<and> print_list h' p = Some (vals h (as @ [a]) @ data n # vals h bs)"
proof -
  have "distinct (as @ [a, b])" "c \<notin> set (as @ [a, b])" using assms(5,6) by auto
  from posion_found [OF assms(1,3,4) this assms(7)] obtain h' where h': "posion_loop h p val c = Some h'"
      "chain h' p (as @ [a, c]) q" "\<forall>xs. set xs \<inter> {a, c} = {} \<longrightarrow> (\<forall>r s. chain h' r xs s = chain h r xs s)"
      "\<forall>x. vals h' x = vals h x" by blast
  have "set bs \<inter> {a, c} = {}" using assms(5,6) by auto
  with h'(3) assms(2) have "chain h' q bs None" by blast
  with h'(2) have "chain h' p ((as @ [a, c]) @ bs) None" by (subst chain_append) blast
  moreover have "chain h p ((as @ [a, b]) @ bs) None" using assms(1,2) by (subst chain_append) blast
  moreover have "data (the (h' a)) = data (the (h a))" "data (the (h' c)) = data n"
    using spec [OF h'(4), of "[a]"] spec [OF h'(4), of "[c]"] assms(7) by simp_all
  ultimately show ?thesis
    using h'(1,4) print_chain [of h' p "(as @ [a, c]) @ bs"] print_chain [of h p "(as @ [a, b]) @ bs"]
    by (simp add: insert_list_posion_def del: chain.simps chain_append)
qed

theorem insert_list_posion_replaces_witness:
  "\<exists>h'. insert_list_posion (Some 0) 3 4 (row [10, 4, 3, 8]) = Some h' \<and> print_list h' (Some 0) = Some [10, 4, 99, 8]"
  using insert_list_posion_replaces [of "row [10, 4, 3, 8]" "Some 0" "[0]" 1 2 "Some 3" "[3]" 3 4 "\<lparr>data = 99, nxt = None\<rparr>"]
  by (auto simp: row_def vals_def)

text \<open>when no node after the head holds the value, \<open>insert_list_posion\<close> follows the null pointer at
  the end of the list.\<close>

theorem insert_list_posion_missing:
  assumes "chain h p as None" "as \<noteq> []" "val \<notin> set (vals h (tl as))"
  shows "insert_list_posion p val c h = None"
  using posion_missing [OF assms] by (simp add: insert_list_posion_def)

theorem insert_list_posion_missing_witness:
  "insert_list_posion (Some 0) 10 2 (row [10, 4]) = None"
  using insert_list_posion_missing [of "row [10, 4]" "Some 0" "[0, 1]" 10 2] by (simp add: row_def vals_def)

text \<open>\<open>single_list_insert\<close> through the pointer to the next field of the head, started with the head
  itself as in \<open>main\<close>, links distinct nodes in the order of the calls; the self-loop of the first call
  is overwritten by the second.\<close>

theorem single_list_links:
  assumes "distinct (a # b # as)" "list_all (\<lambda>x. h x \<noteq> None) (a # b # as)" "nxt (the (h (last (b # as)))) = None"
  shows "\<exists>h'. insert_nodes (a # b # as) a h = Some (last (b # as), h')
    \<and> print_list h' (Some a) = Some (vals h (a # b # as))"
proof -
  obtain n where n: "h a = Some n" using assms(2) by auto
  let ?h = "h(a \<mapsto> n\<lparr>nxt := Some a\<rparr>)"
  have ne: "a \<noteq> last (b # as)" using assms(1) by (metis distinct.simps(2) last_in_set list.distinct(1))
  have "\<exists>h'. insert_nodes (b # as) a ?h = Some (last (a # b # as), h') \<and> chain h' (Some a) (a # b # as) None
      \<and> vals h' (a # b # as) = vals ?h (a # b # as) \<and> (\<forall>x. x \<notin> set (a # b # as) \<longrightarrow> h' x = ?h x)"
    using assms ne by (intro insert_nodes_chain [of a "b # as" ?h]) (auto simp: list_all_iff)
  then obtain h' where h': "insert_nodes (b # as) a ?h = Some (last (b # as), h')"
      "chain h' (Some a) (a # b # as) None" "vals h' (a # b # as) = vals ?h (a # b # as)" by auto
  have "vals ?h (a # b # as) = vals h (a # b # as)" using n assms(1) by simp
  with h' print_chain [OF h'(2)] n show ?thesis by (simp add: single_list_insert_def set_next_def)
qed

theorem single_list_links_witness:
  "\<exists>h'. single_list_main = Some (3, h') \<and> print_list h' (Some 0) = Some [0, 1, 2, 3]"
  using single_list_links [of 0 1 "[2, 3]" "\<lambda>a. if a < 4 then Some \<lparr>data = int a, nxt = None\<rparr> else None"]
  by (simp add: single_list_main_def vals_def)

end
