(* ===== verification/Select_Server.thy ===== *)
theory Select_Server
  imports Prelude
begin

text \<open>
  The echo server on \<open>select\<close>, \<open>Application/io_multi/select/service.c\<close>. One round of its loop takes
  what the kernel answers as a parameter: the result of \<open>select\<close> with the ready descriptors, the
  results of \<open>accept\<close> and of the reads. What is sent and closed is logged. \<open>None\<close> is an access
  outside \<open>clifds\<close> or the message buffer.
\<close>

definition SIZE :: nat where "SIZE = 10"
definition MAXLINE :: nat where "MAXLINE = 1024"

record server_context_st =
  cli_cnt :: int
  clifds :: "int list"
  allfds :: "int list"
  maxfd :: int
  sent :: "(int \<times> byte list) list"
  closed :: "int list"

text \<open>What the kernel answers in one round. An \<open>accept\<close> that was interrupted is \<open>None\<close>; a read gives
  its result and the bytes it stored.\<close>

record kernel =
  retval :: int
  ready :: "int list"
  accepts :: "int option list"
  reads :: "int \<Rightarrow> int \<times> byte list"

section \<open>server_init, server_uninit\<close>

definition server_init :: "bool \<Rightarrow> int \<times> server_context_st option" where
  "server_init malloc_ok = (if \<not> malloc_ok then (- 1, None)
     else (0, Some \<lparr>cli_cnt = 0, clifds = replicate SIZE (- 1), allfds = [], maxfd = 0, sent = [], closed = []\<rparr>))"

definition server_uninit :: "server_context_st option \<Rightarrow> server_context_st option" where
  "server_uninit srv_ctx = None"

text \<open>\<open>create_server_proc\<close>: the results of \<open>socket\<close>, \<open>setsockopt\<close> and \<open>bind\<close>; \<open>listen\<close> is not checked.\<close>

definition create_server_proc :: "int \<Rightarrow> int \<Rightarrow> int \<Rightarrow> int" where
  "create_server_proc fd setsockopt_ret bind_ret =
     (if fd = - 1 then - 1 else if setsockopt_ret = - 1 then - 1 else if bind_ret = - 1 then - 1 else fd)"

section \<open>accept_client_proc\<close>

text \<open>\<open>ACCEPT: ... goto ACCEPT\<close>: the first result that is not an interruption; none left is an error.\<close>

fun accept_loop :: "int option list \<Rightarrow> int" where
  "accept_loop [] = - 1"
| "accept_loop (None # rs) = accept_loop rs"
| "accept_loop (Some fd # rs) = fd"

text \<open>The search for a free slot.\<close>

function free_slot :: "int list \<Rightarrow> nat \<Rightarrow> nat option" where
  "free_slot fds i = (if i < SIZE then do { c \<leftarrow> aget fds (int i); if c < 0 then Some i else free_slot fds (i + 1) }
     else Some i)"
  by pat_completeness auto
termination by (relation "measure (\<lambda>(fds, i). SIZE - i)") auto

declare free_slot.simps [simp del]

definition accept_client_proc :: "int option list \<Rightarrow> server_context_st \<Rightarrow> (int \<times> server_context_st) option" where
  "accept_client_proc rs c = (let clifd = accept_loop rs in
     if clifd = - 1 then Some (- 1, c)
     else do {
       i \<leftarrow> free_slot (clifds c) 0;
       if i = SIZE then Some (- 1, c)
       else Some (0, c\<lparr>clifds := (clifds c)[i := clifd], cli_cnt := cli_cnt c + 1\<rparr>) })"

section \<open>recv_client_msg\<close>

text \<open>\<open>write(fd, buf, strlen(buf) + 1)\<close>.\<close>

definition handle_client_msg :: "int \<Rightarrow> byte list \<Rightarrow> server_context_st \<Rightarrow> server_context_st option" where
  "handle_client_msg fd buf c = do { s \<leftarrow> string_at buf; Some (c\<lparr>sent := sent c @ [(fd, s @ [0])]\<rparr>) }"

lemma handle_client_msg_cnt: "handle_client_msg fd buf c = Some c' \<Longrightarrow> cli_cnt c' = cli_cnt c"
  by (auto simp: handle_client_msg_def split: Option.bind_splits)

function recv_loop :: "kernel \<Rightarrow> int \<Rightarrow> byte list \<Rightarrow> server_context_st \<Rightarrow> server_context_st option" where
  "recv_loop k i buf c = (if i \<le> cli_cnt c then do {
       clifd \<leftarrow> aget (clifds c) i;
       if clifd < 0 then recv_loop k (i + 1) buf c
       else if clifd \<in> set (ready k) then
         (let (n, bytes) = reads k clifd in
          if n \<le> 0 then recv_loop k (i + 1) buf
            (c\<lparr>allfds := removeAll clifd (allfds c), closed := closed c @ [clifd], clifds := (clifds c)[nat i := - 1]\<rparr>)
          else do {
            buf' \<leftarrow> memcpy buf 0 bytes 0 n;
            c' \<leftarrow> handle_client_msg clifd buf' c;
            recv_loop k (i + 1) buf' c' })
       else recv_loop k (i + 1) buf c }
     else Some c)"
  by pat_completeness auto
termination
  by (relation "measure (\<lambda>(k, i, buf, c). nat (cli_cnt c + 1 - i))") (auto dest: handle_client_msg_cnt)

declare recv_loop.simps [simp del]

definition recv_client_msg :: "kernel \<Rightarrow> server_context_st \<Rightarrow> server_context_st option" where
  "recv_client_msg k c = recv_loop k 0 (replicate MAXLINE 0) c"

section \<open>handle_client_proc\<close>

text \<open>The loop that fills \<open>readfds\<close>, which is \<open>allfds\<close>.\<close>

function fill_fds :: "int \<Rightarrow> server_context_st \<Rightarrow> server_context_st option" where
  "fill_fds i c = (if i < cli_cnt c then do {
       clifd \<leftarrow> aget (clifds c) i;
       fill_fds (i + 1) (c\<lparr>allfds := (if clifd \<noteq> - 1 then clifd # allfds c else allfds c),
                           maxfd := (if clifd > maxfd c then clifd else maxfd c)\<rparr>) }
     else Some c)"
  by pat_completeness auto
termination by (relation "measure (\<lambda>(i, c). nat (cli_cnt c - i))") auto

declare fill_fds.simps [simp del]

text \<open>One round: \<open>False\<close> when the server returns.\<close>

definition handle_client_round :: "int \<Rightarrow> kernel \<Rightarrow> server_context_st \<Rightarrow> (bool \<times> server_context_st) option" where
  "handle_client_round srvfd k c = do {
     c1 \<leftarrow> fill_fds 0 (c\<lparr>allfds := [srvfd], maxfd := srvfd\<rparr>);
     if retval k = - 1 then Some (False, c1)
     else if retval k = 0 then Some (True, c1)
     else
       (let c2 = c1\<lparr>allfds := filter (\<lambda>fd. fd \<in> set (ready k)) (allfds c1)\<rparr> in
        if srvfd \<in> set (allfds c2) then map_option (\<lambda>(r, c3). (True, c3)) (accept_client_proc (accepts k) c2)
        else map_option (Pair True) (recv_client_msg (k\<lparr>ready := allfds c2\<rparr>) c2)) }"

fun handle_client_proc :: "int \<Rightarrow> kernel list \<Rightarrow> server_context_st \<Rightarrow> server_context_st option" where
  "handle_client_proc srvfd [] c = Some c"
| "handle_client_proc srvfd (k # ks) c = do {
     (go, c') \<leftarrow> handle_client_round srvfd k c;
     if go then handle_client_proc srvfd ks c' else Some c' }"

section \<open>Invariant\<close>

text \<open>The slots are all there, no client uses a slot at or above the count, and the count counts the
  clients that ever came.\<close>

definition wf_ctx :: "server_context_st \<Rightarrow> bool" where
  "wf_ctx c \<longleftrightarrow> length (clifds c) = SIZE \<and> 0 \<le> cli_cnt c
     \<and> (\<forall>i < SIZE. cli_cnt c \<le> int i \<longrightarrow> clifds c ! i = - 1) \<and> (\<forall>i < SIZE. - 1 \<le> clifds c ! i)"

definition short_reads :: "kernel \<Rightarrow> bool" where
  "short_reads k \<longleftrightarrow> (\<forall>fd. fst (reads k fd) < int MAXLINE \<and> (0 < fst (reads k fd) \<longrightarrow> int (length (snd (reads k fd))) = fst (reads k fd)))"

lemma wf_upd [simp]: "wf_ctx (c\<lparr>allfds := x\<rparr>) = wf_ctx c" "wf_ctx (c\<lparr>maxfd := y\<rparr>) = wf_ctx c"
  "wf_ctx (c\<lparr>sent := z\<rparr>) = wf_ctx c" "wf_ctx (c\<lparr>closed := u\<rparr>) = wf_ctx c"
  by (simp_all add: wf_ctx_def)

lemma free_slot_result: "length fds = SIZE \<Longrightarrow> i \<le> SIZE \<Longrightarrow>
    \<exists>j. free_slot fds i = Some j \<and> i \<le> j \<and> j \<le> SIZE \<and> (j < SIZE \<longrightarrow> fds ! j < 0) \<and> (\<forall>k. i \<le> k \<and> k < j \<longrightarrow> 0 \<le> fds ! k)"
proof (induction fds i rule: free_slot.induct)
  case (1 fds i)
  show ?case
  proof (cases "i < SIZE \<and> 0 \<le> fds ! i")
    case True
    with 1 obtain j where "free_slot fds (i + 1) = Some j" "i + 1 \<le> j" "j \<le> SIZE" "j < SIZE \<longrightarrow> fds ! j < 0"
        "\<forall>k. i + 1 \<le> k \<and> k < j \<longrightarrow> 0 \<le> fds ! k"
      by (auto simp: aget_def)
    with True 1(2) show ?thesis
      by (intro exI [of _ j]) (auto simp: free_slot.simps [of fds i] aget_def le_Suc_eq Suc_le_eq nat_less_le)
  next
    case False
    with 1(2,3) show ?thesis by (auto simp: free_slot.simps [of fds i] aget_def)
  qed
qed

definition sane :: "int option list \<Rightarrow> bool" where
  "sane rs \<longleftrightarrow> list_all (\<lambda>r. case r of None \<Rightarrow> True | Some fd \<Rightarrow> - 1 \<le> fd) rs"

lemma accept_wf:
  assumes "wf_ctx c" "cli_cnt c < int SIZE" "sane rs"
  shows "\<exists>r c'. accept_client_proc rs c = Some (r, c') \<and> wf_ctx c' \<and> cli_cnt c' \<le> cli_cnt c + 1"
proof -
  obtain j where j: "free_slot (clifds c) 0 = Some j" "j \<le> SIZE" "j < SIZE \<longrightarrow> clifds c ! j < 0"
      "\<forall>k. k < j \<longrightarrow> 0 \<le> clifds c ! k"
    using free_slot_result [of "clifds c" 0] assms(1) by (auto simp: wf_ctx_def)
  have "\<not> cli_cnt c < int j"
  proof
    assume "cli_cnt c < int j"
    then have "nat (cli_cnt c) < j" "nat (cli_cnt c) < SIZE" using assms(1,2) by (auto simp: wf_ctx_def)
    then have "clifds c ! nat (cli_cnt c) = - 1" using assms(1) by (auto simp: wf_ctx_def)
    with j(4) \<open>nat (cli_cnt c) < j\<close> show False by force
  qed
  moreover have "accept_loop rs = - 1 \<or> - 1 \<le> accept_loop rs"
    using assms(3) by (induction rs rule: accept_loop.induct) (auto simp: sane_def)
  ultimately show ?thesis
    using assms(1,2) j by (auto simp: accept_client_proc_def Let_def wf_ctx_def nth_list_update)
qed

lemma fill_fds_wf: "wf_ctx c \<Longrightarrow> 0 \<le> i \<Longrightarrow> cli_cnt c \<le> int SIZE \<Longrightarrow>
    \<exists>c'. fill_fds i c = Some c' \<and> wf_ctx c' \<and> cli_cnt c' = cli_cnt c \<and> clifds c' = clifds c \<and> sent c' = sent c"
proof (induction i c rule: fill_fds.induct)
  case (1 i c)
  show ?case
  proof (cases "i < cli_cnt c")
    case True
    with "1.prems" have "aget (clifds c) i = Some (clifds c ! nat i)" by (auto simp: aget_def wf_ctx_def)
    with "1.IH" [OF True this] "1.prems" True show ?thesis by (subst fill_fds.simps) auto
  next
    case False
    with "1.prems" show ?thesis by (subst fill_fds.simps) auto
  qed
qed

text \<open>A message that leaves room for its end always has one in the buffer.\<close>

lemma string_at_last: "b \<noteq> [] \<Longrightarrow> last b = 0 \<Longrightarrow> \<exists>s. string_at b = Some s"
  by (induction b) (auto split: if_splits)

lemma recv_loop_wf: "wf_ctx c \<Longrightarrow> 0 \<le> i \<Longrightarrow> cli_cnt c < int SIZE \<Longrightarrow> short_reads k \<Longrightarrow>
    length buf = MAXLINE \<Longrightarrow> last buf = 0 \<Longrightarrow>
    \<exists>c'. recv_loop k i buf c = Some c' \<and> wf_ctx c' \<and> cli_cnt c' = cli_cnt c"
proof (induction k i buf c rule: recv_loop.induct)
  case (1 k i buf c)
  show ?case
  proof (cases "i \<le> cli_cnt c")
    case True
    let ?fd = "clifds c ! nat i"
    have a: "aget (clifds c) i = Some ?fd" using True "1.prems" by (auto simp: aget_def wf_ctx_def)
    obtain n bytes where n: "reads k ?fd = (n, bytes)" by (cases "reads k ?fd")
    have w: "wf_ctx (c\<lparr>allfds := as, closed := cs, clifds := (clifds c)[nat i := - 1]\<rparr>)" for as cs
      using "1.prems"(1) by (auto simp: wf_ctx_def nth_upd_if)
    consider "?fd < 0 \<or> ?fd \<notin> set (ready k)" | "\<not> ?fd < 0" "?fd \<in> set (ready k)" "n \<le> 0"
      | "\<not> ?fd < 0" "?fd \<in> set (ready k)" "0 < n" by linarith
    then show ?thesis
    proof cases
      case 1
      with "1.IH"(1,4) [OF True a] "1.prems" a True show ?thesis by (subst recv_loop.simps) auto
    next
      case 2
      with "1.IH"(2) [OF True a 2(1,2) n [symmetric] refl] w "1.prems" a True n show ?thesis
        by (subst recv_loop.simps) auto
    next
      case 3
      have s: "n < int MAXLINE" "int (length bytes) = n"
        using "1.prems"(4) 3 n by (auto simp: short_reads_def dest!: spec [of _ ?fd])
      define b where "b = take (nat n) bytes @ drop (nat n) buf"
      have mc: "memcpy buf 0 bytes 0 n = Some b"
        using s 3 "1.prems"(5) by (simp add: memcpy_def b_def)
      have lb: "length b = MAXLINE" "last b = 0" "b \<noteq> []"
        using s 3 "1.prems"(5,6) by (auto simp: b_def)
      obtain x where x: "string_at b = Some x" using string_at_last lb by blast
      then have h: "handle_client_msg ?fd b c = Some (c\<lparr>sent := sent c @ [(?fd, x @ [0])]\<rparr>)"
        by (simp add: handle_client_msg_def)
      from "1.IH"(3) [OF True a 3(1,2) n [symmetric] refl _ mc h] 3 "1.prems" lb a True n mc h show ?thesis
        by (subst recv_loop.simps) auto
    qed
  next
    case False
    with "1.prems" show ?thesis by (subst recv_loop.simps) auto
  qed
qed

definition accepted :: "kernel list \<Rightarrow> nat" where
  "accepted ks = length (filter (\<lambda>k. accept_loop (accepts k) \<noteq> - 1) ks)"

definition sane_accepts :: "kernel \<Rightarrow> bool" where
  "sane_accepts k \<longleftrightarrow> sane (accepts k)"

lemma accept_none: "accept_loop rs = - 1 \<Longrightarrow> accept_client_proc rs c = Some (- 1, c)"
  by (simp add: accept_client_proc_def)

lemma round_wf:
  assumes "wf_ctx c" "cli_cnt c < int SIZE" "short_reads k" "sane_accepts k"
  shows "\<exists>go c'. handle_client_round srvfd k c = Some (go, c') \<and> wf_ctx c'
    \<and> cli_cnt c' \<le> cli_cnt c + (if accept_loop (accepts k) \<noteq> - 1 then 1 else 0)"
proof -
  obtain c1 where c1: "fill_fds 0 (c\<lparr>allfds := [srvfd], maxfd := srvfd\<rparr>) = Some c1" "wf_ctx c1" "cli_cnt c1 = cli_cnt c"
    using fill_fds_wf [of "c\<lparr>allfds := [srvfd], maxfd := srvfd\<rparr>" 0] assms(1,2) by auto
  let ?c2 = "c1\<lparr>allfds := filter (\<lambda>fd. fd \<in> set (ready k)) (allfds c1)\<rparr>"
  have c2: "wf_ctx ?c2" "cli_cnt ?c2 < int SIZE" using c1 assms(2) by auto
  obtain r c3 where a: "accept_client_proc (accepts k) ?c2 = Some (r, c3)" "wf_ctx c3"
      "cli_cnt c3 \<le> cli_cnt c + (if accept_loop (accepts k) \<noteq> - 1 then 1 else 0)"
    using accept_wf [OF c2, of "accepts k"] accept_none [of "accepts k" ?c2] assms(4) c1(3) c2(1)
    by (auto simp: sane_accepts_def)
  have sr: "short_reads (k\<lparr>ready := allfds ?c2\<rparr>)" using assms(3) by (simp add: short_reads_def)
  obtain c4 where r: "recv_client_msg (k\<lparr>ready := allfds ?c2\<rparr>) ?c2 = Some c4" "wf_ctx c4" "cli_cnt c4 = cli_cnt c"
    using recv_loop_wf [OF c2(1) _ c2(2) sr, of 0 "replicate MAXLINE 0"] c1(3)
    by (auto simp: recv_client_msg_def MAXLINE_def)
  show ?thesis
    using c1 a r by (auto simp: handle_client_round_def Let_def)
qed

lemma proc_wf: "wf_ctx c \<Longrightarrow> cli_cnt c + int (accepted ks) < int SIZE \<Longrightarrow> list_all (\<lambda>k. short_reads k \<and> sane_accepts k) ks \<Longrightarrow>
    \<exists>c'. handle_client_proc srvfd ks c = Some c' \<and> wf_ctx c'"
proof (induction ks arbitrary: c)
  case (Cons k ks)
  have "cli_cnt c < int SIZE" using Cons.prems(2) by linarith
  with round_wf [of c k srvfd] Cons.prems obtain go c1 where c1: "handle_client_round srvfd k c = Some (go, c1)" "wf_ctx c1"
      "cli_cnt c1 \<le> cli_cnt c + (if accept_loop (accepts k) \<noteq> - 1 then 1 else 0)" by auto
  have "cli_cnt c1 + int (accepted ks) < int SIZE" using c1(3) Cons.prems(2) by (auto simp: accepted_def split: if_splits)
  with Cons.IH [OF c1(2)] Cons.prems(3) c1 show ?case by auto
qed simp

text \<open>With ten clients counted, the receiving loop runs past the last slot.\<close>

lemma recv_loop_overrun: "cli_cnt c = int SIZE \<Longrightarrow> length (clifds c) = SIZE \<Longrightarrow> i \<le> int SIZE \<Longrightarrow> recv_loop k i buf c = None"
proof (induction k i buf c rule: recv_loop.induct)
  case (1 k i buf c)
  show ?case
  proof (cases "aget (clifds c) i")
    case None
    with "1.prems" show ?thesis by (subst recv_loop.simps) simp
  next
    case (Some fd)
    then have "i + 1 \<le> int SIZE" "i \<le> cli_cnt c" using "1.prems" by (auto simp: aget_def split: if_splits)
    moreover obtain n bytes where "reads k fd = (n, bytes)" by (cases "reads k fd")
    ultimately show ?thesis
      using "1.IH" Some "1.prems"
      by (subst recv_loop.simps) (auto simp: handle_client_msg_def split: Option.bind_splits)
  qed
qed

section \<open>What the server guarantees\<close>

text \<open>C15: as long as fewer than ten clients ever connected, the server stays inside its array of clients
  and its message buffer in every round, whatever becomes ready, is interrupted or disconnects,
  provided no read fills the whole buffer.\<close>

theorem select_server_safe:
  assumes "server_init True = (0, Some c)" "accepted ks < SIZE" "list_all (\<lambda>k. short_reads k \<and> sane_accepts k) ks"
  shows "\<exists>c'. handle_client_proc srvfd ks c = Some c'"
proof -
  have "wf_ctx c" "cli_cnt c = 0" using assms(1) by (auto simp: server_init_def wf_ctx_def)
  with proc_wf [of c ks srvfd] assms(2,3) show ?thesis by auto
qed

definition one_client :: kernel where
  "one_client = \<lparr>retval = 1, ready = [3], accepts = [None, Some 4], reads = (\<lambda>fd. (0, []))\<rparr>"

theorem select_server_safe_witness:
  "\<exists>c'. handle_client_proc 3 [one_client, one_client\<lparr>ready := [4]\<rparr>] (the (snd (server_init True))) = Some c'"
  by (rule select_server_safe)
    (simp_all add: server_init_def accepted_def one_client_def short_reads_def sane_accepts_def sane_def SIZE_def MAXLINE_def)

text \<open>the count is never decremented: once ten clients have ever been accepted, even if all have left,
  the next round in which a client's descriptor becomes ready reads beyond \<open>clifds\<close>.\<close>

theorem select_server_overrun:
  assumes "wf_ctx c" "cli_cnt c = int SIZE" "retval k \<noteq> 0" "retval k \<noteq> - 1" "srvfd \<notin> set (ready k)"
  shows "handle_client_round srvfd k c = None"
proof -
  obtain c1 where c1: "fill_fds 0 (c\<lparr>allfds := [srvfd], maxfd := srvfd\<rparr>) = Some c1" "wf_ctx c1" "cli_cnt c1 = cli_cnt c"
    using fill_fds_wf [of "c\<lparr>allfds := [srvfd], maxfd := srvfd\<rparr>" 0] assms(1,2) by auto
  then show ?thesis
    using assms(2-5) recv_loop_overrun by (simp add: handle_client_round_def recv_client_msg_def wf_ctx_def)
qed

theorem select_server_overrun_witness:
  "handle_client_round 3 (one_client\<lparr>ready := []\<rparr>) ((the (snd (server_init True)))\<lparr>cli_cnt := 10\<rparr>) = None"
  by (rule select_server_overrun) (simp_all add: server_init_def wf_ctx_def SIZE_def one_client_def)

text \<open>the buffer is not cleared between clients and a message need not end in a zero: a client whose
  message is shorter than that of the client before it gets the rest of that client's message.\<close>

theorem select_server_leaks:
  assumes "0 \<notin> set x" "0 \<notin> set y" "y \<noteq> []" "length y \<le> length x" "length x < MAXLINE"
  shows "recv_client_msg \<lparr>retval = 2, ready = [5, 6], accepts = [], reads = (\<lambda>fd. if fd = 5 then (int (length x), x) else (int (length y), y))\<rparr>
      \<lparr>cli_cnt = 2, clifds = [5, 6] @ replicate 8 (- 1), allfds = [5, 6], maxfd = 6, sent = [], closed = []\<rparr>
    = Some \<lparr>cli_cnt = 2, clifds = [5, 6] @ replicate 8 (- 1), allfds = [5, 6], maxfd = 6,
        sent = [(5, x @ [0]), (6, y @ drop (length y) x @ [0])], closed = []\<rparr>"
proof -
  obtain z where z: "MAXLINE - length x = Suc z" using assms(5) by (metis Suc_diff_Suc)
  have s1: "string_at (x @ replicate (MAXLINE - length x) 0) = Some x"
    using string_at_append [OF assms(1), of "replicate z 0"] z by simp
  have "0 \<notin> set (y @ drop (length y) x)" using assms(1,2) by (auto dest: in_set_dropD)
  from string_at_append [OF this, of "replicate z 0"]
  have s2: "string_at (y @ drop (length y) x @ replicate (MAXLINE - length x) 0) = Some (y @ drop (length y) x)"
    using z by simp
  have m1: "memcpy (replicate MAXLINE 0) 0 x 0 (int (length x)) = Some (x @ replicate (MAXLINE - length x) 0)"
    using assms(5) by (simp add: memcpy_def)
  have m2: "memcpy (x @ replicate (MAXLINE - length x) 0) 0 y 0 (int (length y))
      = Some (y @ drop (length y) x @ replicate (MAXLINE - length x) 0)"
    using assms(4,5) by (simp add: memcpy_def)
  have "x \<noteq> []" using assms(3,4) by auto
  then show ?thesis
    using assms(3) s1 s2 m1 m2
    by (simp add: recv_client_msg_def recv_loop.simps [of _ 0] recv_loop.simps [of _ 1] recv_loop.simps [of _ 2]
        recv_loop.simps [of _ 3] aget_def handle_client_msg_def)
qed

theorem select_server_leaks_witness:
  "\<exists>c. recv_client_msg \<lparr>retval = 2, ready = [5, 6], accepts = [], reads = (\<lambda>fd. if fd = 5 then (3, [1, 2, 3]) else (1, [9]))\<rparr>
      \<lparr>cli_cnt = 2, clifds = [5, 6] @ replicate 8 (- 1), allfds = [5, 6], maxfd = 6, sent = [], closed = []\<rparr> = Some c
    \<and> sent c = [(5, [1, 2, 3, 0]), (6, [9, 2, 3, 0])]"
  using select_server_leaks [of "[1, 2, 3]" "[9]"] by (simp add: MAXLINE_def cong: if_cong)

end
