(* ===== verification/Select_Client.thy ===== *)
theory Select_Client
  imports Select_Server
begin

text \<open>
  The client of the select server, \<open>Application/io_multi/select/client.c\<close>: it greets, and from then on sends back
  what it gets. \<open>None\<close> is an access outside an object.
\<close>

section \<open>The client\<close>

record select_client =
  recvline :: "byte list"
  printed :: "byte list list"
  wrote :: "byte list list"
  sock_closed :: bool

text \<open>\<open>write(sockfd, buf, strlen(buf) + 1)\<close>.\<close>

definition handle_recv_msg :: "byte list \<Rightarrow> select_client \<Rightarrow> select_client option" where
  "handle_recv_msg b s = do { t \<leftarrow> string_at b; Some (s\<lparr>printed := printed s @ [t], wrote := wrote s @ [t @ [0]]\<rparr>) }"

text \<open>A round of \<open>handle_connection\<close>, \<open>False\<close> when it returns: what \<open>select\<close> returns, whether the socket is
  ready, what \<open>read\<close> returns and stores.\<close>

definition client_round :: "int \<Rightarrow> bool \<Rightarrow> int \<times> byte list \<Rightarrow> select_client \<Rightarrow> (bool \<times> select_client) option" where
  "client_round ret is_set rd s =
     (if ret = - 1 then Some (False, s)
      else if ret = 0 then Some (True, s)
      else if is_set then
        (case rd of (n, bytes) \<Rightarrow>
          if n \<le> 0 then Some (False, s\<lparr>sock_closed := True\<rparr>)
          else do { b \<leftarrow> memcpy (recvline s) 0 bytes 0 n;
                    s' \<leftarrow> handle_recv_msg b (s\<lparr>recvline := b\<rparr>);
                    Some (True, s') })
      else Some (True, s))"

fun client_connection :: "(int \<times> bool \<times> int \<times> byte list) list \<Rightarrow> select_client \<Rightarrow> select_client option" where
  "client_connection [] s = Some s"
| "client_connection ((ret, is_set, rd) # ks) s = do {
     (go, s') \<leftarrow> client_round ret is_set rd s;
     if go then client_connection ks s' else Some s' }"

text \<open>\<open>write(sockfd, "hello server", 32)\<close>: the literal has 13 bytes, its zero included.\<close>

definition hello :: "byte list" where
  "hello = [104, 101, 108, 108, 111, 32, 115, 101, 114, 118, 101, 114, 0]"

definition sys_write :: "byte list \<Rightarrow> nat \<Rightarrow> select_client \<Rightarrow> select_client option" where
  "sys_write src n s = (if length src < n then None else Some (s\<lparr>wrote := wrote s @ [take n src]\<rparr>))"

definition client_main :: "int \<Rightarrow> (int \<times> bool \<times> int \<times> byte list) list \<Rightarrow> select_client \<Rightarrow> (int \<times> select_client) option" where
  "client_main connect_ret ks s =
     (if connect_ret < 0 then Some (- 1, s)
      else do { s' \<leftarrow> sys_write hello 32 s; map_option (Pair 0) (client_connection ks s') })"

section \<open>What the client does\<close>

text \<open>Once connected, \<open>main\<close> reads 19 bytes behind the literal.\<close>

theorem client_main_overreads: "client_main connect_ret ks s = (if connect_ret < 0 then Some (- 1, s) else None)"
  by (simp add: client_main_def sys_write_def hello_def)

text \<open>The texts that a list of rounds brings, up to the round that ends the connection, and when every round that
  brings bytes brings a whole text that fits.\<close>

fun texts :: "(int \<times> bool \<times> int \<times> byte list) list \<Rightarrow> byte list list" where
  "texts [] = []"
| "texts ((ret, is_set, n, bytes) # ks) = (if ret = - 1 then [] else if ret = 0 \<or> \<not> is_set then texts ks
     else if n \<le> 0 then [] else takeWhile (\<lambda>c. c \<noteq> 0) bytes # texts ks)"

definition whole_text :: "int \<times> bool \<times> int \<times> byte list \<Rightarrow> bool" where
  "whole_text k \<longleftrightarrow> (case k of (ret, is_set, n, bytes) \<Rightarrow>
     0 < n \<longrightarrow> n = int (length bytes) \<and> length bytes \<le> MAXLINE \<and> 0 \<in> set bytes)"

lemma string_at_takeWhile: "0 \<in> set b \<Longrightarrow> string_at (b @ r) = Some (takeWhile (\<lambda>c. c \<noteq> 0) b)"
  by (induction b) auto

text \<open>C6: for every sequence of rounds in which each read that brings bytes brings at most 1024 of them with a zero among them,
  \<open>handle_connection\<close> stays inside its buffer, prints each text and sends it back with its zero, in order.\<close>

theorem select_client_echoes:
  assumes "list_all whole_text ks" "length (recvline s) = MAXLINE"
  shows "\<exists>s'. client_connection ks s = Some s' \<and> printed s' = printed s @ texts ks
    \<and> wrote s' = wrote s @ map (\<lambda>t. t @ [0]) (texts ks)"
  using assms
proof (induction ks arbitrary: s)
  case (Cons k ks)
  obtain ret is_set n bytes where k: "k = (ret, is_set, n, bytes)" by (cases k) auto
  show ?case
  proof (cases "ret \<noteq> - 1 \<and> ret \<noteq> 0 \<and> is_set \<and> 0 < n")
    case True
    let ?b = "bytes @ drop (length bytes) (recvline s)" and ?t = "takeWhile (\<lambda>c. c \<noteq> 0) bytes"
    let ?s = "s\<lparr>recvline := ?b, printed := printed s @ [?t], wrote := wrote s @ [?t @ [0]]\<rparr>"
    have w: "n = int (length bytes)" "length bytes \<le> MAXLINE" "0 \<in> set bytes"
      using True Cons.prems(1) by (simp_all add: k whole_text_def)
    then have "memcpy (recvline s) 0 bytes 0 n = Some ?b" using Cons.prems(2) by (simp add: memcpy_def)
    then have "client_round ret is_set (n, bytes) s = Some (True, ?s)"
      using True string_at_takeWhile [OF w(3)] by (simp add: client_round_def handle_recv_msg_def)
    moreover have "length (recvline ?s) = MAXLINE" using w(2) Cons.prems(2) by simp
    moreover have "list_all whole_text ks" using Cons.prems(1) by simp
    ultimately show ?thesis using Cons.IH [of ?s] True by (auto simp: k)
  next
    case False
    with Cons.IH [of s] Cons.prems show ?thesis by (auto simp: k client_round_def)
  qed
qed simp

theorem select_client_echoes_witness:
  "\<exists>s'. client_connection [(1, True, 3, [104, 105, 0]), (0, False, 0, []), (1, True, 0, []), (1, True, 1, [0])]
      \<lparr>recvline = replicate MAXLINE 7, printed = [], wrote = [], sock_closed = False\<rparr> = Some s'
    \<and> printed s' = [[104, 105]] \<and> wrote s' = [[104, 105, 0]]"
  using select_client_echoes [of "[(1, True, 3, [104, 105, 0]), (0, False, 0, []), (1, True, 0, []), (1, True, 1, [0])]"
      "\<lparr>recvline = replicate MAXLINE 7, printed = [], wrote = [], sock_closed = False\<rparr>"]
  by (auto simp: whole_text_def MAXLINE_def)

end
