(* ===== verification/Poll_Server.thy ===== *)
theory Poll_Server
  imports Prelude
begin

text \<open>
  The echo server on \<open>poll\<close>, \<open>Application/io_multi/poll/service.c\<close>. A round of its loop takes what the
  kernel answers as a parameter; \<open>None\<close> is an access outside an array. What is written to clients
  and closed is logged.
\<close>

definition MAXLINE :: nat where "MAXLINE = 1024"
definition OPEN_MAX :: nat where "OPEN_MAX = 1000"

text \<open>A slot of \<open>clientfds\<close>: the descriptor and whether \<open>revents\<close> has \<open>POLLIN\<close>.\<close>

record pollfd =
  pfd :: int
  revents :: bool

record poll_state =
  clientfds :: "pollfd list"
  maxi :: nat
  sent :: "(int \<times> byte list) list"
  closed :: "int list"

datatype accept_result = Accepted int | Interrupted | Accept_Error

record kernel =
  nready :: int
  pollin :: "int \<Rightarrow> bool" \<comment> \<open>the descriptors with input\<close>
  accept :: accept_result
  reads :: "int \<Rightarrow> int \<times> byte list"

datatype outcome = Continue poll_state | Exit

section \<open>socket_bind and the setup\<close>

text \<open>\<open>None\<close> is \<open>exit(1)\<close>.\<close>

definition socket_bind :: "int \<Rightarrow> int \<Rightarrow> int option" where
  "socket_bind listenfd bind_ret =
     (if listenfd = - 1 then None else if bind_ret = - 1 then None else Some listenfd)"

text \<open>The array is on the stack: the \<open>revents\<close> start as garbage.\<close>

definition poll_init :: "int \<Rightarrow> (nat \<Rightarrow> bool) \<Rightarrow> poll_state" where
  "poll_init listenfd stack = \<lparr>clientfds = map (\<lambda>i. \<lparr>pfd = (if i = 0 then listenfd else - 1), revents = stack i\<rparr>) [0..<OPEN_MAX],
     maxi = 0, sent = [], closed = []\<rparr>"

section \<open>handle_connection\<close>

text \<open>A read of -1 stores nothing, and a write of -1 bytes fails.\<close>

function handle_connection :: "kernel \<Rightarrow> nat \<Rightarrow> nat \<Rightarrow> byte list \<Rightarrow> poll_state \<Rightarrow> poll_state option" where
  "handle_connection k i num buf s = (if i \<le> num then do {
       c \<leftarrow> aget (clientfds s) (int i);
       if pfd c < 0 then handle_connection k (i + 1) num buf s
       else if revents c then
         (let (n, bytes) = reads k (pfd c) in do {
            buf' \<leftarrow> (if n < 0 then Some buf else memcpy buf 0 bytes 0 n);
            _ \<leftarrow> string_at buf'; \<comment> \<open>\<open>printf\<close>\<close>
            if n = 0 then handle_connection k (i + 1) num buf'
              (s\<lparr>closed := closed s @ [pfd c], clientfds := (clientfds s)[i := c\<lparr>pfd := - 1\<rparr>]\<rparr>)
            else handle_connection k (i + 1) num buf'
              (if n < 0 then s else s\<lparr>sent := sent s @ [(pfd c, take (nat n) buf')]\<rparr>) })
       else handle_connection k (i + 1) num buf s }
     else Some s)"
  by pat_completeness auto
termination by (relation "measure (\<lambda>(k, i, num, buf, s). Suc num - i)") auto

declare handle_connection.simps [simp del]

section \<open>do_poll\<close>

text \<open>\<open>poll\<close> fills the \<open>revents\<close> of the slots up to \<open>maxi\<close>.\<close>

definition poll_revents :: "kernel \<Rightarrow> poll_state \<Rightarrow> poll_state" where
  "poll_revents k s = s\<lparr>clientfds := map (\<lambda>c. c\<lparr>revents := 0 \<le> pfd c \<and> pollin k (pfd c)\<rparr>) (take (Suc (maxi s)) (clientfds s))
     @ drop (Suc (maxi s)) (clientfds s)\<rparr>"

function free_slot :: "pollfd list \<Rightarrow> nat \<Rightarrow> nat option" where
  "free_slot fds i = (if i < OPEN_MAX then do { c \<leftarrow> aget fds (int i); if pfd c < 0 then Some i else free_slot fds (i + 1) }
     else Some i)"
  by pat_completeness auto
termination by (relation "measure (\<lambda>(fds, i). OPEN_MAX - i)") auto

declare free_slot.simps [simp del]

definition do_poll :: "kernel \<Rightarrow> poll_state \<Rightarrow> outcome option" where
  "do_poll k s0 = (if nready k = - 1 then Some Exit
     else let s = poll_revents k s0 in do {
       c0 \<leftarrow> aget (clientfds s) 0;
       if revents c0 then
         (case accept k of
            Interrupted \<Rightarrow> Some (Continue s)
          | Accept_Error \<Rightarrow> Some Exit
          | Accepted connfd \<Rightarrow> do {
              i \<leftarrow> free_slot (clientfds s) 1;
              if i = OPEN_MAX then Some Exit
              else let s1 = s\<lparr>clientfds := (clientfds s)[i := (clientfds s ! i)\<lparr>pfd := connfd\<rparr>],
                              maxi := (if i > maxi s then i else maxi s)\<rparr> in
                if nready k - 1 \<le> 0 then Some (Continue s1)
                else map_option Continue (handle_connection k 1 (maxi s1) (replicate MAXLINE 0) s1) })
       else map_option Continue (handle_connection k 1 (maxi s) (replicate MAXLINE 0) s) })"

fun poll_loop :: "kernel list \<Rightarrow> poll_state \<Rightarrow> poll_state option" where
  "poll_loop [] s = Some s"
| "poll_loop (k # ks) s = do {
     r \<leftarrow> do_poll k s;
     case r of Exit \<Rightarrow> Some s | Continue s' \<Rightarrow> poll_loop ks s' }"

section \<open>Invariant\<close>

definition wf_poll :: "poll_state \<Rightarrow> bool" where
  "wf_poll s \<longleftrightarrow> length (clientfds s) = OPEN_MAX \<and> maxi s < OPEN_MAX
     \<and> (\<forall>i < OPEN_MAX. maxi s < i \<longrightarrow> pfd (clientfds s ! i) < 0)"

definition short_reads :: "kernel \<Rightarrow> bool" where
  "short_reads k \<longleftrightarrow> (\<forall>fd. fst (reads k fd) < int MAXLINE
     \<and> (0 \<le> fst (reads k fd) \<longrightarrow> int (length (snd (reads k fd))) = fst (reads k fd)))"

text \<open>What a round may send: to each client the bytes read from it.\<close>

definition echoes :: "kernel \<Rightarrow> (int \<times> byte list) list \<Rightarrow> bool" where
  "echoes k xs \<longleftrightarrow> list_all (\<lambda>(fd, b). b = snd (reads k fd) \<and> 0 < fst (reads k fd)) xs"

lemma wf_poll_upd [simp]: "wf_poll (s\<lparr>sent := x\<rparr>) = wf_poll s" "wf_poll (s\<lparr>closed := y\<rparr>) = wf_poll s"
  by (simp_all add: wf_poll_def)

lemma string_at_zero: "0 \<in> set b \<Longrightarrow> \<exists>s. string_at b = Some s"
  by (induction b) auto

lemma handle_connection_wf: "wf_poll s \<Longrightarrow> num < OPEN_MAX \<Longrightarrow> short_reads k \<Longrightarrow> length buf = MAXLINE \<Longrightarrow> last buf = 0 \<Longrightarrow>
    \<exists>s' xs. handle_connection k i num buf s = Some s' \<and> wf_poll s' \<and> sent s' = sent s @ xs \<and> echoes k xs"
proof (induction k i num buf s rule: handle_connection.induct)
  case (1 k i num buf s)
  show ?case
  proof (cases "i \<le> num")
    case False
    with 1 show ?thesis by (subst handle_connection.simps) (auto simp: echoes_def)
  next
    case True
    let ?c = "clientfds s ! i"
    have a: "aget (clientfds s) (int i) = Some ?c" using True "1.prems" by (auto simp: aget_def wf_poll_def)
    obtain n bytes where n: "reads k (pfd ?c) = (n, bytes)" by (cases "reads k (pfd ?c)")
    show ?thesis
    proof (cases "pfd ?c < 0 \<or> \<not> revents ?c")
      case True
      with \<open>i \<le> num\<close> "1.IH"(1,4) [OF \<open>i \<le> num\<close> a] "1.prems" a show ?thesis by (subst handle_connection.simps) auto
    next
      case False
      then have c: "\<not> pfd ?c < 0" "revents ?c" by auto
      have sr: "n < int MAXLINE" "0 \<le> n \<longrightarrow> int (length bytes) = n"
        using "1.prems"(3) n by (auto simp: short_reads_def dest!: spec [of _ "pfd ?c"])
      define b where "b = (if n < 0 then buf else take (nat n) bytes @ drop (nat n) buf)"
      have mc: "(if n < 0 then Some buf else memcpy buf 0 bytes 0 n) = Some b"
        using sr "1.prems"(4) by (auto simp: memcpy_def b_def)
      have lb: "length b = MAXLINE" "last b = 0" "b \<noteq> []"
        using sr "1.prems"(4,5) by (auto simp: b_def MAXLINE_def)
      then have "0 \<in> set b" by (metis last_in_set)
      then obtain x where x: "string_at b = Some x" using string_at_zero by blast
      show ?thesis
      proof (cases "n = 0")
        case True
        let ?s = "s\<lparr>closed := closed s @ [pfd ?c], clientfds := (clientfds s)[i := ?c\<lparr>pfd := - 1\<rparr>]\<rparr>"
        have "wf_poll ?s" using "1.prems"(1) by (auto simp: wf_poll_def nth_upd_if)
        with "1.IH"(2) [OF \<open>i \<le> num\<close> a c refl n [symmetric] mc x True] "1.prems" lb
        have "\<exists>s' xs. handle_connection k (i + 1) num b ?s = Some s' \<and> wf_poll s' \<and> sent s' = sent s @ xs \<and> echoes k xs"
          by simp
        then show ?thesis using True \<open>i \<le> num\<close> c n mc x a by (subst handle_connection.simps) simp
      next
        case False
        let ?s = "if n < 0 then s else s\<lparr>sent := sent s @ [(pfd ?c, take (nat n) b)]\<rparr>"
        have "wf_poll ?s" using "1.prems"(1) by simp
        with "1.IH"(3) [OF \<open>i \<le> num\<close> a c refl n [symmetric] mc x False] "1.prems" lb obtain s' xs
          where s': "handle_connection k (i + 1) num b ?s = Some s'" "wf_poll s'" "sent s' = sent ?s @ xs" "echoes k xs"
          by blast
        have "\<exists>ys. sent ?s = sent s @ ys \<and> echoes k ys"
          using n sr False by (auto simp: echoes_def b_def)
        then have "\<exists>ys. sent s' = sent s @ ys \<and> echoes k ys"
          using s'(3,4) by (auto simp: echoes_def)
        then show ?thesis using s' False \<open>i \<le> num\<close> c n mc x a by (subst handle_connection.simps) auto
      qed
    qed
  qed
qed

lemma free_pollfd_result: "length fds = OPEN_MAX \<Longrightarrow> \<exists>j. free_slot fds i = Some j \<and> (i \<le> OPEN_MAX \<longrightarrow> j \<le> OPEN_MAX)"
proof (induction fds i rule: free_slot.induct)
  case (1 fds i)
  then show ?case by (subst free_slot.simps) (auto simp: aget_def)
qed

lemma wf_revents: "wf_poll s \<Longrightarrow> wf_poll (poll_revents k s) \<and> sent (poll_revents k s) = sent s
    \<and> maxi (poll_revents k s) = maxi s"
  by (auto simp: wf_poll_def poll_revents_def nth_append min_def)

lemma do_poll_wf:
  assumes "wf_poll s" "short_reads k"
  shows "\<exists>r. do_poll k s = Some r \<and> (\<forall>s'. r = Continue s' \<longrightarrow> wf_poll s' \<and> (\<exists>xs. sent s' = sent s @ xs \<and> echoes k xs))"
proof -
  let ?s = "poll_revents k s"
  have s: "wf_poll ?s" "sent ?s = sent s" using wf_revents [OF assms(1)] by auto
  have zero: "aget (clientfds ?s) 0 = Some (clientfds ?s ! 0)" using s(1) by (simp add: aget_def wf_poll_def OPEN_MAX_def)
  have serve: "\<exists>s' xs. handle_connection k 1 (maxi u) (replicate MAXLINE 0) u = Some s' \<and> wf_poll s' \<and> sent s' = sent u @ xs \<and> echoes k xs"
    if "wf_poll u" for u
    using handle_connection_wf [OF that _ assms(2), of "maxi u" "replicate MAXLINE 0" 1] that
    by (simp add: wf_poll_def MAXLINE_def)
  obtain j where j: "free_slot (clientfds ?s) 1 = Some j" "j \<le> OPEN_MAX"
    using free_pollfd_result [of "clientfds ?s" 1] s(1) by (auto simp: wf_poll_def OPEN_MAX_def)
  let ?u = "\<lambda>fd. ?s\<lparr>clientfds := (clientfds ?s)[j := (clientfds ?s ! j)\<lparr>pfd := fd\<rparr>], maxi := (if j > maxi ?s then j else maxi ?s)\<rparr>"
  have u: "wf_poll (?u fd)" "sent (?u fd) = sent s" if "j \<noteq> OPEN_MAX" for fd
    using s that j(2) by (auto simp: wf_poll_def nth_list_update)
  have none: "\<exists>xs. sent v = sent s @ xs \<and> echoes k xs" if "sent v = sent s" for v :: poll_state
    using that by (simp add: echoes_def)
  show ?thesis
  proof (cases "accept k")
    case (Accepted fd)
    show ?thesis
      using zero serve [OF s(1)] serve [OF u(1), of fd] u [of fd] none [of "?u fd"] j s Accepted
      by (auto simp: do_poll_def Let_def)
  qed (use zero serve [OF s(1)] s none [OF s(2)] in \<open>auto simp: do_poll_def Let_def\<close>)
qed

section \<open>What the server guarantees\<close>

text \<open>What a whole run may have sent.\<close>

fun run_echoes :: "kernel list \<Rightarrow> (int \<times> byte list) list \<Rightarrow> bool" where
  "run_echoes [] xs = (xs = [])"
| "run_echoes (k # ks) xs = (\<exists>n. echoes k (take n xs) \<and> run_echoes ks (drop n xs))"

lemma run_echoes_Nil: "run_echoes ks []"
  by (induction ks) (auto simp: echoes_def)

lemma poll_loop_wf: "wf_poll s \<Longrightarrow> list_all short_reads ks \<Longrightarrow>
    \<exists>s' xs. poll_loop ks s = Some s' \<and> sent s' = sent s @ xs \<and> run_echoes ks xs"
proof (induction ks arbitrary: s)
  case (Cons k ks)
  obtain r where r: "do_poll k s = Some r" "\<forall>s'. r = Continue s' \<longrightarrow> wf_poll s' \<and> (\<exists>xs. sent s' = sent s @ xs \<and> echoes k xs)"
    using do_poll_wf Cons.prems by fastforce
  show ?case
  proof (cases r)
    case (Continue t)
    with r(2) obtain xs where xs: "wf_poll t" "sent t = sent s @ xs" "echoes k xs" by auto
    from Cons.IH [OF xs(1)] Cons.prems(2) obtain s' ys where "poll_loop ks t = Some s'" "sent s' = sent t @ ys" "run_echoes ks ys"
      by auto
    with r(1) Continue xs show ?thesis
      by (intro exI [of _ s'] exI [of _ "xs @ ys"]) (auto intro!: exI [of _ "length xs"])
  next
    case Exit
    with r(1) show ?thesis using run_echoes_Nil [of "k # ks"] by (simp del: run_echoes.simps)
  qed
qed simp

text \<open>C10: whatever becomes ready, connects or leaves, and whatever the stack held, the server stays
  inside its arrays, and everything it sends to a client are the bytes read from that client in the
  same round, provided no read fills the whole buffer.\<close>

theorem poll_server_echo:
  assumes "list_all short_reads ks"
  shows "\<exists>s'. poll_loop ks (poll_init listenfd stack) = Some s' \<and> run_echoes ks (sent s')"
proof -
  have "wf_poll (poll_init listenfd stack)" by (auto simp: wf_poll_def poll_init_def OPEN_MAX_def)
  from poll_loop_wf [OF this assms] show ?thesis by (auto simp: poll_init_def)
qed

definition quiet :: kernel where
  "quiet = \<lparr>nready = 1, pollin = (\<lambda>fd. fd = 3), accept = Accepted 4, reads = (\<lambda>fd. (0, []))\<rparr>"

definition talks :: kernel where
  "talks = \<lparr>nready = 1, pollin = (\<lambda>fd. fd = 4), accept = Accept_Error, reads = (\<lambda>fd. (2, [104, 105]))\<rparr>"

theorem poll_server_echo_witness:
  "\<exists>s'. poll_loop [quiet, talks, quiet] (poll_init 3 (\<lambda>i. True)) = Some s' \<and> run_echoes [quiet, talks, quiet] (sent s')"
  by (rule poll_server_echo) (simp add: quiet_def talks_def short_reads_def MAXLINE_def)

text \<open>a read that fails with -1 changes nothing: the client stays in its slot, nothing is closed, and
  the next \<open>poll\<close> reports it again.\<close>

theorem poll_server_keeps_failed_client:
  assumes "wf_poll s" "pfd (clientfds s ! 1) = fd" "0 \<le> fd" "revents (clientfds s ! 1)" "fst (reads k fd) = - 1"
  shows "handle_connection k 1 1 (replicate MAXLINE 0) s = Some s"
proof -
  have a: "aget (clientfds s) 1 = Some (clientfds s ! 1)"
    using assms(1) by (simp add: wf_poll_def aget_def OPEN_MAX_def)
  have z: "string_at (replicate MAXLINE 0) = Some []" by (simp add: MAXLINE_def)
  show ?thesis
    using a z assms(2-5) by (simp add: handle_connection.simps [of _ "Suc 0"] handle_connection.simps [of _ "Suc (Suc 0)"] case_prod_beta)
qed

theorem poll_server_keeps_failed_client_witness:
  "handle_connection (quiet\<lparr>reads := (\<lambda>fd. (- 1, []))\<rparr>) 1 1 (replicate MAXLINE 0)
     \<lparr>clientfds = \<lparr>pfd = 3, revents = False\<rparr> # \<lparr>pfd = 4, revents = True\<rparr> # replicate 998 \<lparr>pfd = - 1, revents = False\<rparr>,
      maxi = 1, sent = [], closed = []\<rparr>
   = Some \<lparr>clientfds = \<lparr>pfd = 3, revents = False\<rparr> # \<lparr>pfd = 4, revents = True\<rparr> # replicate 998 \<lparr>pfd = - 1, revents = False\<rparr>,
      maxi = 1, sent = [], closed = []\<rparr>"
  by (rule poll_server_keeps_failed_client) (auto simp: wf_poll_def OPEN_MAX_def nth_Cons split: nat.splits)

end
