(* ===== verification/Poll_Client.thy ===== *)
theory Poll_Client
  imports Poll_Server
begin

text \<open>
  The client of the poll server, \<open>Application/io_multi/poll/client.c\<close>: it copies its standard input to the
  socket. A read that fills its buffer exactly is allowed; the reads of the socket are not shown.
\<close>

record poll_client =
  sendline :: "byte list"
  recvline :: "byte list"
  wrote :: "byte list list"
  sock_closed :: bool
  wr_shut :: bool

text \<open>A round: what \<open>poll\<close> reports for the socket and for the standard input, and what reading them gives. A
  write of -1 bytes fails.\<close>

definition client_round :: "bool \<Rightarrow> int \<times> byte list \<Rightarrow> bool \<Rightarrow> int \<times> byte list \<Rightarrow> poll_client \<Rightarrow> poll_client option" where
  "client_round sock_in sock_rd std_in std_rd s = do {
     s1 \<leftarrow> (if sock_in then (case sock_rd of (n, bytes) \<Rightarrow> do {
              b \<leftarrow> (if n < 0 then Some (recvline s) else memcpy (recvline s) 0 bytes 0 n);
              Some (if n = 0 then s\<lparr>recvline := b, sock_closed := True\<rparr> else s\<lparr>recvline := b\<rparr>) })
            else Some s);
     if std_in then (case std_rd of (n, bytes) \<Rightarrow> do {
         b \<leftarrow> (if n < 0 then Some (sendline s1) else memcpy (sendline s1) 0 bytes 0 n);
         Some (if n = 0 then s1\<lparr>sendline := b, wr_shut := True\<rparr>
               else if n < 0 then s1
               else s1\<lparr>sendline := b, wrote := wrote s1 @ [take (nat n) b]\<rparr>) })
     else Some s1 }"

type_synonym round = "bool \<times> (int \<times> byte list) \<times> bool \<times> (int \<times> byte list)"

fun client_connection :: "round list \<Rightarrow> poll_client \<Rightarrow> poll_client option" where
  "client_connection [] s = Some s"
| "client_connection ((si, sr, ti, tr) # ks) s = Option.bind (client_round si sr ti tr s) (client_connection ks)"

definition client_start :: "byte list \<Rightarrow> byte list \<Rightarrow> poll_client" where
  "client_start stack1 stack2 = \<lparr>sendline = stack1, recvline = stack2, wrote = [], sock_closed = False, wr_shut = False\<rparr>"

text \<open>What the kernel promises of a read: at most as many bytes as asked for, and that many.\<close>

definition sane_read :: "int \<times> byte list \<Rightarrow> bool" where
  "sane_read rd \<longleftrightarrow> (case rd of (n, bytes) \<Rightarrow> n \<le> int MAXLINE \<and> (0 \<le> n \<longrightarrow> int (length bytes) = n))"

definition sane_round :: "round \<Rightarrow> bool" where
  "sane_round r \<longleftrightarrow> (case r of (si, sr, ti, tr) \<Rightarrow> sane_read sr \<and> sane_read tr)"

text \<open>The pieces read from the standard input.\<close>

fun typed :: "round list \<Rightarrow> byte list list" where
  "typed [] = []"
| "typed ((si, sr, ti, (n, bytes)) # ks) = (if ti \<and> 0 < n then [bytes] else []) @ typed ks"

definition wf_client :: "poll_client \<Rightarrow> bool" where
  "wf_client s \<longleftrightarrow> length (sendline s) = MAXLINE \<and> length (recvline s) = MAXLINE"

lemma read_buffer:
  assumes "length b = MAXLINE" "sane_read (n, bytes)" "0 \<le> n"
  shows "memcpy b 0 bytes 0 n = Some (bytes @ drop (length bytes) b)" "take (nat n) (bytes @ drop (length bytes) b) = bytes"
    "length (bytes @ drop (length bytes) b) = MAXLINE"
  using assms by (auto simp: sane_read_def memcpy_def)

lemma client_round_result:
  assumes "wf_client s" "sane_round (si, sr, ti, tr)"
  shows "\<exists>s'. client_round si sr ti tr s = Some s' \<and> wf_client s' \<and> wrote s' = wrote s @ typed [(si, sr, ti, tr)]"
proof -
  obtain n bs k cs where rd: "sr = (n, bs)" "tr = (k, cs)" by (cases sr, cases tr)
  have l: "length (sendline s) = MAXLINE" "length (recvline s) = MAXLINE" using assms(1) by (simp_all add: wf_client_def)
  have sane: "sane_read (n, bs)" "sane_read (k, cs)" using assms(2) by (simp_all add: sane_round_def rd)
  define s1 where "s1 = (if si \<and> 0 \<le> n then s\<lparr>recvline := bs @ drop (length bs) (recvline s), sock_closed := sock_closed s \<or> n = 0\<rparr> else s)"
  have l1: "length (sendline s1) = MAXLINE" "length (recvline s1) = MAXLINE" "wrote s1 = wrote s"
    using l read_buffer(3) [OF l(2) sane(1)] by (simp_all add: s1_def)
  have "(if si then (case sr of (n, bytes) \<Rightarrow> do {
              b \<leftarrow> (if n < 0 then Some (recvline s) else memcpy (recvline s) 0 bytes 0 n);
              Some (if n = 0 then s\<lparr>recvline := b, sock_closed := True\<rparr> else s\<lparr>recvline := b\<rparr>) }) else Some s) = Some s1"
    using read_buffer(1) [OF l(2) sane(1)] by (auto simp: rd s1_def)
  then have step: "client_round si sr ti tr s = (if ti then (case tr of (n, bytes) \<Rightarrow> do {
         b \<leftarrow> (if n < 0 then Some (sendline s1) else memcpy (sendline s1) 0 bytes 0 n);
         Some (if n = 0 then s1\<lparr>sendline := b, wr_shut := True\<rparr>
               else if n < 0 then s1
               else s1\<lparr>sendline := b, wrote := wrote s1 @ [take (nat n) b]\<rparr>) }) else Some s1)"
    by (simp add: client_round_def)
  note step = step [unfolded rd]
  have "\<exists>s'. client_round si (n, bs) ti (k, cs) s = Some s' \<and> wf_client s' \<and> wrote s' = wrote s @ typed [(si, (n, bs), ti, (k, cs))]"
  proof (cases "ti \<and> 0 \<le> k")
    case True
    then show ?thesis unfolding step using l1 read_buffer [OF l1(1) sane(2)] by (auto simp: wf_client_def)
  next
    case False
    then show ?thesis unfolding step using l1 by (auto simp: wf_client_def)
  qed
  then show ?thesis by (simp only: rd)
qed

text \<open>whatever the socket does, the client stays inside its buffers and writes to the socket exactly the
  pieces it read from its standard input, in order.\<close>

theorem poll_client_copies:
  assumes "list_all sane_round ks" "length stack1 = MAXLINE" "length stack2 = MAXLINE"
  shows "\<exists>s. client_connection ks (client_start stack1 stack2) = Some s \<and> wrote s = typed ks"
proof -
  have "wf_client s \<Longrightarrow> list_all sane_round ks \<Longrightarrow> \<exists>s'. client_connection ks s = Some s' \<and> wrote s' = wrote s @ typed ks" for s
  proof (induction ks arbitrary: s)
    case (Cons r ks)
    obtain si sr ti n bs where r: "r = (si, sr, ti, n, bs)" by (cases r)
    obtain s1 where s1: "client_round si sr ti (n, bs) s = Some s1" "wf_client s1" "wrote s1 = wrote s @ typed [r]"
      using client_round_result [OF Cons.prems(1), of si sr ti "(n, bs)"] Cons.prems(2) by (auto simp: r)
    from Cons.IH [OF s1(2)] Cons.prems(2) s1(1,3) show ?case by (simp add: r)
  qed simp
  from this [of "client_start stack1 stack2"] assms show ?thesis by (simp add: wf_client_def client_start_def)
qed

theorem poll_client_copies_witness:
  "\<exists>s. client_connection [(True, (0, []), True, (2, [7, 8])), (False, (0, []), True, (1, [9]))]
      (client_start (replicate MAXLINE 0) (replicate MAXLINE 0)) = Some s \<and> wrote s = [[7, 8], [9]]"
  using poll_client_copies [of "[(True, (0, []), True, (2, [7, 8])), (False, (0, []), True, (1, [9]))]"
      "replicate MAXLINE 0" "replicate MAXLINE 0"]
  by (simp add: sane_round_def sane_read_def MAXLINE_def del: client_connection.simps)

end
