(* ===== verification/Epoll_Client.thy ===== *)
theory Epoll_Client
  imports Prelude
begin

text \<open>
  The client of the epoll server, \<open>Application/io_multi/epoll/client.c\<close>. Its one buffer, of 1204 bytes, takes what comes
  from the standard input and from the socket. \<open>None\<close> is an access outside it.
\<close>

definition CLIENT_MAXSIZE :: nat where "CLIENT_MAXSIZE = 1204"

record epoll_client =
  cbuf :: "byte list"
  typed_sent :: "byte list list"
  received :: "byte list list"
  stdin_closed :: bool

text \<open>\<open>do_read\<close> of the standard input or of the socket.\<close>

definition client_do_read :: "bool \<Rightarrow> int \<times> byte list \<Rightarrow> epoll_client \<Rightarrow> epoll_client option" where
  "client_do_read is_stdin rd s = (case rd of (nread, bytes) \<Rightarrow> do {
     b \<leftarrow> (if nread < 0 then Some (cbuf s) else memcpy (cbuf s) 0 bytes 0 nread);
     if \<not> is_stdin then do { t \<leftarrow> string_at b; Some (s\<lparr>cbuf := b, received := received s @ [t]\<rparr>) }
     else if nread = - 1 then Some (s\<lparr>stdin_closed := True\<rparr>)
     else if nread = 0 then Some (s\<lparr>stdin_closed := True\<rparr>)
     else do {
       t \<leftarrow> string_at b;
       b' \<leftarrow> memset b 0 0 (int (length t));
       Some (s\<lparr>cbuf := b', typed_sent := typed_sent s @ [t]\<rparr>) } })"

text \<open>An event: readable, of the standard input, and what reading gives.\<close>

fun client_handle_events :: "(bool \<times> bool \<times> int \<times> byte list) list \<Rightarrow> epoll_client \<Rightarrow> epoll_client option" where
  "client_handle_events [] s = Some s"
| "client_handle_events ((readable, is_stdin, rd) # es) s =
     (if readable then Option.bind (client_do_read is_stdin rd s) (client_handle_events es) else client_handle_events es s)"

text \<open>A round of \<open>handle_connection\<close>, \<open>False\<close> when \<open>epoll_wait\<close> failed.\<close>

definition client_round :: "int \<Rightarrow> (bool \<times> bool \<times> int \<times> byte list) list \<Rightarrow> epoll_client \<Rightarrow> (bool \<times> epoll_client) option" where
  "client_round ret es s = (if ret = - 1 then Some (False, s)
     else do { s1 \<leftarrow> client_handle_events es s;
               b \<leftarrow> memset (cbuf s1) 0 0 (int CLIENT_MAXSIZE);
               Some (True, s1\<lparr>cbuf := b\<rparr>) })"

fun client_connection :: "(int \<times> (bool \<times> bool \<times> int \<times> byte list) list) list \<Rightarrow> epoll_client \<Rightarrow> epoll_client option" where
  "client_connection [] s = Some s"
| "client_connection ((ret, es) # ks) s = do { (go, s') \<leftarrow> client_round ret es s; if go then client_connection ks s' else Some s' }"

section \<open>What the client does\<close>

lemma memset_all: "length b = n \<Longrightarrow> memset b 0 0 (int n) = Some (replicate n 0)"
  by (simp add: memset_def)

lemma memcpy_zeros: "length l \<le> n \<Longrightarrow> memcpy (replicate n 0) 0 l 0 (int (length l)) = Some (l @ replicate (n - length l) 0)"
  by (simp add: memcpy_def)

lemma string_at_zeros_end: "0 \<notin> set l \<Longrightarrow> length l < n \<Longrightarrow> string_at (l @ replicate (n - length l) 0) = Some l"
proof -
  assume "length l < n" "0 \<notin> set l"
  moreover from this obtain k where "n - length l = Suc k" by (metis Suc_diff_Suc)
  ultimately show ?thesis using string_at_append [of l "replicate k 0"] by simp
qed

lemma memset_line: "length l \<le> n \<Longrightarrow> memset (l @ replicate (n - length l) 0) 0 0 (int (length l)) = Some (replicate n 0)"
  by (simp add: memset_def flip: replicate_add)

text \<open>An event whose read brings a text, without a zero and shorter than the buffer; or an event that is not a read.\<close>

definition text_event :: "bool \<times> bool \<times> int \<times> byte list \<Rightarrow> bool" where
  "text_event e \<longleftrightarrow> (case e of (readable, is_stdin, n, bytes) \<Rightarrow> readable \<longrightarrow>
     n = int (length bytes) \<and> 0 < n \<and> length bytes < CLIENT_MAXSIZE \<and> 0 \<notin> set bytes)"

definition from_stdin :: "bool \<times> bool \<times> int \<times> byte list \<Rightarrow> bool" where
  "from_stdin e \<longleftrightarrow> (case e of (readable, is_stdin, _) \<Rightarrow> readable \<and> is_stdin)"

definition from_socket :: "bool \<times> bool \<times> int \<times> byte list \<Rightarrow> bool" where
  "from_socket e \<longleftrightarrow> (case e of (readable, is_stdin, _) \<Rightarrow> readable \<and> \<not> is_stdin)"

text \<open>A round in which what the socket brings is read last.\<close>

fun socket_last :: "(bool \<times> bool \<times> int \<times> byte list) list \<Rightarrow> bool" where
  "socket_last [] = True"
| "socket_last (e # es) \<longleftrightarrow> (from_socket e \<longrightarrow> \<not> list_ex fst es) \<and> socket_last es"

definition bytes_of :: "bool \<times> bool \<times> int \<times> byte list \<Rightarrow> byte list" where
  "bytes_of e = snd (snd (snd e))"

lemma event_simps [simp]: "from_stdin (r, i, n, l) \<longleftrightarrow> r \<and> i" "from_socket (r, i, n, l) \<longleftrightarrow> r \<and> \<not> i" "bytes_of (r, i, n, l) = l"
  by (simp_all add: from_stdin_def from_socket_def bytes_of_def)

lemma handle_no_reads: "\<not> list_ex fst es \<Longrightarrow> client_handle_events es s = Some s"
  by (induction es) auto

lemma handle_texts:
  assumes "cbuf s = replicate CLIENT_MAXSIZE 0" "list_all text_event es" "socket_last es"
  shows "\<exists>b. client_handle_events es s = Some (s\<lparr>cbuf := b, typed_sent := typed_sent s @ map bytes_of (filter from_stdin es),
      received := received s @ map bytes_of (filter from_socket es)\<rparr>) \<and> length b = CLIENT_MAXSIZE"
  using assms
proof (induction es arbitrary: s)
  case Nil
  then show ?case by (intro exI [of _ "cbuf s"]) simp
next
  case (Cons e es)
  obtain readable is_stdin n l where e: "e = (readable, is_stdin, n, l)" by (cases e) auto
  show ?case
  proof (cases readable)
    case False
    with Cons show ?thesis by (simp add: e)
  next
    case True
    with Cons.prems have l: "n = int (length l)" "l \<noteq> []" "length l < CLIENT_MAXSIZE" "0 \<notin> set l"
      by (auto simp: e text_event_def)
    note c = memcpy_zeros [of l CLIENT_MAXSIZE] string_at_zeros_end [OF l(4,3)] memset_line [of l CLIENT_MAXSIZE]
    show ?thesis
    proof (cases is_stdin)
      case True
      let ?s = "s\<lparr>typed_sent := typed_sent s @ [l]\<rparr>"
      have "client_do_read is_stdin (n, l) s = Some ?s"
        using True l c Cons.prems(1) by (simp add: client_do_read_def)
      with Cons.IH [of ?s] Cons.prems True \<open>readable\<close> show ?thesis
        by (simp add: e)
    next
      case False
      have none: "\<not> list_ex fst es" using Cons.prems(3) False \<open>readable\<close> by (simp add: e)
      then have "filter from_stdin es = [] \<and> filter from_socket es = []"
        by (induction es) (auto simp: from_stdin_def from_socket_def)
      moreover have "client_do_read is_stdin (n, l) s
          = Some (s\<lparr>cbuf := l @ replicate (CLIENT_MAXSIZE - length l) 0, received := received s @ [l]\<rparr>)"
        using False l c Cons.prems(1) by (simp add: client_do_read_def)
      ultimately show ?thesis using False \<open>readable\<close> none handle_no_reads l(3)
        by (intro exI [of _ "l @ replicate (CLIENT_MAXSIZE - length l) 0"])
          (simp add: e)
    qed
  qed
qed

definition events_of :: "(int \<times> (bool \<times> bool \<times> int \<times> byte list) list) list \<Rightarrow> (bool \<times> bool \<times> int \<times> byte list) list" where
  "events_of ks = concat (map snd ks)"

lemma rounds_texts:
  assumes "cbuf s = replicate CLIENT_MAXSIZE 0" "list_all (\<lambda>(ret, es). ret \<noteq> - 1 \<and> list_all text_event es \<and> socket_last es) ks"
  shows "client_connection ks s = Some (s\<lparr>typed_sent := typed_sent s @ map bytes_of (filter from_stdin (events_of ks)),
      received := received s @ map bytes_of (filter from_socket (events_of ks))\<rparr>)"
  using assms
proof (induction ks arbitrary: s)
  case (Cons k ks)
  obtain ret es where k: "k = (ret, es)" by (cases k)
  with Cons.prems have r: "ret \<noteq> - 1" "list_all text_event es" "socket_last es" by simp_all
  let ?s = "s\<lparr>typed_sent := typed_sent s @ map bytes_of (filter from_stdin es),
    received := received s @ map bytes_of (filter from_socket es)\<rparr>"
  obtain b where "client_handle_events es s = Some (s\<lparr>cbuf := b, typed_sent := typed_sent s @ map bytes_of (filter from_stdin es),
      received := received s @ map bytes_of (filter from_socket es)\<rparr>)" "length b = CLIENT_MAXSIZE"
    using handle_texts [OF Cons.prems(1) r(2,3)] by blast
  then have "client_round ret es s = Some (True, ?s)" using r(1) memset_all [of b] Cons.prems(1) by (simp add: client_round_def)
  with Cons.IH [of ?s] Cons.prems show ?case by (simp add: k events_of_def)
qed (simp add: events_of_def)

text \<open>C20: whatever the buffer holds at first: if the first round brings nothing to read (the socket only becomes writable), and
  in every later one each read brings a text without a zero of 1 to 1203 bytes, with what the socket brings read
  last, then the client stays inside its buffer, sends every text that it read from its standard input as it was
  typed, and shows every text from the socket as it came, in their order.\<close>

theorem epoll_client_forwards:
  assumes "length (cbuf s) = CLIENT_MAXSIZE" "ret \<noteq> - 1" "\<not> list_ex fst es"
    and "list_all (\<lambda>(ret, es). ret \<noteq> - 1 \<and> list_all text_event es \<and> socket_last es) ks"
  shows "\<exists>s'. client_connection ((ret, es) # ks) s = Some s'
    \<and> typed_sent s' = typed_sent s @ map bytes_of (filter from_stdin (events_of ks))
    \<and> received s' = received s @ map bytes_of (filter from_socket (events_of ks))"
proof -
  let ?s = "s\<lparr>cbuf := replicate CLIENT_MAXSIZE 0\<rparr>"
  have "client_round ret es s = Some (True, ?s)"
    using assms(2) handle_no_reads [OF assms(3)] memset_all [OF assms(1)] by (simp add: client_round_def)
  with rounds_texts [of ?s ks] assms(4) show ?thesis by simp
qed

theorem epoll_client_forwards_witness:
  "\<exists>s'. client_connection [(1, [(False, False, 0, [])]), (2, [(True, True, 2, [104, 105]), (True, False, 1, [111])])]
      \<lparr>cbuf = replicate CLIENT_MAXSIZE 7, typed_sent = [], received = [], stdin_closed = False\<rparr> = Some s'
    \<and> typed_sent s' = [[104, 105]] \<and> received s' = [[111]]"
  using epoll_client_forwards [of "\<lparr>cbuf = replicate CLIENT_MAXSIZE 7, typed_sent = [], received = [], stdin_closed = False\<rparr>" 1
      "[(False, False, 0, [])]" "[(2, [(True, True, 2, [104, 105]), (True, False, 1, [111])])]"]
  by (simp add: text_event_def from_stdin_def from_socket_def events_of_def bytes_of_def CLIENT_MAXSIZE_def del: client_connection.simps)

text \<open>in the other order the end of what the socket brought is sent behind a shorter line.\<close>

theorem epoll_client_mixes:
  assumes "cbuf s = replicate CLIENT_MAXSIZE 0" "0 \<notin> set l" "0 \<notin> set m" "l \<noteq> []" "length l < length m" "length m < CLIENT_MAXSIZE"
  shows "\<exists>s'. client_round 2 [(True, False, int (length m), m), (True, True, int (length l), l)] s = Some (True, s')
    \<and> typed_sent s' = typed_sent s @ [l @ drop (length l) m]"
proof -
  let ?b = "m @ replicate (CLIENT_MAXSIZE - length m) 0" and ?t = "l @ drop (length l) m"
  let ?c = "?t @ replicate (CLIENT_MAXSIZE - length ?t) 0"
  have lt: "length ?t = length m" "0 \<notin> set ?t" using assms(2,3,5) by (auto dest: in_set_dropD)
  have r1: "client_do_read False (int (length m), m) s = Some (s\<lparr>cbuf := ?b, received := received s @ [m]\<rparr>)"
    using assms string_at_zeros_end [OF assms(3,6)] memcpy_zeros [of m CLIENT_MAXSIZE] by (simp add: client_do_read_def)
  have c: "memcpy ?b 0 l 0 (int (length l)) = Some ?c" using assms(5,6) lt by (simp add: memcpy_def)
  have st: "string_at ?c = Some ?t" using string_at_zeros_end [OF lt(2)] assms(6) lt(1) by simp
  have ms: "memset ?c 0 0 (int (length ?t)) = Some (replicate CLIENT_MAXSIZE 0)"
    using memset_line [of ?t CLIENT_MAXSIZE] assms(6) lt(1) by (simp del: length_append)
  have "client_do_read True (int (length l), l) (s\<lparr>cbuf := ?b, received := received s @ [m]\<rparr>)
      = Some (s\<lparr>cbuf := replicate CLIENT_MAXSIZE 0, received := received s @ [m], typed_sent := typed_sent s @ [?t]\<rparr>)"
    using assms(4) c st ms unfolding client_do_read_def by (simp del: length_append)
  with r1 show ?thesis by (simp add: client_round_def memset_all)
qed

theorem epoll_client_mixes_witness:
  "\<exists>s'. client_round 2 [(True, False, 5, [104, 101, 108, 108, 111]), (True, True, 1, [120])]
      \<lparr>cbuf = replicate CLIENT_MAXSIZE 0, typed_sent = [], received = [], stdin_closed = False\<rparr> = Some (True, s')
    \<and> typed_sent s' = [[120, 101, 108, 108, 111]]"
  using epoll_client_mixes [of "\<lparr>cbuf = replicate CLIENT_MAXSIZE 0, typed_sent = [], received = [], stdin_closed = False\<rparr>"
      "[120]" "[104, 101, 108, 108, 111]"] by (simp add: CLIENT_MAXSIZE_def)

end
