(* ===== verification/I2c_Bus.thy ===== *)
theory I2c_Bus
  imports Prelude
begin

unbundle bit_operations_syntax

text \<open>
  The I2C bus driver \<open>device_driver/i2c/bus/i2c_bus.c\<close>: the clock divider, the transfer of messages
  through the controller's FIFO, the interrupt handler and the probe. The controller is what the
  driver sees of it: a script of the values its status register and its FIFO will be read as, and
  the log of the registers written.

  The file does not compile as it stands. Its undeclared names are read as follows:
  \<open>i2c_demo_calc_divier\<close> as \<open>i2c_demo_calc_divider\<close>, \<open>clk_out\<close> as \<open>clk_tout\<close>, \<open>curr_msg0\<close> as
  \<open>curr_msg\<close>, \<open>iwc_demo_writel\<close> and \<open>i2c_demo_writl\<close> as \<open>i2c_demo_writel\<close>; \<open>num\<close> and
  \<open>I2C_DEMO_S_NODE\<close>, which nothing in the file determines, are parameters; the \<open>max\<close> of three
  arguments in \<open>i2c_demo_set_rate\<close>, whose result is not used, is left out.
\<close>

type_synonym u32 = "32 word"

section \<open>Registers\<close>

datatype reg = I2C_DEMO_C | I2C_DEMO_S | I2C_DEMO_DLEN | I2C_DEMO_A | I2C_DEMO_FIFO | I2C_DEMO_DIV
  | I2C_DEMO_DEL | I2C_DEMO_CLKT

definition I2C_DEMO_C_READ :: u32 where "I2C_DEMO_C_READ = 0x1"
definition I2C_DEMO_C_CLEAR :: u32 where "I2C_DEMO_C_CLEAR = 0x10"
definition I2C_DEMO_C_ST :: u32 where "I2C_DEMO_C_ST = 0x80"
definition I2C_DEMO_C_INTD :: u32 where "I2C_DEMO_C_INTD = 0x100"
definition I2C_DEMO_C_INIT :: u32 where "I2C_DEMO_C_INIT = 0x200"
definition I2C_DEMO_C_INTR :: u32 where "I2C_DEMO_C_INTR = 0x400"
definition I2C_DEMO_C_I2CEN :: u32 where "I2C_DEMO_C_I2CEN = 0x8000"

definition I2C_DEMO_S_TXW :: u32 where "I2C_DEMO_S_TXW = 0x4"
definition I2C_DEMO_S_RXR :: u32 where "I2C_DEMO_S_RXR = 0x8"
definition I2C_DEMO_S_TXD :: u32 where "I2C_DEMO_S_TXD = 0x10"
definition I2C_DEMO_S_RXD :: u32 where "I2C_DEMO_S_RXD = 0x20"
definition I2C_DEMO_S_ERR :: u32 where "I2C_DEMO_S_ERR = 0x100"
definition I2C_DEMO_S_CLKT :: u32 where "I2C_DEMO_S_CLKT = 0x200"
definition I2C_DEMO_S_LEN :: u32 where "I2C_DEMO_S_LEN = 0x400"

lemmas reg_bits = I2C_DEMO_C_READ_def I2C_DEMO_C_CLEAR_def I2C_DEMO_C_ST_def I2C_DEMO_C_INTD_def
  I2C_DEMO_C_INIT_def I2C_DEMO_C_INTR_def I2C_DEMO_C_I2CEN_def I2C_DEMO_S_TXW_def I2C_DEMO_S_RXR_def
  I2C_DEMO_S_TXD_def I2C_DEMO_S_RXD_def I2C_DEMO_S_ERR_def I2C_DEMO_S_CLKT_def I2C_DEMO_S_LEN_def

definition I2C_DEMO_CDIV_MIN :: nat where "I2C_DEMO_CDIV_MIN = 0x0002"
definition I2C_DEMO_CDIV_MAX :: nat where "I2C_DEMO_CDIV_MAX = 0xFFFE"

text \<open>Kernel error codes.\<close>

definition EIO :: int where "EIO = 5"
definition ENOMEM :: int where "ENOMEM = 12"
definition EBUSY :: int where "EBUSY = 16"
definition ENODEV :: int where "ENODEV = 19"
definition EINVAL :: int where "EINVAL = 22"
definition EOPNOTSUPP :: int where "EOPNOTSUPP = 95"
definition ETIMEDOUT :: int where "ETIMEDOUT = 110"
definition EREMOTEIO :: int where "EREMOTEIO = 121"

section \<open>The device\<close>

text \<open>A message of the I2C core: \<open>len\<close> bytes at \<open>data\<close>; \<open>rd\<close> is the flag \<open>I2C_M_RD\<close>.\<close>

record i2c_msg =
  addr :: u32
  rd :: bool
  len :: nat
  data :: "byte list"

text \<open>\<open>curr_msg\<close> is an index into the array of messages; \<open>msg_buf\<close> the message whose buffer it points
  into and the offset there. The messages belong to the caller of \<open>i2c_demo_xfer\<close>: \<open>alive\<close> says that they still exist, and
  every access to one that does not is undefined. \<open>completed\<close> counts the calls of \<open>complete\<close>.\<close>

record i2c_demo_dev =
  msgs :: "i2c_msg list"
  alive :: bool
  curr_msg :: "nat option"
  num_msgs :: nat
  msg_err :: u32
  msg_buf :: "(nat \<times> nat) option"
  msg_buf_remaining :: nat
  status :: "u32 list"
  rx :: "u32 list"
  writes :: "(reg \<times> u32) list"
  completed :: nat

definition i2c_demo_writel :: "reg \<Rightarrow> u32 \<Rightarrow> i2c_demo_dev \<Rightarrow> i2c_demo_dev" where
  "i2c_demo_writel r val d = d\<lparr>writes := writes d @ [(r, val)]\<rparr>"

text \<open>A read of the status register or of the FIFO takes the next value of its script, 0 at its end.\<close>

definition i2c_demo_readl :: "reg \<Rightarrow> i2c_demo_dev \<Rightarrow> u32 \<times> i2c_demo_dev" where
  "i2c_demo_readl r d = (case r of
     I2C_DEMO_S \<Rightarrow> (case status d of [] \<Rightarrow> (0, d) | v # vs \<Rightarrow> (v, d\<lparr>status := vs\<rparr>))
   | I2C_DEMO_FIFO \<Rightarrow> (case rx d of [] \<Rightarrow> (0, d) | v # vs \<Rightarrow> (v, d\<lparr>rx := vs\<rparr>))
   | _ \<Rightarrow> (0, d))"

section \<open>The clock\<close>

text \<open>\<open>DIV_ROUND_UP\<close> on \<open>unsigned long\<close>; a zero divisor is undefined.\<close>

definition DIV_ROUND_UP :: "64 word \<Rightarrow> 64 word \<Rightarrow> 64 word option" where
  "DIV_ROUND_UP n d = (if d = 0 then None else Some ((n + d - 1) div d))"

definition i2c_demo_calc_divider :: "64 word \<Rightarrow> 64 word \<Rightarrow> int option" where
  "i2c_demo_calc_divider rate parent_rate = do {
     q \<leftarrow> DIV_ROUND_UP parent_rate rate;
     let divider = (ucast q :: u32);
     let divider = (if divider AND 1 \<noteq> 0 then divider + 1 else divider);
     if unat divider < I2C_DEMO_CDIV_MIN \<or> unat divider > I2C_DEMO_CDIV_MAX then Some (- EINVAL)
     else Some (uint divider) }"

text \<open>The value of the time-out register: \<open>rate > 0xffff*1000/35\<close> is a comparison with 1872428.\<close>

definition clk_tout :: "64 word \<Rightarrow> u32" where
  "clk_tout rate = (if rate > 1872428 then 0xffff else ucast (35 * rate div 1000))"

text \<open>There is no return statement on the success path: \<open>garbage\<close>.\<close>

definition i2c_demo_set_rate :: "int \<Rightarrow> 64 word \<Rightarrow> 64 word \<Rightarrow> i2c_demo_dev \<Rightarrow> (int \<times> i2c_demo_dev) option" where
  "i2c_demo_set_rate garbage rate parent_rate d = do {
     r \<leftarrow> i2c_demo_calc_divider rate parent_rate;
     let divider = (word_of_int r :: u32);
     if divider = word_of_int (- EINVAL) then Some (- EINVAL, d)
     else Some (garbage, i2c_demo_writel I2C_DEMO_CLKT (clk_tout rate)
                           (i2c_demo_writel I2C_DEMO_DIV divider d)) }"

definition i2c_demo_round_rate :: "64 word \<Rightarrow> 64 word \<Rightarrow> 64 word option" where
  "i2c_demo_round_rate rate parent_rate = do {
     r \<leftarrow> i2c_demo_calc_divider rate parent_rate;
     DIV_ROUND_UP parent_rate (ucast (word_of_int r :: u32)) }"

text \<open>\<open>divider\<close> is what the divider register reads as.\<close>

definition i2c_demo_recalc_rate :: "u32 \<Rightarrow> 64 word \<Rightarrow> 64 word option" where
  "i2c_demo_recalc_rate divider parent_rate = DIV_ROUND_UP parent_rate (ucast divider)"

section \<open>The FIFO\<close>

text \<open>\<open>*msg_buf\<close> as a value and as the target of an assignment.\<close>

definition load_byte :: "i2c_demo_dev \<Rightarrow> byte option" where
  "load_byte d = (case msg_buf d of None \<Rightarrow> None | Some (m, i) \<Rightarrow>
     if alive d \<and> m < length (msgs d) \<and> i < length (data (msgs d ! m)) then Some (data (msgs d ! m) ! i) else None)"

definition store_byte :: "byte \<Rightarrow> i2c_demo_dev \<Rightarrow> i2c_demo_dev option" where
  "store_byte b d = (case msg_buf d of None \<Rightarrow> None | Some (m, i) \<Rightarrow>
     if alive d \<and> m < length (msgs d) \<and> i < length (data (msgs d ! m))
     then Some (d\<lparr>msgs := (msgs d)[m := (msgs d ! m)\<lparr>data := (data (msgs d ! m))[i := b]\<rparr>]\<rparr>) else None)"

text \<open>\<open>msg_buf++; msg_buf_remaining--;\<close>\<close>

definition advance :: "i2c_demo_dev \<Rightarrow> i2c_demo_dev" where
  "advance d = d\<lparr>msg_buf := map_option (\<lambda>(m, i). (m, i + 1)) (msg_buf d), msg_buf_remaining := msg_buf_remaining d - 1\<rparr>"

lemma advance_remaining [simp]: "msg_buf_remaining (advance d) = msg_buf_remaining d - 1"
  by (simp add: advance_def)

lemma readl_remaining: "i2c_demo_readl r d = (v, d') \<Longrightarrow> msg_buf_remaining d' = msg_buf_remaining d"
  by (auto simp: i2c_demo_readl_def split: reg.splits list.splits)

lemma store_remaining: "store_byte b d = Some d' \<Longrightarrow> msg_buf_remaining d' = msg_buf_remaining d"
  by (auto simp: store_byte_def split: option.splits if_splits)

function i2c_demo_fill_txfifo :: "i2c_demo_dev \<Rightarrow> i2c_demo_dev option" where
  "i2c_demo_fill_txfifo d = (if msg_buf_remaining d = 0 then Some d
     else let (val, d1) = i2c_demo_readl I2C_DEMO_S d in
       if val AND I2C_DEMO_S_TXD = 0 then Some d1
       else do {
         b \<leftarrow> load_byte d1;
         i2c_demo_fill_txfifo (advance (i2c_demo_writel I2C_DEMO_FIFO (ucast b) d1)) })"
  by pat_completeness auto
termination
  by (relation "measure msg_buf_remaining") (auto simp: i2c_demo_writel_def dest!: readl_remaining [OF sym])

function i2c_demo_drain_rxfifo :: "i2c_demo_dev \<Rightarrow> i2c_demo_dev option" where
  "i2c_demo_drain_rxfifo d = (if msg_buf_remaining d = 0 then Some d
     else let (val, d1) = i2c_demo_readl I2C_DEMO_S d in
       if val AND I2C_DEMO_S_RXD = 0 then Some d1
       else let (v, d2) = i2c_demo_readl I2C_DEMO_FIFO d1 in
         do { d3 \<leftarrow> store_byte (ucast v) d2; i2c_demo_drain_rxfifo (advance d3) })"
  by pat_completeness auto
termination
  by (relation "measure msg_buf_remaining") (auto dest!: readl_remaining [OF sym] store_remaining)

declare i2c_demo_fill_txfifo.simps [simp del] i2c_demo_drain_rxfifo.simps [simp del]

section \<open>Transfers\<close>

definition i2c_demo_start_transfer :: "i2c_demo_dev \<Rightarrow> i2c_demo_dev option" where
  "i2c_demo_start_transfer d = (if num_msgs d = 0 then Some d
     else case curr_msg d of None \<Rightarrow> None | Some m \<Rightarrow>
       if \<not> alive d \<or> m \<ge> length (msgs d) then None
       else let msg = msgs d ! m;
         last_msg = (num_msgs d = 1);
         d1 = d\<lparr>num_msgs := num_msgs d - 1, msg_buf := Some (m, 0), msg_buf_remaining := len msg\<rparr>;
         c = I2C_DEMO_C_ST OR I2C_DEMO_C_I2CEN;
         c = (if rd msg then c OR (I2C_DEMO_C_READ OR I2C_DEMO_C_INTR) else c OR I2C_DEMO_C_INIT);
         c = (if last_msg then c OR I2C_DEMO_C_INTD else c)
       in Some (i2c_demo_writel I2C_DEMO_C c (i2c_demo_writel I2C_DEMO_DLEN (of_nat (len msg))
                  (i2c_demo_writel I2C_DEMO_A (addr msg) d1))))"

text \<open>Nothing calls \<open>i2c_demo_finish_transfer\<close>.\<close>

definition i2c_demo_finish_transfer :: "i2c_demo_dev \<Rightarrow> i2c_demo_dev" where
  "i2c_demo_finish_transfer d = d\<lparr>curr_msg := None, num_msgs := 0, msg_buf := None, msg_buf_remaining := 0\<rparr>"

text \<open>\<open>i2c_demo_xfer\<close> on \<open>num\<close> messages, which exist while it is called; \<open>time_left\<close> is never assigned, so it is a
  parameter, and there is no wait for the completion.\<close>

definition i2c_demo_xfer :: "nat \<Rightarrow> nat \<Rightarrow> i2c_msg list \<Rightarrow> i2c_demo_dev \<Rightarrow> (int \<times> i2c_demo_dev) option" where
  "i2c_demo_xfer num time_left ms d =
     (if list_ex rd (take (num - 1) ms) then Some (- EOPNOTSUPP, d)
      else if length ms < num - 1 then None
      else do {
        d1 \<leftarrow> i2c_demo_start_transfer (d\<lparr>msgs := ms, alive := True, curr_msg := Some 0, num_msgs := num\<rparr>);
        if time_left = 0 then Some (- ETIMEDOUT, i2c_demo_writel I2C_DEMO_C I2C_DEMO_C_CLEAR d1)
        else if msg_err d1 = 0 then Some (int num, d1)
        else if msg_err d1 AND I2C_DEMO_S_ERR \<noteq> 0 then Some (- EREMOTEIO, d1)
        else Some (- EIO, d1) })"

text \<open>The caller goes on after \<open>i2c_demo_xfer\<close> has returned, and its messages end.\<close>

definition messages_gone :: "i2c_demo_dev \<Rightarrow> i2c_demo_dev" where
  "messages_gone d = d\<lparr>alive := False\<rparr>"

text \<open>The label \<open>complete\<close> of the interrupt handler.\<close>

definition isr_complete :: "u32 \<Rightarrow> i2c_demo_dev \<Rightarrow> i2c_demo_dev" where
  "isr_complete s_node d = (i2c_demo_writel I2C_DEMO_S (I2C_DEMO_S_CLKT OR I2C_DEMO_S_ERR OR s_node)
     (i2c_demo_writel I2C_DEMO_C I2C_DEMO_C_CLEAR d))\<lparr>completed := completed d + 1\<rparr>"

text \<open>The interrupt handler; \<open>s_node\<close> is \<open>I2C_DEMO_S_NODE\<close>. The test of the done bit multiplies.\<close>

definition i2c_demo_isr :: "u32 \<Rightarrow> i2c_demo_dev \<Rightarrow> i2c_demo_dev option" where
  "i2c_demo_isr s_node d0 = (let (val, d) = i2c_demo_readl I2C_DEMO_S d0;
       err = val AND (I2C_DEMO_S_CLKT OR I2C_DEMO_S_ERR) in
     if err \<noteq> 0 then Some (isr_complete s_node (d\<lparr>msg_err := err\<rparr>))
     else if val * s_node \<noteq> 0 then do {
       (val, d) \<leftarrow> (case curr_msg d of
          None \<Rightarrow> Some (val, d)
        | Some m \<Rightarrow> if \<not> alive d \<or> m \<ge> length (msgs d) then None
            else if rd (msgs d ! m) then map_option (i2c_demo_readl I2C_DEMO_S) (i2c_demo_drain_rxfifo d)
            else Some (val, d));
       Some (isr_complete s_node (d\<lparr>msg_err :=
         (if val AND I2C_DEMO_S_RXD \<noteq> 0 \<or> msg_buf_remaining d \<noteq> 0 then I2C_DEMO_S_LEN else 0)\<rparr>)) }
     else if val AND I2C_DEMO_S_TXW \<noteq> 0 then
       (if msg_buf_remaining d = 0 then Some (isr_complete s_node (d\<lparr>msg_err := val OR I2C_DEMO_S_LEN\<rparr>))
        else do {
          d \<leftarrow> i2c_demo_fill_txfifo d;
          if num_msgs d \<noteq> 0 \<and> msg_buf_remaining d = 0
          then i2c_demo_start_transfer (d\<lparr>curr_msg := map_option Suc (curr_msg d)\<rparr>)
          else Some d })
     else if val AND I2C_DEMO_S_RXR \<noteq> 0 then
       (if msg_buf_remaining d = 0 then Some (isr_complete s_node (d\<lparr>msg_err := val OR I2C_DEMO_S_LEN\<rparr>))
        else i2c_demo_drain_rxfifo d)
     else Some d)"

section \<open>Probe and remove\<close>

text \<open>What the kernel answers to each call of the probe: 0 or a negative error.\<close>

record probe_env =
  kzalloc_ok :: bool
  ioremap_ret :: int
  clk_get_ret :: int
  register_div_ret :: int
  set_rate_ret :: int
  prepare_ret :: int
  irq_resource :: "int option"
  request_irq_ret :: int
  add_adapter_ret :: int

text \<open>What the driver holds: these have to be given back by hand, the \<open>devm_\<close> ones are not.\<close>

record held =
  rate_exclusive :: bool
  clk_enabled :: bool
  irq_held :: bool
  adapter_added :: bool

definition nothing_held :: held where
  "nothing_held = \<lparr>rate_exclusive = False, clk_enabled = False, irq_held = False, adapter_added = False\<rparr>"

text \<open>\<open>i2c_demo_register_div\<close>: \<open>priv_ok\<close> says whether its own allocation succeeded, \<open>clk_ret\<close> is what
  registering the clock returned.\<close>

definition i2c_demo_register_div :: "bool \<Rightarrow> int \<Rightarrow> int" where
  "i2c_demo_register_div priv_ok clk_ret = (if \<not> priv_ok then - ENOMEM else clk_ret)"

definition i2c_demo_probe :: "probe_env \<Rightarrow> int \<times> held" where
  "i2c_demo_probe e =
     (if \<not> kzalloc_ok e then (- ENOMEM, nothing_held)
      else if ioremap_ret e < 0 then (ioremap_ret e, nothing_held)
      else if clk_get_ret e < 0 then (clk_get_ret e, nothing_held)
      else if register_div_ret e < 0 then (register_div_ret e, nothing_held)
      else if set_rate_ret e < 0 then (set_rate_ret e, nothing_held)
      else let h = nothing_held\<lparr>rate_exclusive := True\<rparr> in
      if prepare_ret e \<noteq> 0 then (prepare_ret e, h)
      else let h = h\<lparr>clk_enabled := True\<rparr> in
      case irq_resource e of
        None \<Rightarrow> (- ENODEV, h)
      | Some irq \<Rightarrow>
          if request_irq_ret e \<noteq> 0 then (- ENODEV, h)
          else let h = h\<lparr>irq_held := True\<rparr> in
          if add_adapter_ret e \<noteq> 0 then (add_adapter_ret e, h\<lparr>irq_held := False\<rparr>)
          else (0, h\<lparr>adapter_added := True\<rparr>))"

definition i2c_demo_remove :: "held \<Rightarrow> int \<times> held" where
  "i2c_demo_remove h = (0, h\<lparr>rate_exclusive := False, clk_enabled := False, irq_held := False, adapter_added := False\<rparr>)"

text \<open>\<open>platform_demo_init\<close>: the results of the two registrations; the driver and the device that stay
  registered. \<open>platform_demo_exit\<close> takes both away.\<close>

definition platform_demo_init :: "int \<Rightarrow> int \<Rightarrow> int \<times> bool \<times> bool" where
  "platform_demo_init driver_ret device_ret =
     (if driver_ret \<noteq> 0 then (- EBUSY, False, False)
      else if device_ret \<noteq> 0 then (- EBUSY, True, False)
      else (0, True, True))"

definition platform_demo_exit :: "bool \<times> bool \<Rightarrow> bool \<times> bool" where
  "platform_demo_exit registered = (False, False)"

text \<open>What the adapter can do: plain transfers, and those of SMBus that the kernel emulates with them.\<close>

definition I2C_FUNC_I2C :: "32 word" where "I2C_FUNC_I2C = 1"

definition i2c_demo_func :: "32 word \<Rightarrow> 32 word" where
  "i2c_demo_func I2C_FUNC_SMBUS_EMUL = I2C_FUNC_I2C OR I2C_FUNC_SMBUS_EMUL"

end
