(* ===== verification/I2c_Bus_Correct.thy ===== *)
theory I2c_Bus_Correct
  imports I2c_Bus
begin

text \<open>
  The I2C driver: what the divider computes; that the interrupt handler never leaves the buffer of
  a message whatever the controller reports, as long as the messages exist, and that it uses them after their end, since
  \<open>i2c_demo_xfer\<close> does not wait for it; that a transfer of write messages puts their bytes into the
  FIFO in order, as long as the messages exist; and what the probe leaves behind.
\<close>

section \<open>The divider\<close>

lemma unat_DIV_ROUND_UP:
  assumes "0 < unat d" "unat n + unat d < 2 ^ 64"
  shows "\<exists>q. DIV_ROUND_UP n d = Some q \<and> unat q = (unat n + unat d - 1) div unat d"
proof -
  have d: "d \<noteq> 0" using assms(1) by auto
  have s: "unat (n + d) = unat n + unat d" using assms(2) by (simp add: unat_word_ariths)
  have "1 \<le> n + d" using s assms(1) by (simp add: word_le_nat_alt)
  then have "unat (n + d - 1) = unat n + unat d - 1" using s unat_sub [of 1 "n + d"] by simp
  with d show ?thesis by (simp add: DIV_ROUND_UP_def unat_div)
qed

text \<open>Rounding up to an even number.\<close>

definition even_up :: "nat \<Rightarrow> nat" where
  "even_up q = (if even q then q else q + 1)"

lemma even_up_least: "even (even_up q)" "q \<le> even_up q" "even e \<Longrightarrow> q \<le> e \<Longrightarrow> even_up q \<le> e"
  by (auto simp: even_up_def) presburger

lemma ceil_div_le: "0 < r \<Longrightarrow> (p + r - 1) div r \<le> e \<longleftrightarrow> p \<le> r * e" for p r e :: nat
proof -
  assume r: "0 < r"
  have "(p + r - 1) div r \<le> e \<longleftrightarrow> (p + r - 1) div r < Suc e" by auto
  also have "\<dots> \<longleftrightarrow> p + r - 1 < Suc e * r" by (rule div_less_iff_less_mult [OF r])
  also have "\<dots> \<longleftrightarrow> p \<le> r * e" using r by (auto simp: mult.commute)
  finally show ?thesis .
qed

lemma word_odd: "x AND 1 \<noteq> 0 \<longleftrightarrow> odd (unat x)" for x :: u32
proof -
  have "unat (x AND 1) = unat x mod 2" by (simp add: and_one_eq unat_mod)
  moreover have "x AND 1 = 0 \<longleftrightarrow> unat (x AND 1) = 0" by (simp add: unat_eq_zero)
  ultimately show ?thesis by (simp add: odd_iff_mod_2_eq_one)
qed

lemma calc_divider_value:
  assumes "0 < unat rate" "unat parent + unat rate < 2 ^ 64" "(unat parent + unat rate - 1) div unat rate < 2 ^ 32 - 1"
  shows "i2c_demo_calc_divider rate parent =
    (let e = even_up ((unat parent + unat rate - 1) div unat rate) in
     Some (if e < 2 \<or> 65534 < e then - 22 else int e))"
proof -
  let ?q = "(unat parent + unat rate - 1) div unat rate"
  obtain q where q: "DIV_ROUND_UP parent rate = Some q" "unat q = ?q"
    using unat_DIV_ROUND_UP [OF assms(1,2)] by blast
  let ?d = "ucast q :: u32"
  have d: "unat ?d = ?q" using q(2) assms(3) by (simp add: unsigned_ucast_eq take_bit_nat_eq_self)
  have odd: "?d AND 1 \<noteq> 0 \<longleftrightarrow> odd ?q"
    using word_odd [of ?d] d by simp
  have e: "unat (if ?d AND 1 \<noteq> 0 then ?d + 1 else ?d) = even_up ?q"
    using d assms(3) odd by (auto simp: even_up_def unat_word_ariths)
  then have "uint (if ?d AND 1 \<noteq> 0 then ?d + 1 else ?d) = int (even_up ?q)"
    by (metis uint_nat)
  with e q show ?thesis
    by (simp add: i2c_demo_calc_divider_def Let_def I2C_DEMO_CDIV_MIN_def I2C_DEMO_CDIV_MAX_def EINVAL_def)
qed

text \<open>C24: for a rate that is not zero and without overflow, the divider is the least even number whose
  division brings the parent rate to or below the rate asked for, if that lies between 2 and 0xFFFE,
  and -EINVAL otherwise.\<close>

theorem i2c_demo_calc_divider_correct:
  assumes "0 < unat rate" "unat parent + unat rate < 2 ^ 64" "(unat parent + unat rate - 1) div unat rate < 2 ^ 32 - 1"
  shows "\<exists>e. even e \<and> unat parent \<le> unat rate * e \<and> (\<forall>e'. even e' \<and> unat parent \<le> unat rate * e' \<longrightarrow> e \<le> e')
    \<and> i2c_demo_calc_divider rate parent = Some (if 2 \<le> e \<and> e \<le> 65534 then int e else - 22)"
proof -
  let ?q = "(unat parent + unat rate - 1) div unat rate"
  have "unat parent \<le> unat rate * even_up ?q"
    using ceil_div_le [OF assms(1), of "unat parent" "even_up ?q"] even_up_least(2) by blast
  moreover have "even_up ?q \<le> e'" if "even e'" "unat parent \<le> unat rate * e'" for e'
    using that even_up_least(3) ceil_div_le [OF assms(1), of "unat parent" e'] by blast
  ultimately show ?thesis
    using calc_divider_value [OF assms] even_up_least(1)
    by (intro exI [of _ "even_up ?q"]) (auto simp: Let_def)
qed

theorem i2c_demo_calc_divider_correct_witness:
  "\<exists>e. even e \<and> 250000000 \<le> 100000 * e \<and> (\<forall>e'. even e' \<and> 250000000 \<le> 100000 * e' \<longrightarrow> e \<le> e')
    \<and> i2c_demo_calc_divider 100000 250000000 = Some (if 2 \<le> e \<and> e \<le> 65534 then int e else - 22)"
  using i2c_demo_calc_divider_correct [of 100000 250000000] by simp

text \<open>\<open>i2c_demo_round_rate\<close> does not look at the error of the divider: where the divider is -EINVAL it
  divides by 2 ^ 32 - 22 and promises a rate of 1 Hz.\<close>

theorem i2c_demo_round_rate_ignores_error:
  assumes "i2c_demo_calc_divider rate parent = Some (- 22)" "0 < unat parent" "unat parent < 2 ^ 32 - 22"
  shows "i2c_demo_round_rate rate parent = Some 1"
proof -
  let ?d = "ucast (word_of_int (- 22) :: u32) :: 64 word"
  have d: "unat ?d = 2 ^ 32 - 22" by simp
  then obtain q where q: "DIV_ROUND_UP parent ?d = Some q" "unat q = (unat parent + unat ?d - 1) div unat ?d"
    using unat_DIV_ROUND_UP [of ?d parent] assms(3) by auto
  have "(unat parent + unat ?d - 1) div unat ?d = 1"
    using assms(2,3) d by (intro div_nat_eqI) auto
  with q(2) have "unat q = unat (1 :: 64 word)" by simp
  then have "q = 1" by (rule word_unat_eq_iff [THEN iffD2])
  with q(1) assms(1) show ?thesis by (simp add: i2c_demo_round_rate_def)
qed

theorem i2c_demo_round_rate_ignores_error_witness:
  "i2c_demo_round_rate 1 200000 = Some 1"
proof -
  have "i2c_demo_calc_divider 1 200000 = Some (- 22)"
    using calc_divider_value [of 1 200000] by (simp add: even_up_def)
  from i2c_demo_round_rate_ignores_error [OF this] show ?thesis by simp
qed

section \<open>Inside the buffers\<close>

text \<open>The buffer pointer and what remains stay inside the message, and the messages still to come
  exist; \<open>len\<close> is what the caller's buffers really hold.\<close>

definition inside :: "i2c_demo_dev \<Rightarrow> bool" where
  "inside d \<longleftrightarrow> alive d \<and> list_all (\<lambda>m. length (data m) = len m) (msgs d)
     \<and> (\<exists>m j i. curr_msg d = Some m \<and> m + num_msgs d < length (msgs d) \<and> msg_buf d = Some (j, i)
          \<and> j < length (msgs d) \<and> i + msg_buf_remaining d = length (data (msgs d ! j)))"

lemma inside_writel [simp]: "inside (i2c_demo_writel r v d) = inside d"
  by (simp add: inside_def i2c_demo_writel_def)

lemma inside_readl: "i2c_demo_readl r d = (v, d') \<Longrightarrow> inside d' = inside d"
  by (auto simp: inside_def i2c_demo_readl_def split: reg.splits list.splits)

lemma inside_complete [simp]: "inside (isr_complete s_node d) = inside d"
  by (simp add: isr_complete_def inside_def i2c_demo_writel_def)

lemma inside_err [simp]: "inside (d\<lparr>msg_err := e\<rparr>) = inside d"
  by (simp add: inside_def)

lemma inside_advance: "inside d \<Longrightarrow> msg_buf_remaining d \<noteq> 0 \<Longrightarrow> inside (advance d)"
  by (auto simp: inside_def advance_def)

lemma inside_load: "inside d \<Longrightarrow> msg_buf_remaining d \<noteq> 0 \<Longrightarrow> \<exists>b. load_byte d = Some b"
  by (auto simp: inside_def load_byte_def)

lemma inside_store: "inside d \<Longrightarrow> msg_buf_remaining d \<noteq> 0 \<Longrightarrow> \<exists>d'. store_byte b d = Some d' \<and> inside d'"
  by (auto simp: inside_def store_byte_def list_all_length nth_list_update)

lemma inside_fill: "inside d \<Longrightarrow> \<exists>d'. i2c_demo_fill_txfifo d = Some d' \<and> inside d'"
proof (induction d rule: i2c_demo_fill_txfifo.induct)
  case (1 d)
  obtain v d1 where r: "i2c_demo_readl I2C_DEMO_S d = (v, d1)" by (cases "i2c_demo_readl I2C_DEMO_S d")
  have d1: "inside d1" "msg_buf_remaining d1 = msg_buf_remaining d"
    using inside_readl [OF r] readl_remaining [OF r] "1.prems" by simp_all
  show ?case
  proof (cases "msg_buf_remaining d = 0 \<or> v AND I2C_DEMO_S_TXD = 0")
    case True
    then show ?thesis using r d1 "1.prems" by (subst i2c_demo_fill_txfifo.simps) auto
  next
    case False
    obtain b where b: "load_byte d1 = Some b" using inside_load [OF d1(1)] d1(2) False by auto
    let ?d = "i2c_demo_writel I2C_DEMO_FIFO (ucast b) d1"
    have "inside (advance ?d)"
      using d1 False by (intro inside_advance) (auto simp: i2c_demo_writel_def [of _ _ d1] inside_def)
    with "1.IH" [OF _ r [symmetric] refl] False b r show ?thesis
      by (subst i2c_demo_fill_txfifo.simps) auto
  qed
qed

lemma inside_drain: "inside d \<Longrightarrow> \<exists>d'. i2c_demo_drain_rxfifo d = Some d' \<and> inside d'"
proof (induction d rule: i2c_demo_drain_rxfifo.induct)
  case (1 d)
  obtain v d1 where r: "i2c_demo_readl I2C_DEMO_S d = (v, d1)" by (cases "i2c_demo_readl I2C_DEMO_S d")
  have d1: "inside d1" "msg_buf_remaining d1 = msg_buf_remaining d"
    using inside_readl [OF r] readl_remaining [OF r] "1.prems" by simp_all
  show ?case
  proof (cases "msg_buf_remaining d = 0 \<or> v AND I2C_DEMO_S_RXD = 0")
    case True
    then show ?thesis using r d1 "1.prems" by (subst i2c_demo_drain_rxfifo.simps) auto
  next
    case False
    obtain w d2 where r2: "i2c_demo_readl I2C_DEMO_FIFO d1 = (w, d2)" by (cases "i2c_demo_readl I2C_DEMO_FIFO d1")
    have d2: "inside d2" "msg_buf_remaining d2 = msg_buf_remaining d"
      using inside_readl [OF r2] readl_remaining [OF r2] d1 by simp_all
    obtain d3 where d3: "store_byte (ucast w) d2 = Some d3" "inside d3" using inside_store [OF d2(1)] d2(2) False by auto
    have "inside (advance d3)"
      using store_remaining [OF d3(1)] d2(2) d3(2) False by (intro inside_advance) auto
    with "1.IH" [OF _ r [symmetric] refl _ r2 [symmetric] refl d3(1)] False r r2 d3(1) show ?thesis
      by (subst i2c_demo_drain_rxfifo.simps) auto
  qed
qed

lemma start_next: "inside d \<Longrightarrow> num_msgs d \<noteq> 0 \<Longrightarrow>
    \<exists>d'. i2c_demo_start_transfer (d\<lparr>curr_msg := map_option Suc (curr_msg d)\<rparr>) = Some d' \<and> inside d'"
  by (auto simp: i2c_demo_start_transfer_def inside_def Let_def i2c_demo_writel_def list_all_length)

lemma start_first: "list_all (\<lambda>m. length (data m) = len m) ms \<Longrightarrow> ms \<noteq> [] \<Longrightarrow>
    \<exists>d'. i2c_demo_start_transfer (d\<lparr>msgs := ms, alive := True, curr_msg := Some 0, num_msgs := length ms\<rparr>) = Some d' \<and> inside d'"
  by (auto simp: i2c_demo_start_transfer_def inside_def Let_def i2c_demo_writel_def list_all_length)

lemma inside_isr: "inside d \<Longrightarrow> \<exists>d'. i2c_demo_isr s_node d = Some d' \<and> inside d'"
proof -
  assume d: "inside d"
  obtain v d1 where r: "i2c_demo_readl I2C_DEMO_S d = (v, d1)" by (cases "i2c_demo_readl I2C_DEMO_S d")
  have d1: "inside d1" using inside_readl [OF r] d by simp
  then obtain m where m: "curr_msg d1 = Some m" "m < length (msgs d1)" "alive d1" by (auto simp: inside_def)
  obtain f where f: "i2c_demo_fill_txfifo d1 = Some f" "inside f" using inside_fill [OF d1] by blast
  obtain g where g: "i2c_demo_drain_rxfifo d1 = Some g" "inside g" using inside_drain [OF d1] by blast
  obtain w g1 where r2: "i2c_demo_readl I2C_DEMO_S g = (w, g1)" by (cases "i2c_demo_readl I2C_DEMO_S g")
  have "inside g1" using inside_readl [OF r2] g(2) by simp
  then show ?thesis
    using r d1 m f g r2 start_next [OF f(2)] by (simp add: i2c_demo_isr_def Let_def)
qed

text \<open>A run of interrupts.\<close>

fun run_isr :: "u32 \<Rightarrow> nat \<Rightarrow> i2c_demo_dev \<Rightarrow> i2c_demo_dev option" where
  "run_isr s_node 0 d = Some d"
| "run_isr s_node (Suc n) d = Option.bind (i2c_demo_isr s_node d) (run_isr s_node n)"

lemma inside_run: "inside d \<Longrightarrow> \<exists>d'. run_isr s_node n d = Some d' \<and> inside d'"
proof (induction n arbitrary: d)
  case (Suc n)
  then show ?case using inside_isr [OF Suc.prems, of s_node] by fastforce
qed simp

lemma inside_xfer:
  assumes "i2c_demo_xfer (length ms) time_left ms d = Some (r, d1)" "r \<noteq> - EOPNOTSUPP"
    and "ms \<noteq> []" "list_all (\<lambda>m. length (data m) = len m) ms"
  shows "inside d1"
proof -
  obtain d0 where s: "i2c_demo_start_transfer (d\<lparr>msgs := ms, alive := True, curr_msg := Some 0, num_msgs := length ms\<rparr>) = Some d0" "inside d0"
    using start_first [OF assms(4,3)] by blast
  have "d1 = d0 \<or> d1 = i2c_demo_writel I2C_DEMO_C I2C_DEMO_C_CLEAR d0"
    using assms(1,2) s(1) by (auto simp: i2c_demo_xfer_def split: if_splits)
  with s(2) show ?thesis by auto
qed

text \<open>An interrupt that asks for data (no error, no done bit) of a controller that has room.\<close>

definition wants_data :: "u32 \<Rightarrow> i2c_demo_dev \<Rightarrow> bool" where
  "wants_data s_node d \<longleftrightarrow> (case status d of v # w # _ \<Rightarrow>
     v AND (I2C_DEMO_S_CLKT OR I2C_DEMO_S_ERR) = 0 \<and> v * s_node = 0 \<and> v AND I2C_DEMO_S_TXW \<noteq> 0 \<and> w AND I2C_DEMO_S_TXD \<noteq> 0
   | _ \<Rightarrow> False)"

lemma use_after_end: "wants_data s_node d \<Longrightarrow> msg_buf_remaining d \<noteq> 0 \<Longrightarrow> i2c_demo_isr s_node (messages_gone d) = None"
  by (auto simp: wants_data_def i2c_demo_isr_def i2c_demo_readl_def messages_gone_def load_byte_def
      i2c_demo_fill_txfifo.simps [of "messages_gone d" for d] i2c_demo_fill_txfifo.simps Let_def split: list.splits option.splits)

text \<open>C23: the lifetime of the messages. After \<open>i2c_demo_xfer\<close> accepted one or more messages whose \<open>len\<close> is the length of their buffers: as
  long as the caller keeps them, any number of interrupts, whatever the controller's status and data, reads and
  writes inside those buffers only. But \<open>i2c_demo_xfer\<close> returns without waiting: if the caller's messages have ended while
  a byte remains, the next interrupt that asks for data reads a message that is gone.\<close>

theorem i2c_demo_isr_lifetime:
  assumes "i2c_demo_xfer (length ms) time_left ms d = Some (r, d1)" "r \<noteq> - EOPNOTSUPP"
    and "ms \<noteq> []" "list_all (\<lambda>m. length (data m) = len m) ms"
  shows "\<exists>d'. run_isr s_node n d1 = Some d' \<and> alive d'
    \<and> (msg_buf_remaining d' \<noteq> 0 \<and> wants_data s_node d' \<longrightarrow> i2c_demo_isr s_node (messages_gone d') = None)"
proof -
  obtain d' where "run_isr s_node n d1 = Some d'" "inside d'" using inside_run inside_xfer [OF assms] by blast
  with use_after_end show ?thesis by (auto simp: inside_def)
qed

definition sample_i2c :: i2c_demo_dev where
  "sample_i2c = \<lparr>msgs = [], alive = False, curr_msg = None, num_msgs = 0, msg_err = 0, msg_buf = None, msg_buf_remaining = 0,
     status = [0x14, 0x10, 0x10, 0], rx = [], writes = [], completed = 0\<rparr>"

definition sample_msg :: i2c_msg where
  "sample_msg = \<lparr>addr = 0x50, rd = False, len = 2, data = [1, 2]\<rparr>"

lemma sample_xfer: "\<exists>d1. i2c_demo_xfer 1 9 [sample_msg] sample_i2c = Some (1, d1)"
  by (simp add: i2c_demo_xfer_def i2c_demo_start_transfer_def sample_msg_def sample_i2c_def i2c_demo_writel_def)

text \<open>Two bytes are to be sent. The first interrupt that asks for data is safe while the message exists, and is not once
  it has ended.\<close>

theorem i2c_demo_isr_lifetime_witness:
  "\<exists>d1 d'. i2c_demo_xfer 1 9 [sample_msg] sample_i2c = Some (1, d1) \<and> run_isr 2 7 d1 = Some d'
    \<and> i2c_demo_isr 0 (messages_gone d1) = None"
proof -
  obtain d1 where d1: "i2c_demo_xfer (length [sample_msg]) 9 [sample_msg] sample_i2c = Some (1, d1)" using sample_xfer by auto
  note safe = i2c_demo_isr_lifetime [OF d1, of _ _]
  have "msg_buf_remaining d1 = 2" "status d1 = [0x14, 0x10, 0x10, 0]"
    using d1 by (auto simp: i2c_demo_xfer_def i2c_demo_start_transfer_def sample_msg_def sample_i2c_def i2c_demo_writel_def)
  moreover have "wants_data 0 d1" using \<open>status d1 = _\<close> by (simp add: wants_data_def reg_bits)
  ultimately have "i2c_demo_isr 0 (messages_gone d1) = None"
    using safe [of 0 0] by (auto simp: EOPNOTSUPP_def sample_msg_def)
  with safe [of 2 7] d1 show ?thesis by (auto simp: EOPNOTSUPP_def sample_msg_def)
qed

section \<open>A transfer of write messages\<close>

text \<open>The bytes that went into the FIFO.\<close>

definition fifo_bytes :: "i2c_demo_dev \<Rightarrow> u32 list" where
  "fifo_bytes d = map snd (filter (\<lambda>w. fst w = I2C_DEMO_FIFO) (writes d))"

text \<open>Writing: the controller never claims to have received data, and the FIFO got, after what it had got before, the
  messages before the current one and the current one up to the buffer pointer.\<close>

definition writing :: "u32 list \<Rightarrow> i2c_msg list \<Rightarrow> i2c_demo_dev \<Rightarrow> bool" where
  "writing pre ms d \<longleftrightarrow> msgs d = ms \<and> alive d \<and> list_all (\<lambda>m. length (data m) = len m \<and> \<not> rd m) ms
     \<and> list_all (\<lambda>v. v AND I2C_DEMO_S_RXD = 0) (status d)
     \<and> (\<exists>m i. curr_msg d = Some m \<and> msg_buf d = Some (m, i) \<and> m + num_msgs d < length ms
          \<and> i + msg_buf_remaining d = length (data (ms ! m))
          \<and> fifo_bytes d = pre @ map ucast (concat (map data (take m ms)) @ take i (data (ms ! m))))"

lemma fifo_bytes_writel [simp]: "r \<noteq> I2C_DEMO_FIFO \<Longrightarrow> fifo_bytes (i2c_demo_writel r v d) = fifo_bytes d"
  "fifo_bytes (i2c_demo_writel I2C_DEMO_FIFO v d) = fifo_bytes d @ [v]"
  by (simp_all add: fifo_bytes_def i2c_demo_writel_def)

lemma writing_cong [simp]: "r \<noteq> I2C_DEMO_FIFO \<Longrightarrow> writing pre ms (i2c_demo_writel r v d) = writing pre ms d"
  "writing pre ms (d\<lparr>msg_err := e\<rparr>) = writing pre ms d" "writing pre ms (d\<lparr>completed := k\<rparr>) = writing pre ms d"
  by (simp_all add: writing_def fifo_bytes_def i2c_demo_writel_def)

lemma writing_complete [simp]: "writing pre ms (isr_complete s_node d) = writing pre ms d"
  by (simp add: isr_complete_def)

lemma writing_readl: "i2c_demo_readl I2C_DEMO_S d = (v, d') \<Longrightarrow> writing pre ms d \<Longrightarrow>
    writing pre ms d' \<and> v AND I2C_DEMO_S_RXD = 0"
  by (auto simp: writing_def fifo_bytes_def i2c_demo_readl_def split: list.splits)

lemma writing_fill: "writing pre ms d \<Longrightarrow> \<exists>d'. i2c_demo_fill_txfifo d = Some d' \<and> writing pre ms d'"
proof (induction d rule: i2c_demo_fill_txfifo.induct)
  case (1 d)
  obtain v d1 where r: "i2c_demo_readl I2C_DEMO_S d = (v, d1)" by (cases "i2c_demo_readl I2C_DEMO_S d")
  have d1: "writing pre ms d1" "msg_buf_remaining d1 = msg_buf_remaining d"
    using writing_readl [OF r "1.prems"] readl_remaining [OF r] by simp_all
  show ?case
  proof (cases "msg_buf_remaining d = 0 \<or> v AND I2C_DEMO_S_TXD = 0")
    case True
    then show ?thesis using r d1 "1.prems" by (subst i2c_demo_fill_txfifo.simps) auto
  next
    case False
    obtain m i where mi: "msgs d1 = ms" "curr_msg d1 = Some m" "msg_buf d1 = Some (m, i)" "m + num_msgs d1 < length ms"
        "i + msg_buf_remaining d1 = length (data (ms ! m))"
        "fifo_bytes d1 = pre @ map ucast (concat (map data (take m ms)) @ take i (data (ms ! m)))"
      using d1(1) by (auto simp: writing_def)
    have i: "i < length (data (ms ! m))" using mi(5) d1(2) False by linarith
    have "alive d1" using d1(1) by (simp add: writing_def)
    then have b: "load_byte d1 = Some (data (ms ! m) ! i)" using mi i by (simp add: load_byte_def)
    let ?d = "advance (i2c_demo_writel I2C_DEMO_FIFO (ucast (data (ms ! m) ! i)) d1)"
    have f: "fifo_bytes ?d = fifo_bytes d1 @ [ucast (data (ms ! m) ! i)]"
      by (simp add: fifo_bytes_def advance_def i2c_demo_writel_def)
    have "writing pre ms ?d"
      using d1 mi i f False unfolding writing_def
      by (auto simp: advance_def i2c_demo_writel_def take_Suc_conv_app_nth)
    with "1.IH" [OF _ r [symmetric] refl _, of "data (ms ! m) ! i"] False b r show ?thesis
      by (subst i2c_demo_fill_txfifo.simps) auto
  qed
qed

lemma writing_drain: "writing pre ms d \<Longrightarrow> \<exists>d'. i2c_demo_drain_rxfifo d = Some d' \<and> writing pre ms d'"
  using writing_readl [of d _ _ pre ms]
  by (subst i2c_demo_drain_rxfifo.simps) (auto split: prod.split)

lemma writing_start_next:
  assumes "writing pre ms d" "num_msgs d \<noteq> 0" "msg_buf_remaining d = 0"
  shows "\<exists>d'. i2c_demo_start_transfer (d\<lparr>curr_msg := map_option Suc (curr_msg d)\<rparr>) = Some d' \<and> writing pre ms d'"
  using assms
  by (auto simp: i2c_demo_start_transfer_def writing_def fifo_bytes_def Let_def i2c_demo_writel_def list_all_length
      take_Suc_conv_app_nth)

lemma writing_isr: "writing pre ms d \<Longrightarrow> \<exists>d'. i2c_demo_isr s_node d = Some d' \<and> writing pre ms d'"
proof -
  assume d: "writing pre ms d"
  obtain v d1 where r: "i2c_demo_readl I2C_DEMO_S d = (v, d1)" by (cases "i2c_demo_readl I2C_DEMO_S d")
  have d1: "writing pre ms d1" using writing_readl [OF r d] by simp
  then obtain m where m: "curr_msg d1 = Some m" "m < length (msgs d1)" "\<not> rd (msgs d1 ! m)" "alive d1"
    by (auto simp: writing_def list_all_length)
  obtain f where f: "i2c_demo_fill_txfifo d1 = Some f" "writing pre ms f" using writing_fill [OF d1] by blast
  obtain g where g: "i2c_demo_drain_rxfifo d1 = Some g" "writing pre ms g" using writing_drain [OF d1] by blast
  show ?thesis
    using r d1 m f g writing_start_next [OF f(2)] by (simp add: i2c_demo_isr_def Let_def)
qed

lemma writing_run: "writing pre ms d \<Longrightarrow> \<exists>d'. run_isr s_node n d = Some d' \<and> writing pre ms d'"
proof (induction n arbitrary: d)
  case (Suc n)
  then show ?case using writing_isr [OF Suc.prems, of s_node] by fastforce
qed simp

lemma writing_transfer:
  assumes "i2c_demo_xfer (length ms) time_left ms d = Some (r, d1)" "ms \<noteq> []"
    and "list_all (\<lambda>m. length (data m) = len m \<and> \<not> rd m) ms"
    and "list_all (\<lambda>v. v AND I2C_DEMO_S_RXD = 0) (status d)" "fifo_bytes d = pre"
  shows "\<exists>d' k. run_isr s_node n d1 = Some d' \<and> alive d' \<and> fifo_bytes d' = pre @ map ucast (take k (concat (map data ms)))
    \<and> (num_msgs d' = 0 \<and> msg_buf_remaining d' = 0 \<and> curr_msg d' = Some (length ms - 1)
        \<longrightarrow> fifo_bytes d' = pre @ map ucast (concat (map data ms)))"
proof -
  let ?d = "d\<lparr>msgs := ms, alive := True, curr_msg := Some 0, num_msgs := length ms\<rparr>"
  have "\<exists>d0. i2c_demo_start_transfer ?d = Some d0 \<and> writing pre ms d0"
    using assms(2-5)
    by (auto simp: i2c_demo_start_transfer_def writing_def fifo_bytes_def Let_def i2c_demo_writel_def list_all_length)
  then obtain d0 where s: "i2c_demo_start_transfer ?d = Some d0" "writing pre ms d0" by blast
  have "list_ex rd (take (length ms - 1) ms) = False"
    using assms(3) by (auto simp: list_ex_iff list_all_iff dest: in_set_takeD)
  then have "d1 = d0 \<or> d1 = i2c_demo_writel I2C_DEMO_C I2C_DEMO_C_CLEAR d0"
    using assms(1) s(1) by (auto simp: i2c_demo_xfer_def split: if_splits)
  with s(2) have "writing pre ms d1" by auto
  then obtain d' where d': "run_isr s_node n d1 = Some d'" "writing pre ms d'" using writing_run by blast
  then obtain m i where mi: "curr_msg d' = Some m" "m < length ms" "i + msg_buf_remaining d' = length (data (ms ! m))"
      "fifo_bytes d' = pre @ map ucast (concat (map data (take m ms)) @ take i (data (ms ! m)))"
    by (auto simp: writing_def)
  have split: "concat (map data ms) = concat (map data (take m ms)) @ data (ms ! m) @ concat (map data (drop (Suc m) ms))"
    by (subst id_take_nth_drop [OF mi(2)]) simp
  have "i \<le> length (data (ms ! m))" using mi(3) by linarith
  then have "fifo_bytes d' = pre @ map ucast (take (length (concat (map data (take m ms))) + i) (concat (map data ms)))"
    using mi(4) split by simp
  moreover have "fifo_bytes d' = pre @ map ucast (concat (map data ms))"
    if "msg_buf_remaining d' = 0" "curr_msg d' = Some (length ms - 1)"
  proof -
    have "i = length (data (ms ! m))" "drop (Suc m) ms = []" using that mi by auto
    then show ?thesis using mi(4) split by simp
  qed
  ultimately show ?thesis
    using d' by (intro exI [of _ d'] exI [of _ "length (concat (map data (take m ms))) + i"]) (auto simp: writing_def)
qed



section \<open>Probe and remove\<close>

text \<open>a probe that returns 0 holds everything, and removing the device then gives all of it back; but
  once the clock is enabled, every failing probe leaves the clock enabled and its rate exclusive.\<close>

theorem i2c_demo_probe_resources:
  "(fst (i2c_demo_probe e) = 0 \<longrightarrow> snd (i2c_demo_probe e) = \<lparr>rate_exclusive = True, clk_enabled = True, irq_held = True, adapter_added = True\<rparr>)
   \<and> i2c_demo_remove (snd (i2c_demo_probe e)) = (0, nothing_held)
   \<and> (prepare_ret e = 0 \<and> fst (i2c_demo_probe e) \<noteq> 0 \<and> snd (i2c_demo_probe e) \<noteq> nothing_held
       \<longrightarrow> clk_enabled (snd (i2c_demo_probe e)) \<and> rate_exclusive (snd (i2c_demo_probe e)))"
  by (auto simp: i2c_demo_probe_def i2c_demo_remove_def nothing_held_def ENOMEM_def ENODEV_def Let_def split: option.splits)

definition sample_probe :: probe_env where
  "sample_probe = \<lparr>kzalloc_ok = True, ioremap_ret = 0, clk_get_ret = 0, register_div_ret = 0, set_rate_ret = 0,
     prepare_ret = 0, irq_resource = None, request_irq_ret = 0, add_adapter_ret = 0\<rparr>"

theorem i2c_demo_probe_resources_witness:
  "fst (i2c_demo_probe sample_probe) = - 19 \<and> clk_enabled (snd (i2c_demo_probe sample_probe))
   \<and> rate_exclusive (snd (i2c_demo_probe sample_probe))"
  using i2c_demo_probe_resources [of sample_probe]
  by (simp add: i2c_demo_probe_def sample_probe_def nothing_held_def ENODEV_def)

end
