(* ===== verification/Char_Demo.thy ===== *)
theory Char_Demo
  imports Prelude
begin

text \<open>
  The character driver \<open>device_driver/char/kernel/char.c\<close>: the private data of each open file, the
  reads and writes that copy it, and the registrations of the module. What the kernel's functions
  return is a parameter; \<open>None\<close> is an access outside the private data.
\<close>

definition CHAR_DEMO_MAJOR :: int where "CHAR_DEMO_MAJOR = 0"
definition CHAR_DEMO_MINOR :: int where "CHAR_DEMO_MINOR = 2"

definition EINVAL :: int where "EINVAL = 22"
definition ENOMEM :: int where "ENOMEM = 12"
definition ENODEV :: int where "ENODEV = 19"

section \<open>Open files\<close>

text \<open>\<open>struct char_demo_pdata\<close> is the four bytes of its \<open>num\<close>; an open file is the private data it points
  to, if any.\<close>

type_synonym open_file = "byte list option"

definition le32 :: "32 word \<Rightarrow> byte list" where
  "le32 w = map (\<lambda>i. ucast (drop_bit (8 * i) w)) [0..<4]"

definition char_demo_open :: "bool \<Rightarrow> int \<times> open_file" where
  "char_demo_open kzalloc_ok = (if \<not> kzalloc_ok then (- ENOMEM, None) else (0, Some (le32 0x91)))"

definition char_demo_release :: "open_file \<Rightarrow> int \<times> open_file" where
  "char_demo_release f = (0, None)"

text \<open>\<open>copy_to_user(buf, pdata, len)\<close>: \<open>faulted\<close> says that the user's memory was not accessible.\<close>

definition char_demo_read :: "bool \<Rightarrow> nat \<Rightarrow> open_file \<Rightarrow> (int \<times> byte list) option" where
  "char_demo_read faulted n f = (case f of None \<Rightarrow> None | Some pdata \<Rightarrow>
     if faulted then Some (- EINVAL, [])
     else if length pdata < n then None
     else Some (int n, take n pdata))"

text \<open>There is no return statement on the success path: \<open>garbage\<close>.\<close>

definition char_demo_write :: "int \<Rightarrow> bool \<Rightarrow> byte list \<Rightarrow> open_file \<Rightarrow> (int \<times> open_file) option" where
  "char_demo_write garbage faulted bytes f = (case f of None \<Rightarrow> None | Some pdata \<Rightarrow>
     if faulted then Some (- EINVAL, f)
     else map_option (\<lambda>p. (garbage, Some p)) (memcpy pdata 0 bytes 0 (int (length bytes))))"

section \<open>The module\<close>

text \<open>What stays registered: the character device by its major number, the class, and the sysfs devices
  by major and minor.\<close>

record registered =
  chrdevs :: "int list"
  classes :: nat
  devices :: "(int \<times> int) list"

definition nothing :: registered where
  "nothing = \<lparr>chrdevs = [], classes = 0, devices = []\<rparr>"

text \<open>\<open>register_chrdev\<close> with major 0 returns a major of its own, or an error; \<open>class_ret\<close> and
  \<open>device_ret\<close> are 0 or the error of the pointer. The third test looks at the string \<open>KERN_ERR\<close>, which
  is never an error pointer, so that branch is dead.\<close>

definition char_demo_init :: "int \<Rightarrow> int \<Rightarrow> int \<Rightarrow> int \<times> registered" where
  "char_demo_init chrdev_ret class_ret device_ret =
     (if chrdev_ret < 0 then (- ENODEV, nothing)
      else let r = nothing\<lparr>chrdevs := [chrdev_ret]\<rparr> in
      if class_ret < 0 then (class_ret, r\<lparr>chrdevs := []\<rparr>)
      else let r = r\<lparr>classes := 1\<rparr>;
               r = (if device_ret < 0 then r else r\<lparr>devices := [(chrdev_ret, CHAR_DEMO_MINOR)]\<rparr>) in
      if False \<comment> \<open>\<open>IS_ERR(KERN_ERR)\<close>\<close> then (device_ret, r\<lparr>classes := 0, chrdevs := []\<rparr>)
      else (0, r))"

definition char_demo_exit :: "int \<Rightarrow> registered \<Rightarrow> registered" where
  "char_demo_exit char_demo_major r =
     r\<lparr>devices := removeAll (CHAR_DEMO_MAJOR, CHAR_DEMO_MINOR) (devices r), classes := classes r - 1,
       chrdevs := removeAll char_demo_major (chrdevs r)\<rparr>"

section \<open>What the driver guarantees\<close>

text \<open>on an open file, writing at most four bytes and reading as many gives them back, and the rest of
  the four bytes stays.\<close>

theorem char_demo_roundtrip:
  assumes "length pdata = 4" "length bytes \<le> 4"
  shows "\<exists>f. char_demo_write garbage False bytes (Some pdata) = Some (garbage, f)
    \<and> char_demo_read False (length bytes) f = Some (int (length bytes), bytes)
    \<and> char_demo_read False 4 f = Some (4, bytes @ drop (length bytes) pdata)"
  using assms by (simp add: char_demo_write_def char_demo_read_def memcpy_def)

theorem char_demo_roundtrip_witness:
  "\<exists>f. char_demo_write 7 False [1, 2] (snd (char_demo_open True)) = Some (7, f)
    \<and> char_demo_read False 2 f = Some (2, [1, 2])"
  using char_demo_roundtrip [of "le32 0x91" "[1, 2]" 7] by (auto simp: char_demo_open_def le32_def eval_nat_numeral)

text \<open>nothing limits the length: on an open file a read of more than four bytes gives the user what
  lies behind the allocation, and a write of more overwrites it.\<close>

theorem char_demo_overrun:
  assumes "char_demo_open True = (0, f)" "4 < length bytes"
  shows "char_demo_read False (length bytes) f = None \<and> char_demo_write garbage False bytes f = None"
  using assms by (auto simp: char_demo_open_def le32_def char_demo_read_def char_demo_write_def memcpy_def)

theorem char_demo_overrun_witness:
  "char_demo_read False 5 (snd (char_demo_open True)) = None
   \<and> char_demo_write 0 False [1, 2, 3, 4, 5] (snd (char_demo_open True)) = None"
  using char_demo_overrun [of "snd (char_demo_open True)" "[1, 2, 3, 4, 5]" 0]
  by (simp add: char_demo_open_def eval_nat_numeral)

text \<open>loading and removing the module gives back the character device and the class, but never the
  sysfs device: it was created under the dynamic major number and is looked for under 0. And a failing
  \<open>device_create\<close> goes unnoticed: the module loads.\<close>

theorem char_demo_module:
  assumes "0 < major" "0 \<le> class_ret"
  shows "fst (char_demo_init major class_ret device_ret) = 0
    \<and> char_demo_exit major (snd (char_demo_init major class_ret device_ret))
      = nothing\<lparr>devices := (if device_ret < 0 then [] else [(major, CHAR_DEMO_MINOR)])\<rparr>"
  using assms by (simp add: char_demo_init_def char_demo_exit_def nothing_def CHAR_DEMO_MAJOR_def Let_def)

theorem char_demo_module_witness:
  "fst (char_demo_init 240 0 0) = 0 \<and> devices (char_demo_exit 240 (snd (char_demo_init 240 0 0))) = [(240, 2)]"
  using char_demo_module [of 240 0 0] by (simp add: CHAR_DEMO_MINOR_def)

end
