(* ===== verification/User_Programs.thy ===== *)
theory User_Programs
  imports Char_Demo I2c_Bus_Correct
begin

unbundle bit_operations_syntax

text \<open>
  The user programs of two drivers, \<open>device_driver/char/userland/char.c\<close> and
  \<open>device_driver/i2c/userland/i2c.c\<close>, on the models of those drivers: what they call in the kernel are
  the drivers' own operations.
\<close>

section \<open>The character device\<close>

text \<open>The number that four bytes hold, the lowest first.\<close>

definition num_of :: "byte list \<Rightarrow> 32 word" where
  "num_of bs = foldr (\<lambda>b w. ucast b OR push_bit 8 w) bs 0"

definition DEV_OPENED :: int where "DEV_OPENED = 3"

text \<open>The open file after the call of \<open>write\<close> and the result of the program; \<open>None\<close> inside the driver is an
  access outside its data. \<open>garbage\<close> is what the driver's \<open>write\<close> returns.\<close>

definition char_user_rw :: "int \<Rightarrow> open_file \<Rightarrow> (int \<times> 32 word list \<times> open_file) option" where
  "char_user_rw garbage f = do {
     (ret, bytes) \<leftarrow> char_demo_read False 4 f;
     if ret \<noteq> 4 then Some (- 1, [], f)
     else do {
       (ret, f') \<leftarrow> char_demo_write garbage False (le32 0xAA) f;
       if ret \<noteq> 4 then Some (- 1, [num_of bytes], f') else Some (0, [num_of bytes], f') } }"

definition char_user_main :: "bool \<Rightarrow> int \<Rightarrow> (int \<times> 32 word list \<times> open_file) option" where
  "char_user_main alloc_ok garbage = (case char_demo_open alloc_ok of (r, f) \<Rightarrow>
     if r < 0 then Some (- 1, [], f)
     else map_option (\<lambda>(ret, out, f'). (ret, out, snd (char_demo_release f'))) (char_user_rw garbage f))"

lemma le32_values: "le32 0x91 = [0x91, 0, 0, 0]" "le32 0xAA = [0xAA, 0, 0, 0]" "num_of [0x91, 0, 0, 0] = 0x91"
  by code_simp+

text \<open>on the driver the program shows the driver's number 0x91 and leaves 0xAA in the open file, but whether it
  reports success hangs on what the driver's \<open>write\<close>, which forgets to return anything, happens to
  leave as its result.\<close>

theorem char_user_on_driver:
  "char_user_rw garbage (snd (char_demo_open True)) = Some (if garbage = 4 then 0 else - 1, [0x91], Some (le32 0xAA))
   \<and> char_user_main True garbage = Some (if garbage = 4 then 0 else - 1, [0x91], None)
   \<and> char_user_main False garbage = Some (- 1, [], None)"
  by (simp add: char_user_rw_def char_user_main_def char_demo_open_def char_demo_read_def char_demo_write_def
      char_demo_release_def le32_values memcpy_def Char_Demo.ENOMEM_def)

section \<open>The I2C bus\<close>

definition I2C_ADDR :: byte where "I2C_ADDR = 0x50"

text \<open>The messages of \<open>i2cbus_packread\<close> and \<open>i2cbus_packwrite\<close>: \<open>I2C_M_WR\<close> is 0, so none of them has the flag
  of a read.\<close>

definition i2cbus_packread :: "byte \<Rightarrow> byte \<Rightarrow> i2c_msg list" where
  "i2cbus_packread a offset =
     [\<lparr>addr = ucast (a AND 0xFE), rd = False, len = 1, data = [offset]\<rparr>,
      \<lparr>addr = ucast (a AND 0xFE), rd = False, len = 1, data = [offset]\<rparr>]"

definition i2cbus_packwrite :: "byte \<Rightarrow> byte \<Rightarrow> byte list \<Rightarrow> i2c_msg list option" where
  "i2cbus_packwrite a offset buf = (case buf of [] \<Rightarrow> None
     | b # _ \<Rightarrow> Some [\<lparr>addr = ucast (a AND 0xFE), rd = False, len = 2, data = [offset, b]\<rparr>])"

text \<open>\<open>main\<close>: \<open>memset(buf, 8, 0)\<close> sets no byte, so \<open>buf\<close> is what the stack held. The result of the program, the
  byte it shows, and the driver.\<close>

definition i2c_user_main :: "bool \<Rightarrow> byte list \<Rightarrow> nat \<Rightarrow> i2c_demo_dev \<Rightarrow> (int \<times> byte option \<times> i2c_demo_dev) option" where
  "i2c_user_main opened stack time_left d =
     (if \<not> opened then Some (- 1, None, d)
      else do {
        (ret, d') \<leftarrow> i2c_demo_xfer 2 time_left (i2cbus_packread I2C_ADDR 0) d;
        if ret < 0 then Some (- 1, None, d') else do { b \<leftarrow> aget stack 0; Some (ret, Some b, d') } })"

text \<open>the program that is to read a register of a device never reads anything. Its messages are two writes of
  the register's number: whatever interrupts follow while the messages exist, of a controller that reports no received
  data, the driver sends at most those two bytes, and the byte that the program shows is the one that lay on its stack.\<close>

theorem i2c_user_never_reads:
  assumes "i2c_user_main True stack time_left d = Some (r, shown, d1)"
    and "list_all (\<lambda>v. v AND I2C_DEMO_S_RXD = 0) (status d)"
  shows "(shown = None \<or> shown = Some (stack ! 0))
    \<and> (\<exists>d' k. run_isr s_node n d1 = Some d' \<and> fifo_bytes d' = fifo_bytes d @ map ucast (take k [0 :: byte, 0]))"
proof -
  let ?ms = "i2cbus_packread I2C_ADDR 0"
  have ms: "?ms \<noteq> []" "list_all (\<lambda>m. length (data m) = len m \<and> \<not> rd m) ?ms" "concat (map data ?ms) = [0, 0]" "length ?ms = 2"
    by (simp_all add: i2cbus_packread_def)
  obtain ret where x: "i2c_demo_xfer (length ?ms) time_left ?ms d = Some (ret, d1)"
    using assms(1) ms(4) by (auto simp: i2c_user_main_def split: Option.bind_splits if_splits)
  have "shown = None \<or> shown = Some (stack ! 0)"
    using assms(1) by (auto simp: i2c_user_main_def aget_def split: Option.bind_splits if_splits)
  moreover obtain d' k where "run_isr s_node n d1 = Some d'"
      "fifo_bytes d' = fifo_bytes d @ map ucast (take k (concat (map data ?ms)))"
    using writing_transfer [OF x ms(1,2) assms(2) refl] by blast
  ultimately show ?thesis using ms(3) by metis
qed

theorem i2c_user_never_reads_witness:
  "\<exists>d1 d' k. i2c_user_main True [7] 9 sample_i2c = Some (2, Some 7, d1) \<and> run_isr 2 3 d1 = Some d'
    \<and> fifo_bytes d' = map ucast (take k [0 :: byte, 0])"
proof -
  have "\<exists>d1. i2c_demo_xfer 2 9 (i2cbus_packread I2C_ADDR 0) sample_i2c = Some (2, d1)"
    by (simp add: i2c_demo_xfer_def i2c_demo_start_transfer_def i2cbus_packread_def sample_i2c_def i2c_demo_writel_def Let_def)
  then obtain d1 where d1: "i2c_user_main True [7] 9 sample_i2c = Some (2, Some 7, d1)"
    by (auto simp: i2c_user_main_def aget_def)
  from i2c_user_never_reads [OF d1, of 2 3] show ?thesis
    using d1 by (auto simp: sample_i2c_def I2C_DEMO_S_RXD_def fifo_bytes_def)
qed

end
