(* ===== verification/Load_Monitor.thy ===== *)
theory Load_Monitor
  imports Prelude
begin

unbundle bit_operations_syntax

text \<open>
  The load monitor \<open>device_driver/load_monitor/load_monitor.c\<close>: the macros that split a load average, the
  dump of the tasks, and the timer that calls it. The process list is the part of the kernel the code
  walks: its processes after \<open>init_task\<close>, each with its threads, the leader first.
\<close>

section \<open>The load average\<close>

definition FSHIFT :: nat where "FSHIFT = 11"
definition FIXED_1 :: "64 word" where "FIXED_1 = push_bit FSHIFT 1"

definition LOAD_INT :: "64 word \<Rightarrow> 64 word" where
  "LOAD_INT x = drop_bit FSHIFT x"

text \<open>\<open>LOAD_INT((x) & (FIXED_1-1) * 100)\<close>: the product binds tighter than the mask.\<close>

definition LOAD_FRAC :: "64 word \<Rightarrow> 64 word" where
  "LOAD_FRAC x = LOAD_INT (x AND ((FIXED_1 - 1) * 100))"

section \<open>The dump\<close>

definition TASK_RUNNING :: "32 word" where "TASK_RUNNING = 0"
definition TASK_UNINTERRUPTIBLE :: "32 word" where "TASK_UNINTERRUPTIBLE = 2"

record task =
  state :: "32 word"
  pid :: int

text \<open>\<open>do_each_thread(g, p) ... while_each_thread(g, p)\<close>: every thread of every process but the first.\<close>

definition each_thread :: "task list list \<Rightarrow> task list" where
  "each_thread procs = concat procs"

text \<open>What \<open>print_all_task_stack\<close> prints: the load averages, the pids of the running and of the
  uninterruptible tasks.\<close>

definition print_all_task_stack :: "64 word list \<Rightarrow> task list list \<Rightarrow> (64 word \<times> 64 word) list \<times> int list \<times> int list" where
  "print_all_task_stack avenrun procs =
     (map (\<lambda>x. (LOAD_INT x, LOAD_FRAC x)) (take 3 avenrun),
      map pid (filter (\<lambda>p. state p = TASK_RUNNING) (each_thread procs)),
      map pid (filter (\<lambda>p. state p AND TASK_UNINTERRUPTIBLE \<noteq> 0) (each_thread procs)))"

section \<open>The timer\<close>

text \<open>The state: the static \<open>last\<close> of \<open>check_load\<close> in milliseconds, whether the timer is armed, and the
  times of the dumps. Time runs in milliseconds and does not overflow.\<close>

record monitor =
  last_dump :: nat
  armed :: bool
  dumps :: "nat list"

definition check_load :: "nat \<Rightarrow> monitor \<Rightarrow> monitor" where
  "check_load now m = (let ms = now - last_dump m in
     if ms < 10 * 1000 then m else m\<lparr>last_dump := now, dumps := dumps m @ [now]\<rparr>)"

text \<open>\<open>monitor_handler\<close> always restarts the timer, ten milliseconds ahead.\<close>

definition monitor_handler :: "nat \<Rightarrow> monitor \<Rightarrow> monitor \<times> nat" where
  "monitor_handler now m = (check_load now m, now + 10)"

definition start_timer :: "monitor \<Rightarrow> monitor" where
  "start_timer m = m\<lparr>armed := True\<rparr>"

definition EINVAL :: int where "EINVAL = 22"

text \<open>\<open>found\<close> says whether the symbol \<open>avenrun\<close> was found.\<close>

definition load_monitor_init :: "bool \<Rightarrow> int \<times> monitor" where
  "load_monitor_init found = (let m = \<lparr>last_dump = 0, armed = False, dumps = []\<rparr> in
     if \<not> found then (- EINVAL, m) else (0, start_timer m))"

definition load_monitor_exit :: "monitor \<Rightarrow> monitor" where
  "load_monitor_exit m = m\<lparr>armed := False\<rparr>"

text \<open>The handler at a sequence of times.\<close>

fun ticks :: "nat list \<Rightarrow> monitor \<Rightarrow> monitor" where
  "ticks [] m = m"
| "ticks (t # ts) m = ticks ts (fst (monitor_handler t m))"

section \<open>What the module guarantees\<close>

text \<open>Between two dumps lie ten seconds, and the last one is the time remembered.\<close>

definition spaced :: "monitor \<Rightarrow> bool" where
  "spaced m \<longleftrightarrow> sorted_wrt (\<lambda>a b. a + 10000 \<le> b) (dumps m) \<and> (\<forall>d \<in> set (dumps m). d \<le> last_dump m)
     \<and> (dumps m \<noteq> [] \<longrightarrow> last_dump m \<in> set (dumps m))"

lemma check_load_spaced: "spaced m \<Longrightarrow> last_dump m \<le> t \<Longrightarrow> spaced (check_load t m) \<and> last_dump (check_load t m) \<le> t"
  by (fastforce simp: spaced_def check_load_def Let_def sorted_wrt_append)

lemma ticks_spaced: "spaced m \<Longrightarrow> sorted (last_dump m # ts) \<Longrightarrow> spaced (ticks ts m)"
proof (induction ts arbitrary: m)
  case (Cons t ts)
  have m: "spaced (check_load t m)" "last_dump (check_load t m) \<le> t"
    using check_load_spaced [of m t] Cons.prems by auto
  moreover have "sorted (last_dump (check_load t m) # ts)"
    using m(2) Cons.prems(2) by (auto intro: order_trans)
  ultimately show ?case using Cons.IH by (simp add: monitor_handler_def)
qed simp

text \<open>however often the timer fires, at times that do not go back, two dumps of the tasks are at least
  ten seconds apart.\<close>

theorem load_monitor_throttled:
  assumes "load_monitor_init True = (0, m)" "sorted ts"
  shows "sorted_wrt (\<lambda>a b. a + 10000 \<le> b) (dumps (ticks ts m))"
  using ticks_spaced [of m ts] assms by (auto simp: load_monitor_init_def start_timer_def spaced_def)

theorem load_monitor_throttled_witness:
  "sorted_wrt (\<lambda>a b. a + 10000 \<le> b) (dumps (ticks [5, 12000, 12010, 22500] (snd (load_monitor_init True))))
   \<and> dumps (ticks [5, 12000, 12010, 22500] (snd (load_monitor_init True))) = [12000, 22500]"
proof (rule conjI)
  show "sorted_wrt (\<lambda>a b. a + 10000 \<le> b) (dumps (ticks [5, 12000, 12010, 22500] (snd (load_monitor_init True))))"
    by (rule load_monitor_throttled) (simp_all add: load_monitor_init_def)
  show "dumps (ticks [5, 12000, 12010, 22500] (snd (load_monitor_init True))) = [12000, 22500]"
    by (simp add: load_monitor_init_def start_timer_def monitor_handler_def check_load_def)
qed

text \<open>\<open>LOAD_FRAC\<close> multiplies the mask by 100 and not the masked fraction: of a load of one half, 1024
  of 2048, it makes 0 and not 50 hundredths.\<close>

theorem load_frac_wrong:
  "LOAD_INT 1024 = 0 \<and> LOAD_FRAC 1024 = 0 \<and> LOAD_INT ((1024 AND (FIXED_1 - 1)) * 100) = 50"
  by (simp add: LOAD_FRAC_def LOAD_INT_def FIXED_1_def FSHIFT_def)

text \<open>the dump lists each running and each uninterruptible thread of every process after the first,
  and no other.\<close>

theorem dump_lists_tasks:
  "set (fst (snd (print_all_task_stack avenrun procs))) = {pid p |p ps. ps \<in> set procs \<and> p \<in> set ps \<and> state p = 0}
   \<and> set (snd (snd (print_all_task_stack avenrun procs))) = {pid p |p ps. ps \<in> set procs \<and> p \<in> set ps \<and> state p AND 2 \<noteq> 0}"
  by (auto simp: print_all_task_stack_def each_thread_def TASK_RUNNING_def TASK_UNINTERRUPTIBLE_def)

end
