(* ===== verification/Event_System.thy ===== *)
theory Event_System
  imports Prelude
begin

text \<open>
  Systems whose events interleave freely: a step function that gives \<open>None\<close> for an event that is not possible
  in a state, its runs over sequences of events, and the interface that a preserved property has to meet.
\<close>

fun run_events :: "('e \<Rightarrow> 's \<Rightarrow> 's option) \<Rightarrow> 'e list \<Rightarrow> 's \<Rightarrow> 's option" where
  "run_events step [] s = Some s"
| "run_events step (e # es) s = Option.bind (step e s) (run_events step es)"

text \<open>A property of states that every event keeps.\<close>

locale preserved =
  fixes step :: "'e \<Rightarrow> 's \<Rightarrow> 's option"
    and inv :: "'s \<Rightarrow> bool"
  assumes kept: "inv s \<Longrightarrow> step e s = Some s' \<Longrightarrow> inv s'"
begin

lemma run: "run_events step es s = Some s' \<Longrightarrow> inv s \<Longrightarrow> inv s'"
  by (induction es arbitrary: s) (auto split: Option.bind_splits intro: kept)

end

text \<open>A property that, once it holds, also fixes a part of the state.\<close>

locale frozen = preserved step inv for step :: "'e \<Rightarrow> 's \<Rightarrow> 's option" and inv :: "'s \<Rightarrow> bool" +
  fixes part :: "'s \<Rightarrow> 'a"
  assumes frozen: "inv s \<Longrightarrow> step e s = Some s' \<Longrightarrow> part s' = part s"
begin

lemma run_frozen: "run_events step es s = Some s' \<Longrightarrow> inv s \<Longrightarrow> part s' = part s"
proof (induction es arbitrary: s)
  case (Cons e es)
  then obtain t where "step e s = Some t" "run_events step es t = Some s'" by (auto split: Option.bind_splits)
  with Cons.IH [of t] Cons.prems(2) kept frozen show ?case by metis
qed simp

end

end
