(* ===== verification/Timer_Demo.thy ===== *)
theory Timer_Demo
  imports Event_System
begin

text \<open>
  The periodic timer of \<open>device_driver/timer/timer.c\<close>. The handler runs in interrupt context while
  the rest of the module goes on, so the module is a state machine whose events interleave freely.
  \<open>jiffies\<close> is the clock of the kernel, counted without wrap-around; \<open>period\<close> is
  \<open>msecs_to_jiffies(TIMER_DEMO_PERIOD)\<close>. Of the kernel's timers the model uses what their
  documentation says: \<open>add_timer\<close> of a pending timer is a bug, \<open>del_timer\<close> stops a pending timer and
  does not wait for a handler that already runs.
\<close>

section \<open>State\<close>

text \<open>\<open>handler\<close>: the handler has printed its message and not yet registered the timer again;
  \<open>bound\<close>: between probe and remove; \<open>loaded\<close>: the code of the module is in memory.\<close>

record timer_state =
  jiffies :: nat
  expires :: nat
  pending :: bool
  handler :: bool
  bound :: bool
  loaded :: bool
  crashed :: bool
  printed :: "nat list"

definition TIMER_DEMO_PERIOD :: nat where "TIMER_DEMO_PERIOD = 1000"

definition EBUSY :: int where "EBUSY = 16"

section \<open>Operations\<close>

definition add_timer :: "timer_state \<Rightarrow> timer_state" where
  "add_timer s = (if pending s then s\<lparr>crashed := True\<rparr> else s\<lparr>pending := True\<rparr>)"

definition del_timer :: "timer_state \<Rightarrow> timer_state" where
  "del_timer s = s\<lparr>pending := False\<rparr>"

text \<open>The two halves of the handler: the message, and the timer that is set up again.\<close>

definition timer_demo_timeout :: "timer_state \<Rightarrow> timer_state" where
  "timer_demo_timeout s = s\<lparr>pending := False, handler := True, printed := printed s @ [jiffies s]\<rparr>"

definition timer_demo_handler :: "nat \<Rightarrow> timer_state \<Rightarrow> timer_state" where
  "timer_demo_handler period s = (add_timer (s\<lparr>expires := jiffies s + period\<rparr>))\<lparr>handler := False\<rparr>"

definition timer_demo_probe :: "nat \<Rightarrow> timer_state \<Rightarrow> int \<times> timer_state" where
  "timer_demo_probe period s = (0, add_timer (s\<lparr>pending := False, expires := jiffies s + period\<rparr>)\<lparr>bound := True\<rparr>)"

definition timer_demo_remove :: "timer_state \<Rightarrow> int \<times> timer_state" where
  "timer_demo_remove s = (0, (del_timer s)\<lparr>bound := False\<rparr>)"

text \<open>\<open>timer_demo_init\<close>: the result, and whether driver and device are registered.\<close>

definition timer_demo_init :: "int \<Rightarrow> int \<Rightarrow> int \<times> bool \<times> bool" where
  "timer_demo_init driver_ret device_ret =
     (if driver_ret \<noteq> 0 then (- EBUSY, False, False)
      else if device_ret \<noteq> 0 then (- EBUSY, True, False)
      else (0, True, True))"

text \<open>\<open>timer_demo_exit\<close>: unregistering the device removes it, then the module goes.\<close>

definition timer_demo_exit :: "timer_state \<Rightarrow> timer_state" where
  "timer_demo_exit s = (if bound s then snd (timer_demo_remove s) else s)\<lparr>loaded := False\<rparr>"

section \<open>Events\<close>

datatype event = Tick | Timeout | Rearm | Remove | Unload

text \<open>\<open>None\<close>: the event is not possible in this state. Running the handler of a module that is gone
  crashes.\<close>

fun timer_step :: "nat \<Rightarrow> event \<Rightarrow> timer_state \<Rightarrow> timer_state option" where
  "timer_step period Tick s = Some (s\<lparr>jiffies := jiffies s + 1\<rparr>)"
| "timer_step period Timeout s = (if pending s \<and> \<not> handler s \<and> expires s \<le> jiffies s
     then Some (if loaded s then timer_demo_timeout s else s\<lparr>crashed := True\<rparr>) else None)"
| "timer_step period Rearm s = (if handler s
     then Some (if loaded s then timer_demo_handler period s else s\<lparr>crashed := True\<rparr>) else None)"
| "timer_step period Remove s = (if bound s then Some (snd (timer_demo_remove s)) else None)"
| "timer_step period Unload s = (if loaded s then Some (timer_demo_exit s) else None)"

abbreviation timer_run :: "nat \<Rightarrow> event list \<Rightarrow> timer_state \<Rightarrow> timer_state option" where
  "timer_run period \<equiv> run_events (timer_step period)"

definition timer_start :: "nat \<Rightarrow> timer_state" where
  "timer_start now = \<lparr>jiffies = now, expires = 0, pending = False, handler = False, bound = False, loaded = True,
     crashed = False, printed = []\<rparr>"

section \<open>Invariants\<close>

definition alive :: "timer_state \<Rightarrow> bool" where
  "alive s \<longleftrightarrow> (bound s \<longrightarrow> loaded s \<and> \<not> crashed s \<and> pending s \<noteq> handler s)"

definition spaced :: "nat \<Rightarrow> timer_state \<Rightarrow> bool" where
  "spaced period s \<longleftrightarrow> sorted_wrt (\<lambda>a b. a + period \<le> b) (printed s) \<and> (\<forall>t \<in> set (printed s). t \<le> jiffies s)
     \<and> (handler s \<longrightarrow> \<not> pending s) \<and> (pending s \<longrightarrow> (\<forall>t \<in> set (printed s). t + period \<le> expires s))"

definition quiet :: "timer_state \<Rightarrow> bool" where
  "quiet s \<longleftrightarrow> \<not> bound s \<and> \<not> pending s \<and> \<not> handler s \<and> \<not> crashed s"

lemmas timer_defs = timer_demo_timeout_def timer_demo_handler_def timer_demo_probe_def timer_demo_remove_def
  timer_demo_exit_def add_timer_def del_timer_def

lemma alive_step: "alive s \<Longrightarrow> timer_step period e s = Some s' \<Longrightarrow> alive s'"
  by (cases e) (auto simp: alive_def timer_defs split: if_splits)

lemma spaced_step: "spaced period s \<Longrightarrow> timer_step period e s = Some s' \<Longrightarrow> spaced period s'"
  by (cases e) (fastforce simp: spaced_def timer_defs sorted_wrt_append split: if_splits)+

lemma quiet_step: "quiet s \<Longrightarrow> timer_step period e s = Some s' \<Longrightarrow> quiet s' \<and> printed s' = printed s"
  by (cases e) (auto simp: quiet_def timer_defs split: if_splits)

interpretation bound_timer: preserved "timer_step period" alive for period
  by unfold_locales (rule alive_step)

interpretation timer_messages: preserved "timer_step period" "spaced period" for period
  by unfold_locales (rule spaced_step)

interpretation removed_timer: frozen "timer_step period" quiet printed for period
  by unfold_locales (use quiet_step in blast)+

lemma probed: "alive (snd (timer_demo_probe period (timer_start now)))"
  "spaced period (snd (timer_demo_probe period (timer_start now)))"
  by (simp_all add: alive_def spaced_def timer_defs timer_start_def)

section \<open>What the module guarantees\<close>

text \<open>C16: as long as the device is bound, the timer never dies: in every interleaving it is either pending
  or its handler is about to register it again, and two messages are at least a period apart.\<close>

theorem timer_demo_periodic:
  assumes "timer_run period es (snd (timer_demo_probe period (timer_start now))) = Some s"
  shows "sorted_wrt (\<lambda>a b. a + period \<le> b) (printed s) \<and> (bound s \<longrightarrow> \<not> crashed s \<and> pending s \<noteq> handler s)"
  using bound_timer.run [OF assms probed(1)] timer_messages.run [OF assms probed(2)]
  by (simp add: alive_def spaced_def)

theorem timer_demo_periodic_witness:
  "\<exists>s. timer_run 2 [Tick, Tick, Timeout, Rearm, Tick, Tick, Timeout] (snd (timer_demo_probe 2 (timer_start 5))) = Some s
    \<and> printed s = [7, 9] \<and> \<not> crashed s"
proof -
  let ?es = "[Tick, Tick, Timeout, Rearm, Tick, Tick, Timeout]"
  let ?s = "\<lparr>jiffies = 9, expires = 9, pending = False, handler = True, bound = True, loaded = True, crashed = False,
    printed = [7, 9]\<rparr>"
  have "timer_run 2 ?es (snd (timer_demo_probe 2 (timer_start 5))) = Some ?s"
    by (simp add: timer_defs timer_start_def)
  with timer_demo_periodic [OF this] show ?thesis by auto
qed

text \<open>removing the device while no handler runs stops the timer for good: nothing is printed any more
  and nothing goes wrong, whatever follows. But \<open>del_timer\<close> does not wait: when the handler runs at that
  moment, it registers the timer of the removed device again, and when the module is unloaded in
  between, the handler runs code that is gone.\<close>

theorem timer_demo_remove_race:
  assumes "bound s" "alive s"
  shows "(\<not> handler s \<longrightarrow> timer_run period (Remove # es) s = Some s' \<longrightarrow> printed s' = printed s \<and> \<not> crashed s')
    \<and> (handler s \<longrightarrow> (\<exists>t. timer_run period [Remove, Rearm] s = Some t \<and> pending t \<and> \<not> bound t)
         \<and> (\<exists>t. timer_run period [Remove, Unload, Rearm] s = Some t \<and> crashed t))"
proof (intro conjI impI)
  assume h: "\<not> handler s" and r: "timer_run period (Remove # es) s = Some s'"
  have "quiet (snd (timer_demo_remove s))" "printed (snd (timer_demo_remove s)) = printed s"
    using h assms by (simp_all add: quiet_def timer_defs alive_def)
  moreover have "timer_run period es (snd (timer_demo_remove s)) = Some s'" using r assms(1) by simp
  ultimately show "printed s' = printed s" "\<not> crashed s'"
    using removed_timer.run removed_timer.run_frozen by (metis quiet_def)+
qed (use assms in \<open>auto simp: alive_def timer_defs\<close>)

theorem timer_demo_remove_race_witness:
  "\<exists>s s'. timer_run 2 [Tick, Tick, Timeout] (snd (timer_demo_probe 2 (timer_start 5))) = Some s
    \<and> timer_run 2 [Remove, Unload, Rearm] s = Some s' \<and> crashed s'"
proof -
  let ?s = "\<lparr>jiffies = 7, expires = 7, pending = False, handler = True, bound = True, loaded = True, crashed = False, printed = [7]\<rparr>"
  have "timer_run 2 [Tick, Tick, Timeout] (snd (timer_demo_probe 2 (timer_start 5))) = Some ?s"
    by (simp add: timer_defs timer_start_def)
  moreover have "\<exists>s'. timer_run 2 [Remove, Unload, Rearm] ?s = Some s' \<and> crashed s'"
    using timer_demo_remove_race [of ?s 2] by (simp add: alive_def)
  ultimately show ?thesis by blast
qed

end
