(* ===== verification/Workqueue_Demo.thy ===== *)
theory Workqueue_Demo
  imports Event_System
begin

text \<open>
  The timer and work queue of \<open>device_driver/workqueue/workqueue.c\<close>: a timer interrupt that schedules
  a piece of work and sets up the timer again, both inside a private structure that \<open>remove\<close> frees.
  The interrupt, the worker and the removal interleave freely. \<open>ms\<close> is \<open>msecs_to_jiffies\<close>, \<open>jiffies\<close>
  is counted without wrap-around. Of the kernel the model uses: \<open>schedule_work\<close> does nothing when the work is queued
  already, a worker takes the work off the queue before it calls the handler, \<open>del_timer\<close> does not
  wait for a handler that runs, \<open>kfree\<close> does not look at what is still queued, and unloading the module does
  not wait for a handler that runs in its code.
\<close>

definition INPUT_PERIOD :: nat where "INPUT_PERIOD = 1000"

definition EBUSY :: int where "EBUSY = 16"
definition ENOMEM :: int where "ENOMEM = 12"

section \<open>State\<close>

text \<open>Where the timer interrupt stands: not running, before and after \<open>schedule_work\<close>.\<close>

datatype isr_at = Idle | Entered | Scheduled

text \<open>\<open>pdata\<close>: the structure is allocated; \<open>pending\<close> and \<open>queued\<close>: its timer and its work are known to
  the kernel; \<open>working\<close>: the handler of the work runs. \<open>loaded\<close>: the code of the module is there.
  \<open>crashed\<close>: freed memory was used, code that is gone was run, or a pending timer registered twice.\<close>

record wq_state =
  jiffies :: nat
  pdata :: bool
  expires :: nat
  pending :: bool
  isr :: isr_at
  queued :: bool
  working :: bool
  bound :: bool
  loaded :: bool
  worked :: nat
  crashed :: bool

section \<open>Operations\<close>

text \<open>Every access to the structure goes through this test.\<close>

definition touch :: "(wq_state \<Rightarrow> wq_state) \<Rightarrow> wq_state \<Rightarrow> wq_state" where
  "touch f s = (if pdata s then f s else s\<lparr>crashed := True\<rparr>)"

definition add_timer :: "wq_state \<Rightarrow> wq_state" where
  "add_timer s = (if pending s then s\<lparr>crashed := True\<rparr> else s\<lparr>pending := True\<rparr>)"

text \<open>The handler of the work, until it returns: it uses nothing but its own code.\<close>

definition wq_isr :: "wq_state \<Rightarrow> wq_state" where
  "wq_isr s = (if loaded s then s\<lparr>worked := worked s + 1, working := False\<rparr> else s\<lparr>crashed := True\<rparr>)"

text \<open>\<open>timer_isr\<close> up to and including \<open>schedule_work\<close>, and the rest of it.\<close>

definition timer_isr_schedule :: "wq_state \<Rightarrow> wq_state" where
  "timer_isr_schedule = touch (\<lambda>s. s\<lparr>queued := True, isr := Scheduled\<rparr>)"

definition timer_isr_rearm :: "(nat \<Rightarrow> nat) \<Rightarrow> wq_state \<Rightarrow> wq_state" where
  "timer_isr_rearm ms = touch (\<lambda>s. (add_timer (s\<lparr>expires := jiffies s + ms INPUT_PERIOD\<rparr>))\<lparr>isr := Idle\<rparr>)"

definition wq_demo_probe :: "bool \<Rightarrow> (nat \<Rightarrow> nat) \<Rightarrow> wq_state \<Rightarrow> int \<times> wq_state" where
  "wq_demo_probe kzalloc_ok ms s =
     (if \<not> kzalloc_ok then (- ENOMEM, s)
      else (0, (add_timer (s\<lparr>pdata := True, queued := False, pending := False, expires := jiffies s + ms 100\<rparr>))
                 \<lparr>bound := True\<rparr>))"

definition wq_demo_remove :: "wq_state \<Rightarrow> int \<times> wq_state" where
  "wq_demo_remove s = (0, s\<lparr>pending := False, pdata := False, bound := False\<rparr>)"

text \<open>\<open>wq_demo_init\<close>: the result, and whether driver and device are registered; \<open>device_ret\<close> is 0 or
  the error of the pointer.\<close>

definition wq_demo_init :: "int \<Rightarrow> int \<Rightarrow> int \<times> bool \<times> bool" where
  "wq_demo_init driver_ret device_ret =
     (if driver_ret \<noteq> 0 then (- EBUSY, False, False)
      else if device_ret < 0 then (device_ret, True, False)
      else (0, True, True))"

text \<open>\<open>wq_demo_exit\<close>, after which the module is unloaded.\<close>

definition wq_demo_exit :: "wq_state \<Rightarrow> wq_state" where
  "wq_demo_exit s = (if bound s then snd (wq_demo_remove s) else s)\<lparr>loaded := False\<rparr>"

section \<open>Events\<close>

datatype event = Tick | Timer_Irq | Schedule | Rearm | Work | Work_Done | Exit

fun wq_step :: "(nat \<Rightarrow> nat) \<Rightarrow> event \<Rightarrow> wq_state \<Rightarrow> wq_state option" where
  "wq_step ms Tick s = Some (s\<lparr>jiffies := jiffies s + 1\<rparr>)"
| "wq_step ms Timer_Irq s = (if pending s \<and> isr s = Idle \<and> expires s \<le> jiffies s
     then Some (s\<lparr>pending := False, isr := Entered\<rparr>) else None)"
| "wq_step ms Schedule s = (if isr s = Entered then Some (timer_isr_schedule s) else None)"
| "wq_step ms Rearm s = (if isr s = Scheduled then Some (timer_isr_rearm ms s) else None)"
| "wq_step ms Work s = (if queued s \<and> \<not> working s then Some (touch (\<lambda>s. s\<lparr>queued := False, working := True\<rparr>) s) else None)"
| "wq_step ms Work_Done s = (if working s then Some (wq_isr s) else None)"
| "wq_step ms Exit s = (if bound s then Some (wq_demo_exit s) else None)"

abbreviation wq_run :: "(nat \<Rightarrow> nat) \<Rightarrow> event list \<Rightarrow> wq_state \<Rightarrow> wq_state option" where
  "wq_run ms \<equiv> run_events (wq_step ms)"

definition wq_start :: "nat \<Rightarrow> wq_state" where
  "wq_start now = \<lparr>jiffies = now, pdata = False, expires = 0, pending = False, isr = Idle, queued = False,
     working = False, bound = False, loaded = True, worked = 0, crashed = False\<rparr>"

section \<open>Invariants\<close>

lemmas wq_defs = touch_def add_timer_def wq_isr_def timer_isr_schedule_def timer_isr_rearm_def wq_demo_probe_def
  wq_demo_remove_def wq_demo_exit_def

definition alive :: "wq_state \<Rightarrow> bool" where
  "alive s \<longleftrightarrow> (bound s \<longrightarrow> pdata s \<and> loaded s \<and> \<not> crashed s \<and> pending s = (isr s = Idle))"

text \<open>After the removal: nothing that uses the structure is left.\<close>

definition gone :: "wq_state \<Rightarrow> bool" where
  "gone s \<longleftrightarrow> \<not> bound s \<and> \<not> pending s \<and> isr s = Idle \<and> \<not> queued s \<and> \<not> working s \<and> \<not> crashed s"

lemma wq_alive_step: "alive s \<Longrightarrow> wq_step ms e s = Some s' \<Longrightarrow> alive s'"
  by (cases e) (auto simp: alive_def wq_defs split: if_splits)

lemma wq_gone_step: "gone s \<Longrightarrow> wq_step ms e s = Some s' \<Longrightarrow> gone s'"
  by (cases e) (auto simp: gone_def wq_defs split: if_splits)

interpretation bound_device: preserved "wq_step ms" alive for ms
  by unfold_locales (rule wq_alive_step)

interpretation removed_device: preserved "wq_step ms" gone for ms
  by unfold_locales (rule wq_gone_step)

lemma alive_probe: "alive (snd (wq_demo_probe ok ms (wq_start now)))"
  by (simp add: alive_def wq_defs wq_start_def)

section \<open>What the driver guarantees\<close>

text \<open>while the device is bound, no interleaving of the interrupt, the worker and the clock touches
  freed memory or registers a pending timer, and the interrupts never stop: either the timer is
  pending or the interrupt that will register it is running.\<close>

theorem wq_demo_alive:
  assumes "wq_run ms es (snd (wq_demo_probe True ms (wq_start now))) = Some s" "bound s"
  shows "\<not> crashed s \<and> (pending s \<longleftrightarrow> isr s = Idle)"
  using bound_device.run [OF assms(1) alive_probe] assms(2) by (simp add: alive_def)

theorem wq_demo_alive_witness:
  "\<exists>s. wq_run (\<lambda>m. m div 100) [Tick, Timer_Irq, Schedule, Work, Rearm] (snd (wq_demo_probe True (\<lambda>m. m div 100) (wq_start 0))) = Some s
    \<and> pending s \<and> \<not> crashed s"
proof -
  let ?s = "\<lparr>jiffies = 1, pdata = True, expires = 11, pending = True, isr = Idle, queued = False, working = True,
    bound = True, loaded = True, worked = 0, crashed = False\<rparr>"
  have "wq_run (\<lambda>m. m div 100) [Tick, Timer_Irq, Schedule, Work, Rearm] (snd (wq_demo_probe True (\<lambda>m. m div 100) (wq_start 0)))
    = Some ?s"
    by (simp add: wq_defs wq_start_def INPUT_PERIOD_def)
  from this wq_demo_alive [OF this] show ?thesis by auto
qed

text \<open>C8: \<open>wq_demo_remove\<close> frees the structure without waiting for anything, and the module goes with it. In every state that is
  reached after a successful probe and in which the device is bound, the module can be removed without harm exactly
  when at that moment the interrupt is not running, no work is queued and the handler of the work is not
  running; otherwise some continuation uses the freed structure or runs code that is gone.\<close>

theorem wq_demo_exit_safe_iff:
  assumes "wq_run ms es0 (snd (wq_demo_probe True ms (wq_start now))) = Some s" "bound s"
  shows "(\<forall>es s'. wq_run ms (Exit # es) s = Some s' \<longrightarrow> \<not> crashed s') \<longleftrightarrow> isr s = Idle \<and> \<not> queued s \<and> \<not> working s"
proof -
  have al: "alive s" by (rule bound_device.run [OF assms(1) alive_probe])
  let ?r = "wq_demo_exit s"
  have run: "wq_run ms (Exit # es) s = wq_run ms es ?r" for es using assms(2) by simp
  show ?thesis
  proof (intro iffI allI impI)
    fix es s' assume "isr s = Idle \<and> \<not> queued s \<and> \<not> working s" "wq_run ms (Exit # es) s = Some s'"
    moreover from this assms(2) al have "gone ?r" by (simp add: gone_def wq_defs alive_def)
    ultimately have "gone s'" using removed_device.run [of ms es ?r s'] by (simp only: run)
    then show "\<not> crashed s'" by (simp add: gone_def)
  next
    assume "\<forall>es s'. wq_run ms (Exit # es) s = Some s' \<longrightarrow> \<not> crashed s'"
    then have safe: "\<forall>es s'. wq_run ms es ?r = Some s' \<longrightarrow> \<not> crashed s'" by (simp only: run)
    show "isr s = Idle \<and> \<not> queued s \<and> \<not> working s"
    proof (rule ccontr)
      assume "\<not> (isr s = Idle \<and> \<not> queued s \<and> \<not> working s)"
      then consider "isr s = Entered" | "isr s = Scheduled" | "working s" | "queued s" "\<not> working s" by (cases "isr s") auto
      then show False
      proof cases
        case 1 then show False using safe [rule_format, of "[Schedule]"] assms(2) by (simp add: wq_defs)
      next
        case 2 then show False using safe [rule_format, of "[Rearm]"] assms(2) by (simp add: wq_defs)
      next
        case 3 then show False using safe [rule_format, of "[Work_Done]"] assms(2) by (simp add: wq_defs)
      next
        case 4 then show False using safe [rule_format, of "[Work]"] assms(2) by (simp add: wq_defs)
      qed
    qed
  qed
qed

text \<open>The work is running, and nothing else.\<close>

theorem wq_demo_exit_safe_iff_witness:
  "\<exists>s es s'. wq_run (\<lambda>m. m div 100) [Tick, Timer_Irq, Schedule, Rearm, Work] (snd (wq_demo_probe True (\<lambda>m. m div 100) (wq_start 0))) = Some s
    \<and> isr s = Idle \<and> \<not> queued s \<and> working s \<and> wq_run (\<lambda>m. m div 100) (Exit # es) s = Some s' \<and> crashed s'"
proof -
  let ?s = "\<lparr>jiffies = 1, pdata = True, expires = 11, pending = True, isr = Idle, queued = False, working = True,
    bound = True, loaded = True, worked = 0, crashed = False\<rparr>"
  have "wq_run (\<lambda>m. m div 100) [Tick, Timer_Irq, Schedule, Rearm, Work] (snd (wq_demo_probe True (\<lambda>m. m div 100) (wq_start 0)))
    = Some ?s"
    by (simp add: wq_defs wq_start_def INPUT_PERIOD_def)
  from this wq_demo_exit_safe_iff [OF this] show ?thesis by fastforce
qed

end
