(* ===== verification/Platform_Demo.thy ===== *)
theory Platform_Demo
  imports Prelude
begin

text \<open>
  The platform driver \<open>device_driver/platform/kernel/platform.c\<close> with the device that its module
  registers: the table of resources, \<open>probe\<close> with its ladder of labels, and \<open>remove\<close>. What the
  functions of the kernel return is the environment \<open>env\<close>; \<open>None\<close> is an access through a pointer
  that is not mapped. Messages are left out.
\<close>

definition EBUSY :: int where "EBUSY = 16"
definition ENOMEM :: int where "ENOMEM = 12"
definition ENODEV :: int where "ENODEV = 19"
definition EINVAL :: int where "EINVAL = 22"

section \<open>Data\<close>

datatype flags = IORESOURCE_MEM | IORESOURCE_IRQ

record resource =
  start :: "64 word"
  last_addr :: "64 word"
  flags :: flags

definition platform_demo_resources :: "resource list" where
  "platform_demo_resources =
     [\<lparr>start = 0x22002000, last_addr = 0x22002008, flags = IORESOURCE_MEM\<rparr>,
      \<lparr>start = 0x22003000, last_addr = 0x22003008, flags = IORESOURCE_MEM\<rparr>,
      \<lparr>start = 12, last_addr = 12, flags = IORESOURCE_IRQ\<rparr>,
      \<lparr>start = 38, last_addr = 38, flags = IORESOURCE_IRQ\<rparr>]"

definition resource_size :: "resource \<Rightarrow> 64 word" where
  "resource_size r = last_addr r - start r + 1"

text \<open>\<open>struct platform_demo_data\<close> is its index, \<open>struct platform_demo_pdata\<close> the base and the interrupt.\<close>

definition platform_demo_pdata :: "64 word" where "platform_demo_pdata = 0x10"

text \<open>The result of \<open>devm_ioremap\<close>: an address, \<open>NULL\<close> or an error pointer.\<close>

datatype mapping = Mapped nat | Null | Err int

record env =
  platform_get_resource :: "flags \<Rightarrow> nat \<Rightarrow> resource option"
  devm_kzalloc :: bool
  devm_request_mem_region :: "64 word \<Rightarrow> 64 word \<Rightarrow> bool"
  devm_ioremap :: "64 word \<Rightarrow> 64 word \<Rightarrow> mapping"
  devm_request_irq :: "32 word \<Rightarrow> int"

text \<open>What the device holds: the private structure, the memory region, the mapping, the interrupt, the
  driver data; and what was stored through the mapping.\<close>

record held =
  private_data :: bool
  region :: "(64 word \<times> 64 word) option"
  mapped :: "nat option"
  irq_line :: "32 word option"
  drvdata :: "(nat \<times> 32 word) option"
  stored :: "(nat \<times> 64 word) list"

definition nothing_held :: held where
  "nothing_held = \<lparr>private_data = False, region = None, mapped = None, irq_line = None, drvdata = None, stored = []\<rparr>"

section \<open>Probe and remove\<close>

text \<open>The labels: \<open>irq_req\<close>, \<open>irq_1\<close> and \<open>irq_0\<close> fall through to the ones below.\<close>

definition mem_req :: "held \<Rightarrow> held" where
  "mem_req h = h\<lparr>private_data := False\<rparr>"

definition irq_req :: "held \<Rightarrow> held" where
  "irq_req h = mem_req (h\<lparr>mapped := None\<rparr>)"

text \<open>The interrupts: the first resource is looked at and not used.\<close>

definition probe_irq :: "env \<Rightarrow> nat \<Rightarrow> held \<Rightarrow> int \<times> held" where
  "probe_irq e base h =
     (case platform_get_resource e IORESOURCE_IRQ 0 of None \<Rightarrow> (- ENODEV, irq_req h)
      | Some _ \<Rightarrow> (case platform_get_resource e IORESOURCE_IRQ 1 of None \<Rightarrow> (- ENODEV, irq_req h)
      | Some irq_res \<Rightarrow>
         let ret = devm_request_irq e (ucast (start irq_res)) in
         if ret \<noteq> 0 then (ret, irq_req h)
         else (0, h\<lparr>irq_line := Some (ucast (start irq_res)), drvdata := Some (base, ucast (start irq_res))\<rparr>)))"

text \<open>The memory regions: the first is looked at and not used. \<open>IS_ERR\<close> does not hold of \<open>NULL\<close>, so the
  store then goes through a null pointer.\<close>

definition platform_demo_probe :: "env \<Rightarrow> 64 word option \<Rightarrow> (int \<times> held) option" where
  "platform_demo_probe e platform_data =
     (case platform_data of None \<Rightarrow> Some (- EINVAL, nothing_held)
      | Some index \<Rightarrow>
     if \<not> devm_kzalloc e then Some (- ENOMEM, nothing_held)
     else let h = nothing_held\<lparr>private_data := True\<rparr> in
     case platform_get_resource e IORESOURCE_MEM 0 of None \<Rightarrow> Some (- ENODEV, mem_req h)
      | Some _ \<Rightarrow> (case platform_get_resource e IORESOURCE_MEM 1 of None \<Rightarrow> Some (- ENODEV, mem_req h)
      | Some mem_res \<Rightarrow>
     if \<not> devm_request_mem_region e (start mem_res) (resource_size mem_res) then Some (- EBUSY, mem_req h)
     else let h = h\<lparr>region := Some (start mem_res, resource_size mem_res)\<rparr> in
     case devm_ioremap e (start mem_res) (resource_size mem_res) of
        Err ret \<Rightarrow> Some (ret, mem_req h)
      | Null \<Rightarrow> None
      | Mapped mem_base \<Rightarrow>
          if resource_size mem_res < 8 then None
          else Some (probe_irq e mem_base (h\<lparr>mapped := Some mem_base, stored := [(mem_base, 0x902989)]\<rparr>))))"

definition platform_demo_remove :: "held \<Rightarrow> (int \<times> held) option" where
  "platform_demo_remove h = (case drvdata h of None \<Rightarrow> None
     | Some (base, irq) \<Rightarrow>
        Some (0, h\<lparr>irq_line := (if irq_line h = Some irq then None else irq_line h),
                   mapped := (if mapped h = Some base then None else mapped h),
                   drvdata := None, private_data := False\<rparr>))"

text \<open>The driver core gives back what is still held through \<open>devm_\<close> functions, after a failed probe and
  after a removal.\<close>

definition devres_release_all :: "held \<Rightarrow> held" where
  "devres_release_all h = h\<lparr>private_data := False, region := None, mapped := None, irq_line := None\<rparr>"

definition platform_demo_suspend :: int where "platform_demo_suspend = 0"
definition platform_demo_resume :: int where "platform_demo_resume = 0"

text \<open>\<open>platform_demo_init\<close>: the result, and whether driver and device are registered.\<close>

definition platform_demo_init :: "int \<Rightarrow> int \<Rightarrow> int \<times> bool \<times> bool" where
  "platform_demo_init driver_ret device_ret =
     (if driver_ret \<noteq> 0 then (- EBUSY, False, False)
      else if device_ret \<noteq> 0 then (- EBUSY, True, False)
      else (0, True, True))"

definition platform_demo_exit :: "bool \<times> bool \<Rightarrow> bool \<times> bool" where
  "platform_demo_exit registered = (False, False)"

section \<open>What the driver guarantees\<close>

text \<open>\<open>platform_get_resource\<close> as documented: the resource of that type with that number.\<close>

definition finds :: "resource list \<Rightarrow> env \<Rightarrow> bool" where
  "finds rs e \<longleftrightarrow> (\<forall>f n. platform_get_resource e f n =
     (let l = filter (\<lambda>r. flags r = f) rs in if n < length l then Some (l ! n) else None))"

definition sample_env :: env where
  "sample_env = \<lparr>platform_get_resource = (\<lambda>f n. let l = filter (\<lambda>r. flags r = f) platform_demo_resources in
       if n < length l then Some (l ! n) else None),
     devm_kzalloc = True, devm_request_mem_region = (\<lambda>a n. True), devm_ioremap = (\<lambda>a n. Mapped 4096),
     devm_request_irq = (\<lambda>i. 0)\<rparr>"

lemma sample_finds: "finds platform_demo_resources sample_env"
  by (simp add: finds_def sample_env_def)

lemma platform_resources:
  assumes "finds platform_demo_resources e"
  shows "platform_get_resource e IORESOURCE_MEM 0 = Some (platform_demo_resources ! 0)"
    "platform_get_resource e IORESOURCE_MEM 1 = Some (platform_demo_resources ! 1)"
    "platform_get_resource e IORESOURCE_IRQ 0 = Some (platform_demo_resources ! 2)"
    "platform_get_resource e IORESOURCE_IRQ 1 = Some (platform_demo_resources ! 3)"
  using assms by (simp_all add: finds_def platform_demo_resources_def)

lemmas probe_defs = platform_demo_probe_def probe_irq_def nothing_held_def mem_req_def irq_req_def resource_size_def

text \<open>on the device that the module registers, when the kernel grants every request, probe maps the
  second memory region, stores the test value there and takes interrupt 38; removing the device then
  gives back everything but the region, which the driver core releases.\<close>

theorem platform_demo_probe_ok:
  assumes "finds platform_demo_resources e" "devm_kzalloc e" "devm_request_mem_region e 0x22003000 9"
    and "devm_ioremap e 0x22003000 9 = Mapped base" "devm_request_irq e 38 = 0"
  shows "\<exists>h. platform_demo_probe e (Some platform_demo_pdata) = Some (0, h)
    \<and> h = \<lparr>private_data = True, region = Some (0x22003000, 9), mapped = Some base, irq_line = Some 38,
            drvdata = Some (base, 38), stored = [(base, 0x902989)]\<rparr>
    \<and> (\<exists>h'. platform_demo_remove h = Some (0, h') \<and> h' = \<lparr>private_data = False, region = Some (0x22003000, 9), mapped = None,
          irq_line = None, drvdata = None, stored = [(base, 0x902989)]\<rparr>)"
  using assms(2-) platform_resources [OF assms(1)]
  by (simp add: probe_defs platform_demo_remove_def platform_demo_resources_def)

theorem platform_demo_probe_ok_witness:
  "\<exists>h. platform_demo_probe sample_env (Some platform_demo_pdata) = Some (0, h) \<and> irq_line h = Some 38"
  using platform_demo_probe_ok [of sample_env 4096] sample_finds by (auto simp: sample_env_def)

text \<open>C25: every failing probe leaves neither a mapping nor an interrupt nor driver data, and at most the
  memory region, which the driver core releases; and its result is one of the codes of the ladder or
  the error that the mapping or the interrupt gave.\<close>

theorem platform_demo_probe_fails_clean:
  assumes "platform_demo_probe e pd = Some (ret, h)" "ret \<noteq> 0"
  shows "\<not> private_data h \<and> mapped h = None \<and> irq_line h = None \<and> drvdata h = None
    \<and> devres_release_all h = nothing_held\<lparr>stored := stored h\<rparr>
    \<and> (ret \<in> {- EINVAL, - ENOMEM, - ENODEV, - EBUSY} \<or> (\<exists>i. ret = devm_request_irq e i) \<or> (\<exists>a n. devm_ioremap e a n = Err ret))"
  using assms
  by (auto simp: probe_defs devres_release_all_def Let_def split: option.splits if_splits mapping.splits)

theorem platform_demo_probe_fails_clean_witness:
  "\<exists>h. platform_demo_probe (sample_env\<lparr>devm_request_irq := (\<lambda>i. - 16)\<rparr>) (Some 1) = Some (- 16, h) \<and> mapped h = None"
proof -
  obtain h where h: "platform_demo_probe (sample_env\<lparr>devm_request_irq := (\<lambda>i. - 16)\<rparr>) (Some 1) = Some (- 16, h)"
    by (simp add: sample_env_def probe_defs platform_demo_resources_def)
  with platform_demo_probe_fails_clean [OF h] show ?thesis by auto
qed

text \<open>\<open>devm_ioremap\<close> reports failure by a null pointer, which the test for an error pointer lets
  through: probe then stores through it.\<close>

theorem platform_demo_probe_null:
  assumes "finds platform_demo_resources e" "devm_kzalloc e" "devm_request_mem_region e 0x22003000 9"
    and "devm_ioremap e 0x22003000 9 = Null"
  shows "platform_demo_probe e (Some index) = None"
  using assms(2-) platform_resources [OF assms(1)]
  by (simp add: probe_defs platform_demo_resources_def)

theorem platform_demo_probe_null_witness:
  "platform_demo_probe (sample_env\<lparr>devm_ioremap := (\<lambda>a n. Null)\<rparr>) (Some 16) = None"
  using platform_demo_probe_null [of "sample_env\<lparr>devm_ioremap := (\<lambda>a n. Null)\<rparr>" 16] sample_finds
  by (simp add: finds_def sample_env_def)

end
