(* ===== verification/Gpio_Demo.thy ===== *)
theory Gpio_Demo
  imports Prelude
begin

text \<open>
  The GPIO driver \<open>device_driver/gpio/gpio.c\<close>: probe drives the line of the device tree once, turns it
  into an input and requests an interrupt. The results of the kernel's functions are the environment;
  \<open>irq\<close> is never assigned in probe, so its value is what the stack held.
\<close>

definition ENOMEM :: int where "ENOMEM = 12"
definition EINVAL :: int where "EINVAL = 22"

datatype gpio_op = Direction_Output int bool | Set_Value int bool | Get_Value int | Direction_Input int

record env =
  kzalloc :: bool
  of_get_named_gpio :: int
  request_irq :: "int \<Rightarrow> int"
  stack_irq :: int

record gpio_demo_priv =
  irq :: int
  gpio :: int

text \<open>What the driver has: the allocated structures, the driver data, the interrupts, and the calls on GPIO
  lines so far.\<close>

record gpio_state =
  allocated :: nat
  drvdata :: "gpio_demo_priv option"
  irqs :: "int list"
  ops :: "gpio_op list"

definition gpio_start :: gpio_state where
  "gpio_start = \<lparr>allocated = 0, drvdata = None, irqs = [], ops = []\<rparr>"

datatype irqreturn = IRQ_HANDLED

definition gpio_demo_handler :: "int \<Rightarrow> irqreturn" where
  "gpio_demo_handler i = IRQ_HANDLED"

definition gpio_demo_probe :: "env \<Rightarrow> gpio_state \<Rightarrow> int \<times> gpio_state" where
  "gpio_demo_probe e s =
     (if \<not> kzalloc e then (- ENOMEM, s)
      else let s = s\<lparr>allocated := allocated s + 1\<rparr>; g = of_get_named_gpio e in
      if g < 0 then (- EINVAL, s\<lparr>allocated := allocated s - 1\<rparr>)
      else let s = s\<lparr>ops := ops s @ [Direction_Output g False, Set_Value g True, Get_Value g, Direction_Input g]\<rparr>;
               ret = request_irq e (stack_irq e) in
      if ret < 0 then (- EINVAL, s\<lparr>allocated := allocated s - 1\<rparr>)
      else (0, s\<lparr>irqs := stack_irq e # irqs s, drvdata := Some \<lparr>irq = stack_irq e, gpio = g\<rparr>\<rparr>))"

definition gpio_demo_remove :: "gpio_state \<Rightarrow> (int \<times> gpio_state) option" where
  "gpio_demo_remove s = (case drvdata s of None \<Rightarrow> None
     | Some priv \<Rightarrow> Some (0, s\<lparr>irqs := remove1 (irq priv) (irqs s), allocated := allocated s - 1\<rparr>))"

text \<open>The direction of a line after a sequence of calls.\<close>

fun is_input :: "int \<Rightarrow> gpio_op list \<Rightarrow> bool" where
  "is_input g [] = True"
| "is_input g (Direction_Output h v # xs) = (if h = g then False else is_input g xs)"
| "is_input g (Direction_Input h # xs) = (if h = g then True else is_input g xs)"
| "is_input g (_ # xs) = is_input g xs"

section \<open>What the driver guarantees\<close>

text \<open>a probe that fails gives the structure back and holds no interrupt; a probe that succeeds leaves
  the line of the device tree as an input and holds one interrupt, and removing the device then frees
  both. The interrupt is not that of the line: it is the value of an uninitialised variable.\<close>

theorem gpio_demo_probe_remove:
  assumes "gpio_demo_probe e s = (ret, s')"
  shows "(ret \<noteq> 0 \<longrightarrow> allocated s' = allocated s \<and> irqs s' = irqs s \<and> drvdata s' = drvdata s)
    \<and> (ret = 0 \<longrightarrow> is_input (of_get_named_gpio e) (rev (ops s'))
         \<and> drvdata s' = Some \<lparr>irq = stack_irq e, gpio = of_get_named_gpio e\<rparr> \<and> irqs s' = stack_irq e # irqs s
         \<and> (\<exists>t. gpio_demo_remove s' = Some (0, t) \<and> irqs t = irqs s \<and> allocated t = allocated s))"
  using assms by (auto simp: gpio_demo_probe_def gpio_demo_remove_def ENOMEM_def EINVAL_def Let_def split: if_splits)

theorem gpio_demo_probe_remove_witness:
  "\<exists>s'. gpio_demo_probe \<lparr>kzalloc = True, of_get_named_gpio = 17, request_irq = (\<lambda>i. 0), stack_irq = 5\<rparr> gpio_start = (0, s')
    \<and> irqs s' = [5]"
proof -
  obtain s' where s: "gpio_demo_probe \<lparr>kzalloc = True, of_get_named_gpio = 17, request_irq = (\<lambda>i. 0), stack_irq = 5\<rparr> gpio_start = (0, s')"
    by (simp add: gpio_demo_probe_def gpio_start_def)
  with gpio_demo_probe_remove [OF s] show ?thesis by (simp add: gpio_start_def)
qed

end
