(* ===== verification/Mdio_Demo.thy ===== *)
theory Mdio_Demo
  imports Prelude
begin

text \<open>
  The command parser of \<open>device_driver/mdio/mdio.c\<close> and the attribute it serves. Strings are the bytes
  before their terminating zero. \<open>None\<close> is an access outside an object. Three things are parameters:
  \<open>at_addr a\<close>, the string that lies at the address \<open>a\<close> (\<open>None\<close> where nothing is mapped), because
  \<open>strcmp\<close> is given the characters \<open>'r'\<close> and \<open>'w'\<close> as pointers; \<open>scan\<close>, the number that
  \<open>sscanf("%d")\<close> reads; \<open>data0\<close> and \<open>value0\<close>, what uninitialised variables hold.
\<close>

definition MDIO_READ :: int where "MDIO_READ = 0"
definition MDIO_WRITE :: int where "MDIO_WRITE = 1"

definition comma :: byte where "comma = 44"

section \<open>parse\_input\_string\<close>

text \<open>\<open>strstr(buffer, ",") - buffer\<close>.\<close>

fun strstr_comma :: "byte list \<Rightarrow> nat option" where
  "strstr_comma [] = None"
| "strstr_comma (c # cs) = (if c = comma then Some 0 else map_option Suc (strstr_comma cs))"

lemma strstr_comma_Some: "strstr_comma b = Some n \<Longrightarrow> n < length b \<and> b ! n = comma"
  by (induction b arbitrary: n) (auto split: if_splits)

lemma strstr_comma_None: "strstr_comma b = None \<longleftrightarrow> comma \<notin> set b"
  by (induction b) auto

text \<open>One field: \<open>tmp_data\<close> has 20 bytes, \<open>value\<close> has 10 elements, and \<open>sscanf\<close> would store an \<open>int\<close> into the
  one byte of \<open>data\<close>. The state is \<open>value\<close>, \<open>i\<close> and the flag.\<close>

definition parse_field :: "(nat \<Rightarrow> byte list option) \<Rightarrow> (byte list \<Rightarrow> int option) \<Rightarrow> int \<Rightarrow> byte list
    \<Rightarrow> int list \<times> int \<times> int \<Rightarrow> (int list \<times> int \<times> int) option" where
  "parse_field at_addr scan data0 tmp_data st = (case st of (v, i, flag) \<Rightarrow>
     if 20 \<le> length tmp_data then None
     else do {
       r \<leftarrow> at_addr 114;
       if tmp_data = r then Some (v, i, MDIO_READ)
       else do {
         w \<leftarrow> at_addr 119;
         if tmp_data = w then Some (v, i, MDIO_WRITE)
         else (case scan tmp_data of
             Some _ \<Rightarrow> None
           | None \<Rightarrow> do { v' \<leftarrow> aset v i data0; Some (v', i + 1, flag) }) } })"

function parse_loop :: "(nat \<Rightarrow> byte list option) \<Rightarrow> (byte list \<Rightarrow> int option) \<Rightarrow> int \<Rightarrow> byte list
    \<Rightarrow> int list \<times> int \<times> int \<Rightarrow> (int list \<times> int \<times> int) option" where
  "parse_loop at_addr scan data0 buffer st = (case strstr_comma buffer of None \<Rightarrow> Some st
     | Some nr \<Rightarrow> do {
         st' \<leftarrow> parse_field at_addr scan data0 (take nr buffer) st;
         parse_loop at_addr scan data0 (drop (nr + 1) buffer) st' })"
  by pat_completeness auto
termination
  by (relation "measure (\<lambda>(_, _, _, b, _). length b)") (auto dest: strstr_comma_Some)

declare parse_loop.simps [simp del]

definition parse_input_string :: "(nat \<Rightarrow> byte list option) \<Rightarrow> (byte list \<Rightarrow> int option) \<Rightarrow> int \<Rightarrow> byte list
    \<Rightarrow> int list \<Rightarrow> int \<Rightarrow> (int \<times> int list \<times> int) option" where
  "parse_input_string at_addr scan data0 s v flag =
     map_option (\<lambda>(v', i, flag'). (0, v', flag')) (parse_loop at_addr scan data0 s (v, 0, flag))"

section \<open>The attribute\<close>

datatype bus_op = Bus_Read int int | Bus_Write int int int

definition mdio_demo_show :: int where "mdio_demo_show = 0"

definition mdio_demo_store :: "(nat \<Rightarrow> byte list option) \<Rightarrow> (byte list \<Rightarrow> int option) \<Rightarrow> int \<Rightarrow> int list \<Rightarrow> byte list \<Rightarrow> nat
    \<Rightarrow> (nat \<times> bus_op list) option" where
  "mdio_demo_store at_addr scan data0 value0 b n = do {
     (ret, v, operation) \<leftarrow> parse_input_string at_addr scan data0 b value0 MDIO_READ;
     if operation = MDIO_READ then do { x \<leftarrow> aget v 0; y \<leftarrow> aget v 1; Some (n, [Bus_Read x y]) }
     else if operation = MDIO_WRITE
     then do { x \<leftarrow> aget v 0; y \<leftarrow> aget v 1; z \<leftarrow> aget v 2; Some (n, [Bus_Write x y z]) }
     else Some (n, []) }"

definition EINVAL :: int where "EINVAL = 22"

text \<open>Probe and remove: the result, and whether the attribute is there.\<close>

definition mdio_demo_probe :: "int \<Rightarrow> int \<times> bool" where
  "mdio_demo_probe err = (if err \<noteq> 0 then (- EINVAL, False) else (0, True))"

definition mdio_demo_remove :: "bool \<Rightarrow> int \<times> bool" where
  "mdio_demo_remove attr = (0, False)"

section \<open>What the parser does\<close>

text \<open>no command works. Where nothing is mapped at the addresses 114 and 119 every command with a comma
  faults. Even if the strings \<open>r\<close> and \<open>w\<close> lay there, a command with a number before a comma would store an
  \<open>int\<close> into a \<open>char\<close>. And a command without a comma reads the registers that the stack happens to name.\<close>

theorem mdio_demo_no_command:
  assumes "length value0 = 10"
  shows "(comma \<in> set b \<and> at_addr 114 = None \<longrightarrow> mdio_demo_store at_addr scan data0 value0 b n = None)
    \<and> (b = op @ comma # num @ comma # rest \<and> comma \<notin> set op \<and> comma \<notin> set num \<and> num \<noteq> [114] \<and> num \<noteq> [119]
         \<and> at_addr 114 = Some [114] \<and> at_addr 119 = Some [119] \<and> scan num = Some k
         \<longrightarrow> mdio_demo_store at_addr scan data0 value0 b n = None)
    \<and> (comma \<notin> set b \<longrightarrow> mdio_demo_store at_addr scan data0 value0 b n = Some (n, [Bus_Read (value0 ! 0) (value0 ! 1)]))"
proof -
  have find: "strstr_comma (xs @ comma # ys) = Some (length xs)" if "comma \<notin> set xs" for xs ys
    using that by (induction xs) auto
  have store_None: "mdio_demo_store at_addr scan data0 value0 b n = None"
    if "parse_loop at_addr scan data0 b (value0, 0, MDIO_READ) = None"
    using that by (simp add: mdio_demo_store_def parse_input_string_def)
  have c1: "parse_loop at_addr scan data0 b (value0, 0, MDIO_READ) = None" if "comma \<in> set b" "at_addr 114 = None"
    using that strstr_comma_None [of b] by (subst parse_loop.simps) (auto simp: parse_field_def split: option.split)
  have c2: "parse_loop at_addr scan data0 (op @ comma # num @ comma # rest) (value0, 0, MDIO_READ) = None"
    if "comma \<notin> set op" "comma \<notin> set num" "num \<noteq> [114]" "num \<noteq> [119]" "at_addr 114 = Some [114]" "at_addr 119 = Some [119]"
      "scan num = Some k"
  proof -
    have "parse_field at_addr scan data0 num st = None" for st
      using that by (simp add: parse_field_def split: prod.split)
    then have "parse_loop at_addr scan data0 (num @ comma # rest) st = None" for st
      by (subst parse_loop.simps) (simp add: find [OF that(2)])
    then show ?thesis by (subst parse_loop.simps) (simp add: find [OF that(1)] split: Option.bind_split)
  qed
  have c3: "mdio_demo_store at_addr scan data0 value0 b n = Some (n, [Bus_Read (value0 ! 0) (value0 ! 1)])" if "comma \<notin> set b"
    using that assms strstr_comma_None [of b]
    by (simp add: mdio_demo_store_def parse_input_string_def parse_loop.simps aget_def)
  show ?thesis
  proof (intro conjI impI; (elim conjE)?)
    assume "comma \<in> set b" "at_addr 114 = None"
    then show "mdio_demo_store at_addr scan data0 value0 b n = None" by (intro store_None c1)
  next
    assume b: "b = op @ comma # num @ comma # rest"
      and rest: "comma \<notin> set op" "comma \<notin> set num" "num \<noteq> [114]" "num \<noteq> [119]" "at_addr 114 = Some [114]"
        "at_addr 119 = Some [119]" "scan num = Some k"
    show "mdio_demo_store at_addr scan data0 value0 b n = None" by (rule store_None) (simp only: b c2 [OF rest])
  qed (rule c3)
qed

theorem mdio_demo_no_command_witness:
  "mdio_demo_store (\<lambda>a. None) (\<lambda>s. None) 0 (replicate 10 7) [114, 44, 49] 3 = None
    \<and> mdio_demo_store (\<lambda>a. None) (\<lambda>s. None) 0 (replicate 10 7) [114] 1 = Some (1, [Bus_Read 7 7])"
  using mdio_demo_no_command [of "replicate 10 7" "[114, 44, 49]" "\<lambda>a. None" "\<lambda>s. None" 0 3]
    mdio_demo_no_command [of "replicate 10 7" "[114]" "\<lambda>a. None" "\<lambda>s. None" 0 1]
  by (simp add: comma_def)

end
