(* ===== verification/Kobject_Demo.thy ===== *)
theory Kobject_Demo
  imports Prelude
begin

text \<open>
  The reference counts of \<open>Algorithem/kobject/kobject.c\<close>: what each command of the module does when it is
  loaded, and what unloading it does then. The kernel's part is its documented rule: a kobject is
  created with one reference, \<open>kobject_get\<close> takes one, \<open>kobject_put\<close> gives one back and releases the
  object with the last; \<open>kobject_put\<close> of \<open>NULL\<close> does nothing. \<open>None\<close> is a use of a released object.
\<close>

definition KOBJECT_CREATE_AND_ADD :: int where "KOBJECT_CREATE_AND_ADD = 0x00"
definition KOBJECT_GET :: int where "KOBJECT_GET = 0x01"
definition KOBJECT_GET_PATH :: int where "KOBJECT_GET_PATH = 0x02"
definition KOBJECT_INIT :: int where "KOBJECT_INIT = 0x04"

definition ENOMEM :: int where "ENOMEM = 12"
definition EINVAL :: int where "EINVAL = 22"

section \<open>State\<close>

text \<open>The global pointers \<open>kobj\<close> (with the reference count of its object, 0 once it is released) and \<open>bdev\<close>
  (with its size), and the paths that \<open>kobject_get_path\<close> allocated.\<close>

record module_state =
  kobj :: "nat option"
  bdev :: "int option"
  paths :: nat

record env =
  create_ok :: bool
  path_ok :: bool
  kzalloc_ok :: bool

definition unloaded :: module_state where
  "unloaded = \<lparr>kobj = None, bdev = None, paths = 0\<rparr>"

fun kref_get :: "nat option \<Rightarrow> nat option option" where
  "kref_get None = Some None"
| "kref_get (Some n) = (if n = 0 then None else Some (Some (n + 1)))"

fun kref_put :: "nat option \<Rightarrow> nat option option" where
  "kref_put None = Some None"
| "kref_put (Some n) = (if n = 0 then None else Some (Some (n - 1)))"

definition kobject_get :: "module_state \<Rightarrow> module_state option" where
  "kobject_get s = map_option (\<lambda>k. s\<lparr>kobj := k\<rparr>) (kref_get (kobj s))"

definition kobject_put :: "module_state \<Rightarrow> module_state option" where
  "kobject_put s = map_option (\<lambda>k. s\<lparr>kobj := k\<rparr>) (kref_put (kobj s))"

section \<open>Attributes\<close>

definition demo_attr_show :: int where "demo_attr_show = 0"
definition demo_attr_store :: int where "demo_attr_store = 0"

text \<open>\<open>scan\<close> is what \<open>sscanf("%d")\<close> reads, \<open>decimal\<close> what \<open>sprintf("%d\n")\<close> prints.\<close>

definition size_show :: "(int \<Rightarrow> byte list) \<Rightarrow> int \<Rightarrow> int \<times> byte list" where
  "size_show decimal dev_size = (int (length (decimal dev_size)), decimal dev_size)"

definition size_store :: "(byte list \<Rightarrow> int option) \<Rightarrow> int \<Rightarrow> byte list \<Rightarrow> nat \<Rightarrow> int \<times> int" where
  "size_store scan dev_size b n = (int n, case scan b of None \<Rightarrow> dev_size | Some v \<Rightarrow> v)"

definition demo_free :: "module_state \<Rightarrow> module_state" where
  "demo_free s = s\<lparr>bdev := None\<rparr>"

section \<open>Loading and unloading\<close>

text \<open>The label \<open>err_get\<close> is also where every command but a failing allocation ends, with 0.\<close>

definition err_get :: "module_state \<Rightarrow> (int \<times> module_state) option" where
  "err_get s = map_option (Pair 0) (kobject_put s)"

definition kobject_demo_init :: "env \<Rightarrow> int \<Rightarrow> module_state \<Rightarrow> (int \<times> module_state) option" where
  "kobject_demo_init e cmd s =
     (if cmd = KOBJECT_CREATE_AND_ADD then
        (if \<not> create_ok e then Some (- ENOMEM, s\<lparr>kobj := None\<rparr>) else err_get (s\<lparr>kobj := Some 1\<rparr>))
      else if cmd = KOBJECT_GET then
        (if \<not> create_ok e then Some (- ENOMEM, s\<lparr>kobj := None\<rparr>)
         else Option.bind (kobject_get (s\<lparr>kobj := Some 1\<rparr>)) err_get)
      else if cmd = KOBJECT_GET_PATH then
        (if \<not> create_ok e then Some (- ENOMEM, s\<lparr>kobj := None\<rparr>)
         else do {
           t \<leftarrow> kobject_get (s\<lparr>kobj := Some 1\<rparr>);
           if \<not> path_ok e then err_get t else err_get (t\<lparr>paths := paths t + 1\<rparr>) })
      else if cmd = KOBJECT_INIT then
        (if \<not> kzalloc_ok e then Some (- ENOMEM, s) else err_get (s\<lparr>bdev := Some 0\<rparr>))
      else err_get s)"

definition kobject_demo_exit :: "module_state \<Rightarrow> module_state option" where
  "kobject_demo_exit s = (case bdev s of Some _ \<Rightarrow> Some (demo_free s) | None \<Rightarrow> kobject_put s)"

section \<open>What loading and unloading do\<close>

lemmas kobject_defs = kobject_demo_init_def kobject_demo_exit_def err_get_def kobject_get_def kobject_put_def demo_free_def
  KOBJECT_CREATE_AND_ADD_def KOBJECT_GET_def KOBJECT_GET_PATH_def KOBJECT_INIT_def unloaded_def ENOMEM_def

text \<open>loading the module never uses a released object. Unloading it uses one exactly after the command
  that only creates the kobject: there loading already gave the only reference back and kept the
  pointer. After every other command unloading leaves no reference.\<close>

theorem kobject_demo_refcounts:
  "\<exists>r s. kobject_demo_init e cmd unloaded = Some (r, s)
    \<and> (r = 0 \<longrightarrow> (kobject_demo_exit s = None \<longleftrightarrow> cmd = KOBJECT_CREATE_AND_ADD)
         \<and> (\<forall>t. kobject_demo_exit s = Some t \<longrightarrow> (kobj t = None \<or> kobj t = Some 0) \<and> bdev t = None))"
  by (auto simp: kobject_defs)

theorem kobject_demo_refcounts_witness:
  "\<exists>s. kobject_demo_init \<lparr>create_ok = True, path_ok = True, kzalloc_ok = True\<rparr> KOBJECT_CREATE_AND_ADD unloaded = Some (0, s)
    \<and> kobject_demo_exit s = None"
proof -
  let ?e = "\<lparr>create_ok = True, path_ok = True, kzalloc_ok = True\<rparr>"
  obtain r s where s: "kobject_demo_init ?e KOBJECT_CREATE_AND_ADD unloaded = Some (r, s)"
      "r = 0 \<longrightarrow> (kobject_demo_exit s = None \<longleftrightarrow> KOBJECT_CREATE_AND_ADD = KOBJECT_CREATE_AND_ADD)"
    using kobject_demo_refcounts [of ?e KOBJECT_CREATE_AND_ADD] by blast
  from s(1) have "r = 0" by (simp add: kobject_demo_init_def err_get_def KOBJECT_CREATE_AND_ADD_def unloaded_def split: option.splits)
  with s show ?thesis by blast
qed

text \<open>the path is never freed, and a path that could not be allocated is not reported: loading returns 0.\<close>

theorem kobject_demo_path_leak:
  assumes "create_ok e"
  shows "\<exists>s t. kobject_demo_init e KOBJECT_GET_PATH unloaded = Some (0, s) \<and> kobject_demo_exit s = Some t
    \<and> paths t = (if path_ok e then 1 else 0)"
  using assms by (auto simp: kobject_defs)

theorem kobject_demo_path_leak_witness:
  "\<exists>s t. kobject_demo_init \<lparr>create_ok = True, path_ok = True, kzalloc_ok = True\<rparr> KOBJECT_GET_PATH unloaded = Some (0, s)
    \<and> kobject_demo_exit s = Some t \<and> paths t = 1"
  using kobject_demo_path_leak [of "\<lparr>create_ok = True, path_ok = True, kzalloc_ok = True\<rparr>"] by simp

end
