(* ===== verification/Device_Tree.thy ===== *)
theory Device_Tree
  imports Prelude
begin

text \<open>
  The parts of \<open>Device_tree/device_tree.c\<close> that compute something: the emulated MDIO bus, the mapping of the
  device's address resources, and the reading of a list of strings. The functions of the kernel on device trees are the environment,
  \<open>None\<close> is an access through a null pointer or outside an array. The other commands of the module call
  kernel functions one after the other and print what they return.
\<close>

definition EINVAL :: int where "EINVAL = 22"

definition RESOURCE_REG_NUM :: nat where "RESOURCE_REG_NUM = 3"

definition DTS_PHY_ID :: "16 word" where "DTS_PHY_ID = 0x141"
definition MII_PHY_ID :: int where "MII_PHY_ID = 0x02"
definition PHY_ID :: int where "PHY_ID = 0x01"

section \<open>The MDIO bus\<close>

definition fixup_phy_copper_regs :: "16 word list" where
  "fixup_phy_copper_regs = [0x00, 0x00, 0x141, 0x9C0, 0x280, 0x00, 0x00, 0x00, 0x00, 0x00, 0x00, 0x00, 0x00, 0x00, 0x00]"

text \<open>The property \<open>phy-handle\<close> of the device, whether the bus can be allocated, and whether \<open>get_phy_device\<close> finds
  a device.\<close>

record env =
  phy_handle :: "nat option"
  bus_alloc :: bool
  phy_device :: bool

text \<open>\<open>be32_to_cpup(ph)\<close> reads through \<open>ph\<close>. That the node with this handle is not found, or
  that its property \<open>reg\<close> is out of range, is only reported.\<close>

definition DTS_mdio_read :: "env \<Rightarrow> int \<Rightarrow> int \<Rightarrow> 16 word option" where
  "DTS_mdio_read e phy_addr reg_num = do {
     ph \<leftarrow> phy_handle e;
     aget fixup_phy_copper_regs reg_num }"

definition DTS_mdio_write :: "env \<Rightarrow> int \<Rightarrow> int \<Rightarrow> 16 word \<Rightarrow> int" where
  "DTS_mdio_write e phy_addr reg_num val = 0"

text \<open>The result of the probe: an error, or its end, where nothing is returned. \<open>phy\<close> is used after the message that it is
  null.\<close>

datatype probed = Returns int | Falls_Off

definition DTS_mdio_probe :: "env \<Rightarrow> probed option" where
  "DTS_mdio_probe e =
     (if \<not> bus_alloc e then Some (Returns (- EINVAL))
      else do {
        phy_id \<leftarrow> DTS_mdio_read e PHY_ID MII_PHY_ID;
        if phy_id = DTS_PHY_ID \<and> \<not> phy_device e then None else Some Falls_Off })"

text \<open>the bus answers exactly the first 15 registers, and from a table that the address of the PHY has no part in: a read of
  one of the registers 15 to 31, which the comment on it allows, leaves the table, and so does every read
  of a device without \<open>phy-handle\<close>.\<close>

theorem DTS_mdio_read_range:
  "(\<exists>v. DTS_mdio_read e phy_addr reg_num = Some v) \<longleftrightarrow> phy_handle e \<noteq> None \<and> 0 \<le> reg_num \<and> reg_num < 15"
  by (cases "phy_handle e") (auto simp: DTS_mdio_read_def aget_def fixup_phy_copper_regs_def)

text \<open>the identifier of the PHY is always found, so with a bus and a handle the probe ends well exactly when
  \<open>get_phy_device\<close> finds the device, and goes through a null pointer otherwise; it never returns success.\<close>

theorem DTS_mdio_probe_result:
  "DTS_mdio_probe e = (if \<not> bus_alloc e then Some (Returns (- EINVAL))
     else if phy_handle e = None \<or> \<not> phy_device e then None else Some Falls_Off)"
  by (cases "phy_handle e")
    (auto simp: DTS_mdio_probe_def DTS_mdio_read_def aget_def fixup_phy_copper_regs_def MII_PHY_ID_def DTS_PHY_ID_def)

section \<open>Address resources\<close>

text \<open>\<open>DTS_ADDR_RESOURCE\<close>: what \<open>of_address_to_resource\<close> and \<open>devm_ioremap_resource\<close> give for an index, an
  error or a range and its mapping. The state is the mappings held.\<close>

record res_env =
  of_address_to_resource :: "nat \<Rightarrow> int + (nat \<times> nat)"
  devm_ioremap_resource :: "nat \<times> nat \<Rightarrow> int + nat"

text \<open>The first loop, from index \<open>idx\<close> on: the error that ends it, and the mappings so far.\<close>

function map_loop :: "res_env \<Rightarrow> nat \<Rightarrow> nat list \<Rightarrow> int option \<times> nat list" where
  "map_loop e idx base = (if RESOURCE_REG_NUM \<le> idx then (None, base)
     else case of_address_to_resource e idx of Inl err \<Rightarrow> (Some err, base)
       | Inr iomem \<Rightarrow> (case devm_ioremap_resource e iomem of Inl err \<Rightarrow> (Some err, base)
          | Inr b \<Rightarrow> map_loop e (idx + 1) (base @ [b])))"
  by pat_completeness auto
termination by (relation "measure (\<lambda>(_, idx, _). RESOURCE_REG_NUM - idx)") auto

declare map_loop.simps [simp del]

text \<open>The command: its result and the mappings that it leaves to the driver core.\<close>

definition addr_resource :: "res_env \<Rightarrow> int \<times> nat list" where
  "addr_resource e = (case map_loop e 0 [] of (Some err, base) \<Rightarrow> (err, base)
     | (None, base) \<Rightarrow> (0, fold remove1 base base))"

definition mapped_at :: "res_env \<Rightarrow> nat \<Rightarrow> nat option" where
  "mapped_at e idx = (case of_address_to_resource e idx of Inl _ \<Rightarrow> None
     | Inr iomem \<Rightarrow> (case devm_ioremap_resource e iomem of Inl _ \<Rightarrow> None | Inr b \<Rightarrow> Some b))"

definition map_error :: "res_env \<Rightarrow> nat \<Rightarrow> int" where
  "map_error e idx = (case of_address_to_resource e idx of Inl err \<Rightarrow> err
     | Inr iomem \<Rightarrow> (case devm_ioremap_resource e iomem of Inl err \<Rightarrow> err | Inr b \<Rightarrow> 0))"

lemma map_loop_step: "i < 3 \<Longrightarrow> map_loop e i base =
    (case mapped_at e i of None \<Rightarrow> (Some (map_error e i), base) | Some b \<Rightarrow> map_loop e (Suc i) (base @ [b]))"
  by (subst map_loop.simps) (auto simp: mapped_at_def map_error_def RESOURCE_REG_NUM_def split: sum.splits)

lemma map_loop_end: "map_loop e (Suc 2) base = (None, base)"
  by (simp add: map_loop.simps RESOURCE_REG_NUM_def)

lemma fold_remove1_self: "fold remove1 xs xs = []"
  by (induction xs) simp_all

text \<open>when all three resources can be mapped, the command unmaps them again and succeeds; otherwise it ends
  with the error of the first that cannot, and exactly the ones before it stay mapped, for the driver core
  to release.\<close>

theorem addr_resource_result:
  "addr_resource e = (case dropWhile (\<lambda>i. mapped_at e i \<noteq> None) [0, 1, 2] of [] \<Rightarrow> (0, [])
     | i # _ \<Rightarrow> (map_error e i, map (the \<circ> mapped_at e) [0..<i]))"
proof -
  have loop: "map_loop e 0 [] = (case mapped_at e 0 of None \<Rightarrow> (Some (map_error e 0), [])
     | Some a \<Rightarrow> (case mapped_at e 1 of None \<Rightarrow> (Some (map_error e 1), [a])
     | Some b \<Rightarrow> (case mapped_at e 2 of None \<Rightarrow> (Some (map_error e 2), [a, b]) | Some c \<Rightarrow> (None, [a, b, c]))))"
    using map_loop_step [of 0 e "[]"] map_loop_step [of 1 e] map_loop_step [of 2 e] map_loop_end [of e]
    by (simp add: numeral_2_eq_2 split: option.split)
  show ?thesis
    using fold_remove1_self
    by (cases "mapped_at e 0"; cases "mapped_at e 1"; cases "mapped_at e 2")
      (simp_all add: addr_resource_def loop upt_rec numeral_2_eq_2 del: fold_simps)
qed

section \<open>Strings\<close>

text \<open>The list of strings in the command \<open>DTS_PROPERTY_OPERATION\<close>: \<open>prop\<close> gives the strings of a property of the
  node, if it has one. \<open>of_property_count_strings\<close> and \<open>of_property_read_string_array\<close> return negative errors for
  a missing property; the array has room for four strings. What is printed is the list of the strings
  read by index and that of the array.\<close>

definition count_strings :: "(string \<Rightarrow> string list option) \<Rightarrow> string \<Rightarrow> int" where
  "count_strings prop name = (case prop name of None \<Rightarrow> - EINVAL | Some ss \<Rightarrow> int (length ss))"

definition read_string_index :: "(string \<Rightarrow> string list option) \<Rightarrow> string \<Rightarrow> nat \<Rightarrow> string option" where
  "read_string_index prop name i = (case prop name of None \<Rightarrow> None | Some ss \<Rightarrow> if i < length ss then Some (ss ! i) else None)"

definition STRING_ARRAY :: nat where "STRING_ARRAY = 4"

definition print_strings :: "(string \<Rightarrow> string list option) \<Rightarrow> (string option list \<times> string list) option" where
  "print_strings prop = (let n = count_strings prop ''viros-strings'' in
     if n < 0 then Some ([], [])
     else let by_index = map (\<lambda>i. read_string_index prop ''viros-stings'' i) [0..<nat n] in
       case prop ''viros-strings'' of None \<Rightarrow> Some (by_index, [])
       | Some ss \<Rightarrow> if STRING_ARRAY < nat n then None else Some (by_index, take (nat n) ss))"

text \<open>a device with a list of up to four strings gets them printed from the array, but the reading by index,
  which spells the property's name differently, finds none of them; a list of more than four overruns
  the array.\<close>

theorem print_strings_result:
  assumes "prop ''viros-strings'' = Some ss" "prop ''viros-stings'' = None"
  shows "print_strings prop = (if length ss \<le> 4 then Some (replicate (length ss) None, ss) else None)"
proof -
  have "map (read_string_index prop ''viros-stings'') [0..<n] = replicate n None" for n
    using assms(2) by (induction n) (simp_all add: read_string_index_def replicate_append_same)
  then show ?thesis using assms by (simp add: print_strings_def count_strings_def STRING_ARRAY_def Let_def)
qed

theorem print_strings_result_witness:
  "print_strings [''viros-strings'' \<mapsto> [''a'', ''rootfs'']] = Some ([None, None], [''a'', ''rootfs''])"
  using print_strings_result [of "[''viros-strings'' \<mapsto> [''a'', ''rootfs'']]" "[''a'', ''rootfs'']"]
  by (simp add: numeral_eq_Suc)

end
