(* ===== verification/Fork_Demo.thy ===== *)
theory Fork_Demo
  imports Prelude
begin

text \<open>
  Copy on write, \<open>process_schedule/fork/cow.c\<close>: each option \<open>-f\<close> makes the process that reads it fork, and the loop over the
  options goes on in both processes, each in a memory of its own. A child of \<open>vfork\<close> runs in the memory of its parent and may do
  nothing but end or execute another program; this one goes on with \<open>getopt\<close> and prints, so that what \<open>-v\<close> does is undefined.
  What a process prints is the list of the values of \<open>data\<close> that it shows, on a terminal, where no line stays in a buffer.
\<close>

datatype copt = Opt_f | Opt_v | Opt_other

definition data0 :: int where "data0 = 10"

text \<open>\<open>child_process\<close> shows \<open>data\<close>, sets it to 20 and shows it again.\<close>

definition child_process :: "int \<Rightarrow> int list" where
  "child_process d = (let shown = d; d' = 20 in [shown, d'])"

text \<open>\<open>cow_run ok opts path child d\<close>: a process that has the options \<open>opts\<close> before it, whose \<open>pid\<close> is 0 if \<open>child\<close>, and whose
  \<open>data\<close> is \<open>d\<close>. \<open>path\<close> tells the processes apart: at each option \<open>-f\<close> so far, whether it is the child. \<open>ok\<close> says which calls of \<open>fork\<close>
  succeed; one that fails makes \<open>pid\<close> -1. The outputs of all processes that come of it, its own last; \<open>None\<close> is undefined.\<close>

fun cow_run :: "(bool list \<Rightarrow> bool) \<Rightarrow> copt list \<Rightarrow> bool list \<Rightarrow> bool \<Rightarrow> int \<Rightarrow> int list list option" where
  "cow_run ok [] path child d = Some [if child then child_process d else [d]]"
| "cow_run ok (Opt_f # os) path child d = (if ok path then
     (case cow_run ok os (path @ [True]) True d of None \<Rightarrow> None
      | Some cs \<Rightarrow> map_option ((@) cs) (cow_run ok os (path @ [False]) False d))
     else cow_run ok os (path @ [False]) False d)"
| "cow_run ok (Opt_v # os) path child d = None"
| "cow_run ok (Opt_other # os) path child d = cow_run ok os path child d"

text \<open>\<open>pid\<close> is not initialised.\<close>

definition cow_main :: "(bool list \<Rightarrow> bool) \<Rightarrow> copt list \<Rightarrow> int \<Rightarrow> int list list option" where
  "cow_main ok opts stack_pid = cow_run ok opts [] (stack_pid = 0) data0"

abbreviation forks :: "copt list \<Rightarrow> nat" where
  "forks opts \<equiv> count_list opts Opt_f"

section \<open>What the processes show\<close>

lemma cow_run_shows:
  assumes "Opt_v \<notin> set os"
  shows "\<exists>outs. cow_run ok os path child d = Some outs \<and> outs \<noteq> [] \<and> set outs \<subseteq> {[d], [d, 20]} \<and> length outs \<le> 2 ^ forks os
    \<and> last outs = (if child \<and> forks os = 0 then [d, 20] else [d])"
  using assms
proof (induction ok os path child d rule: cow_run.induct)
  case (2 ok os path child d)
  then have v: "Opt_v \<notin> set os" by simp
  show ?case
  proof (cases "ok path")
    case True
    obtain cs where cs: "cow_run ok os (path @ [True]) True d = Some cs" "set cs \<subseteq> {[d], [d, 20]}" "length cs \<le> 2 ^ forks os"
      using "2.IH"(1) [OF True v] by blast
    obtain ps where "cow_run ok os (path @ [False]) False d = Some ps" "ps \<noteq> []" "set ps \<subseteq> {[d], [d, 20]}" "length ps \<le> 2 ^ forks os"
        "last ps = [d]"
      using "2.IH"(2) [OF True cs(1) v] by auto
    with cs True show ?thesis by auto
  next
    case False
    obtain ps where "cow_run ok os (path @ [False]) False d = Some ps" "ps \<noteq> []" "set ps \<subseteq> {[d], [d, 20]}" "length ps \<le> 2 ^ forks os"
        "last ps = [d]"
      using "2.IH"(3) [OF False v] by auto
    with False show ?thesis by auto
  qed
qed (auto simp: child_process_def)

text \<open>When every call succeeds: the number of processes, and that half of them are children by their last \<open>fork\<close>.\<close>

lemma cow_run_counts:
  assumes "Opt_v \<notin> set os"
  shows "\<exists>outs. cow_run (\<lambda>_. True) os path child d = Some outs \<and> length outs = 2 ^ forks os
    \<and> 2 * count_list outs [d, 20] = (if forks os = 0 then if child then 2 else 0 else 2 ^ forks os)"
  using assms
proof (induction os arbitrary: path child)
  case (Cons x os)
  have v: "Opt_v \<notin> set os" using Cons.prems(1) by simp
  show ?case
  proof (cases x)
    case Opt_f
    obtain cs where cs: "cow_run (\<lambda>_. True) os (path @ [True]) True d = Some cs" "length cs = 2 ^ forks os"
        "2 * count_list cs [d, 20] = (if forks os = 0 then 2 else 2 ^ forks os)"
      using Cons.IH [OF v, of "path @ [True]" True] unfolding if_True by blast
    obtain ps where ps: "cow_run (\<lambda>_. True) os (path @ [False]) False d = Some ps" "length ps = 2 ^ forks os"
        "2 * count_list ps [d, 20] = (if forks os = 0 then 0 else 2 ^ forks os)"
      using Cons.IH [OF v, of "path @ [False]" False] unfolding if_False by blast
    have "2 * count_list (cs @ ps) [d, 20] = 2 ^ Suc (forks os)"
      using cs(3) ps(3) by (simp add: distrib_left split: if_splits)
    then show ?thesis using cs(1,2) ps(1,2) Opt_f by simp
  next
    case Opt_other
    have "cow_run (\<lambda>_. True) (x # os) path child d = cow_run (\<lambda>_. True) os path child d" "forks (x # os) = forks os"
      using Opt_other by simp_all
    then show ?thesis using Cons.IH [OF v, of path child] by (simp only:)
  qed (use Cons.prems in simp)
qed (simp add: child_process_def)

text \<open>C39: with at least one option \<open>-f\<close> and none \<open>-v\<close>, unknown options or not, whatever the uninitialised \<open>pid\<close> holds and whichever calls
  of \<open>fork\<close> fail, every process shows its own 10 first, since no child's store reaches the memory of another, and the first
  process shows nothing else. There are at most two to the number of options \<open>-f\<close> processes; when no call fails there are
  that many, and half of them show the 20 that they have stored.\<close>

theorem cow_main_copies:
  assumes "Opt_f \<in> set opts" "Opt_v \<notin> set opts"
  shows "\<exists>outs. cow_main ok opts stack_pid = Some outs \<and> set outs \<subseteq> {[10], [10, 20]} \<and> last outs = [10] \<and> length outs \<le> 2 ^ forks opts
    \<and> ((\<forall>p. ok p) \<longrightarrow> length outs = 2 ^ forks opts \<and> 2 * count_list outs [10, 20] = length outs)"
proof -
  have f: "forks opts \<noteq> 0" using assms(1) by (simp add: count_list_0_iff)
  obtain outs where outs: "cow_main ok opts stack_pid = Some outs" "set outs \<subseteq> {[10], [10, 20]}" "last outs = [10]"
      "length outs \<le> 2 ^ forks opts"
    using cow_run_shows [OF assms(2), of ok "[]" "stack_pid = 0" data0] f by (auto simp: cow_main_def data0_def)
  have "length outs = 2 ^ forks opts \<and> 2 * count_list outs [10, 20] = length outs" if "\<forall>p. ok p"
  proof -
    from that have "ok = (\<lambda>_. True)" by auto
    then show ?thesis
      using cow_run_counts [OF assms(2), of "[]" "stack_pid = 0" data0] f outs(1) by (auto simp: cow_main_def data0_def)
  qed
  with outs show ?thesis by blast
qed

theorem cow_main_copies_witness:
  "\<exists>outs. cow_main (\<lambda>p. True) [Opt_f, Opt_other, Opt_f] 0 = Some outs \<and> last outs = [10] \<and> length outs = 4 \<and> count_list outs [10, 20] = 2"
  using cow_main_copies [of "[Opt_f, Opt_other, Opt_f]" "\<lambda>p. True" 0] by auto

end
