(* ===== verification/Pipe_Talk.thy ===== *)
theory Pipe_Talk
  imports Prelude
begin

text \<open>
  The two conversations of \<open>Application/ipc/fifo\<close>: server and client over two named pipes
  (\<open>fifo_sev.c\<close>, \<open>fifo_cli.c\<close>), and child and parent over two pipes (\<open>pipe.c\<close>). Each program is the list
  of its calls, run beside the other in any interleaving. The failures of \<open>mkfifo\<close>, \<open>pipe\<close> and
  \<open>fork\<close> and the prompts are left out. Pipes are those of POSIX: opening a named pipe waits for the other
  end, reading waits for bytes as long as a writer is there, and what \<open>gets\<close> reads is one typed line.
\<close>

section \<open>Processes\<close>

datatype instr = Open nat | Gets | Write nat | Clear | Read nat | Print | Close nat | Wait

record proc =
  code :: "instr list"
  buf :: "byte list"
  typed :: "byte list"
  shown :: "byte list list"

text \<open>\<open>chan n\<close>: the bytes in pipe \<open>n\<close>; \<open>writer n\<close>: some process can still write to it.\<close>

record sys =
  procs :: "proc list"
  chan :: "nat \<Rightarrow> byte list"
  writer :: "nat \<Rightarrow> bool"

datatype 'a result = Blocked | Fault | Next 'a

text \<open>\<open>gets\<close> stores the line and a zero, whatever the size of the buffer.\<close>

definition gets :: "byte list \<Rightarrow> byte list \<Rightarrow> byte list option" where
  "gets line b = memcpy b 0 (line @ [0]) 0 (int (length line) + 1)"

text \<open>\<open>read(fd, buf, 100)\<close> and \<open>memset(buf, 0, strlen(buf))\<close>.\<close>

definition read_into :: "byte list \<Rightarrow> byte list \<Rightarrow> byte list option" where
  "read_into bytes b = memcpy b 0 bytes 0 (int (length (take 100 bytes)))"

definition clear :: "byte list \<Rightarrow> byte list option" where
  "clear b = do { t \<leftarrow> string_at b; memset b 0 0 (int (length t)) }"

definition checked :: "'a option \<Rightarrow> ('a \<Rightarrow> 'b) \<Rightarrow> 'b result" where
  "checked x f = (case x of None \<Rightarrow> Fault | Some v \<Rightarrow> Next (f v))"

text \<open>The next call of process \<open>i\<close>; \<open>Open\<close> is passed when both have come to it.\<close>

definition talk_step :: "nat \<Rightarrow> sys \<Rightarrow> sys result" where
  "talk_step i s = (let p = procs s ! i; q = procs s ! (1 - i);
       cont = (\<lambda>p'. s\<lparr>procs := (procs s)[i := p'\<lparr>code := tl (code p)\<rparr>]\<rparr>) in
     case code p of [] \<Rightarrow> Blocked
     | Open n # _ \<Rightarrow> (if code q \<noteq> [] \<and> hd (code q) = Open n
          then Next (s\<lparr>procs := map (\<lambda>r. r\<lparr>code := tl (code r)\<rparr>) (procs s)\<rparr>) else Blocked)
     | Gets # _ \<Rightarrow> checked (gets (typed p) (buf p)) (\<lambda>b. cont (p\<lparr>buf := b\<rparr>))
     | Write n # _ \<Rightarrow> checked (string_at (buf p)) (\<lambda>t. (cont p)\<lparr>chan := (chan s)(n := chan s n @ t)\<rparr>)
     | Clear # _ \<Rightarrow> checked (clear (buf p)) (\<lambda>b. cont (p\<lparr>buf := b\<rparr>))
     | Read n # _ \<Rightarrow> (if chan s n = [] \<and> writer s n then Blocked
          else checked (read_into (chan s n) (buf p)) (\<lambda>b. (cont (p\<lparr>buf := b\<rparr>))\<lparr>chan := (chan s)(n := drop 100 (chan s n))\<rparr>))
     | Print # _ \<Rightarrow> checked (string_at (buf p)) (\<lambda>t. cont (p\<lparr>shown := shown p @ [t]\<rparr>))
     | Close n # _ \<Rightarrow> Next ((cont p)\<lparr>writer := (writer s)(n := False)\<rparr>)
     | Wait # _ \<Rightarrow> (if code q = [] then Next (cont p) else Blocked))"

fun talk_run :: "nat list \<Rightarrow> sys \<Rightarrow> sys result" where
  "talk_run [] s = Next s"
| "talk_run (i # is) s = (case talk_step i s of Next t \<Rightarrow> talk_run is t | r \<Rightarrow> r)"

section \<open>The programs\<close>

text \<open>Pipe 1 is \<open>FIFO1\<close> and \<open>fd1\<close>, pipe 2 is \<open>FIFO2\<close> and \<open>fd2\<close>. The closing of a writing end at the end of
  a process is the last call.\<close>

definition fifo_server :: "instr list" where
  "fifo_server = [Open 1, Open 2, Gets, Write 2, Clear, Read 1, Print]"

definition fifo_client :: "instr list" where
  "fifo_client = [Open 1, Open 2, Read 2, Print, Gets, Write 1, Close 1]"

definition pipe_child :: "instr list" where
  "pipe_child = [Gets, Write 1, Read 2, Print, Close 1]"

definition pipe_parent :: "instr list" where
  "pipe_parent = [Read 1, Print, Gets, Write 2, Wait]"

definition talk_start :: "instr list \<Rightarrow> byte list \<Rightarrow> instr list \<Rightarrow> byte list \<Rightarrow> sys" where
  "talk_start c0 l0 c1 l1 = \<lparr>procs = [\<lparr>code = c0, buf = replicate 100 0, typed = l0, shown = []\<rparr>,
       \<lparr>code = c1, buf = replicate 100 0, typed = l1, shown = []\<rparr>],
     chan = (\<lambda>n. []), writer = (\<lambda>n. True)\<rparr>"

definition finished :: "sys \<Rightarrow> bool" where
  "finished s \<longleftrightarrow> list_all (\<lambda>p. code p = []) (procs s)"

text \<open>No process can go on.\<close>

definition stuck :: "sys \<Rightarrow> bool" where
  "stuck s \<longleftrightarrow> talk_step 0 s = Blocked \<and> talk_step 1 s = Blocked"

text \<open>A line that fits, and the buffers that occur.\<close>

definition fits :: "byte list \<Rightarrow> bool" where
  "fits l \<longleftrightarrow> length l < 100 \<and> 0 \<notin> set l"

definition pad :: "byte list \<Rightarrow> byte list" where
  "pad t = t @ replicate (100 - length t) 0"

definition over :: "byte list \<Rightarrow> byte list \<Rightarrow> byte list" where
  "over l b = l @ drop (length l) b"

lemma pad_Nil: "replicate 100 0 = pad []"
  by (simp add: pad_def)

lemma length_pad: "length l < 100 \<Longrightarrow> length (pad l) = 100"
  by (simp add: pad_def)

lemma pad_zero: "length l < 100 \<Longrightarrow> pad l = l @ 0 # replicate (99 - length l) 0"
proof -
  assume "length l < 100"
  then have "100 - length l = Suc (99 - length l)" by linarith
  then show ?thesis by (simp add: pad_def)
qed

lemma string_at_pad: "fits l \<Longrightarrow> string_at (pad l) = Some l"
  by (simp add: fits_def pad_zero string_at_append)

lemma gets_buf:
  assumes "length l < 100" "length b = 100"
  shows "gets l b = Some (l @ 0 # drop (Suc (length l)) b)"
  using assms by (simp add: gets_def memcpy_def nat_add_distrib)

lemma pad_line: "length l < 100 \<Longrightarrow> l @ 0 # drop (Suc (length l)) (pad []) = pad l"
  using pad_zero [of l] by (simp flip: pad_Nil)

lemma clear_pad: "fits l \<Longrightarrow> clear (pad l) = Some (pad [])"
proof -
  assume l: "fits l"
  then have "length l < 100" by (simp add: fits_def)
  then have "replicate (length l) 0 @ replicate (100 - length l) (0 :: byte) = replicate 100 0"
    by (simp flip: replicate_add)
  then show ?thesis using l by (simp add: clear_def string_at_pad memset_def fits_def length_pad) (simp add: pad_def)
qed

lemma read_pad: "length l < 100 \<Longrightarrow> length b = 100 \<Longrightarrow> read_into l b = Some (over l b)"
  by (simp add: read_into_def memcpy_def over_def)

lemma over_pad: "over l (pad []) = pad l"
  by (simp add: over_def pad_def)

lemma over_pad_shorter:
  assumes "fits l" "fits m"
  shows "string_at (over l (pad m)) = Some (l @ drop (length l) m)"
proof -
  have "over l (pad m) = (l @ drop (length l) m) @ 0 # replicate (99 - max (length l) (length m)) 0"
  proof (cases "length l \<le> length m")
    case True then show ?thesis using assms by (simp add: over_def pad_zero fits_def)
  next
    case False
    then have "100 - length l = Suc (99 - length l)" using assms(1) unfolding fits_def by linarith
    then show ?thesis using False assms by (simp add: over_def pad_def fits_def max_def)
  qed
  moreover have "0 \<notin> set (l @ drop (length l) m)" using assms set_drop_subset [of "length l" m] by (auto simp: fits_def)
  ultimately show ?thesis using string_at_append by metis
qed

section \<open>The named pipes\<close>

text \<open>The state when the server has made \<open>i\<close> and the client \<open>j\<close> of its calls.\<close>

definition fifo_state :: "byte list \<Rightarrow> byte list \<Rightarrow> nat \<Rightarrow> nat \<Rightarrow> sys" where
  "fifo_state a b i j = \<lparr>procs =
       [\<lparr>code = drop i fifo_server, buf = (if i = 3 \<or> i = 4 then pad a else if i \<ge> 6 then pad b else pad []),
          typed = a, shown = (if i \<ge> 7 then [b] else [])\<rparr>,
        \<lparr>code = drop j fifo_client, buf = (if j \<ge> 5 then b @ 0 # drop (Suc (length b)) (pad a) else if j \<ge> 3 then pad a else pad []),
          typed = b, shown = (if j \<ge> 4 then [a] else [])\<rparr>],
     chan = (\<lambda>n. [])(2 := (if i \<ge> 4 \<and> j < 3 then a else []), 1 := (if j \<ge> 6 \<and> i < 6 then b else [])),
     writer = (\<lambda>n. True)(1 := j < 7)\<rparr>"

definition fifo_places :: "(nat \<times> nat) list" where
  "fifo_places = [(0, 0), (1, 1), (2, 2), (3, 2), (4, 2), (5, 2), (4, 3), (5, 3), (4, 4), (5, 4), (4, 5), (5, 5),
     (4, 6), (5, 6), (4, 7), (5, 7), (6, 6), (7, 6), (6, 7), (7, 7)]"

definition fifo_legal :: "byte list \<Rightarrow> nat \<times> nat \<Rightarrow> bool" where
  "fifo_legal b ij \<longleftrightarrow> ij \<in> set fifo_places \<and> (ij \<in> {(6, 6), (7, 6)} \<longrightarrow> b \<noteq> [])"

definition fifo_next :: "nat \<Rightarrow> nat \<times> nat \<Rightarrow> nat \<times> nat" where
  "fifo_next k = (\<lambda>(i, j). if i < 2 then (i + 1, j + 1) else if k = 0 then (i + 1, j) else (i, j + 1))"

lemma string_at_typed: "fits l \<Longrightarrow> string_at (l @ 0 # r) = Some l"
  by (simp add: fits_def string_at_append)

lemmas talk_simps = talk_step_def Let_def checked_def gets_buf pad_line clear_pad read_pad over_pad string_at_pad
  string_at_typed length_pad

definition fifo_move :: "byte list \<Rightarrow> byte list \<Rightarrow> nat \<Rightarrow> nat \<times> nat \<Rightarrow> bool" where
  "fifo_move a b k = (\<lambda>(i, j). ((i, j) \<in> {(6, 6), (7, 6)} \<longrightarrow> b \<noteq> []) \<longrightarrow>
     talk_step k (fifo_state a b i j) = Blocked
     \<or> talk_step k (fifo_state a b i j) = Next (case fifo_next k (i, j) of (i', j') \<Rightarrow> fifo_state a b i' j')
       \<and> fifo_legal b (fifo_next k (i, j)))"

lemma fifo_moves:
  assumes "fits a" "a \<noteq> []" "fits b" "k = 0 \<or> k = 1"
  shows "list_all (fifo_move a b k) fifo_places"
proof -
  have l: "length a < 100" "length b < 100" using assms by (simp_all add: fits_def)
  have t: "take 100 a = a" "take 100 b = b" "drop 100 a = []" "drop 100 b = []" using l by simp_all
  note d = fifo_state_def fifo_server_def fifo_client_def talk_simps fifo_next_def fifo_legal_def fifo_move_def fun_eq_iff l t assms(1-3)
  show ?thesis using assms(4) unfolding fifo_places_def list.pred_inject
    by (elim disjE; intro conjI) (simp_all add: d fifo_places_def)
qed

lemma fifo_start: "talk_start fifo_server a fifo_client b = fifo_state a b 0 0"
  by (simp add: talk_start_def fifo_state_def pad_Nil fun_eq_iff)

text \<open>The number of calls made, and a state in which nobody can go on.\<close>

definition fifo_calls :: "nat \<times> nat \<Rightarrow> nat" where
  "fifo_calls = (\<lambda>(i, j). if i < 2 then i else i + j - 2)"

lemma fifo_calls_next: "ij \<in> set fifo_places \<Longrightarrow> fifo_calls (fifo_next k ij) = Suc (fifo_calls ij)"
  by (auto simp: fifo_places_def fifo_calls_def fifo_next_def)

lemma fifo_calls_le: "ij \<in> set fifo_places \<Longrightarrow> fifo_calls ij \<le> 12"
  by (auto simp: fifo_places_def fifo_calls_def)

lemma fifo_run:
  assumes "fits a" "a \<noteq> []" "fits b"
  shows "fifo_legal b (i, j) \<Longrightarrow> set ks \<subseteq> {0, 1} \<Longrightarrow> talk_run ks (fifo_state a b i j) = r \<Longrightarrow>
    r = Blocked \<or> (\<exists>i' j'. r = Next (fifo_state a b i' j') \<and> fifo_legal b (i', j') \<and> fifo_calls (i', j') = fifo_calls (i, j) + length ks)"
proof (induction ks arbitrary: i j)
  case (Cons k ks)
  then have place: "(i, j) \<in> set fifo_places" by (simp add: fifo_legal_def)
  have "fifo_move a b k (i, j)" using fifo_moves [OF assms, of k] place Cons.prems(2) by (auto simp: list_all_iff)
  then consider "talk_step k (fifo_state a b i j) = Blocked"
    | i' j' where "fifo_next k (i, j) = (i', j')" "talk_step k (fifo_state a b i j) = Next (fifo_state a b i' j')" "fifo_legal b (i', j')"
    using Cons.prems(1) by (cases "fifo_next k (i, j)") (auto simp: fifo_move_def fifo_legal_def)
  then show ?case
  proof cases
    case 1 then show ?thesis using Cons.prems by simp
  next
    case 2
    then show ?thesis using Cons.IH [of i' j'] Cons.prems fifo_calls_next [OF place, of k] by simp
  qed
qed auto

lemma fifo_stuck:
  assumes "fits a" "a \<noteq> []" "fits b" "fifo_legal b (i, j)" "stuck (fifo_state a b i j)"
  shows "i = 7 \<and> j = 7"
proof (rule ccontr)
  assume n: "\<not> (i = 7 \<and> j = 7)"
  have l: "length a < 100" "length b < 100" using assms by (simp_all add: fits_def)
  have t: "take 100 a = a" "take 100 b = b" "drop 100 a = []" "drop 100 b = []" using l by simp_all
  note d = fifo_state_def fifo_server_def fifo_client_def talk_simps fun_eq_iff l t assms(1-3) stuck_def
  have "list_all (\<lambda>(i, j). \<not> (i = 7 \<and> j = 7) \<longrightarrow> fifo_legal b (i, j) \<longrightarrow> \<not> stuck (fifo_state a b i j)) fifo_places"
    unfolding fifo_places_def list.pred_inject by (intro conjI) (simp_all add: d fifo_legal_def)
  then show False using assms(4,5) n by (auto simp: list_all_iff fifo_legal_def)
qed

text \<open>C3: for every line of 1 to 99 characters typed at the server and of at most 99 at the client, no interleaving of the
  two programs overruns a buffer, the conversation ends after at most 12 calls, and it can only come to
  rest with both programs finished and each having shown the line typed at the other.\<close>

theorem fifo_talk_delivers:
  assumes "fits a" "a \<noteq> []" "fits b" "set ks \<subseteq> {0, 1}"
  shows "talk_run ks (talk_start fifo_server a fifo_client b) \<noteq> Fault
    \<and> (\<forall>s. talk_run ks (talk_start fifo_server a fifo_client b) = Next s \<longrightarrow> length ks \<le> 12
         \<and> (stuck s \<longrightarrow> finished s \<and> map shown (procs s) = [[b], [a]]))"
proof -
  have "fifo_legal b (0, 0)" by (simp add: fifo_legal_def fifo_places_def)
  from fifo_run [OF assms(1-3) this assms(4) refl]
  consider "talk_run ks (talk_start fifo_server a fifo_client b) = Blocked"
    | i j where "talk_run ks (talk_start fifo_server a fifo_client b) = Next (fifo_state a b i j)" "fifo_legal b (i, j)"
        "fifo_calls (i, j) = length ks"
    by (auto simp: fifo_start fifo_calls_def)
  then show ?thesis
  proof cases
    case 2
    have "length ks \<le> 12" using 2 fifo_calls_le [of "(i, j)"] by (simp add: fifo_legal_def)
    moreover have "finished (fifo_state a b 7 7)" "map shown (procs (fifo_state a b 7 7)) = [[b], [a]]"
      by (simp_all add: fifo_state_def finished_def fifo_server_def fifo_client_def)
    ultimately show ?thesis using 2(1) fifo_stuck [OF assms(1-3) 2(2)] by auto
  qed simp
qed

lemma fifo_talk_example:
  "case talk_run [0, 0, 0, 0, 1, 0, 1, 1, 1, 1, 0, 0] (talk_start fifo_server [104] fifo_client [105]) of
      Next s \<Rightarrow> (case (talk_step 0 s, talk_step 1 s) of (Blocked, Blocked) \<Rightarrow> True | _ \<Rightarrow> False) | _ \<Rightarrow> False"
  by code_simp

theorem fifo_talk_delivers_witness:
  "\<exists>s. talk_run [0, 0, 0, 0, 1, 0, 1, 1, 1, 1, 0, 0] (talk_start fifo_server [104] fifo_client [105]) = Next s
    \<and> finished s \<and> map shown (procs s) = [[[105]], [[104]]]"
proof -
  obtain s where s: "talk_run [0, 0, 0, 0, 1, 0, 1, 1, 1, 1, 0, 0] (talk_start fifo_server [104] fifo_client [105]) = Next s" "stuck s"
    using fifo_talk_example by (auto simp: stuck_def split: result.splits)
  with fifo_talk_delivers [of "[104]" "[105]" "[0, 0, 0, 0, 1, 0, 1, 1, 1, 1, 0, 0]"] show ?thesis unfolding fits_def by fastforce
qed

text \<open>an empty line at the server puts nothing into the pipe, so the client waits for bytes and the server
  for the client: both hang for ever.\<close>

theorem fifo_talk_deadlock:
  assumes "fits b"
  shows "\<exists>s. talk_run [0, 0, 0, 0, 0] (talk_start fifo_server [] fifo_client b) = Next s \<and> stuck s \<and> \<not> finished s"
proof -
  have e: "fits []" "0 # drop (Suc 0) (pad []) = pad []" using pad_line [of "[]"] by (simp_all add: fits_def)
  have "talk_run [0, 0, 0, 0, 0] (fifo_state [] b 0 0) = Next (fifo_state [] b 5 2)"
    "stuck (fifo_state [] b 5 2)" "\<not> finished (fifo_state [] b 5 2)"
    by (simp_all add: fifo_state_def fifo_server_def fifo_client_def talk_simps e stuck_def finished_def fun_eq_iff)
  then show ?thesis by (auto simp: fifo_start)
qed

theorem fifo_talk_deadlock_witness:
  "\<exists>s. talk_run [0, 0, 0, 0, 0] (talk_start fifo_server [] fifo_client [104]) = Next s \<and> stuck s \<and> \<not> finished s"
  by (rule fifo_talk_deadlock) (simp add: fits_def)

section \<open>Child and parent\<close>

text \<open>The state when the child has made \<open>i\<close> and the parent \<open>j\<close> of its calls.\<close>

definition pipe_state :: "byte list \<Rightarrow> byte list \<Rightarrow> nat \<Rightarrow> nat \<Rightarrow> sys" where
  "pipe_state a b i j = \<lparr>procs =
       [\<lparr>code = drop i pipe_child, buf = (if i \<ge> 3 then over b (pad a) else if i \<ge> 1 then pad a else pad []),
          typed = a, shown = (if i \<ge> 4 then [b @ drop (length b) a] else [])\<rparr>,
        \<lparr>code = drop j pipe_parent, buf = (if j \<ge> 3 then b @ 0 # drop (Suc (length b)) (pad a) else if j \<ge> 1 then pad a else pad []),
          typed = b, shown = (if j \<ge> 2 then [a] else [])\<rparr>],
     chan = (\<lambda>n. [])(1 := (if i \<ge> 2 \<and> j < 1 then a else []), 2 := (if j \<ge> 4 \<and> i < 3 then b else [])),
     writer = (\<lambda>n. True)(1 := i < 5)\<rparr>"

definition pipe_places :: "(nat \<times> nat) list" where
  "pipe_places = [(0, 0), (1, 0), (2, 0), (2, 1), (2, 2), (2, 3), (2, 4), (3, 4), (4, 4), (5, 4), (5, 5)]"

definition pipe_next :: "nat \<Rightarrow> nat \<times> nat \<Rightarrow> nat \<times> nat" where
  "pipe_next k = (\<lambda>(i, j). if k = 0 then (i + 1, j) else (i, j + 1))"

definition pipe_move :: "byte list \<Rightarrow> byte list \<Rightarrow> nat \<Rightarrow> nat \<times> nat \<Rightarrow> bool" where
  "pipe_move a b k = (\<lambda>(i, j). talk_step k (pipe_state a b i j) = Blocked
     \<or> talk_step k (pipe_state a b i j) = Next (case pipe_next k (i, j) of (i', j') \<Rightarrow> pipe_state a b i' j')
       \<and> pipe_next k (i, j) \<in> set pipe_places)"

lemma pipe_moves:
  assumes "fits a" "a \<noteq> []" "fits b" "b \<noteq> []" "k = 0 \<or> k = 1"
  shows "list_all (pipe_move a b k) pipe_places"
proof -
  have l: "length a < 100" "length b < 100" using assms by (simp_all add: fits_def)
  have t: "take 100 a = a" "take 100 b = b" "drop 100 a = []" "drop 100 b = []" using l by simp_all
  note d = pipe_state_def pipe_child_def pipe_parent_def talk_simps over_pad_shorter pipe_next_def pipe_move_def fun_eq_iff
    l t assms(1-4)
  show ?thesis using assms(5) unfolding pipe_places_def list.pred_inject
    by (elim disjE; intro conjI) (simp_all add: d pipe_places_def)
qed

lemma pipe_start: "talk_start pipe_child a pipe_parent b = pipe_state a b 0 0"
  by (simp add: talk_start_def pipe_state_def pad_Nil fun_eq_iff)

lemma pipe_run:
  assumes "fits a" "a \<noteq> []" "fits b" "b \<noteq> []"
  shows "(i, j) \<in> set pipe_places \<Longrightarrow> set ks \<subseteq> {0, 1} \<Longrightarrow> talk_run ks (pipe_state a b i j) = r \<Longrightarrow>
    r = Blocked \<or> (\<exists>i' j'. r = Next (pipe_state a b i' j') \<and> (i', j') \<in> set pipe_places \<and> i' + j' = i + j + length ks)"
proof (induction ks arbitrary: i j)
  case (Cons k ks)
  have "pipe_move a b k (i, j)" using pipe_moves [OF assms, of k] Cons.prems(1,2) by (auto simp: list_all_iff)
  then consider "talk_step k (pipe_state a b i j) = Blocked"
    | i' j' where "pipe_next k (i, j) = (i', j')" "talk_step k (pipe_state a b i j) = Next (pipe_state a b i' j')"
        "(i', j') \<in> set pipe_places" "i' + j' = Suc (i + j)"
    by (cases "pipe_next k (i, j)") (auto simp: pipe_move_def pipe_next_def split: if_splits)
  then show ?case
  proof cases
    case 1 then show ?thesis using Cons.prems by simp
  next
    case 2
    then show ?thesis using Cons.IH [of i' j'] Cons.prems by simp
  qed
qed auto

lemma pipe_stuck:
  assumes "fits a" "a \<noteq> []" "fits b" "b \<noteq> []" "(i, j) \<in> set pipe_places" "stuck (pipe_state a b i j)"
  shows "i = 5 \<and> j = 5"
proof (rule ccontr)
  assume n: "\<not> (i = 5 \<and> j = 5)"
  have l: "length a < 100" "length b < 100" using assms by (simp_all add: fits_def)
  have t: "take 100 a = a" "take 100 b = b" "drop 100 a = []" "drop 100 b = []" using l by simp_all
  note d = pipe_state_def pipe_child_def pipe_parent_def talk_simps over_pad_shorter fun_eq_iff l t assms(1-4) stuck_def
  have "list_all (\<lambda>(i, j). \<not> (i = 5 \<and> j = 5) \<longrightarrow> \<not> stuck (pipe_state a b i j)) pipe_places"
    unfolding pipe_places_def list.pred_inject by (intro conjI) (simp_all add: d)
  then show False using assms(5,6) n by (auto simp: list_all_iff)
qed

text \<open>two lines that are not empty and fit are delivered: child and parent make ten calls, never hang, and
  the parent shows the child's line. But the child reads into a buffer that still holds its own line, so
  behind a shorter line of the parent it shows the rest of its own.\<close>

theorem pipe_talk_delivers:
  assumes "fits a" "a \<noteq> []" "fits b" "b \<noteq> []" "set ks \<subseteq> {0, 1}"
  shows "talk_run ks (talk_start pipe_child a pipe_parent b) \<noteq> Fault
    \<and> (\<forall>s. talk_run ks (talk_start pipe_child a pipe_parent b) = Next s \<longrightarrow> length ks \<le> 10
         \<and> (stuck s \<longrightarrow> finished s \<and> map shown (procs s) = [[b @ drop (length b) a], [a]]))"
proof -
  have "(0, 0) \<in> set pipe_places" by (simp add: pipe_places_def)
  from pipe_run [OF assms(1-4) this assms(5) refl]
  consider "talk_run ks (talk_start pipe_child a pipe_parent b) = Blocked"
    | i j where "talk_run ks (talk_start pipe_child a pipe_parent b) = Next (pipe_state a b i j)" "(i, j) \<in> set pipe_places"
        "i + j = length ks"
    by (auto simp: pipe_start)
  then show ?thesis
  proof cases
    case 2
    have "length ks \<le> 10" using 2 by (auto simp: pipe_places_def)
    moreover have "finished (pipe_state a b 5 5)" "map shown (procs (pipe_state a b 5 5)) = [[b @ drop (length b) a], [a]]"
      by (simp_all add: pipe_state_def finished_def pipe_child_def pipe_parent_def)
    ultimately show ?thesis using 2(1) pipe_stuck [OF assms(1-4) 2(2)] by auto
  qed simp
qed

lemma pipe_talk_example:
  "case talk_run [0, 0, 1, 1, 1, 1, 0, 0, 0, 1] (talk_start pipe_child [104, 105, 106] pipe_parent [112]) of
      Next s \<Rightarrow> (case (talk_step 0 s, talk_step 1 s) of (Blocked, Blocked) \<Rightarrow> True | _ \<Rightarrow> False) | _ \<Rightarrow> False"
  by code_simp

theorem pipe_talk_delivers_witness:
  "\<exists>s. talk_run [0, 0, 1, 1, 1, 1, 0, 0, 0, 1] (talk_start pipe_child [104, 105, 106] pipe_parent [112]) = Next s
    \<and> finished s \<and> map shown (procs s) = [[[112, 105, 106]], [[104, 105, 106]]]"
proof -
  obtain s where s: "talk_run [0, 0, 1, 1, 1, 1, 0, 0, 0, 1] (talk_start pipe_child [104, 105, 106] pipe_parent [112]) = Next s" "stuck s"
    using pipe_talk_example by (auto simp: stuck_def split: result.splits)
  with pipe_talk_delivers [of "[104, 105, 106]" "[112]" "[0, 0, 1, 1, 1, 1, 0, 0, 0, 1]"] show ?thesis unfolding fits_def by fastforce
qed

end
