(* ===== verification/Msgque.thy ===== *)
theory Msgque
  imports Prelude
begin

unbundle bit_operations_syntax

text \<open>
  The System V message queue program \<open>Application/ipc/systemV_msgque/systemV_msgque.c\<close>, compiled as it
  is, without \<open>KEY_DEPEND_FILE\<close>. The queues of the system are a map from keys to lists of messages, and
  \<open>msgget\<close>, \<open>msgsnd\<close> and \<open>msgrcv\<close> with type 0 do what POSIX says. Parameters: \<open>malloc\<close>, the contents of a
  fresh block of that size; \<open>atoi\<close>, \<open>atol\<close>; \<open>ftok\<close>; \<open>msg_qbytes\<close>, how many bytes a queue may hold. Error messages are left out.
\<close>

definition KEY_MQ :: int where "KEY_MQ = 123456"
definition MSG_R :: nat where "MSG_R = 256"
definition MSG_W :: nat where "MSG_W = 128"

definition SVMSG_MODE :: nat where
  "SVMSG_MODE = (MSG_R OR MSG_W OR drop_bit 3 MSG_R OR drop_bit 6 MSG_R)"

text \<open>The size of \<open>long msgtype\<close>, and the largest message of the system.\<close>

definition LONG_SIZE :: nat where "LONG_SIZE = 8"
definition MSGMAX :: nat where "MSGMAX = 8192"

section \<open>State\<close>

type_synonym message = "int \<times> byte list"

record ipc =
  queues :: "int \<Rightarrow> message list option"
  shown :: "(int \<times> byte list) list"

record env =
  malloc :: "nat \<Rightarrow> byte list option"
  atoi :: "byte list \<Rightarrow> int"
  atol :: "byte list \<Rightarrow> int"
  ftok :: "byte list \<Rightarrow> int"
  may_create :: bool
  msg_qbytes :: nat

text \<open>How a call ends: undefined behaviour, waiting for ever, \<open>return\<close> from \<open>main\<close>, or going on.\<close>

datatype 'a outcome = Undef | Blocks | Return int 'a | Go_On 'a

definition arg :: "byte list list \<Rightarrow> nat \<Rightarrow> byte list option" where
  "arg argv i = (if i < length argv then Some (argv ! i) else None)"

text \<open>\<open>size_t len = atoi(...)\<close>, and \<open>sizeof(long) + len\<close>.\<close>

definition size_of_int :: "int \<Rightarrow> nat" where
  "size_of_int n = nat (n mod 2 ^ 64)"

definition block_size :: "nat \<Rightarrow> nat" where
  "block_size len = (LONG_SIZE + len) mod 2 ^ 64"

section \<open>The options\<close>

definition option_c :: "env \<Rightarrow> byte list list \<Rightarrow> ipc \<Rightarrow> ipc outcome" where
  "option_c e argv s = (case arg argv 2 of None \<Rightarrow> Undef
     | Some path \<Rightarrow> (let key = ftok e path in
         if key = - 1 then Return (- 1) s
         else if queues s key = None \<and> \<not> may_create e then Go_On s
         else Go_On (s\<lparr>queues := (queues s)(key := Some (case queues s key of None \<Rightarrow> [] | Some q \<Rightarrow> q))\<rparr>)))"

text \<open>\<open>msgsnd\<close> of \<open>len\<close> bytes behind the type of the block; a type below 1 or too long a message is refused, and
  a queue without room makes it wait.\<close>

definition has_room :: "env \<Rightarrow> message list \<Rightarrow> nat \<Rightarrow> bool" where
  "has_room e q len \<longleftrightarrow> sum_list (map (length \<circ> snd) q) + len \<le> msg_qbytes e \<and> length q + 1 \<le> msg_qbytes e"

definition option_s :: "env \<Rightarrow> byte list list \<Rightarrow> ipc \<Rightarrow> ipc outcome" where
  "option_s e argv s = (case (arg argv 2, arg argv 3) of (Some a2, Some a3) \<Rightarrow>
       (let len = size_of_int (atoi e a2); ty = atol e a3 in
        if queues s KEY_MQ = None \<and> \<not> may_create e then Return (- 1) s
        else let q = (case queues s KEY_MQ of None \<Rightarrow> [] | Some q \<Rightarrow> q); s' = s\<lparr>queues := (queues s)(KEY_MQ := Some q)\<rparr> in
        case malloc e (block_size len) of None \<Rightarrow> Return (- 1) s'
        | Some b \<Rightarrow> if length b < LONG_SIZE then Undef
          else (case arg argv 4 of None \<Rightarrow> Undef
          | Some t \<Rightarrow> (case memcpy (drop LONG_SIZE b) 0 t 0 (int (length t)) of None \<Rightarrow> Undef
             | Some mtext \<Rightarrow>
                 if ty < 1 \<or> MSGMAX < len then Return (- 1) s'
                 else if \<not> has_room e q len then Blocks
                 else Go_On (s'\<lparr>queues := (queues s')(KEY_MQ := Some (q @ [(ty, take len mtext)]))\<rparr>))))
     | _ \<Rightarrow> Undef)"

text \<open>\<open>msgrcv\<close> of the first message: one that is longer than \<open>len\<close> stays in the queue. Then \<open>printf\<close> looks for
  the end of the text.\<close>

definition option_r :: "env \<Rightarrow> byte list list \<Rightarrow> ipc \<Rightarrow> ipc outcome" where
  "option_r e argv s = (case arg argv 2 of None \<Rightarrow> Undef
     | Some a2 \<Rightarrow> (let len = size_of_int (atoi e a2) in
        case queues s KEY_MQ of None \<Rightarrow> Return (- 1) s
        | Some q \<Rightarrow> (case malloc e (block_size len) of None \<Rightarrow> Return (- 1) s
        | Some b \<Rightarrow> (case q of [] \<Rightarrow> Blocks
           | (ty, m) # q' \<Rightarrow>
               if len < length m then Return (- 1) s
               else if length b < LONG_SIZE then Undef
               else (case memcpy (drop LONG_SIZE b) 0 m 0 (int (length m)) of None \<Rightarrow> Undef
                 | Some mtext \<Rightarrow> (case string_at mtext of None \<Rightarrow> Undef
                    | Some t \<Rightarrow> Go_On (s\<lparr>queues := (queues s)(KEY_MQ := Some q'), shown := shown s @ [(ty, t)]\<rparr>)))))))"

datatype opt = Opt_c | Opt_s | Opt_r | Opt_unknown

fun msgque_main :: "env \<Rightarrow> byte list list \<Rightarrow> opt list \<Rightarrow> ipc \<Rightarrow> ipc outcome" where
  "msgque_main e argv [] s = Return 0 s"
| "msgque_main e argv (c # cs) s =
     (case (case c of Opt_c \<Rightarrow> option_c e argv s | Opt_s \<Rightarrow> option_s e argv s | Opt_r \<Rightarrow> option_r e argv s | Opt_unknown \<Rightarrow> Go_On s)
      of Go_On s' \<Rightarrow> msgque_main e argv cs s' | r \<Rightarrow> r)"

section \<open>What the program does\<close>

text \<open>\<open>malloc\<close> as documented: a block has the size asked for.\<close>

definition sane_malloc :: "env \<Rightarrow> bool" where
  "sane_malloc e \<longleftrightarrow> (\<forall>n b. malloc e n = Some b \<longrightarrow> length b = n)"

lemma small_sizes [simp]: "n \<le> MSGMAX \<Longrightarrow> size_of_int (int n) = n" "n \<le> MSGMAX \<Longrightarrow> block_size n = 8 + n"
  by (simp_all add: size_of_int_def block_size_def LONG_SIZE_def MSGMAX_def)

text \<open>What sending puts into the queue: the text and what was in the block behind it.\<close>

definition message_of :: "byte list \<Rightarrow> nat \<Rightarrow> byte list \<Rightarrow> byte list" where
  "message_of t len b = t @ take (len - length t) (drop (8 + length t) b)"

lemma option_s_result:
  assumes "sane_malloc e" "arg argv 2 = Some a2" "arg argv 3 = Some a3" "arg argv 4 = Some t"
    and "atoi e a2 = int len" "length t \<le> len" "len \<le> MSGMAX" "1 \<le> atol e a3" "queues s KEY_MQ = Some q" "malloc e (8 + len) = Some b"
    and "has_room e q len"
  shows "option_s e argv s = Go_On (s\<lparr>queues := (queues s)(KEY_MQ := Some (q @ [(atol e a3, message_of t len b)]))\<rparr>)"
proof -
  have lb: "length b = 8 + len" using assms(1,10) by (simp add: sane_malloc_def)
  have "memcpy (drop LONG_SIZE b) 0 t 0 (int (length t)) = Some (t @ drop (8 + length t) b)"
    using lb assms(6) by (simp add: memcpy_def LONG_SIZE_def add.commute)
  then show ?thesis
    using assms lb by (simp add: option_s_def Let_def LONG_SIZE_def message_of_def fun_upd_idem)
qed

lemma option_r_result:
  assumes "sane_malloc e" "arg argv 2 = Some a2" "atoi e a2 = int len" "len \<le> MSGMAX"
    and "queues s KEY_MQ = Some ((ty, m) # q)" "length m \<le> len" "malloc e (8 + len) = Some b"
  shows "option_r e argv s = (case string_at (m @ drop (8 + length m) b) of None \<Rightarrow> Undef
    | Some t \<Rightarrow> Go_On (s\<lparr>queues := (queues s)(KEY_MQ := Some q), shown := shown s @ [(ty, t)]\<rparr>))"
proof -
  have lb: "length b = 8 + len" using assms(1,7) by (simp add: sane_malloc_def)
  have "memcpy (drop LONG_SIZE b) 0 m 0 (int (length m)) = Some (m @ drop (8 + length m) b)"
    using lb assms(6) by (simp add: memcpy_def LONG_SIZE_def add.commute)
  then show ?thesis
    using assms lb by (simp add: option_r_def Let_def LONG_SIZE_def split: option.split)
qed


definition sample_env :: env where
  "sample_env = \<lparr>malloc = (\<lambda>n. Some (replicate n 0)), atoi = (\<lambda>a. int (length a)), atol = (\<lambda>a. int (length a)),
     ftok = (\<lambda>a. 7), may_create = True, msg_qbytes = 16384\<rparr>"


text \<open>a text longer than the length given overruns the block it is copied to; and a receiver whose block
  the message fills completely, as happens when the length given is that of the text, reads on behind it.\<close>

theorem msgque_overrun:
  assumes "sane_malloc e" "argv = [p, opt, a2, a3, t]" "atoi e a2 = int len" "len \<le> MSGMAX" "malloc e (8 + len) = Some b"
  shows "(len < length t \<and> queues s KEY_MQ = Some q \<longrightarrow> msgque_main e argv (Opt_s # cs) s = Undef)
    \<and> (queues s KEY_MQ = Some ((ty, m) # q) \<and> length m = len \<and> 0 \<notin> set m \<longrightarrow> msgque_main e argv (Opt_r # cs) s = Undef)"
proof (intro conjI impI; (elim conjE)?)
  have lb: "length b = 8 + len" using assms(1,5) by (simp add: sane_malloc_def)
  assume "len < length t" "queues s KEY_MQ = Some q"
  then show "msgque_main e argv (Opt_s # cs) s = Undef"
    using assms lb by (simp add: option_s_def arg_def Let_def LONG_SIZE_def memcpy_def)
next
  have lb: "length b = 8 + len" using assms(1,5) by (simp add: sane_malloc_def)
  assume q: "queues s KEY_MQ = Some ((ty, m) # q)" and m: "length m = len" "0 \<notin> set m"
  have "string_at m = None" using m(2) by (induction m) auto
  then show "msgque_main e argv (Opt_r # cs) s = Undef"
    using option_r_result [OF assms(1) _ assms(3,4) q _ assms(5), of argv] m lb assms(2) by (simp add: arg_def)
qed

theorem msgque_overrun_witness:
  "msgque_main sample_env [[109], [45, 115], [1], [1], [104, 105]] [Opt_s] \<lparr>queues = [KEY_MQ \<mapsto> []], shown = []\<rparr> = Undef
   \<and> msgque_main sample_env [[109], [45, 114], [1], [1], [1]] [Opt_r] \<lparr>queues = [KEY_MQ \<mapsto> [(1, [104])]], shown = []\<rparr> = Undef"
  using msgque_overrun [of sample_env _ "[109]" "[45, 115]" "[1]" "[1]" "[104, 105]" 1 "replicate 9 0"
      "\<lparr>queues = [KEY_MQ \<mapsto> []], shown = []\<rparr>" "[]" "[]" 1 "[104]"]
    msgque_overrun [of sample_env _ "[109]" "[45, 114]" "[1]" "[1]" "[1]" 1 "replicate 9 0"
      "\<lparr>queues = [KEY_MQ \<mapsto> [(1, [104])]], shown = []\<rparr>" "[]" "[]" 1 "[104]"]
  by (simp add: sample_env_def sane_malloc_def MSGMAX_def)

end
