(* ===== verification/Mqueue_Demo.thy ===== *)
theory Mqueue_Demo
  imports Prelude
begin

text \<open>
  The POSIX message queue program \<open>Application/ipc/mqueue/mqueue.c\<close>. With \<open>-e\<close> it sends a message and a
  thread of its own receives it; with \<open>-s\<close> it waits for the signal that announces a message, for ever.
  The queue is that of POSIX: the message with the highest priority first, the oldest first among
  equals; a registered process gets one signal when a message arrives at an empty queue, and is then
  registered no longer. \<open>msgsize\<close> is the \<open>mq_msgsize\<close> of the queue, \<open>heap\<close> what \<open>malloc\<close> leaves in a block.
\<close>

type_synonym message = "nat \<times> byte list"

section \<open>The queue\<close>

text \<open>\<open>mq_send\<close> and \<open>mq_receive\<close> on the list of messages, the next one to be received first.\<close>

fun mq_insert :: "message \<Rightarrow> message list \<Rightarrow> message list" where
  "mq_insert m [] = [m]"
| "mq_insert m (x # xs) = (if fst x < fst m then m # x # xs else x # mq_insert m xs)"

lemma mset_mq_insert [simp]: "mset (mq_insert m q) = add_mset m (mset q)"
  by (induction q) auto

lemma mq_insert_ne [simp]: "mq_insert m q \<noteq> []"
  by (cases q) auto

lemma sorted_mq_insert: "sorted_wrt (\<lambda>x y. fst y \<le> fst x) q \<Longrightarrow> sorted_wrt (\<lambda>x y. fst y \<le> fst x) (mq_insert m q)"
proof (induction q)
  case (Cons x xs)
  have "set (mq_insert m xs) = insert m (set xs)" by (metis mset_mq_insert set_mset_add_mset_insert set_mset_mset)
  with Cons show ?case by auto
qed simp

section \<open>The option e\<close>

text \<open>\<open>u_int8_t prio = atoi(argv[3])\<close> keeps the low byte. The receiver gives \<open>mq_receive\<close> the address of a one
  byte variable for an \<open>unsigned int\<close>: four bytes are stored there. \<open>None\<close> is that access.\<close>

definition prio_of :: "int \<Rightarrow> nat" where
  "prio_of n = nat (n mod 256)"

definition send_message :: "int \<Rightarrow> byte list \<Rightarrow> nat \<Rightarrow> message list \<Rightarrow> message list option" where
  "send_message prio txt msgsize q = (if msgsize < length txt then None else Some (mq_insert (prio_of prio, txt) q))"

definition PRIO_SIZE :: nat where "PRIO_SIZE = 1"
definition UINT_SIZE :: nat where "UINT_SIZE = 4"

datatype received = Exited | Corrupted

definition handle_receivemsg :: "bool \<Rightarrow> message list \<Rightarrow> received" where
  "handle_receivemsg opened q = (if \<not> opened then Exited else if q = [] then Exited
     else if PRIO_SIZE < UINT_SIZE then Corrupted else Exited)"

text \<open>The branch of \<open>main\<close>: whether the queue can be opened by \<open>main\<close> and by the thread, and whether the thread receives before
  \<open>main\<close> sends. What becomes of the process, and the messages that are in the queue then. \<open>calloc(len)\<close> has no room
  for the zero of the text, so the \<open>printf\<close> before the sending reads behind the block.\<close>

datatype e_result = E_Exit int "message list" | E_Joined "message list" | E_Corrupted

definition option_e :: "bool \<Rightarrow> bool \<Rightarrow> bool \<Rightarrow> int \<Rightarrow> byte list \<Rightarrow> nat \<Rightarrow> message list \<Rightarrow> e_result" where
  "option_e opened thread_opened thread_first prio txt msgsize q =
     (if \<not> opened then E_Exit (- 1) q
      else if thread_first \<and> thread_opened then
        (case handle_receivemsg True q of Corrupted \<Rightarrow> E_Corrupted | Exited \<Rightarrow> E_Exit (- 1) q)
      else let ptr = take (length txt) txt in
        case string_at ptr of None \<Rightarrow> E_Corrupted
        | Some t \<Rightarrow> (case send_message prio ptr msgsize q of None \<Rightarrow> E_Exit (- 1) q
          | Some q' \<Rightarrow> if \<not> thread_opened then E_Joined q'
            else case handle_receivemsg True q' of Corrupted \<Rightarrow> E_Corrupted | Exited \<Rightarrow> E_Exit (- 1) q'))"

lemma string_at_no_zero: "0 \<notin> set t \<Longrightarrow> string_at t = None"
  by (induction t) auto

text \<open>the option never sends its message: the process leaves because it cannot open the queue, or because the thread finds
  none in it, or is undefined, for a text as \<open>main\<close> gets it, without a zero.\<close>

theorem mqueue_e_never_sends:
  assumes "0 \<notin> set txt"
  shows "option_e opened thread_opened thread_first prio txt msgsize q \<in> {E_Exit (- 1) q, E_Corrupted}"
  using assms by (simp add: option_e_def handle_receivemsg_def string_at_no_zero PRIO_SIZE_def UINT_SIZE_def)

theorem mqueue_e_never_sends_witness: "option_e True True False 3 [104, 105] 8192 [] \<in> {E_Exit (- 1) [], E_Corrupted}"
  by (rule mqueue_e_never_sends) simp

text \<open>\<open>notify_thread\<close>, which nothing starts: \<open>results\<close> are what its calls of \<open>mq_receive\<close> return, \<open>n\<close> is assigned the comparison. It
  ends the process, or only the thread.\<close>

datatype thread_end = Process_Exit int | Thread_Exit | Blocked

definition notify_thread :: "int list \<Rightarrow> thread_end" where
  "notify_thread results = (case results of [] \<Rightarrow> Blocked
     | r # _ \<Rightarrow> let n = (if r \<ge> 0 then 1 else 0 :: int) in if n \<noteq> 0 then Process_Exit (- 1) else Thread_Exit)"

lemma notify_thread_inverted: "notify_thread (r # rs) = Process_Exit (- 1) \<longleftrightarrow> 0 \<le> r"
  by (simp add: notify_thread_def)

section \<open>The option s\<close>

text \<open>The loop: waiting in \<open>sigsuspend\<close>, registering again, receiving. \<open>pending\<close> is a signal that is blocked
  until the process waits, \<open>flag\<close> is \<open>mqflag\<close>, \<open>buf\<close> the block of \<open>mq_msgsize\<close> bytes that \<open>malloc\<close> gave, which
  nothing clears and nothing ends with a zero; \<open>shown\<close> is what is printed of it.\<close>

datatype at = Waiting | Register | Receive

record receiver =
  at :: at
  flag :: bool
  pending :: bool
  registered :: bool
  queue :: "message list"
  buf :: "byte list"
  shown :: "byte list list"

datatype event = Arrive message | Go

datatype outcome = Waits | Undefined | Next receiver

definition sig_usr1 :: "receiver \<Rightarrow> receiver" where
  "sig_usr1 s = s\<lparr>flag := True, pending := False\<rparr>"

text \<open>A message that another process sends; the queue refuses one longer than \<open>mq_msgsize\<close>.\<close>

definition arrive :: "message \<Rightarrow> receiver \<Rightarrow> receiver" where
  "arrive m s = (if length (buf s) < length (snd m) then s
     else let s' = s\<lparr>queue := mq_insert m (queue s)\<rparr> in
       if queue s = [] \<and> registered s then s'\<lparr>pending := True, registered := False\<rparr> else s')"

text \<open>One step of the loop. Between the loop's end and \<open>sigsuspend\<close> the signal is unblocked, so a pending one is
  handled before the flag is tested or while waiting. \<open>mq_receive\<close> overwrites the front of the block, and \<open>printf\<close>
  shows what is there up to the first zero; if there is none it reads on behind the block.\<close>

definition receiver_step :: "receiver \<Rightarrow> outcome" where
  "receiver_step s = (case at s of
     Waiting \<Rightarrow> (let s' = (if pending s then sig_usr1 s else s) in
        if flag s' then Next (s'\<lparr>flag := False, at := Register\<rparr>) else Waits)
   | Register \<Rightarrow> Next (s\<lparr>registered := True, at := Receive\<rparr>)
   | Receive \<Rightarrow> (case queue s of [] \<Rightarrow> Waits
       | m # q \<Rightarrow> (let b = snd m @ drop (length (snd m)) (buf s) in
           case string_at b of None \<Rightarrow> Undefined
           | Some t \<Rightarrow> Next (s\<lparr>queue := q, buf := b, shown := shown s @ [t], at := Waiting\<rparr>))))"

fun receiver_run :: "event list \<Rightarrow> receiver \<Rightarrow> outcome" where
  "receiver_run [] s = Next s"
| "receiver_run (Arrive m # es) s = receiver_run es (arrive m s)"
| "receiver_run (Go # es) s = (case receiver_step s of Next s' \<Rightarrow> receiver_run es s' | r \<Rightarrow> r)"

text \<open>After \<open>mq_open\<close>, which may have found the queue with messages in it, and \<open>mq_notify\<close>.\<close>

definition receiver_start :: "message list \<Rightarrow> byte list \<Rightarrow> receiver" where
  "receiver_start q heap = \<lparr>at = Waiting, flag = False, pending = False, registered = True, queue = q, buf = heap, shown = []\<rparr>"

section \<open>What the program does\<close>

text \<open>a message that comes to the empty queue of a waiting receiver is printed with whatever the block
  held behind it, up to the first zero there: the end of an earlier, longer message, or of what \<open>malloc\<close>
  left; without any zero the printing reads on behind the block.\<close>

theorem mqueue_shows_stale:
  assumes "at s = Waiting" "\<not> flag s" "registered s" "queue s = []" "length (snd m) \<le> length (buf s)"
  shows "receiver_run [Arrive m, Go, Go, Go] s = (case string_at (snd m @ drop (length (snd m)) (buf s)) of
      None \<Rightarrow> Undefined
    | Some t \<Rightarrow> Next (s\<lparr>pending := False, registered := True, buf := snd m @ drop (length (snd m)) (buf s),
        shown := shown s @ [t]\<rparr>))"
  using assms by (simp add: arrive_def receiver_step_def sig_usr1_def Let_def split: option.split)

theorem mqueue_shows_stale_witness:
  "receiver_run [Arrive (1, [104, 111, 104, 111]), Go, Go, Go, Arrive (1, [104, 105]), Go, Go, Go] (receiver_start [] [9, 9, 9, 9, 0])
   = Next ((receiver_start [] [104, 105, 104, 111, 0])\<lparr>shown := [[104, 111, 104, 111], [104, 105, 104, 111]]\<rparr>)"
proof -
  let ?s = "(receiver_start [] [104, 111, 104, 111, 0])\<lparr>shown := [[104, 111, 104, 111]]\<rparr>"
  have "receiver_run [Arrive (1, [104, 105]), Go, Go, Go] ?s
      = Next ((receiver_start [] [104, 105, 104, 111, 0])\<lparr>shown := [[104, 111, 104, 111], [104, 105, 104, 111]]\<rparr>)"
    using mqueue_shows_stale [of ?s "(1, [104, 105])"] by (simp add: receiver_start_def)
  then show ?thesis by (simp add: receiver_start_def arrive_def receiver_step_def sig_usr1_def)
qed

text \<open>The signals that are under way: not yet handled, handled, or being acted upon.\<close>

definition under_way :: "receiver \<Rightarrow> nat" where
  "under_way s = of_bool (pending s) + of_bool (flag s) + of_bool (at s \<noteq> Waiting)"

lemma backlog_step: "under_way s < length (queue s) \<Longrightarrow> receiver_step s = Next s' \<Longrightarrow> under_way s' < length (queue s')"
  by (auto simp: under_way_def receiver_step_def sig_usr1_def Let_def split: at.splits if_splits list.splits option.splits)

lemma length_mq_insert [simp]: "length (mq_insert m q) = Suc (length q)"
  by (induction q) auto

lemma backlog_run: "under_way s < length (queue s) \<Longrightarrow> receiver_run es s = Next s' \<Longrightarrow> under_way s' < length (queue s')"
proof (induction es s rule: receiver_run.induct)
  case (2 m es s)
  then have "under_way (arrive m s) < length (queue (arrive m s))" by (auto simp: under_way_def arrive_def Let_def)
  with 2 show ?case by simp
next
  case (3 es s)
  then show ?case using backlog_step [OF 3(2)] by (simp split: outcome.splits)
qed simp

text \<open>From an empty queue there is at most one signal under way, and a message for it.\<close>

lemma signals_step: "under_way s \<le> 1 \<Longrightarrow> under_way s \<le> length (queue s) \<Longrightarrow> receiver_step s = Next s' \<Longrightarrow>
    under_way s' \<le> 1 \<and> under_way s' \<le> length (queue s')"
  by (auto simp: under_way_def receiver_step_def sig_usr1_def Let_def split: at.splits if_splits list.splits option.splits)

lemma signals_run: "under_way s \<le> 1 \<Longrightarrow> under_way s \<le> length (queue s) \<Longrightarrow> receiver_run es s = Next s' \<Longrightarrow>
    under_way s' \<le> 1 \<and> under_way s' \<le> length (queue s')"
proof (induction es s rule: receiver_run.induct)
  case (2 m es s)
  then have "under_way (arrive m s) \<le> 1 \<and> under_way (arrive m s) \<le> length (queue (arrive m s))"
    by (auto simp: under_way_def arrive_def Let_def)
  with 2 show ?case by simp
next
  case (3 es s)
  then show ?case using signals_step [OF 3(2,3)] by (simp split: outcome.splits)
qed simp

text \<open>C22: a backlog is never worked off. If a message was in the queue when the receiver started, or at some moment two are, then
  at every later moment, whatever arrives and however loop and signals interleave, a message is left in the queue:
  the signal only comes when the queue was empty, and the loop receives one message for each signal.\<close>

theorem mqueue_backlog_stays:
  assumes "receiver_run es (receiver_start q heap) = Next s" "q \<noteq> [] \<or> 2 \<le> length (queue s)"
    and "receiver_run es' s = Next s'"
  shows "queue s' \<noteq> []"
proof -
  have start: "under_way (receiver_start q heap) = 0" "queue (receiver_start q heap) = q"
    by (simp_all add: under_way_def receiver_start_def)
  have "under_way s < length (queue s)"
  proof (cases "q = []")
    case True
    with signals_run [OF _ _ assms(1)] start have "under_way s \<le> 1" by simp
    with True assms(2) show ?thesis by simp
  next
    case False
    with backlog_run [OF _ assms(1)] start show ?thesis by simp
  qed
  from backlog_run [OF this assms(3)] show ?thesis by auto
qed

text \<open>Two messages arrive before the first is received; the loop shows one and then waits with the other in the queue.\<close>

theorem mqueue_backlog_stays_witness:
  "\<exists>s. receiver_run [Arrive (1, [7]), Arrive (2, [8]), Go, Go, Go] (receiver_start [] [9, 0]) = Next s
    \<and> shown s = [[8]] \<and> receiver_step s = Waits \<and> queue s \<noteq> []"
proof -
  let ?a = "(receiver_start [(2, [8]), (1, [7])] [9, 0])\<lparr>pending := True, registered := False\<rparr>"
  let ?s = "(receiver_start [(1, [7])] [8, 0])\<lparr>shown := [[8]]\<rparr>"
  have r: "receiver_run [Arrive (1, [7]), Arrive (2, [8])] (receiver_start [] [9, 0]) = Next ?a"
    by (simp add: receiver_start_def arrive_def)
  have g: "receiver_run [Go, Go, Go] ?a = Next ?s"
    by (simp add: receiver_start_def receiver_step_def sig_usr1_def Let_def)
  from mqueue_backlog_stays [OF r _ g] have "queue ?s \<noteq> []" by (simp add: receiver_start_def)
  moreover have "receiver_run [Arrive (1, [7]), Arrive (2, [8]), Go, Go, Go] (receiver_start [] [9, 0]) = Next ?s"
    by (simp add: receiver_start_def arrive_def receiver_step_def sig_usr1_def Let_def)
  moreover have "shown ?s = [[8]]" "receiver_step ?s = Waits" by (simp_all add: receiver_start_def receiver_step_def)
  ultimately show ?thesis by blast
qed

end
