(* ===== verification/Rwlock_Demo.thy ===== *)
theory Rwlock_Demo
  imports Prelude "HOL-Library.Sublist"
begin

text \<open>
  The readers and writers of \<open>Application/ipc/rwlock/rwlock.c\<close>: threads that share a text under one
  read-write lock. Each step of a thread is one call; the threads interleave freely. The lock is that of
  POSIX: any number of readers or one writer. The lines typed are the list \<open>stdin\<close>, with the end of the input behind them;
  \<open>stack t\<close> is what the local array of writer \<open>t\<close> holds before anything is written to it. Every
  \<open>pthread_create\<close> succeeds. \<open>None\<close> is an access outside an array.
\<close>

definition MAXDATA :: nat where "MAXDATA = 1024"
definition MAXREADER :: nat where "MAXREADER = 100"
definition MAXWRITER :: nat where "MAXWRITER = 100"

section \<open>State\<close>

datatype w_at = W_Lock | W_Gets | W_Strcat "byte list option" | W_Unlock | W_Done
datatype r_at = R_Lock | R_Print | R_Unlock | R_Done

text \<open>\<open>data\<close> is the text of the shared array, \<open>entered\<close> the texts appended to it so far, \<open>shown\<close> what readers
  printed.\<close>

record rw_res =
  rd_held :: nat
  wr_held :: bool
  data :: "byte list"
  stdin :: "byte list list"
  stack :: "nat \<Rightarrow> byte list"
  entered :: "byte list list"
  shown :: "byte list list"
  writers :: "w_at list"
  readers :: "r_at list"

definition writing :: "w_at \<Rightarrow> bool" where
  "writing w \<longleftrightarrow> w \<noteq> W_Lock \<and> w \<noteq> W_Done"

definition reading :: "r_at \<Rightarrow> bool" where
  "reading r \<longleftrightarrow> r = R_Print \<or> r = R_Unlock"

section \<open>The threads\<close>

text \<open>The text that \<open>strcat\<close> finds in the local array: of the line that \<open>gets\<close> stored, up to a zero in it; after the end of
  the input, where \<open>gets\<close> stores nothing, of what the array held, if that has an end inside the array.\<close>

definition text_of :: "byte list \<Rightarrow> byte list" where
  "text_of l = takeWhile (\<lambda>c. c \<noteq> 0) l"

text \<open>The next call of writer \<open>t\<close>: \<open>None\<close> while it has to wait, \<open>Some None\<close> for undefined behaviour.\<close>

definition writer :: "nat \<Rightarrow> rw_res \<Rightarrow> rw_res option option" where
  "writer t s = (case writers s ! t of
     W_Lock \<Rightarrow> if wr_held s \<or> 0 < rd_held s then None
               else Some (Some (s\<lparr>wr_held := True, writers := (writers s)[t := W_Gets]\<rparr>))
   | W_Gets \<Rightarrow> (case stdin s of [] \<Rightarrow> Some (Some (s\<lparr>writers := (writers s)[t := W_Strcat (string_at (take MAXDATA (stack s t)))]\<rparr>))
       | l # ls \<Rightarrow> Some (if MAXDATA \<le> length l then None
           else Some (s\<lparr>stdin := ls, writers := (writers s)[t := W_Strcat (Some (text_of l))]\<rparr>)))
   | W_Strcat None \<Rightarrow> Some None
   | W_Strcat (Some l) \<Rightarrow> Some (if MAXDATA \<le> length (data s) + length l then None
       else Some (s\<lparr>data := data s @ l, entered := entered s @ [l], writers := (writers s)[t := W_Unlock]\<rparr>))
   | W_Unlock \<Rightarrow> Some (Some (s\<lparr>wr_held := False, writers := (writers s)[t := W_Done]\<rparr>))
   | W_Done \<Rightarrow> None)"

definition reader :: "nat \<Rightarrow> rw_res \<Rightarrow> rw_res option" where
  "reader t s = (case readers s ! t of
     R_Lock \<Rightarrow> if wr_held s then None else Some (s\<lparr>rd_held := rd_held s + 1, readers := (readers s)[t := R_Print]\<rparr>)
   | R_Print \<Rightarrow> Some (s\<lparr>shown := shown s @ [data s], readers := (readers s)[t := R_Unlock]\<rparr>)
   | R_Unlock \<Rightarrow> Some (s\<lparr>rd_held := rd_held s - 1, readers := (readers s)[t := R_Done]\<rparr>)
   | R_Done \<Rightarrow> None)"

text \<open>\<open>main\<close> keeps the thread ids in two arrays.\<close>

definition rwlock_main :: "(nat \<Rightarrow> byte list) \<Rightarrow> int \<Rightarrow> int \<Rightarrow> byte list list \<Rightarrow> rw_res option" where
  "rwlock_main stacks readercount writercount ls =
     (if int MAXWRITER < writercount \<or> int MAXREADER < readercount then None
      else Some \<lparr>rd_held = 0, wr_held = False, data = [], stdin = ls, stack = stacks, entered = [], shown = [],
        writers = replicate (nat writercount) W_Lock, readers = replicate (nat readercount) R_Lock\<rparr>)"

inductive step :: "rw_res \<Rightarrow> rw_res option \<Rightarrow> bool" where
  writes: "t < length (writers s) \<Longrightarrow> writer t s = Some r \<Longrightarrow> step s r"
| reads: "t < length (readers s) \<Longrightarrow> reader t s = Some s' \<Longrightarrow> step s (Some s')"

inductive reach :: "rw_res \<Rightarrow> rw_res \<Rightarrow> bool" for s0 where
  start: "reach s0 s0"
| step: "reach s0 s \<Longrightarrow> step s (Some s') \<Longrightarrow> reach s0 s'"

section \<open>Invariant\<close>

text \<open>The lock counts the threads between locking and unlocking; the text is what was entered; and what was entered, what a
  writer holds and what is still to be typed are together the lines of the input, followed, once it has ended,
  by texts that were found in uninitialised arrays.\<close>

definition held_text :: "w_at \<Rightarrow> byte list list" where
  "held_text w = (case w of W_Strcat (Some l) \<Rightarrow> [l] | _ \<Rightarrow> [])"

definition found_text :: "rw_res \<Rightarrow> byte list \<Rightarrow> bool" where
  "found_text s x \<longleftrightarrow> (\<exists>t < length (writers s). string_at (take MAXDATA (stack s t)) = Some x)"

definition fair :: "byte list list \<Rightarrow> rw_res \<Rightarrow> bool" where
  "fair ls s \<longleftrightarrow> length (filter writing (writers s)) = (if wr_held s then 1 else 0)
     \<and> length (filter reading (readers s)) = rd_held s \<and> \<not> (wr_held s \<and> 0 < rd_held s)
     \<and> data s = concat (entered s)
     \<and> (\<exists>g. map text_of ls @ g = entered s @ concat (map held_text (writers s)) @ map text_of (stdin s)
         \<and> (g = [] \<or> stdin s = []) \<and> list_all (found_text s) g)
     \<and> list_all (\<lambda>x. \<exists>k. x = concat (take k (entered s))) (shown s)"

lemma length_filter_upd:
  "t < length xs \<Longrightarrow> length (filter P (xs[t := v])) + of_bool (P (xs ! t)) = length (filter P xs) + of_bool (P v)"
proof (induction xs arbitrary: t)
  case (Cons x xs) then show ?case by (cases t) auto
qed simp

lemma held_upd_same: "t < length ws \<Longrightarrow> held_text (ws ! t) = [] \<Longrightarrow> held_text v = [] \<Longrightarrow>
    concat (map held_text (ws[t := v])) = concat (map held_text ws)"
proof (induction ws arbitrary: t)
  case (Cons x xs) then show ?case by (cases t) auto
qed simp

lemma held_quiet: "\<not> writing x \<Longrightarrow> held_text x = []"
  by (auto simp: held_text_def writing_def split: w_at.splits)

lemma held_alone: "length (filter writing ws) = 1 \<Longrightarrow> t < length ws \<Longrightarrow> writing (ws ! t) \<Longrightarrow>
    concat (map held_text ws) = held_text (ws ! t) \<and> concat (map held_text (ws[t := v])) = held_text v"
proof (induction ws arbitrary: t)
  case (Cons x xs)
  have none: "concat (map held_text ys) = []" if "filter writing ys = []" for ys
    using that held_quiet by (induction ys) (auto split: if_splits)
  show ?case
  proof (cases t)
    case 0 then show ?thesis using Cons.prems none [of xs] by simp
  next
    case (Suc k)
    have "filter writing xs \<noteq> []" using Suc Cons.prems(2,3) by (auto simp: filter_empty_conv)
    then have "\<not> writing x" using Cons.prems(1) by (auto split: if_splits)
    then show ?thesis using Suc Cons held_quiet by auto
  qed
qed simp

lemma prefixes_grow: "list_all (\<lambda>x. \<exists>k. x = concat (take k es)) xs \<Longrightarrow> list_all (\<lambda>x. \<exists>k. x = concat (take k (es @ [l]))) xs"
proof -
  have "\<exists>k'. concat (take k es) = concat (take k' (es @ [l]))" for k
    by (rule exI [of _ "min k (length es)"]) (simp add: min_def)
  then show "list_all (\<lambda>x. \<exists>k. x = concat (take k es)) xs \<Longrightarrow> ?thesis" unfolding list_all_iff by metis
qed

lemma writing_simps [simp]: "\<not> writing W_Lock" "\<not> writing W_Done" "writing W_Gets" "writing (W_Strcat l)" "writing W_Unlock"
  by (simp_all add: writing_def)

lemma held_simps [simp]: "held_text W_Lock = []" "held_text W_Gets = []" "held_text (W_Strcat (Some l)) = [l]"
  "held_text (W_Strcat None) = []" "held_text W_Unlock = []" "held_text W_Done = []"
  by (simp_all add: held_text_def)

lemma found_cong: "stack s' = stack s \<Longrightarrow> length (writers s') = length (writers s) \<Longrightarrow> found_text s' = found_text s"
  by (simp add: found_text_def fun_eq_iff)

text \<open>What a writer holds is found where it stands, when it is inside the lock.\<close>

lemma fair_inside:
  assumes "fair ls s" "t < length (writers s)" "writing (writers s ! t)"
  shows "wr_held s" "concat (map held_text (writers s)) = held_text (writers s ! t)"
    "concat (map held_text ((writers s)[t := v])) = held_text v"
    "length (filter writing ((writers s)[t := v])) = of_bool (writing v)"
proof -
  show h: "wr_held s" using assms by (auto simp: fair_def filter_empty_conv split: if_splits)
  then have one: "length (filter writing (writers s)) = 1" using assms(1) by (simp add: fair_def)
  from held_alone [OF one assms(2,3)] show "concat (map held_text (writers s)) = held_text (writers s ! t)"
    "concat (map held_text ((writers s)[t := v])) = held_text v" by simp_all
  from length_filter_upd [OF assms(2), of writing v] one assms(3)
  show "length (filter writing ((writers s)[t := v])) = of_bool (writing v)" by simp
qed

lemma fair_writer:
  assumes f: "fair ls s" and t: "t < length (writers s)" and w: "writer t s = Some (Some s')"
  shows "fair ls s'"
proof (cases "writers s ! t")
  case W_Lock
  with w have s': "\<not> wr_held s" "rd_held s = 0" "s' = s\<lparr>wr_held := True, writers := (writers s)[t := W_Gets]\<rparr>"
    by (auto simp: writer_def split: if_splits)
  have "found_text s' = found_text s" by (rule found_cong) (simp_all add: s')
  with f s' W_Lock length_filter_upd [OF t, of writing W_Gets] held_upd_same [OF t, of W_Gets]
  show ?thesis by (simp add: fair_def)
next
  case W_Gets
  then have in_lock: "writing (writers s ! t)" by simp
  note i = fair_inside [OF f t in_lock]
  obtain g where g: "map text_of ls @ g = entered s @ map text_of (stdin s)" "g = [] \<or> stdin s = []" "list_all (found_text s) g"
    using f i(2) W_Gets by (auto simp: fair_def)
  show ?thesis
  proof (cases "stdin s")
    case Nil
    define r where "r = string_at (take MAXDATA (stack s t))"
    with Nil W_Gets w have s': "s' = s\<lparr>writers := (writers s)[t := W_Strcat r]\<rparr>" by (simp add: writer_def)
    have fs: "found_text s' = found_text s" by (rule found_cong) (simp_all add: s')
    have "\<exists>g'. map text_of ls @ g' = entered s @ held_text (W_Strcat r) \<and> list_all (found_text s) g'"
    proof (cases r)
      case None
      then show ?thesis using g Nil by auto
    next
      case (Some x)
      then have "found_text s x" using t r_def by (auto simp: found_text_def)
      with Some g Nil show ?thesis by (intro exI [of _ "g @ [x]"]) auto
    qed
    with f i s' fs Nil show ?thesis by (simp add: fair_def)
  next
    case (Cons l r)
    with W_Gets w have s': "s' = s\<lparr>stdin := r, writers := (writers s)[t := W_Strcat (Some (text_of l))]\<rparr>"
      by (simp add: writer_def split: if_splits)
    have fs: "found_text s' = found_text s" by (rule found_cong) (simp_all add: s')
    have "g = []" using g(2) Cons by simp
    with f i s' fs Cons g show ?thesis by (simp add: fair_def)
  qed
next
  case (W_Strcat r)
  then have in_lock: "writing (writers s ! t)" by simp
  note i = fair_inside [OF f t in_lock]
  obtain l where r: "r = Some l" using w W_Strcat by (cases r) (simp_all add: writer_def)
  with w W_Strcat have s': "s' = s\<lparr>data := data s @ l, entered := entered s @ [l], writers := (writers s)[t := W_Unlock]\<rparr>"
    by (simp add: writer_def split: if_splits)
  have fs: "found_text s' = found_text s" by (rule found_cong) (simp_all add: s')
  have sh: "list_all (\<lambda>x. \<exists>k. x = concat (take k (entered s'))) (shown s')"
  proof -
    have "shown s' = shown s" "entered s' = entered s @ [l]" by (simp_all add: s')
    moreover have "list_all (\<lambda>x. \<exists>k. x = concat (take k (entered s))) (shown s)" using f by (simp add: fair_def)
    ultimately show ?thesis using prefixes_grow [of "entered s" "shown s" l] by (simp only:)
  qed
  from f i s' fs W_Strcat r have "length (filter writing (writers s')) = (if wr_held s' then 1 else 0)
     \<and> length (filter reading (readers s')) = rd_held s' \<and> \<not> (wr_held s' \<and> 0 < rd_held s') \<and> data s' = concat (entered s')
     \<and> (\<exists>g. map text_of ls @ g = entered s' @ concat (map held_text (writers s')) @ map text_of (stdin s')
         \<and> (g = [] \<or> stdin s' = []) \<and> list_all (found_text s') g)" by (auto simp: fair_def)
  with sh show ?thesis unfolding fair_def by blast
next
  case W_Unlock
  then have in_lock: "writing (writers s ! t)" by simp
  note i = fair_inside [OF f t in_lock]
  from w W_Unlock have s': "s' = s\<lparr>wr_held := False, writers := (writers s)[t := W_Done]\<rparr>" by (simp add: writer_def)
  have fs: "found_text s' = found_text s" by (rule found_cong) (simp_all add: s')
  from f i s' fs W_Unlock show ?thesis by (auto simp: fair_def)
next
  case W_Done
  then show ?thesis using w by (simp add: writer_def)
qed

lemma fair_reader:
  assumes "fair ls s" "t < length (readers s)" "reader t s = Some s'"
  shows "fair ls s'"
proof -
  note cnt = length_filter_upd [OF assms(2), of reading]
  have whole: "\<exists>k. concat (entered s) = concat (take k (entered s))" by (rule exI [of _ "length (entered s)"]) simp
  have "stack s' = stack s \<and> writers s' = writers s" using assms(3) by (auto simp: reader_def split: r_at.splits if_splits)
  then have fs: "found_text s' = found_text s" by (intro found_cong) simp_all
  show ?thesis
  proof (cases "readers s ! t")
    case R_Lock
    then show ?thesis using assms fs cnt [of R_Print] by (auto simp: reader_def fair_def reading_def split: if_splits)
  next
    case R_Print
    then show ?thesis using assms fs cnt [of R_Unlock] whole by (auto simp: reader_def fair_def reading_def)
  next
    case R_Unlock
    then show ?thesis using assms fs cnt [of R_Done] by (auto simp: reader_def fair_def reading_def)
  next
    case R_Done
    then show ?thesis using assms by (simp add: reader_def)
  qed
qed

lemma reach_invariant:
  assumes "reach s0 s" "P s0"
    and "\<And>s t s'. P s \<Longrightarrow> t < length (writers s) \<Longrightarrow> writer t s = Some (Some s') \<Longrightarrow> P s'"
    and "\<And>s t s'. P s \<Longrightarrow> t < length (readers s) \<Longrightarrow> reader t s = Some s' \<Longrightarrow> P s'"
  shows "P s"
  using assms(1,2) by (induction rule: reach.induct) (auto elim!: step.cases intro: assms(3,4))

lemma fair_main: "rwlock_main st rn wn ls = Some s \<Longrightarrow> fair ls s"
  by (auto simp: rwlock_main_def fair_def reading_def filter_replicate split: if_splits)

lemma fair_reach: "rwlock_main st rn wn ls = Some s0 \<Longrightarrow> reach s0 s \<Longrightarrow> fair ls s"
  using reach_invariant [of s0 s "fair ls"] fair_writer fair_reader fair_main by blast

section \<open>What the program guarantees\<close>

text \<open>C11: with at most 100 readers and 100 writers, and as long as no array is left: in every interleaving a writer is
  alone between locking and unlocking; the shared text is the texts appended so far; these are the lines
  typed, in their order and each up to a zero byte in it, and after the end of the input whatever texts
  the writers found in their uninitialised arrays; and every reader shows the shared text as it was after some
  whole number of them.\<close>

theorem rwlock_atomic:
  assumes "rwlock_main st rn wn ls = Some s0" "reach s0 s"
  shows "length (filter writing (writers s)) \<le> 1
    \<and> (filter writing (writers s) \<noteq> [] \<longrightarrow> filter reading (readers s) = [])
    \<and> data s = concat (entered s)
    \<and> (\<exists>g. prefix (entered s) (map text_of ls @ g) \<and> (g \<noteq> [] \<longrightarrow> stdin s = []) \<and> list_all (found_text s) g)
    \<and> list_all (\<lambda>x. \<exists>k. x = concat (take k (entered s))) (shown s)"
proof -
  have f: "fair ls s" by (rule fair_reach [OF assms])
  obtain g where g: "map text_of ls @ g = entered s @ concat (map held_text (writers s)) @ map text_of (stdin s)"
    "g = [] \<or> stdin s = []" "list_all (found_text s) g" using f by (auto simp: fair_def)
  have "prefix (entered s) (map text_of ls @ g)" unfolding g(1) by simp
  with g have "\<exists>g. prefix (entered s) (map text_of ls @ g) \<and> (g \<noteq> [] \<longrightarrow> stdin s = []) \<and> list_all (found_text s) g" by blast
  moreover have "length (filter writing (writers s)) \<le> 1 \<and> (filter writing (writers s) \<noteq> [] \<longrightarrow> filter reading (readers s) = [])"
    using f by (auto simp: fair_def split: if_splits)
  moreover have "data s = concat (entered s)" "list_all (\<lambda>x. \<exists>k. x = concat (take k (entered s))) (shown s)"
    using f by (simp_all add: fair_def)
  ultimately show ?thesis by blast
qed

text \<open>A schedule: which writer (\<open>True\<close>) or reader makes the next step.\<close>

fun rw_run :: "(bool \<times> nat) list \<Rightarrow> rw_res \<Rightarrow> rw_res option" where
  "rw_run [] s = Some s"
| "rw_run ((True, t) # es) s = (if t < length (writers s) then
     (case writer t s of Some (Some s') \<Rightarrow> rw_run es s' | _ \<Rightarrow> None) else None)"
| "rw_run ((False, t) # es) s = (if t < length (readers s) then
     (case reader t s of Some s' \<Rightarrow> rw_run es s' | _ \<Rightarrow> None) else None)"

lemma rw_run_reach: "reach s0 s \<Longrightarrow> rw_run es s = Some s' \<Longrightarrow> reach s0 s'"
  by (induction es s rule: rw_run.induct)
    (auto split: if_splits option.splits intro: reach.step step.writes step.reads)

text \<open>Writer 0 has appended the one line there is; writer 1 comes after the end of the input and appends what it
  found in its array; a reader shows both.\<close>

lemma rwlock_sample_reach:
  "\<exists>s0 s. rwlock_main (\<lambda>_. [120, 0]) 1 2 [[104, 105]] = Some s0 \<and> reach s0 s \<and> shown s = [[104, 105, 120]] \<and> readers s = [R_Unlock]"
proof -
  define st :: "nat \<Rightarrow> byte list" where "st = (\<lambda>_. [120, 0])"
  define s0 where "s0 = \<lparr>rd_held = 0, wr_held = False, data = [], stdin = [[104, 105]], stack = st, entered = [], shown = [],
       writers = [W_Lock, W_Lock], readers = [R_Lock]\<rparr>"
  have m: "rwlock_main st 1 2 [[104, 105]] = Some s0"
    by (simp add: rwlock_main_def MAXREADER_def MAXWRITER_def numeral_2_eq_2 s0_def)
  have "\<exists>s. rw_run [(True, 0), (True, 0), (True, 0), (True, 0), (True, 1), (True, 1), (True, 1), (True, 1), (False, 0), (False, 0)] s0 = Some s
      \<and> shown s = [[104, 105, 120]] \<and> readers s = [R_Unlock]"
    by (simp add: s0_def writer_def reader_def text_of_def MAXDATA_def st_def)
  with m rw_run_reach [OF reach.start] show ?thesis unfolding st_def by blast
qed

theorem rwlock_atomic_witness:
  "\<exists>s0 s. rwlock_main (\<lambda>_. [120, 0]) 1 2 [[104, 105]] = Some s0 \<and> reach s0 s \<and> shown s = [[104, 105, 120]]
    \<and> filter writing (writers s) = []"
proof -
  obtain s0 s where s: "rwlock_main (\<lambda>_. [120, 0]) 1 2 [[104, 105]] = Some s0" "reach s0 s" "shown s = [[104, 105, 120]]"
    "readers s = [R_Unlock]" using rwlock_sample_reach by blast
  with rwlock_atomic [OF s(1,2)] show ?thesis by (auto simp: reading_def)
qed

text \<open>With as many lines as writers no writer meets the end of the input, and what is appended is what was typed.\<close>

definition to_type :: "w_at \<Rightarrow> bool" where
  "to_type w \<longleftrightarrow> w = W_Lock \<or> w = W_Gets"

lemma to_type_simps [simp]: "to_type W_Lock" "to_type W_Gets" "\<not> to_type (W_Strcat x)" "\<not> to_type W_Unlock" "\<not> to_type W_Done"
  by (simp_all add: to_type_def)

definition fed :: "byte list list \<Rightarrow> rw_res \<Rightarrow> bool" where
  "fed ls s \<longleftrightarrow> length (filter to_type (writers s)) \<le> length (stdin s) \<and> W_Strcat None \<notin> set (writers s)
     \<and> map text_of ls = entered s @ concat (map held_text (writers s)) @ map text_of (stdin s) \<and> (\<exists>k. stdin s = drop k ls)"

lemma fed_writer:
  assumes f: "fair ls s" and d: "fed ls s" and t: "t < length (writers s)" and w: "writer t s = Some (Some s')"
  shows "fed ls s'"
proof -
  note cnt = length_filter_upd [OF t, of to_type]
  have keep: "W_Strcat None \<notin> set ((writers s)[t := v])" if "v \<noteq> W_Strcat None" for v
    using d that set_update_subset_insert [of "writers s" t v] by (auto simp: fed_def)
  note i = fair_inside [OF f t]
  show ?thesis
  proof (cases "writers s ! t")
    case W_Lock
    then show ?thesis using d w cnt [of W_Gets] keep held_upd_same [OF t, of W_Gets]
      by (auto simp: writer_def fed_def split: if_splits)
  next
    case W_Gets
    have "W_Gets \<in> set (writers s)" using W_Gets t by (metis nth_mem)
    then have "filter to_type (writers s) \<noteq> []" by (metis filter_empty_conv to_type_simps(2))
    then obtain l r where lr: "stdin s = l # r" using d by (cases "stdin s") (auto simp: fed_def)
    then have "\<exists>k. r = drop k ls" using d by (metis fed_def drop_Suc tl_drop list.sel(3))
    then show ?thesis using W_Gets d w lr cnt [of "W_Strcat (Some (text_of l))"] keep i(2) i(3) [of "W_Strcat (Some (text_of l))"]
      by (auto simp: writer_def fed_def split: if_splits)
  next
    case (W_Strcat x)
    then show ?thesis using d w cnt [of W_Unlock] keep i(2) i(3) [of W_Unlock]
      by (cases x) (auto simp: writer_def fed_def split: if_splits)
  next
    case W_Unlock
    then show ?thesis using d w cnt [of W_Done] keep i(2) i(3) [of W_Done] by (auto simp: writer_def fed_def)
  next
    case W_Done
    then show ?thesis using w by (simp add: writer_def)
  qed
qed

lemma fed_reader: "fed ls s \<Longrightarrow> reader t s = Some s' \<Longrightarrow> fed ls s'"
  by (auto simp: fed_def reader_def split: r_at.splits if_splits)

lemma text_of_le: "length (text_of l) \<le> length l"
  by (simp add: text_of_def length_takeWhile_le)

lemma texts_le: "length (concat (map text_of ls)) \<le> length (concat ls)"
  by (induction ls) (auto intro: add_mono text_of_le)

lemma length_le_concat: "l \<in> set ls \<Longrightarrow> length l \<le> length (concat ls)"
  by (induction ls) auto

lemma fed_writer_defined:
  assumes f: "fair ls s" and d: "fed ls s" and t: "t < length (writers s)" and small: "length (concat ls) < MAXDATA"
  shows "writer t s \<noteq> Some None"
proof (cases "writers s ! t")
  case W_Gets
  have "length l < MAXDATA" if "stdin s = l # r" for l r
  proof -
    have "l \<in> set ls" using that d by (metis fed_def in_set_dropD list.set_intros(1))
    from length_le_concat [OF this] small show ?thesis by simp
  qed
  then show ?thesis using W_Gets by (auto simp: writer_def split: list.splits)
next
  case (W_Strcat x)
  have "x \<noteq> None" using d t W_Strcat by (metis fed_def nth_mem)
  then obtain l where x: "x = Some l" by blast
  from W_Strcat x fair_inside(2) [OF f t]
  have "map text_of ls = entered s @ [l] @ map text_of (stdin s)" using d by (simp add: fed_def)
  then have "concat (map text_of ls) = data s @ l @ concat (map text_of (stdin s))" using f by (simp add: fair_def)
  then have "length (concat (map text_of ls)) = length (data s) + length l + length (concat (map text_of (stdin s)))" by simp
  with texts_le [of ls] have "length (data s) + length l \<le> length (concat ls)" by linarith
  with small W_Strcat x show ?thesis by (simp add: writer_def)
qed (auto simp: writer_def)

text \<open>Somebody can always go on: whoever is inside the lock, and if nobody is, whoever waits for it.\<close>

lemma rwlock_progress:
  assumes f: "fair ls s" and "\<not> (list_all (\<lambda>w. w = W_Done) (writers s) \<and> list_all (\<lambda>r. r = R_Done) (readers s))"
  shows "\<exists>r. step s r"
proof -
  have w: "writer t s \<noteq> None \<Longrightarrow> t < length (writers s) \<Longrightarrow> \<exists>r. step s r" for t using step.writes by fastforce
  have r: "reader t s \<noteq> None \<Longrightarrow> t < length (readers s) \<Longrightarrow> \<exists>r. step s r" for t using step.reads by fastforce
  consider t where "t < length (writers s)" "writing (writers s ! t)" | t where "t < length (readers s)" "reading (readers s ! t)"
    | "filter writing (writers s) = []" "filter reading (readers s) = []"
    unfolding filter_empty_conv by (metis in_set_conv_nth)
  then show ?thesis
  proof cases
    case (1 t)
    then have "writer t s \<noteq> None" by (auto simp: writer_def split: w_at.splits list.splits option.splits)
    with w 1 show ?thesis by blast
  next
    case (2 t)
    then have "reader t s \<noteq> None" by (auto simp: reader_def reading_def)
    with r 2 show ?thesis by blast
  next
    case 3
    then have free: "\<not> wr_held s" "rd_held s = 0" using f by (auto simp: fair_def split: if_splits)
    from assms(2) consider t where "t < length (writers s)" "writers s ! t \<noteq> W_Done" | t where "t < length (readers s)" "readers s ! t \<noteq> R_Done"
      by (auto simp: list_all_length)
    then show ?thesis
    proof cases
      case (1 t)
      with 3 have "writers s ! t = W_Lock" by (metis filter_empty_conv nth_mem writing_def)
      with free have "writer t s \<noteq> None" by (simp add: writer_def)
      with w 1 show ?thesis by blast
    next
      case (2 t)
      with 3 have "readers s ! t = R_Lock" by (metis filter_empty_conv nth_mem reading_def r_at.exhaust)
      with free have "reader t s \<noteq> None" by (simp add: reader_def)
      with r 2 show ?thesis by blast
    qed
  qed
qed

text \<open>C12: with at most 100 readers and at most 100 writers, at least as many lines typed as there are writers, and lines of fewer than
  1024 bytes in all: \<open>main\<close> stays inside its arrays, no interleaving of the threads leaves the shared array or a local
  one, no state is stuck before every thread has ended, and what has been appended is a beginning of the lines typed.\<close>

theorem rwlock_safe:
  assumes "rn \<le> 100" "wn \<le> 100" "wn \<le> int (length ls)" "length (concat ls) < 1024"
  shows "\<exists>s0. rwlock_main st rn wn ls = Some s0 \<and> (\<forall>s. reach s0 s \<longrightarrow> \<not> step s None
    \<and> prefix (entered s) (map text_of ls)
    \<and> (list_all (\<lambda>w. w = W_Done) (writers s) \<and> list_all (\<lambda>r. r = R_Done) (readers s) \<or> (\<exists>s'. step s (Some s'))))"
proof -
  obtain s0 where s0: "rwlock_main st rn wn ls = Some s0" "fed ls s0"
    using assms(1-3)
  proof -
    have "\<exists>k. ls = drop k ls" by (rule exI [of _ 0]) simp
    with assms(1-3) that show ?thesis
      by (auto simp: rwlock_main_def MAXWRITER_def MAXREADER_def fed_def filter_replicate)
  qed
  have "\<not> step s None \<and> prefix (entered s) (map text_of ls)
    \<and> (list_all (\<lambda>w. w = W_Done) (writers s) \<and> list_all (\<lambda>r. r = R_Done) (readers s) \<or> (\<exists>s'. step s (Some s')))" if r: "reach s0 s" for s
  proof -
    have i: "fair ls s \<and> fed ls s"
      by (rule reach_invariant [OF r, where P = "\<lambda>s. fair ls s \<and> fed ls s"])
        (use fair_main [OF s0(1)] s0(2) fair_writer fed_writer fair_reader fed_reader in blast)+
    have n: "\<not> step s None"
      using fed_writer_defined [of ls s] i assms(4) by (auto simp: MAXDATA_def elim!: step.cases)
    moreover have "prefix (entered s) (map text_of ls)" using i by (simp add: fed_def)
    moreover have "list_all (\<lambda>w. w = W_Done) (writers s) \<and> list_all (\<lambda>r. r = R_Done) (readers s) \<or> (\<exists>s'. step s (Some s'))"
      using rwlock_progress [of ls s] i n by (metis not_Some_eq)
    ultimately show ?thesis by blast
  qed
  with s0(1) show ?thesis by blast
qed

theorem rwlock_safe_witness:
  "\<exists>s0 s. rwlock_main (\<lambda>_. []) 1 1 [[104]] = Some s0 \<and> reach s0 s \<and> writers s = [W_Strcat (Some [104])]
    \<and> \<not> step s None \<and> (\<exists>s'. step s (Some s'))"
proof -
  define st :: "nat \<Rightarrow> byte list" where "st = (\<lambda>_. [])"
  obtain s0 where s0: "rwlock_main st 1 1 [[104]] = Some s0" "\<And>s. reach s0 s \<Longrightarrow> \<not> step s None
    \<and> (list_all (\<lambda>w. w = W_Done) (writers s) \<and> list_all (\<lambda>r. r = R_Done) (readers s) \<or> (\<exists>s'. step s (Some s')))"
    using rwlock_safe [of 1 1 "[[104]]" st] by auto
  have "\<exists>s. rw_run [(True, 0), (True, 0)] s0 = Some s \<and> writers s = [W_Strcat (Some [104])]"
    using s0(1) by (auto simp: rwlock_main_def MAXWRITER_def MAXREADER_def writer_def text_of_def MAXDATA_def)
  then obtain s where s: "reach s0 s" "writers s = [W_Strcat (Some [104])]" using rw_run_reach [OF reach.start] by blast
  from s0(2) [OF s(1)] s(2) have "\<not> step s None \<and> (\<exists>s'. step s (Some s'))" by simp
  with s s0(1) show ?thesis unfolding st_def by blast
qed

end
