(* ===== verification/Shared_Memory.thy ===== *)
theory Shared_Memory
  imports Prelude
begin

text \<open>
  The two shared memory programs: \<open>Application/ipc/sharemem/sharemem.c\<close>, a counter in POSIX shared memory
  under a named semaphore, and \<open>Application/ipc/systemV_shm/systemV_shm.c\<close>, which fills and prints a
  System V segment. The objects of the system are maps from names and keys. A program that runs is not
  interleaved with another one here.
\<close>

section \<open>The counter\<close>

text \<open>Shared memory objects hold \<open>struct shmstruct\<close>, which is its count; a semaphore is its value.\<close>

record posix =
  shms :: "string \<Rightarrow> int option"
  sems :: "string \<Rightarrow> nat option"
  printed :: "int list"

datatype 'a outcome = Blocks | Exit int 'a

text \<open>\<open>shm_open\<close> and \<open>sem_open\<close> without \<open>O_CREAT\<close> fail on a name that does not exist; \<open>sem_open\<close> then takes
  no value. \<open>mmap_ok\<close> says whether \<open>mmap\<close> succeeds.\<close>

definition sharemem_read :: "bool \<Rightarrow> string \<Rightarrow> string \<Rightarrow> posix \<Rightarrow> posix outcome" where
  "sharemem_read mmap_ok shm sem s = (case shms s shm of None \<Rightarrow> Exit (- 1) s
     | Some num \<Rightarrow>
         if \<not> mmap_ok then Exit (- 1) s
         else (case sems s sem of None \<Rightarrow> Exit (- 1) s
         | Some v \<Rightarrow> if v = 0 then Blocks else Exit 0 (s\<lparr>printed := printed s @ [num]\<rparr>)))"

text \<open>The writer unlinks both names first, so that both are created anew, the memory filled with zeroes and
  the semaphore with value 1; it waits, stores and posts. \<open>create_ok\<close>: the names are legal.\<close>

definition sharemem_write :: "bool \<Rightarrow> bool \<Rightarrow> string \<Rightarrow> string \<Rightarrow> int \<Rightarrow> posix \<Rightarrow> posix outcome" where
  "sharemem_write create_ok mmap_ok shm sem n s =
     (let s = s\<lparr>shms := (shms s)(shm := None)\<rparr> in
      if \<not> create_ok then Exit (- 1) s
      else let s = s\<lparr>shms := (shms s)(shm \<mapsto> 0)\<rparr> in
      if \<not> mmap_ok then Exit (- 1) s
      else let s = s\<lparr>sems := (sems s)(sem \<mapsto> 1)\<rparr>
      in Exit 0 (s\<lparr>shms := (shms s)(shm \<mapsto> n)\<rparr>))"

definition sharemem_main :: "bool \<Rightarrow> bool \<Rightarrow> (string \<Rightarrow> int) \<Rightarrow> string list \<Rightarrow> posix \<Rightarrow> posix outcome" where
  "sharemem_main create_ok mmap_ok atoi argv s =
     (if length argv = 3 then sharemem_read mmap_ok (argv ! 1) (argv ! 2) s
      else if length argv = 4 then sharemem_write create_ok mmap_ok (argv ! 1) (argv ! 2) (atoi (argv ! 3)) s
      else Exit 0 s)"

text \<open>whatever was there before, a reader that is started after a writer with the same names prints the
  count the writer was given, as often as it is started, and leaves both objects as they are.\<close>

theorem sharemem_roundtrip:
  assumes "sharemem_main True True atoi [p, shm, sem, n] s = Exit r s'"
  shows "r = 0 \<and> sharemem_main c True atoi [q, shm, sem] s' = Exit 0 (s'\<lparr>printed := printed s' @ [atoi n]\<rparr>)
    \<and> (\<forall>shm'. shm' \<noteq> shm \<longrightarrow> shms s' shm' = shms s shm')"
  using assms by (auto simp: sharemem_main_def sharemem_write_def sharemem_read_def Let_def)

theorem sharemem_roundtrip_witness:
  "\<exists>s'. sharemem_main True True (\<lambda>x. 42) [''p'', ''/m'', ''/s'', ''42''] \<lparr>shms = (\<lambda>x. None), sems = (\<lambda>x. Some 0), printed = []\<rparr> = Exit 0 s'
    \<and> sharemem_main True True (\<lambda>x. 42) [''p'', ''/m'', ''/s''] s' = Exit 0 (s'\<lparr>printed := [42]\<rparr>)"
proof -
  let ?s = "\<lparr>shms = (\<lambda>x. None), sems = (\<lambda>x. Some 0), printed = []\<rparr> :: posix"
  obtain s' where s': "sharemem_main True True (\<lambda>x. 42) [''p'', ''/m'', ''/s'', ''42''] ?s = Exit 0 s'" "printed s' = []"
    by (simp add: sharemem_main_def sharemem_write_def)
  with sharemem_roundtrip [OF s'(1), of True "''p''"] show ?thesis by auto
qed

section \<open>The segment\<close>

text \<open>A segment has the size asked for, rounded up to whole pages where it is mapped.\<close>

record segment =
  shm_segsz :: nat
  mem :: "byte list"

definition pages :: "nat \<Rightarrow> nat \<Rightarrow> nat" where
  "pages page n = (n + page - 1) div page * page"

record sysv =
  segments :: "int \<Rightarrow> segment option"
  shown :: "(nat \<times> int) list"

text \<open>\<open>ptr\<close> walks through the segment: it is advanced before its byte is printed.\<close>

fun fill_loop :: "nat \<Rightarrow> nat \<Rightarrow> byte list \<Rightarrow> (byte list \<times> (nat \<times> int) list) option" where
  "fill_loop 0 i m = Some (m, [])"
| "fill_loop (Suc n) i m = do {
     m1 \<leftarrow> aset m (int i) (of_nat i);
     v \<leftarrow> aget m1 (int i + 1);
     (m2, out) \<leftarrow> fill_loop n (i + 1) m1;
     Some (m2, (i, sint v) # out) }"

fun print_loop :: "nat \<Rightarrow> nat \<Rightarrow> byte list \<Rightarrow> (nat \<times> int) list option" where
  "print_loop 0 i m = Some []"
| "print_loop (Suc n) i m = do { v \<leftarrow> aget m (int i); out \<leftarrow> print_loop n (i + 1) m; Some ((i, sint v) # out) }"

text \<open>\<open>shmget\<close> with \<open>IPC_CREAT\<close> gives the segment that is there, unless it is too small, or makes one of zeroes;
  a segment of size 0 is refused. Nothing looks at the result.\<close>

definition shm_create :: "nat \<Rightarrow> int \<Rightarrow> nat \<Rightarrow> sysv \<Rightarrow> sysv" where
  "shm_create page key n s = (case segments s key of Some _ \<Rightarrow> s
     | None \<Rightarrow> if n = 0 then s
         else s\<lparr>segments := (segments s)(key \<mapsto> \<lparr>shm_segsz = n, mem = replicate (pages page n) 0\<rparr>)\<rparr>)"

text \<open>When there is no segment \<open>shmat\<close> returns -1, which is not \<open>NULL\<close>, and \<open>buf\<close> keeps what the stack held:
  \<open>garbage\<close> is its size.\<close>

definition shm_fill :: "nat \<Rightarrow> int \<Rightarrow> sysv \<Rightarrow> sysv option" where
  "shm_fill garbage key s = (case segments s key of None \<Rightarrow> if garbage = 0 then Some s else None
     | Some g \<Rightarrow> do { (m, out) \<leftarrow> fill_loop (shm_segsz g) 0 (mem g);
         Some (s\<lparr>segments := (segments s)(key \<mapsto> g\<lparr>mem := m\<rparr>), shown := shown s @ out\<rparr>) })"

definition shm_print :: "nat \<Rightarrow> int \<Rightarrow> sysv \<Rightarrow> sysv option" where
  "shm_print garbage key s = (case segments s key of None \<Rightarrow> if garbage = 0 then Some s else None
     | Some g \<Rightarrow> do { out \<leftarrow> print_loop (shm_segsz g) 0 (mem g); Some (s\<lparr>shown := shown s @ out\<rparr>) })"

lemma fill_loop_result:
  "i + n < length m \<Longrightarrow> fill_loop n i m = Some (take i m @ map of_nat [i..<i + n] @ drop (i + n) m,
     map (\<lambda>j. (j, sint (m ! (j + 1)))) [i..<i + n])"
proof (induction n arbitrary: i m)
  case (Suc n)
  have "fill_loop n (i + 1) (m[i := of_nat i]) = Some (take (i + 1) (m[i := of_nat i]) @ map of_nat [i + 1..<i + 1 + n] @ drop (i + 1 + n) m,
      map (\<lambda>j. (j, sint (m[i := of_nat i] ! (j + 1)))) [i + 1..<i + 1 + n])"
    using Suc.IH [of "i + 1" "m[i := of_nat i]"] Suc.prems by (simp del: upt_Suc)
  moreover have "map (\<lambda>j. (j, sint (m[i := of_nat i] ! (j + 1)))) [i + 1..<i + 1 + n] = map (\<lambda>j. (j, sint (m ! (j + 1)))) [i + 1..<i + 1 + n]"
    by (rule map_cong) auto
  moreover have "[i..<i + Suc n] = i # [i + 1..<i + 1 + n]" using upt_conv_Cons [of i "i + Suc n"] by simp
  moreover have "take (i + 1) (m[i := of_nat i]) = take i m @ [of_nat i]" using Suc.prems by (simp add: take_Suc_conv_app_nth)
  ultimately show ?case using Suc.prems by (simp add: aset_def aget_def nat_add_distrib del: upt_Suc)
qed simp

lemma fill_loop_fault: "0 < n \<Longrightarrow> i + n = length m \<Longrightarrow> fill_loop n i m = None"
proof (induction n arbitrary: i m)
  case (Suc n)
  show ?case
  proof (cases n)
    case 0 then show ?thesis using Suc.prems by (simp add: aset_def aget_def)
  next
    case (Suc k)
    then have "fill_loop n (i + 1) (m[i := of_nat i]) = None" using Suc.IH [of "i + 1" "m[i := of_nat i]"] Suc.prems by simp
    then show ?thesis using Suc.prems by (simp add: aset_def aget_def del: fill_loop.simps(2)) (simp add: aset_def aget_def)
  qed
qed simp

lemma print_loop_result: "i + n \<le> length m \<Longrightarrow> print_loop n i m = Some (map (\<lambda>j. (j, sint (m ! j))) [i..<i + n])"
proof (induction n arbitrary: i)
  case (Suc n)
  moreover have "[i..<i + Suc n] = i # [i + 1..<i + 1 + n]" using upt_conv_Cons [of i "i + Suc n"] by simp
  ultimately show ?case using Suc.IH [of "i + 1"] by (simp add: aget_def)
qed simp

lemma pages_ge: "0 < page \<Longrightarrow> n \<le> pages page n"
  unfolding pages_def using div_mult_mod_eq [of "n + page - 1" page] mod_less_divisor [of page "n + page - 1"] by linarith

lemma pages_exact: "0 < page \<Longrightarrow> pages page n = n \<longleftrightarrow> page dvd n"
proof
  assume "0 < page" "page dvd n"
  then obtain k where n: "n = page * k" by blast
  obtain p where p: "page = Suc p" using \<open>0 < page\<close> by (cases page) auto
  have "(p + k * Suc p) div Suc p = k + p div Suc p" by (rule div_mult_self1) simp
  then have "(page * k + page - 1) div page = k" by (simp add: p algebra_simps)
  then show "pages page n = n" by (simp add: pages_def n mult.commute)
qed (simp add: pages_def, metis dvd_triv_right)

text \<open>on a new segment whose size is not a whole number of pages, filling succeeds, and printing then shows
  for each index its low byte as a signed \<open>char\<close>; while filling, the value shown for an index is that of
  the byte behind it, a zero. When the size is a whole number of pages, filling reads behind the segment.\<close>

theorem systemv_shm_fill_print:
  assumes "segments s key = None" "0 < n" "0 < page" "t = shm_create page key n s"
  shows "(\<not> page dvd n \<longrightarrow> (\<exists>u v. shm_fill g key t = Some u \<and> shown u = shown s @ map (\<lambda>j. (j, 0)) [0..<n]
        \<and> shm_print g key u = Some v \<and> shown v = shown u @ map (\<lambda>j. (j, sint (of_nat j :: byte))) [0..<n]))
    \<and> (page dvd n \<longrightarrow> shm_fill g key t = None)"
proof (intro conjI impI)
  let ?m = "replicate (pages page n) (0 :: byte)"
  have seg: "segments t key = Some \<lparr>shm_segsz = n, mem = ?m\<rparr>" "shown t = shown s"
    using assms by (simp_all add: shm_create_def)
  show "shm_fill g key t = None" if "page dvd n"
  proof -
    have "pages page n = n" using that pages_exact [OF assms(3)] by simp
    then have "fill_loop n 0 ?m = None" using fill_loop_fault [of n 0 ?m] assms(2) by simp
    then show ?thesis by (simp add: shm_fill_def seg)
  qed
  assume "\<not> page dvd n"
  then have n: "n < pages page n" using pages_ge [OF assms(3), of n] pages_exact [OF assms(3), of n] by linarith
  have out: "map (\<lambda>j. (j, sint (?m ! (j + 1)))) [0..<n] = map (\<lambda>j. (j, 0)) [0..<n]" using n by simp
  have fill: "fill_loop n 0 ?m = Some (map of_nat [0..<n] @ drop n ?m, map (\<lambda>j. (j, 0)) [0..<n])"
    using fill_loop_result [of 0 n ?m] n out by simp
  have "print_loop n 0 (map of_nat [0..<n] @ drop n ?m) = Some (map (\<lambda>j. (j, sint (of_nat j :: byte))) [0..<n])"
    using print_loop_result [of 0 n "map of_nat [0..<n] @ drop n ?m"] by (simp add: nth_append)
  then show "\<exists>u v. shm_fill g key t = Some u \<and> shown u = shown s @ map (\<lambda>j. (j, 0)) [0..<n]
      \<and> shm_print g key u = Some v \<and> shown v = shown u @ map (\<lambda>j. (j, sint (of_nat j :: byte))) [0..<n]"
    using fill by (simp add: shm_fill_def shm_print_def seg)
qed

theorem systemv_shm_fill_print_witness:
  "shm_fill 0 7 (shm_create 4 7 8 \<lparr>segments = (\<lambda>k. None), shown = []\<rparr>) = None
   \<and> (\<exists>u v. shm_fill 0 7 (shm_create 4 7 2 \<lparr>segments = (\<lambda>k. None), shown = []\<rparr>) = Some u
        \<and> shm_print 0 7 u = Some v \<and> shown v = [(0, 0), (1, 0), (0, 0), (1, 1)])"
  using systemv_shm_fill_print [of "\<lparr>segments = (\<lambda>k. None), shown = []\<rparr>" 7 8 4 _ 0]
    systemv_shm_fill_print [of "\<lparr>segments = (\<lambda>k. None), shown = []\<rparr>" 7 2 4 _ 0]
  by (auto simp: upt_rec)

end
