(* ===== verification/Cam_Script.thy ===== *)
theory Cam_Script
  imports Prelude
begin

text \<open>
  The rows of the camera set-up scripts in \<open>Languge/shell/cam_init_scripts\<close>, as their headers describe
  them: \<open>[Words to Write][I2C Slave address][I2C Register Address MSB][I2C Register Address LSB][Data Word]\<close>,
  where the first byte counts the bytes behind it: 4 for a register of one byte, 5 for one of two bytes, 3
  for a device with short register addresses; and 0 starts a delay in milliseconds. A row is what one
  line of a script lists. The reader of the scripts and the devices are not part of the repository and are not modelled.
\<close>

section \<open>Commands\<close>

datatype cmd = Delay byte | Write8 byte byte byte | Write byte byte byte byte | Write16 byte byte byte byte byte

fun decode_row :: "byte list \<Rightarrow> cmd option" where
  "decode_row [n, d] = (if n = 0 then Some (Delay d) else None)"
| "decode_row [n, s, a, v] = (if n = 3 then Some (Write8 s a v) else None)"
| "decode_row [n, s, h, l, v] = (if n = 4 then Some (Write s h l v) else None)"
| "decode_row [n, s, h, l, v, w] = (if n = 5 then Some (Write16 s h l v w) else None)"
| "decode_row _ = None"

fun encode_row :: "cmd \<Rightarrow> byte list" where
  "encode_row (Delay d) = [0, d]"
| "encode_row (Write8 s a v) = [3, s, a, v]"
| "encode_row (Write s h l v) = [4, s, h, l, v]"
| "encode_row (Write16 s h l v w) = [5, s, h, l, v, w]"

text \<open>The commands of a script; rows that are none are left out.\<close>

definition commands :: "byte list list \<Rightarrow> cmd list" where
  "commands rows = List.map_filter decode_row rows"

lemma commands_simps [simp]:
  "commands [] = []"
  "commands (r # rows) = (case decode_row r of None \<Rightarrow> commands rows | Some c \<Rightarrow> c # commands rows)"
  "commands (rows @ rows') = commands rows @ commands rows'"
  by (simp_all add: commands_def map_filter_simps split: option.split) (simp add: List.map_filter_def)

lemma decode_encode [simp]: "decode_row (encode_row c) = Some c"
  by (cases c) simp_all

lemma encode_decode: "decode_row r = Some c \<Longrightarrow> r = encode_row c"
  by (induction r rule: decode_row.induct) (auto split: if_splits)

section \<open>Waiting after a reset\<close>

text \<open>Register 0x0018 resets links. A script waits when a delay of at least 100 ms follows each such write.\<close>

definition is_reset :: "cmd \<Rightarrow> bool" where
  "is_reset c \<longleftrightarrow> (case c of Write s h l v \<Rightarrow> (s = 0x52 \<or> s = 0x54) \<and> h = 0x00 \<and> l = 0x18 | _ \<Rightarrow> False)"

fun resets_wait :: "cmd list \<Rightarrow> bool" where
  "resets_wait [] = True"
| "resets_wait (c # cs) = ((if is_reset c then (case cs of Delay d # _ \<Rightarrow> 100 \<le> d | _ \<Rightarrow> False) else True) \<and> resets_wait cs)"

lemma resets_wait_split:
  assumes "resets_wait (xs @ c # ys)" "is_reset c"
  shows "\<exists>d zs. ys = Delay d # zs \<and> 100 \<le> d"
proof -
  have "resets_wait (c # ys)" using assms(1)
  proof (induction xs)
    case (Cons x xs)
    then have "resets_wait (xs @ c # ys)" by (simp only: append_Cons resets_wait.simps(2))
    then show ?case by (rule Cons.IH)
  qed simp
  then have "case ys of Delay d # _ \<Rightarrow> 100 \<le> d | _ \<Rightarrow> False" using assms(2) by simp
  then obtain y zs where y: "ys = y # zs" "case y of Delay d \<Rightarrow> 100 \<le> d | _ \<Rightarrow> False" by (cases ys) auto
  then show ?thesis by (cases y) auto
qed

lemma resets_wait_append: "resets_wait xs \<Longrightarrow> resets_wait ys \<Longrightarrow> resets_wait (xs @ ys)"
proof (induction xs)
  case (Cons c xs)
  then show ?case by (cases xs) (auto split: if_splits)
qed simp

lemma no_reset_waits: "list_all (\<lambda>c. \<not> is_reset c) cs \<Longrightarrow> resets_wait cs"
  by (induction cs) auto

end
