(* ===== verification/Cam_Tables.thy ===== *)
theory Cam_Tables
  imports Cam_Script
begin

text \<open>
  The scripts of \<open>Languge/shell/cam_init_scripts\<close> but the longest, row by row: each list is the rows of a
  stretch of the file, in order, the lines that are commented out left out. A row is what a line lists; the comma that is missing at
  the end of three lines of each script for 0x54 (254, 255 and 518, and 253, 254 and 517) makes no difference to the rows.
\<close>

section \<open>MAX96712\_GMSL1\_example.cpp\<close>

definition example_1 :: "byte list list" where
  "example_1 = [
    [4, 0x52, 0, 6, 0x0F], [4, 0x52, 0, 0x10, 0x11], [4, 0x52, 0, 0x11, 0x11], [4, 0x52, 0, 0x18, 0x0F],
    [0, 0x7F], [4, 0x52, 0x0B, 6, 0xEF], [4, 0x52, 0x0C, 6, 0xEF], [4, 0x52, 0x0D, 6, 0xEF],
    [4, 0x52, 0x0E, 6, 0xEF], [4, 0x52, 0x0B, 0x0D, 0x81], [4, 0x52, 0x0C, 0x0D, 0x81], [4, 0x52, 0x0D, 0x0D, 0x81],
    [4, 0x52, 0x0E, 0x0D, 0x81], [3, 0x80, 0x4D, 0x40], [0, 0x0A], [4, 0x52, 0x0B, 6, 0x6F],
    [4, 0x52, 0x0C, 6, 0x6F], [4, 0x52, 0x0D, 6, 0x6F], [4, 0x52, 0x0E, 6, 0x6F], [4, 0x52, 0, 0x18, 0x0F],
    [0, 0x7F], [4, 0x52, 0x14, 0xC5, 0xAA], [4, 0x52, 0x15, 0xC5, 0xAA], [4, 0x52, 0x16, 0xC5, 0xAA],
    [4, 0x52, 0x17, 0xC5, 0xAA], [4, 0x52, 0x14, 0xC4, 0x8A], [4, 0x52, 0x15, 0xC4, 0x8A], [4, 0x52, 0x16, 0xC4, 0x8A],
    [4, 0x52, 0x17, 0xC4, 0x8A], [4, 0x52, 0x14, 0x95, 0x88], [4, 0x52, 0x15, 0x95, 0x88], [4, 0x52, 0x16, 0x95, 0x88],
    [4, 0x52, 0x17, 0x95, 0x88], [3, 0x80, 4, 0x43], [0, 5], [4, 0x52, 0x0B, 4, 2],
    [4, 0x52, 0x0C, 4, 2], [4, 0x52, 0x0D, 4, 2], [4, 0x52, 0x0E, 4, 2], [0, 5],
    [3, 0x80, 0x4D, 0xC0], [0, 5], [4, 0x52, 0x0B, 6, 0xEF], [4, 0x52, 0x0C, 6, 0xEF],
    [4, 0x52, 0x0D, 6, 0xEF], [4, 0x52, 0x0E, 6, 0xEF], [4, 0x52, 0x14, 0xC5, 0x40], [4, 0x52, 0x15, 0xC5, 0x40],
    [4, 0x52, 0x16, 0xC5, 0x40], [4, 0x52, 0x17, 0xC5, 0x40], [4, 0x52, 0x14, 0xC4, 0x40], [4, 0x52, 0x15, 0xC4, 0x40],
    [4, 0x52, 0x16, 0xC4, 0x40], [4, 0x52, 0x17, 0xC4, 0x40], [4, 0x52, 0x14, 0x95, 0x69], [4, 0x52, 0x15, 0x95, 0x69],
    [4, 0x52, 0x16, 0x95, 0x69], [4, 0x52, 0x17, 0x95, 0x69], [4, 0x52, 0x0B, 4, 3], [4, 0x52, 0x0C, 4, 3],
    [4, 0x52, 0x0D, 4, 3], [4, 0x52, 0x0E, 4, 3], [4, 0x52, 0x0B, 8, 0x25], [0, 0x0A],
    [4, 0x52, 0x0C, 8, 0x25], [0, 0x0A], [4, 0x52, 0x0D, 8, 0x25], [0, 0x0A],
    [4, 0x52, 0x0E, 8, 0x25], [0, 0x0A], [4, 0x52, 0x0B, 0x0F, 1], [4, 0x52, 0x0C, 0x0F, 1],
    [4, 0x52, 0x0D, 0x0F, 1], [4, 0x52, 0x0E, 0x0F, 1], [4, 0x52, 0, 0xF4, 0x0F], [4, 0x52, 4, 0x0B, 0x62],
    [4, 0x52, 4, 0x0C, 0], [4, 0x52, 4, 0x0D, 0], [4, 0x52, 4, 0x0E, 0xAC], [4, 0x52, 4, 0x0F, 0xBC],
    [4, 0x52, 4, 0x10, 0xB0], [4, 0x52, 4, 0x11, 0x6C], [4, 0x52, 4, 0x12, 0x30], [4, 0x52, 8, 0xA0, 4],
    [4, 0x52, 8, 0xA3, 0xE4], [4, 0x52, 8, 0xA4, 0xE4], [4, 0x52, 9, 0x0A, 0xC0], [4, 0x52, 9, 0x4A, 0xC0],
    [4, 0x52, 9, 0x8A, 0xC0], [4, 0x52, 9, 0xCA, 0xC0], [4, 0x52, 8, 0xA2, 0xF0], [4, 0x52, 4, 0x15, 0xE6],
    [4, 0x52, 4, 0x18, 0xE6], [4, 0x52, 9, 0x0B, 7], [4, 0x52, 9, 0x2D, 0x15], [4, 0x52, 9, 0x0D, 0x2C],
    [4, 0x52, 9, 0x0E, 0x6C], [4, 0x52, 9, 0x0F, 0], [4, 0x52, 9, 0x10, 0x40], [4, 0x52, 9, 0x11, 1],
    [4, 0x52, 9, 0x12, 0x41], [4, 0x52, 9, 0x4B, 7], [4, 0x52, 9, 0x6D, 0x15], [4, 0x52, 9, 0x4D, 0x2C],
    [4, 0x52, 9, 0x4E, 0x2C], [4, 0x52, 9, 0x4F, 0], [4, 0x52, 9, 0x50, 0], [4, 0x52, 9, 0x51, 1],
    [4, 0x52, 9, 0x52, 1], [4, 0x52, 9, 0x8B, 7], [4, 0x52, 9, 0xAD, 0x15]]"

definition example_2 :: "byte list list" where
  "example_2 = [
    [4, 0x52, 9, 0x8D, 0x2C], [4, 0x52, 9, 0x8E, 0xAC], [4, 0x52, 9, 0x8F, 0], [4, 0x52, 9, 0x90, 0x80],
    [4, 0x52, 9, 0x91, 1], [4, 0x52, 9, 0x92, 0x81], [4, 0x52, 9, 0xCB, 7], [4, 0x52, 9, 0xED, 0x15],
    [4, 0x52, 9, 0xCD, 0x2C], [4, 0x52, 9, 0xCE, 0xEC], [4, 0x52, 9, 0xCF, 0], [4, 0x52, 9, 0xD0, 0xC0],
    [4, 0x52, 9, 0xD1, 1], [4, 0x52, 9, 0xD2, 0xC1], [0, 0x0F], [3, 0x80, 7, 0xC4],
    [0, 5], [4, 0x52, 0x0B, 7, 0x8C], [4, 0x52, 0x0C, 7, 0x8C], [4, 0x52, 0x0D, 7, 0x8C],
    [4, 0x52, 0x0E, 7, 0x8C], [3, 0x80, 4, 0x83]]"

definition example_script :: "byte list list" where
  "example_script = example_1 @ example_2"

section \<open>MAX96712\_GMSL1\_ISX019\_modified\_Only\_Link\_A.cpp\<close>

definition isx019_1 :: "byte list list" where
  "isx019_1 = [
    [4, 0x52, 0, 6, 0x0F], [4, 0x52, 0, 0x10, 0x11], [4, 0x52, 0, 0x11, 0x11], [4, 0x52, 0, 0x18, 0x0F],
    [0, 0x7F], [4, 0x52, 0x0B, 6, 0xEF], [4, 0x52, 0x0C, 6, 0xEF], [4, 0x52, 0x0D, 6, 0xEF],
    [4, 0x52, 0x0E, 6, 0xEF], [4, 0x52, 0x0B, 0x0D, 0x81], [4, 0x52, 0x0C, 0x0D, 0x81], [4, 0x52, 0x0D, 0x0D, 0x81],
    [4, 0x52, 0x0E, 0x0D, 0x81], [3, 0x80, 0x4D, 0x40], [0, 0x0A], [4, 0x52, 0x0B, 6, 0x6F],
    [4, 0x52, 0x0C, 6, 0x6F], [4, 0x52, 0x0D, 6, 0x6F], [4, 0x52, 0x0E, 6, 0x6F], [4, 0x52, 0, 0x18, 0x0F],
    [0, 0x7F], [4, 0x52, 0x14, 0xC5, 0xAA], [4, 0x52, 0x15, 0xC5, 0xAA], [4, 0x52, 0x16, 0xC5, 0xAA],
    [4, 0x52, 0x17, 0xC5, 0xAA], [4, 0x52, 0x14, 0xC4, 0x8A], [4, 0x52, 0x15, 0xC4, 0x8A], [4, 0x52, 0x16, 0xC4, 0x8A],
    [4, 0x52, 0x17, 0xC4, 0x8A], [4, 0x52, 0x14, 0x95, 0x88], [4, 0x52, 0x15, 0x95, 0x88], [4, 0x52, 0x16, 0x95, 0x88],
    [4, 0x52, 0x17, 0x95, 0x88], [3, 0x80, 4, 0x43], [0, 5], [4, 0x52, 0x0B, 4, 2],
    [4, 0x52, 0x0C, 4, 2], [4, 0x52, 0x0D, 4, 2], [4, 0x52, 0x0E, 4, 2], [0, 5],
    [3, 0x80, 0x4D, 0xC0], [0, 5], [4, 0x52, 0x0B, 6, 0xEF], [4, 0x52, 0x0C, 6, 0xEF],
    [4, 0x52, 0x0D, 6, 0xEF], [4, 0x52, 0x0E, 6, 0xEF], [4, 0x52, 0x14, 0xC5, 0x40], [4, 0x52, 0x15, 0xC5, 0x40],
    [4, 0x52, 0x16, 0xC5, 0x40], [4, 0x52, 0x17, 0xC5, 0x40], [4, 0x52, 0x14, 0xC4, 0x40], [4, 0x52, 0x15, 0xC4, 0x40],
    [4, 0x52, 0x16, 0xC4, 0x40], [4, 0x52, 0x17, 0xC4, 0x40], [4, 0x52, 0x14, 0x95, 0x69], [4, 0x52, 0x15, 0x95, 0x69],
    [4, 0x52, 0x16, 0x95, 0x69], [4, 0x52, 0x17, 0x95, 0x69], [4, 0x52, 0x0B, 4, 3], [4, 0x52, 0x0C, 4, 3],
    [4, 0x52, 0x0D, 4, 3], [4, 0x52, 0x0E, 4, 3], [4, 0x52, 0x0B, 8, 0x25], [0, 0x0A],
    [4, 0x52, 0x0C, 8, 0x25], [0, 0x0A], [4, 0x52, 0x0D, 8, 0x25], [0, 0x0A],
    [4, 0x52, 0x0E, 8, 0x25], [0, 0x0A], [4, 0x52, 0x0B, 0x0F, 1], [4, 0x52, 0x0C, 0x0F, 1],
    [4, 0x52, 0x0D, 0x0F, 1], [4, 0x52, 0x0E, 0x0F, 1], [4, 0x52, 0, 6, 1], [4, 0x52, 0, 0xF4, 0x0F],
    [4, 0x52, 4, 0x0B, 0x42], [4, 0x52, 4, 0x0C, 0], [4, 0x52, 4, 0x0D, 0], [4, 0x52, 4, 0x0E, 0x5E],
    [4, 0x52, 4, 0x0F, 0x7E], [4, 0x52, 4, 0x10, 0x7A], [4, 0x52, 4, 0x11, 0x48], [4, 0x52, 4, 0x12, 0x20],
    [4, 0x52, 4, 0x1A, 0xF0], [4, 0x52, 8, 0xA0, 4], [4, 0x52, 8, 0xA3, 0xE4], [4, 0x52, 8, 0xA4, 0xE4],
    [4, 0x52, 9, 0x0A, 0xC0], [4, 0x52, 9, 0x4A, 0xC0], [4, 0x52, 9, 0x8A, 0xC0], [4, 0x52, 9, 0xCA, 0xC0],
    [4, 0x52, 8, 0xA2, 0xF0], [4, 0x52, 4, 0x15, 0xE6], [4, 0x52, 4, 0x18, 0xE6], [4, 0x52, 9, 0x0B, 7],
    [4, 0x52, 9, 0x2D, 0x15], [4, 0x52, 9, 0x0D, 0x1E], [4, 0x52, 9, 0x0E, 0x1E], [4, 0x52, 9, 0x0F, 0],
    [4, 0x52, 9, 0x10, 0], [4, 0x52, 9, 0x11, 1], [4, 0x52, 9, 0x12, 1], [4, 0x52, 9, 0x4B, 7],
    [4, 0x52, 9, 0x6D, 0x15], [4, 0x52, 9, 0x4D, 0x1E], [4, 0x52, 9, 0x4E, 0x5E], [4, 0x52, 9, 0x4F, 0]]"

definition isx019_2 :: "byte list list" where
  "isx019_2 = [
    [4, 0x52, 9, 0x50, 0x40], [4, 0x52, 9, 0x51, 1], [4, 0x52, 9, 0x52, 0x41], [4, 0x52, 9, 0x8B, 7],
    [4, 0x52, 9, 0xAD, 0x15], [4, 0x52, 9, 0x8D, 0x1E], [4, 0x52, 9, 0x8E, 0x9E], [4, 0x52, 9, 0x8F, 0],
    [4, 0x52, 9, 0x90, 0x80], [4, 0x52, 9, 0x91, 1], [4, 0x52, 9, 0x92, 0x81], [4, 0x52, 9, 0xCB, 7],
    [4, 0x52, 9, 0xED, 0x15], [4, 0x52, 9, 0xCD, 0x1E], [4, 0x52, 9, 0xCE, 0xDE], [4, 0x52, 9, 0xCF, 0],
    [4, 0x52, 9, 0xD0, 0xC0], [4, 0x52, 9, 0xD1, 1], [4, 0x52, 9, 0xD2, 0xC1], [0, 0x0F],
    [3, 0x80, 7, 0xC4], [0, 5], [4, 0x52, 0x0B, 7, 0x8C], [4, 0x52, 0x0C, 7, 0x8C],
    [4, 0x52, 0x0D, 7, 0x8C], [4, 0x52, 0x0E, 7, 0x8C], [3, 0x80, 4, 0x83]]"

definition isx019_script :: "byte list list" where
  "isx019_script = isx019_1 @ isx019_2"

section \<open>MAX96722+MAX96701\_Configure Script\_20211101.CPP\<close>

definition max96722_1 :: "byte list list" where
  "max96722_1 = [
    [4, 0x52, 0, 0x17, 0x14], [4, 0x52, 0, 0x19, 0x94], [0, 0x0A], [4, 0x52, 6, 0xC2, 0x10],
    [0, 0x0A], [4, 0x52, 0x14, 0xD1, 3], [4, 0x52, 0x15, 0xD1, 3], [4, 0x52, 0x16, 0xD1, 3],
    [4, 0x52, 0x17, 0xD1, 3], [0, 0x0A], [4, 0x52, 0x14, 0x45, 0], [4, 0x52, 0x15, 0x45, 0],
    [4, 0x52, 0x16, 0x45, 0], [4, 0x52, 0x17, 0x45, 0], [0, 0x0A], [4, 0x52, 0x0B, 6, 0xEF],
    [4, 0x52, 0x0C, 6, 0xEF], [4, 0x52, 0x0D, 6, 0xEF], [4, 0x52, 0x0E, 6, 0xEF], [4, 0x52, 0, 6, 1],
    [4, 0x52, 0, 0x18, 1], [0, 0x7F], [3, 0x80, 4, 0x43], [0, 5],
    [3, 0x80, 0x67, 0xC4], [3, 0x80, 0x0F, 0xBF], [3, 0x80, 0, 0x82], [4, 0x52, 0, 6, 2],
    [4, 0x52, 0, 0x18, 2], [0, 0x7F], [3, 0x80, 4, 0x43], [0, 5],
    [3, 0x80, 0x67, 0xC4], [3, 0x80, 0x0F, 0xBF], [3, 0x80, 0, 0x84], [4, 0x52, 0, 6, 4],
    [4, 0x52, 0, 0x18, 4], [0, 0x7F], [3, 0x80, 4, 0x43], [0, 5],
    [3, 0x80, 0x67, 0xC4], [3, 0x80, 0x0F, 0xBF], [3, 0x80, 0, 0x86], [4, 0x52, 0, 6, 8],
    [4, 0x52, 0, 0x18, 8], [0, 0x7F], [3, 0x80, 4, 0x43], [0, 5],
    [3, 0x80, 0x67, 0xC4], [3, 0x80, 0x0F, 0xBF], [3, 0x80, 0, 0x88], [4, 0x52, 0, 6, 7],
    [4, 0x52, 0, 0x18, 7], [0, 0x7F], [4, 0x52, 0x0B, 0x0F, 1], [4, 0x52, 0x0C, 0x0F, 1],
    [4, 0x52, 0x0D, 0x0F, 1], [4, 0x52, 0x0E, 0x0F, 1], [4, 0x52, 4, 0x1A, 0xF0], [4, 0x52, 4, 0x0B, 0x40],
    [4, 0x52, 4, 0x0C, 0], [4, 0x52, 4, 0x0D, 0], [4, 0x52, 4, 0x0E, 0x5E], [4, 0x52, 4, 0x0F, 0x7E],
    [4, 0x52, 4, 0x10, 0x7A], [4, 0x52, 4, 0x11, 0x48], [4, 0x52, 4, 0x12, 0x20], [4, 0x52, 8, 0xA0, 4],
    [4, 0x52, 8, 0xA3, 0xE4], [4, 0x52, 8, 0xA4, 0xE4], [4, 0x52, 9, 0x0A, 0xC0], [4, 0x52, 9, 0x4A, 0xC0],
    [4, 0x52, 9, 0x8A, 0xC0], [4, 0x52, 9, 0xCA, 0xC0], [4, 0x52, 8, 0xA2, 0xF0], [4, 0x52, 0x1C, 0, 0xF4],
    [4, 0x52, 0x1D, 0, 0xF4], [4, 0x52, 0x1E, 0, 0xF4], [4, 0x52, 0x1F, 0, 0xF4], [4, 0x52, 4, 0x15, 0xE8],
    [4, 0x52, 4, 0x18, 0xE8], [4, 0x52, 0x1C, 0, 0xF5], [4, 0x52, 0x1D, 0, 0xF5], [4, 0x52, 0x1E, 0, 0xF5],
    [4, 0x52, 0x1F, 0, 0xF5], [4, 0x52, 9, 0x0B, 7], [4, 0x52, 9, 0x2D, 0x15], [4, 0x52, 9, 0x0D, 0x1E],
    [4, 0x52, 9, 0x0E, 0x1E], [4, 0x52, 9, 0x0F, 0], [4, 0x52, 9, 0x10, 0], [4, 0x52, 9, 0x11, 1]]"

definition max96722_2 :: "byte list list" where
  "max96722_2 = [
    [4, 0x52, 9, 0x12, 1], [4, 0x52, 9, 0x4B, 7], [4, 0x52, 9, 0x6D, 0x15], [4, 0x52, 9, 0x4D, 0x1E],
    [4, 0x52, 9, 0x4E, 0x5E], [4, 0x52, 9, 0x4F, 0], [4, 0x52, 9, 0x50, 0x40], [4, 0x52, 9, 0x51, 1],
    [4, 0x52, 9, 0x52, 0x41], [4, 0x52, 9, 0x8B, 7], [4, 0x52, 9, 0xAD, 0x15], [4, 0x52, 9, 0x8D, 0x1E],
    [4, 0x52, 9, 0x8E, 0x9E], [4, 0x52, 9, 0x8F, 0], [4, 0x52, 9, 0x90, 0x80], [4, 0x52, 9, 0x91, 1],
    [4, 0x52, 9, 0x92, 0x81], [4, 0x52, 9, 0xCB, 7], [4, 0x52, 9, 0xED, 0x15], [4, 0x52, 9, 0xCD, 0x1E],
    [4, 0x52, 9, 0xCE, 0xDE], [4, 0x52, 9, 0xCF, 0], [4, 0x52, 9, 0xD0, 0xC0], [4, 0x52, 9, 0xD1, 1],
    [4, 0x52, 9, 0xD2, 0xC1], [0, 0x0F], [4, 0x52, 0x0B, 7, 0x84], [4, 0x52, 0x0C, 7, 0x84],
    [4, 0x52, 0x0D, 7, 0x84], [4, 0x52, 0x0E, 7, 0x84], [3, 0x82, 4, 0x83], [3, 0x84, 4, 0x83],
    [3, 0x86, 4, 0x83], [3, 0x88, 4, 0x83], [4, 0x52, 8, 0xA0, 0x84], [4, 0x52, 4, 0x0B, 0x42]]"

definition max96722_script :: "byte list list" where
  "max96722_script = max96722_1 @ max96722_2"

section \<open>MAX96712\_MAX9295A\_VPRBS\_for.cpp\<close>

definition vprbs_1 :: "byte list list" where
  "vprbs_1 = [
    [4, 0x52, 0, 6, 0xF1], [4, 0x52, 0, 0xF0, 0xF0], [4, 0x52, 0, 0xF1, 0xFF], [4, 0x52, 1, 0xDC, 0x90],
    [4, 0x80, 0, 7, 0xF7], [4, 0x80, 0, 6, 0xBF], [4, 0x80, 0, 3, 7], [4, 0x80, 3, 0xF0, 0x71],
    [4, 0x80, 1, 0xE5, 0x80]]"

definition vprbs_script :: "byte list list" where
  "vprbs_script = vprbs_1"

section \<open>MAX96712\_GMSL1\_DPHY\_4 camera.cpp\<close>

definition dphy4_1 :: "byte list list" where
  "dphy4_1 = [
    [4, 0x54, 0, 6, 0x0F], [4, 0x54, 0, 0x10, 0x11], [4, 0x54, 0, 0x11, 0x11], [4, 0x54, 0, 0x18, 0x0F],
    [0, 0x7F], [4, 0x54, 0x0B, 0x0D, 0x81], [4, 0x54, 0x0C, 0x0D, 0x81], [4, 0x54, 0x0D, 0x0D, 0x81],
    [4, 0x54, 0x0E, 0x0D, 0x81], [4, 0x54, 0x0B, 6, 0x6F], [4, 0x54, 0x0C, 6, 0x6F], [4, 0x54, 0x0D, 6, 0x6F],
    [4, 0x54, 0x0E, 6, 0x6F], [4, 0x54, 0, 0x18, 0x0F], [0, 0x7F], [4, 0x54, 0x14, 0xC5, 0xAA],
    [4, 0x54, 0x15, 0xC5, 0xAA], [4, 0x54, 0x16, 0xC5, 0xAA], [4, 0x54, 0x17, 0xC5, 0xAA], [4, 0x54, 0x14, 0xC4, 0x8A],
    [4, 0x54, 0x15, 0xC4, 0x8A], [4, 0x54, 0x16, 0xC4, 0x8A], [4, 0x54, 0x17, 0xC4, 0x8A], [4, 0x54, 0x14, 0x95, 0x88],
    [4, 0x54, 0x15, 0x95, 0x88], [4, 0x54, 0x16, 0x95, 0x88], [4, 0x54, 0x17, 0x95, 0x88], [3, 0x80, 4, 0x43],
    [0, 5], [4, 0x54, 0x0B, 4, 2], [4, 0x54, 0x0C, 4, 2], [4, 0x54, 0x0D, 4, 2],
    [4, 0x54, 0x0E, 4, 2], [0, 5], [3, 0x80, 0x4D, 0xC0], [0, 5],
    [4, 0x54, 0x0B, 6, 0xEF], [4, 0x54, 0x0C, 6, 0xEF], [4, 0x54, 0x0D, 6, 0xEF], [4, 0x54, 0x0E, 6, 0xEF],
    [4, 0x54, 0x14, 0xC5, 0x40], [4, 0x54, 0x15, 0xC5, 0x40], [4, 0x54, 0x16, 0xC5, 0x40], [4, 0x54, 0x17, 0xC5, 0x40],
    [4, 0x54, 0x14, 0xC4, 0x40], [4, 0x54, 0x15, 0xC4, 0x40], [4, 0x54, 0x16, 0xC4, 0x40], [4, 0x54, 0x17, 0xC4, 0x40],
    [4, 0x54, 0x14, 0x95, 0x69], [4, 0x54, 0x15, 0x95, 0x69], [4, 0x54, 0x16, 0x95, 0x69], [4, 0x54, 0x17, 0x95, 0x69],
    [4, 0x54, 0x0B, 4, 3], [4, 0x54, 0x0C, 4, 3], [4, 0x54, 0x0D, 4, 3], [4, 0x54, 0x0E, 4, 3],
    [4, 0x54, 0x0B, 8, 0x25], [0, 0x0A], [4, 0x54, 0x0C, 8, 0x25], [0, 0x0A],
    [4, 0x54, 0x0D, 8, 0x25], [0, 0x0A], [4, 0x54, 0x0E, 8, 0x25], [0, 0x0A],
    [4, 0x54, 0x0B, 0x0F, 1], [4, 0x54, 0x0C, 0x0F, 1], [4, 0x54, 0x0D, 0x0F, 1], [4, 0x54, 0x0E, 0x0F, 1],
    [4, 0x54, 0, 0xF4, 0x0F], [4, 0x54, 4, 0x0B, 0x62], [4, 0x54, 4, 0x0C, 0], [4, 0x54, 4, 0x0D, 0],
    [4, 0x54, 4, 0x0E, 0xAC], [4, 0x54, 4, 0x0F, 0xBC], [4, 0x54, 4, 0x10, 0xB0], [4, 0x54, 4, 0x11, 0x6C],
    [4, 0x54, 4, 0x12, 0x30], [4, 0x54, 8, 0xA0, 4], [4, 0x54, 8, 0xA3, 0x4E], [4, 0x54, 8, 0xA4, 0x4E],
    [4, 0x54, 9, 0x4A, 0xC0], [4, 0x54, 9, 0x8A, 0xC0], [4, 0x54, 8, 0xA2, 0x20], [4, 0x54, 4, 0x15, 0xEF],
    [4, 0x54, 4, 0x18, 0xEF], [4, 0x54, 4, 0x1B, 0xEF], [4, 0x54, 4, 0x1E, 0x37]]"

definition dphy4_2 :: "byte list list" where
  "dphy4_2 = [
    [3, 0x80, 7, 0xC4], [0, 5], [4, 0x54, 0x0B, 7, 0x8C], [4, 0x54, 0x0C, 7, 0x8C],
    [4, 0x54, 0x0D, 7, 0x8C], [4, 0x54, 0x0E, 7, 0x8C], [4, 0x54, 4, 0xA5, 0], [4, 0x54, 4, 0xA6, 0],
    [4, 0x54, 4, 0xA7, 0x2D], [4, 0x54, 4, 0xA8, 0xFF], [4, 0x54, 4, 0xA9, 0x1F], [4, 0x54, 4, 0xAA, 0],
    [4, 0x54, 4, 0xAB, 0], [4, 0x54, 4, 0xA0, 0], [4, 0x54, 0x0B, 8, 0x31], [4, 0x54, 0x0C, 8, 0x31],
    [4, 0x54, 0x0D, 8, 0x31], [4, 0x54, 0x0E, 8, 0x31], [4, 0x54, 9, 0x31, 0x8F], [4, 0x54, 9, 0x71, 0x8F],
    [4, 0x54, 9, 0xB1, 0x8F], [4, 0x54, 9, 0xF1, 0x8F], [5, 0x20, 0x30, 0x1A, 0x10, 0x58], [0, 0x7F],
    [5, 0x20, 0x30, 0x92, 0x0C, 0x24], [5, 0x20, 0x33, 0x7A, 0x0C, 0x80], [5, 0x20, 0x35, 0x20, 0x12, 0x88], [5, 0x20, 0x35, 0x22, 0x88, 0x0C],
    [5, 0x20, 0x35, 0x24, 0x0C, 0x12], [5, 0x20, 0x35, 0x2C, 0x12, 0x12], [5, 0x20, 0x35, 0x4A, 0, 0x7F], [5, 0x20, 0x35, 0x0C, 5, 0x5C],
    [5, 0x20, 0x35, 6, 0x33, 0x33], [5, 0x20, 0x35, 8, 0x33, 0x33], [5, 0x20, 0x31, 0, 0x40, 0], [5, 0x20, 0x32, 0x80, 0x0F, 0xA0],
    [5, 0x20, 0x32, 0x82, 0x0F, 0xA0], [5, 0x20, 0x32, 0x84, 0x0F, 0xA0], [5, 0x20, 0x32, 0x86, 0x0F, 0xA0], [5, 0x20, 0x32, 0x88, 0x0F, 0xA0],
    [5, 0x20, 0x32, 0x8A, 0x0F, 0xA0], [5, 0x20, 0x32, 0x8C, 0x0F, 0xA0], [5, 0x20, 0x32, 0x8E, 0x0F, 0xA0], [5, 0x20, 0x32, 0x90, 0x0F, 0xA0],
    [5, 0x20, 0x32, 0x92, 0x0F, 0xA0], [5, 0x20, 0x32, 0x94, 0x0F, 0xA0], [5, 0x20, 0x32, 0x96, 0x0F, 0xA0], [5, 0x20, 0x32, 0x98, 0x0F, 0xA0],
    [5, 0x20, 0x32, 0x9A, 0x0F, 0xA0], [5, 0x20, 0x32, 0x9C, 0x0F, 0xA0], [5, 0x20, 0x32, 0x9E, 0x0F, 0xA0], [5, 0x20, 0x30, 0x1A, 0x10, 0xD8],
    [0, 0x7F], [0, 0x7F], [5, 0x20, 0x25, 0x12, 0x80, 0], [5, 0x20, 0x25, 0x10, 9, 5],
    [5, 0x20, 0x25, 0x10, 0x33, 0x50], [5, 0x20, 0x25, 0x10, 0x20, 4], [5, 0x20, 0x25, 0x10, 0x14, 0x60], [5, 0x20, 0x25, 0x10, 0x15, 0x78],
    [5, 0x20, 0x25, 0x10, 9, 1], [5, 0x20, 0x25, 0x10, 0x7B, 0x24], [5, 0x20, 0x25, 0x10, 0xFF, 0x24], [5, 0x20, 0x25, 0x10, 0xFF, 0x24],
    [5, 0x20, 0x25, 0x10, 0xEA, 0x24], [5, 0x20, 0x25, 0x10, 0x10, 0x22], [5, 0x20, 0x25, 0x10, 0x24, 0x10], [5, 0x20, 0x25, 0x10, 0x15, 0x5A],
    [5, 0x20, 0x25, 0x10, 9, 1], [5, 0x20, 0x25, 0x10, 0x14, 0], [5, 0x20, 0x25, 0x10, 0x24, 0xFF], [5, 0x20, 0x25, 0x10, 0x24, 0xFF],
    [5, 0x20, 0x25, 0x10, 0x24, 0xEA], [5, 0x20, 0x25, 0x10, 0x23, 0x24], [5, 0x20, 0x25, 0x10, 0x64, 0x7A], [5, 0x20, 0x25, 0x10, 0x24, 4],
    [5, 0x20, 0x25, 0x10, 5, 0x2C], [5, 0x20, 0x25, 0x10, 0x40, 0x0A], [5, 0x20, 0x25, 0x10, 0xFF, 0x0A], [5, 0x20, 0x25, 0x10, 0xFF, 0x0A],
    [5, 0x20, 0x25, 0x10, 0x10, 8], [5, 0x20, 0x25, 0x10, 0x38, 0x51], [5, 0x20, 0x25, 0x10, 0x14, 0x40], [5, 0x20, 0x25, 0x10, 0, 4],
    [5, 0x20, 0x25, 0x10, 8, 1], [5, 0x20, 0x25, 0x10, 4, 8], [5, 0x20, 0x25, 0x10, 0x11, 0x80], [5, 0x20, 0x25, 0x10, 0x26, 0x52],
    [5, 0x20, 0x25, 0x10, 0x15, 0x18], [5, 0x20, 0x25, 0x10, 9, 6], [5, 0x20, 0x25, 0x10, 0x13, 0x48], [5, 0x20, 0x25, 0x10, 0x10, 2],
    [5, 0x20, 0x25, 0x10, 0x10, 0x16], [5, 0x20, 0x25, 0x10, 0x11, 0x81], [5, 0x20, 0x25, 0x10, 0x11, 0x89], [5, 0x20, 0x25, 0x10, 0x10, 0x56],
    [5, 0x20, 0x25, 0x10, 0x12, 0x10], [5, 0x20, 0x25, 0x10, 9, 1], [5, 0x20, 0x25, 0x10, 0x0D, 9], [5, 0x20, 0x25, 0x10, 0x14, 0x13],
    [5, 0x20, 0x25, 0x10, 0x88, 9], [5, 0x20, 0x25, 0x10, 0x2B, 0x15], [5, 0x20, 0x25, 0x10, 0x88, 9], [5, 0x20, 0x25, 0x10, 3, 0x11],
    [5, 0x20, 0x25, 0x10, 0xD9, 9], [5, 0x20, 0x25, 0x10, 0x12, 0x14], [5, 0x20, 0x25, 0x10, 0x41, 9], [5, 0x20, 0x25, 0x10, 3, 0x12],
    [5, 0x20, 0x25, 0x10, 0x14, 9], [5, 0x20, 0x25, 0x10, 1, 0x10], [5, 0x20, 0x25, 0x10, 0xD6, 0x12], [5, 0x20, 0x25, 0x10, 0x10, 0x12],
    [5, 0x20, 0x25, 0x10, 0x12, 0x12], [5, 0x20, 0x25, 0x10, 0x10, 0x11], [5, 0x20, 0x25, 0x10, 0xDD, 0x11], [5, 0x20, 0x25, 0x10, 0xD9, 0x10],
    [5, 0x20, 0x25, 0x10, 0x56, 9], [5, 0x20, 0x25, 0x10, 0x15, 0x11], [5, 0x20, 0x25, 0x10, 0xDB, 9], [5, 0x20, 0x25, 0x10, 0x15, 0x11],
    [5, 0x20, 0x25, 0x10, 0x9B, 9], [5, 0x20, 0x25, 0x10, 0x0F, 0x11], [5, 0x20, 0x25, 0x10, 0xBB, 0x12], [5, 0x20, 0x25, 0x10, 0x1A, 0x12],
    [5, 0x20, 0x25, 0x10, 0x10, 0x14], [5, 0x20, 0x25, 0x10, 0x60, 0x12], [5, 0x20, 0x25, 0x10, 0x50, 0x10], [5, 0x20, 0x25, 0x10, 0x76, 0x10],
    [5, 0x20, 0x25, 0x10, 0xE6, 9], [5, 0x20, 0x25, 0x10, 8, 0x12], [5, 0x20, 0x25, 0x10, 0x40, 0x12], [5, 0x20, 0x25, 0x10, 0x60, 9],
    [5, 0x20, 0x25, 0x10, 0x29, 0x0B], [5, 0x20, 0x25, 0x10, 9, 4], [5, 0x20, 0x25, 0x10, 0x14, 0x40], [5, 0x20, 0x25, 0x10, 9, 0x23],
    [5, 0x20, 0x25, 0x10, 0x15, 0xC8], [5, 0x20, 0x25, 0x10, 0x13, 0xC8], [5, 0x20, 0x25, 0x10, 9, 0x2C], [5, 0x20, 0x25, 0x10, 0x15, 0x88],
    [5, 0x20, 0x25, 0x10, 0x13, 0x88], [5, 0x20, 0x25, 0x10, 0x0C, 9]]"

definition dphy4_3 :: "byte list list" where
  "dphy4_3 = [
    [5, 0x20, 0x25, 0x10, 0x0C, 0x14], [5, 0x20, 0x25, 0x10, 0x41, 9], [5, 0x20, 0x25, 0x10, 0x11, 0x12], [5, 0x20, 0x25, 0x10, 0x62, 0x12],
    [5, 0x20, 0x25, 0x10, 0x60, 0x11], [5, 0x20, 0x25, 0x10, 0xBF, 0x11], [5, 0x20, 0x25, 0x10, 0xBB, 0x10], [5, 0x20, 0x25, 0x10, 0x66, 0x11],
    [5, 0x20, 0x25, 0x10, 0xFB, 9], [5, 0x20, 0x25, 0x10, 0x35, 0x11], [5, 0x20, 0x25, 0x10, 0xBB, 0x12], [5, 0x20, 0x25, 0x10, 0x63, 0x12],
    [5, 0x20, 0x25, 0x10, 0x60, 0x14], [5, 0x20, 0x25, 0x10, 0, 0x15], [5, 0x20, 0x25, 0x10, 0, 0x11], [5, 0x20, 0x25, 0x10, 0xB8, 0x12],
    [5, 0x20, 0x25, 0x10, 0xA0, 0x12], [5, 0x20, 0x25, 0x10, 0, 0x10], [5, 0x20, 0x25, 0x10, 0x26, 0x10], [5, 0x20, 0x25, 0x10, 0, 0x13],
    [5, 0x20, 0x25, 0x10, 0, 0x11], [5, 0x20, 0x25, 0x10, 0, 8], [5, 0x20, 0x25, 0x10, 0x30, 0x53], [5, 0x20, 0x25, 0x10, 0x42, 0x15],
    [5, 0x20, 0x25, 0x10, 0x40, 0x13], [5, 0x20, 0x25, 0x10, 0x40, 0x10], [5, 0x20, 0x25, 0x10, 2, 0x10], [5, 0x20, 0x25, 0x10, 0x16, 0x11],
    [5, 0x20, 0x25, 0x10, 0x81, 0x11], [5, 0x20, 0x25, 0x10, 0x89, 0x10], [5, 0x20, 0x25, 0x10, 0x56, 0x12], [5, 0x20, 0x25, 0x10, 0x10, 9],
    [5, 0x20, 0x25, 0x10, 1, 0x0D], [5, 0x20, 0x25, 0x10, 8, 0x15], [5, 0x20, 0x25, 0x10, 0xC0, 0x15], [5, 0x20, 0x25, 0x10, 0xD0, 0x13],
    [5, 0x20, 0x25, 0x10, 0x50, 9], [5, 0x20, 0x25, 0x10, 0x13, 0x13], [5, 0x20, 0x25, 0x10, 0xD0, 9], [5, 0x20, 0x25, 0x10, 2, 0x15],
    [5, 0x20, 0x25, 0x10, 0xC0, 0x15], [5, 0x20, 0x25, 0x10, 0xC8, 0x13], [5, 0x20, 0x25, 0x10, 0xC0, 9], [5, 0x20, 0x25, 0x10, 5, 0x15],
    [5, 0x20, 0x25, 0x10, 0x88, 0x13], [5, 0x20, 0x25, 0x10, 0x80, 9], [5, 0x20, 0x25, 0x10, 2, 0x13], [5, 0x20, 0x25, 0x10, 0x88, 9],
    [5, 0x20, 0x25, 0x10, 4, 0x11], [5, 0x20, 0x25, 0x10, 0xC9, 9], [5, 0x20, 0x25, 0x10, 8, 0x14], [5, 0x20, 0x25, 0x10, 1, 9],
    [5, 0x20, 0x25, 0x10, 0x0B, 0x11], [5, 0x20, 0x25, 0x10, 0xD9, 8], [5, 0x20, 0x25, 0x10, 0x14, 0], [5, 0x20, 0x25, 0x10, 9, 0x1A],
    [5, 0x20, 0x25, 0x10, 0x14, 0x40], [5, 0x20, 0x25, 0x10, 9, 3], [5, 0x20, 0x25, 0x10, 0x12, 0x14], [5, 0x20, 0x25, 0x10, 9, 1],
    [5, 0x20, 0x25, 0x10, 0x10, 0xD6], [5, 0x20, 0x25, 0x10, 0x12, 0x10], [5, 0x20, 0x25, 0x10, 0x12, 0x12], [5, 0x20, 0x25, 0x10, 0x12, 0x10],
    [5, 0x20, 0x25, 0x10, 0x11, 0xDD], [5, 0x20, 0x25, 0x10, 0x11, 0xD9], [5, 0x20, 0x25, 0x10, 0x10, 0x56], [5, 0x20, 0x25, 0x10, 9, 0x17],
    [5, 0x20, 0x25, 0x10, 0x11, 0xDB], [5, 0x20, 0x25, 0x10, 9, 0x13], [5, 0x20, 0x25, 0x10, 0x11, 0xFB], [5, 0x20, 0x25, 0x10, 9, 5],
    [5, 0x20, 0x25, 0x10, 0x11, 0xBB], [5, 0x20, 0x25, 0x10, 0x12, 0x1A], [5, 0x20, 0x25, 0x10, 0x12, 0x10], [5, 0x20, 0x25, 0x10, 0x14, 0x60],
    [5, 0x20, 0x25, 0x10, 0x12, 0x50], [5, 0x20, 0x25, 0x10, 0x10, 0x76], [5, 0x20, 0x25, 0x10, 0x10, 0xE6], [5, 0x20, 0x25, 0x10, 9, 1],
    [5, 0x20, 0x25, 0x10, 0x15, 0xA8], [5, 0x20, 0x25, 0x10, 9, 1], [5, 0x20, 0x25, 0x10, 0x13, 0xA8], [5, 0x20, 0x25, 0x10, 0x12, 0x40],
    [5, 0x20, 0x25, 0x10, 0x12, 0x60], [5, 0x20, 0x25, 0x10, 9, 0x25], [5, 0x20, 0x25, 0x10, 0x13, 0xAD], [5, 0x20, 0x25, 0x10, 9, 2],
    [5, 0x20, 0x25, 0x10, 9, 7], [5, 0x20, 0x25, 0x10, 0x15, 0x88], [5, 0x20, 0x25, 0x10, 9, 1], [5, 0x20, 0x25, 0x10, 0x13, 0x8D],
    [5, 0x20, 0x25, 0x10, 0x0B, 9], [5, 0x20, 0x25, 0x10, 9, 0x14], [5, 0x20, 0x25, 0x10, 0x40, 9], [5, 0x20, 0x25, 0x10, 0x0B, 0x13],
    [5, 0x20, 0x25, 0x10, 0x88, 9], [5, 0x20, 0x25, 0x10, 0x1C, 0x0C], [5, 0x20, 0x25, 0x10, 9, 0x20], [5, 0x20, 0x25, 0x10, 0x12, 0x62],
    [5, 0x20, 0x25, 0x10, 0x12, 0x60], [5, 0x20, 0x25, 0x10, 0x11, 0xBF], [5, 0x20, 0x25, 0x10, 0x11, 0xBB], [5, 0x20, 0x25, 0x10, 0x10, 0x66],
    [5, 0x20, 0x25, 0x10, 9, 0x0A], [5, 0x20, 0x25, 0x10, 0x11, 0xFB], [5, 0x20, 0x25, 0x10, 9, 0x3B], [5, 0x20, 0x25, 0x10, 0x11, 0xBB],
    [5, 0x20, 0x25, 0x10, 0x12, 0x63], [5, 0x20, 0x25, 0x10, 0x12, 0x60], [5, 0x20, 0x25, 0x10, 0x14, 0], [5, 0x20, 0x25, 0x10, 0x15, 8],
    [5, 0x20, 0x25, 0x10, 0x11, 0xB8], [5, 0x20, 0x25, 0x10, 0x12, 0xA0], [5, 0x20, 0x25, 0x10, 0x12, 0], [5, 0x20, 0x25, 0x10, 0x10, 0x26],
    [5, 0x20, 0x25, 0x10, 0x10, 0], [5, 0x20, 0x25, 0x10, 0x13, 0], [5, 0x20, 0x25, 0x10, 0x11, 0], [5, 0x20, 0x25, 0x10, 0x43, 0x7A],
    [5, 0x20, 0x25, 0x10, 6, 9], [5, 0x20, 0x25, 0x10, 0x0B, 5], [5, 0x20, 0x25, 0x10, 7, 8], [5, 0x20, 0x25, 0x10, 0x41, 0x37],
    [5, 0x20, 0x25, 0x10, 0x50, 0x2C], [5, 0x20, 0x25, 0x10, 0x2C, 0xFE], [5, 0x20, 0x25, 0x10, 0x15, 0xFE], [5, 0x20, 0x25, 0x10, 0x0C, 0x2C],
    [5, 0x20, 0x32, 0xE6, 0, 0xE0], [5, 0x20, 0x10, 8, 3, 0x6F], [5, 0x20, 0x10, 0x0C, 5, 0x8F], [5, 0x20, 0x10, 0x0E, 7, 0xAF],
    [5, 0x20, 0x10, 0x10, 1, 0x4F], [5, 0x20, 0x32, 0x30, 3, 0x12], [5, 0x20, 0x32, 0x32, 5, 0x32], [5, 0x20, 0x32, 0x34, 7, 0x52],
    [5, 0x20, 0x32, 0x36, 0, 0xF2], [5, 0x20, 0x35, 0x66, 0x33, 0x28], [5, 0x20, 0x32, 0xD0, 0x3A, 2], [5, 0x20, 0x32, 0xD2, 0x35, 8],
    [5, 0x20, 0x32, 0xD4, 0x37, 2], [5, 0x20, 0x32, 0xD6, 0x3C, 4], [5, 0x20, 0x32, 0xDC, 0x37, 0x0A], [5, 0x20, 0x30, 0xB0, 8, 0],
    [5, 0x20, 0x30, 0x2A, 0, 8], [5, 0x20, 0x30, 0x2C, 0, 1], [5, 0x20, 0x30, 0x2E, 0, 3], [5, 0x20, 0x30, 0x30, 0, 0x4E],
    [5, 0x20, 0x30, 0x36, 0, 8], [5, 0x20, 0x30, 0x38, 0, 1]]"

definition dphy4_4 :: "byte list list" where
  "dphy4_4 = [
    [5, 0x20, 0x30, 0xB0, 8, 0], [5, 0x20, 0x30, 0xA2, 0, 1], [5, 0x20, 0x30, 0xA6, 0, 1], [5, 0x20, 0x30, 0x40, 0, 0],
    [5, 0x20, 0x30, 0x82, 0, 8], [5, 0x20, 0x30, 0xBA, 0x11, 0xF2], [5, 0x20, 0x30, 0x44, 4, 0], [5, 0x20, 0x30, 0x64, 0x18, 2],
    [5, 0x20, 0x33, 0xE0, 0x0C, 0x80], [5, 0x20, 0x33, 0xE0, 0x0C, 0x80], [5, 0x20, 0x31, 0x80, 0, 0x80], [5, 0x20, 0x33, 0xE4, 0, 0x80],
    [5, 0x20, 0x33, 0xE0, 0x0C, 0x80], [5, 0x20, 0x33, 0xE0, 0x0C, 0x80], [5, 0x20, 0x30, 4, 0, 4], [5, 0x20, 0x30, 8, 7, 0x83],
    [5, 0x20, 0x30, 2, 0, 0x40], [5, 0x20, 0x30, 6, 4, 0x77], [5, 0x20, 0x30, 0x32, 0, 0], [5, 0x20, 0x34, 0, 0, 0x10],
    [5, 0x20, 0x34, 2, 0x0F, 0x10], [5, 0x20, 0x34, 4, 9, 0x70], [5, 0x20, 0x30, 0x82, 0, 0], [5, 0x20, 0x30, 0xBA, 0x11, 0xF1],
    [0, 0x7F], [5, 0x20, 0x30, 0xBA, 0x11, 0xF0], [5, 0x20, 0x30, 0x0C, 8, 0x72], [5, 0x20, 0x30, 0x0A, 5, 0x4A],
    [5, 0x20, 0x30, 0x42, 0, 0], [5, 0x20, 0x32, 0x38, 2, 0x22], [5, 0x20, 0x30, 0x12, 1, 0x63], [5, 0x20, 0x30, 0x14, 1, 0x4F],
    [5, 0x20, 0x30, 0xB0, 8, 0], [5, 0x20, 0x32, 0xEA, 0x3C, 8], [5, 0x20, 0x32, 0xEC, 0x72, 0xA1], [5, 0x20, 0x31, 0xD0, 0, 0],
    [5, 0x20, 0x31, 0xAE, 0, 1], [5, 0x20, 0x31, 0xAC, 0x0C, 0x0C], [5, 0x20, 0x34, 0x0A, 0, 0x77], [5, 0x20, 0x34, 0x0C, 0, 0x80],
    [5, 0x20, 0x30, 0xCE, 1, 0x20], [5, 0x20, 0x30, 0x1A, 0x19, 0xDC], [0, 0x0F], [3, 0x80, 4, 0x83]]"

definition dphy4_script :: "byte list list" where
  "dphy4_script = dphy4_1 @ dphy4_2 @ dphy4_3 @ dphy4_4"

section \<open>MAX9295 MAX96712\_GMSL1.cpp\<close>

definition max9295_1 :: "byte list list" where
  "max9295_1 = [
    [4, 0x54, 0, 6, 0x0F], [4, 0x54, 0, 0x10, 0x11], [4, 0x54, 0, 0x11, 0x11], [4, 0x54, 0, 0x18, 0x0F],
    [0, 0x7F], [4, 0x54, 0x0B, 0x0D, 0x81], [4, 0x54, 0x0C, 0x0D, 0x81], [4, 0x54, 0x0D, 0x0D, 0x81],
    [4, 0x54, 0x0E, 0x0D, 0x81], [4, 0x54, 0x0B, 6, 0x6F], [4, 0x54, 0x0C, 6, 0x6F], [4, 0x54, 0x0D, 6, 0x6F],
    [4, 0x54, 0x0E, 6, 0x6F], [4, 0x54, 0, 0x18, 0x0F], [0, 0x7F], [4, 0x54, 0x14, 0xC5, 0xAA],
    [4, 0x54, 0x15, 0xC5, 0xAA], [4, 0x54, 0x16, 0xC5, 0xAA], [4, 0x54, 0x17, 0xC5, 0xAA], [4, 0x54, 0x14, 0xC4, 0x8A],
    [4, 0x54, 0x15, 0xC4, 0x8A], [4, 0x54, 0x16, 0xC4, 0x8A], [4, 0x54, 0x17, 0xC4, 0x8A], [4, 0x54, 0x14, 0x95, 0x88],
    [4, 0x54, 0x15, 0x95, 0x88], [4, 0x54, 0x16, 0x95, 0x88], [4, 0x54, 0x17, 0x95, 0x88], [3, 0x80, 4, 0x43],
    [0, 5], [4, 0x54, 0x0B, 4, 2], [4, 0x54, 0x0C, 4, 2], [4, 0x54, 0x0D, 4, 2],
    [4, 0x54, 0x0E, 4, 2], [0, 5], [3, 0x80, 0x4D, 0xC0], [0, 5],
    [4, 0x54, 0x0B, 6, 0xEF], [4, 0x54, 0x0C, 6, 0xEF], [4, 0x54, 0x0D, 6, 0xEF], [4, 0x54, 0x0E, 6, 0xEF],
    [4, 0x54, 0x14, 0xC5, 0x40], [4, 0x54, 0x15, 0xC5, 0x40], [4, 0x54, 0x16, 0xC5, 0x40], [4, 0x54, 0x17, 0xC5, 0x40],
    [4, 0x54, 0x14, 0xC4, 0x40], [4, 0x54, 0x15, 0xC4, 0x40], [4, 0x54, 0x16, 0xC4, 0x40], [4, 0x54, 0x17, 0xC4, 0x40],
    [4, 0x54, 0x14, 0x95, 0x69], [4, 0x54, 0x15, 0x95, 0x69], [4, 0x54, 0x16, 0x95, 0x69], [4, 0x54, 0x17, 0x95, 0x69],
    [4, 0x54, 0x0B, 4, 3], [4, 0x54, 0x0C, 4, 3], [4, 0x54, 0x0D, 4, 3], [4, 0x54, 0x0E, 4, 3],
    [4, 0x54, 0x0B, 8, 0x25], [0, 0x0A], [4, 0x54, 0x0C, 8, 0x25], [0, 0x0A],
    [4, 0x54, 0x0D, 8, 0x25], [0, 0x0A], [4, 0x54, 0x0E, 8, 0x25], [0, 0x0A],
    [4, 0x54, 0x0B, 0x0F, 1], [4, 0x54, 0x0C, 0x0F, 1], [4, 0x54, 0x0D, 0x0F, 1], [4, 0x54, 0x0E, 0x0F, 1],
    [4, 0x54, 0, 0xF4, 0x0F], [4, 0x54, 4, 0x0B, 0x62], [4, 0x54, 4, 0x0C, 0], [4, 0x54, 4, 0x0D, 0],
    [4, 0x54, 4, 0x0E, 0xAC], [4, 0x54, 4, 0x0F, 0xBC], [4, 0x54, 4, 0x10, 0xB0], [4, 0x54, 4, 0x11, 0x6C],
    [4, 0x54, 4, 0x12, 0x30], [4, 0x54, 8, 0xA0, 4], [4, 0x54, 8, 0xA3, 0x4E], [4, 0x54, 8, 0xA4, 0x4E],
    [4, 0x54, 9, 0x4A, 0xC0], [4, 0x54, 9, 0x8A, 0xC0], [4, 0x54, 8, 0xA2, 0x20], [4, 0x54, 4, 0x15, 0xEF],
    [4, 0x54, 4, 0x18, 0xEF], [4, 0x54, 4, 0x1B, 0xEF], [4, 0x54, 4, 0x1E, 0x37]]"

definition max9295_2 :: "byte list list" where
  "max9295_2 = [
    [3, 0x80, 7, 0xC4], [0, 5], [4, 0x54, 0x0B, 7, 0x8C], [4, 0x54, 0x0C, 7, 0x8C],
    [4, 0x54, 0x0D, 7, 0x8C], [4, 0x54, 0x0E, 7, 0x8C], [4, 0x54, 4, 0xA5, 0], [4, 0x54, 4, 0xA6, 0],
    [4, 0x54, 4, 0xA7, 0x2D], [4, 0x54, 4, 0xA8, 0xFF], [4, 0x54, 4, 0xA9, 0x1F], [4, 0x54, 4, 0xAA, 0],
    [4, 0x54, 4, 0xAB, 0], [4, 0x54, 4, 0xA0, 0], [4, 0x54, 0x0B, 8, 0x31], [4, 0x54, 0x0C, 8, 0x31],
    [4, 0x54, 0x0D, 8, 0x31], [4, 0x54, 0x0E, 8, 0x31], [4, 0x54, 9, 0x31, 0x8F], [4, 0x54, 9, 0x71, 0x8F],
    [4, 0x54, 9, 0xB1, 0x8F], [4, 0x54, 9, 0xF1, 0x8F], [5, 0x20, 0x30, 0x1A, 0x10, 0x58], [0, 0x7F],
    [5, 0x20, 0x30, 0x92, 0x0C, 0x24], [5, 0x20, 0x33, 0x7A, 0x0C, 0x80], [5, 0x20, 0x35, 0x20, 0x12, 0x88], [5, 0x20, 0x35, 0x22, 0x88, 0x0C],
    [5, 0x20, 0x35, 0x24, 0x0C, 0x12], [5, 0x20, 0x35, 0x2C, 0x12, 0x12], [5, 0x20, 0x35, 0x4A, 0, 0x7F], [5, 0x20, 0x35, 0x0C, 5, 0x5C],
    [5, 0x20, 0x35, 6, 0x33, 0x33], [5, 0x20, 0x35, 8, 0x33, 0x33], [5, 0x20, 0x31, 0, 0x40, 0], [5, 0x20, 0x32, 0x80, 0x0F, 0xA0],
    [5, 0x20, 0x32, 0x82, 0x0F, 0xA0], [5, 0x20, 0x32, 0x84, 0x0F, 0xA0], [5, 0x20, 0x32, 0x86, 0x0F, 0xA0], [5, 0x20, 0x32, 0x88, 0x0F, 0xA0],
    [5, 0x20, 0x32, 0x8A, 0x0F, 0xA0], [5, 0x20, 0x32, 0x8C, 0x0F, 0xA0], [5, 0x20, 0x32, 0x8E, 0x0F, 0xA0], [5, 0x20, 0x32, 0x90, 0x0F, 0xA0],
    [5, 0x20, 0x32, 0x92, 0x0F, 0xA0], [5, 0x20, 0x32, 0x94, 0x0F, 0xA0], [5, 0x20, 0x32, 0x96, 0x0F, 0xA0], [5, 0x20, 0x32, 0x98, 0x0F, 0xA0],
    [5, 0x20, 0x32, 0x9A, 0x0F, 0xA0], [5, 0x20, 0x32, 0x9C, 0x0F, 0xA0], [5, 0x20, 0x32, 0x9E, 0x0F, 0xA0], [5, 0x20, 0x30, 0x1A, 0x10, 0xD8],
    [0, 0x7F], [0, 0x7F], [5, 0x20, 0x25, 0x12, 0x80, 0], [5, 0x20, 0x25, 0x10, 9, 5],
    [5, 0x20, 0x25, 0x10, 0x33, 0x50], [5, 0x20, 0x25, 0x10, 0x20, 4], [5, 0x20, 0x25, 0x10, 0x14, 0x60], [5, 0x20, 0x25, 0x10, 0x15, 0x78],
    [5, 0x20, 0x25, 0x10, 9, 1], [5, 0x20, 0x25, 0x10, 0x7B, 0x24], [5, 0x20, 0x25, 0x10, 0xFF, 0x24], [5, 0x20, 0x25, 0x10, 0xFF, 0x24],
    [5, 0x20, 0x25, 0x10, 0xEA, 0x24], [5, 0x20, 0x25, 0x10, 0x10, 0x22], [5, 0x20, 0x25, 0x10, 0x24, 0x10], [5, 0x20, 0x25, 0x10, 0x15, 0x5A],
    [5, 0x20, 0x25, 0x10, 9, 1], [5, 0x20, 0x25, 0x10, 0x14, 0], [5, 0x20, 0x25, 0x10, 0x24, 0xFF], [5, 0x20, 0x25, 0x10, 0x24, 0xFF],
    [5, 0x20, 0x25, 0x10, 0x24, 0xEA], [5, 0x20, 0x25, 0x10, 0x23, 0x24], [5, 0x20, 0x25, 0x10, 0x64, 0x7A], [5, 0x20, 0x25, 0x10, 0x24, 4],
    [5, 0x20, 0x25, 0x10, 5, 0x2C], [5, 0x20, 0x25, 0x10, 0x40, 0x0A], [5, 0x20, 0x25, 0x10, 0xFF, 0x0A], [5, 0x20, 0x25, 0x10, 0xFF, 0x0A],
    [5, 0x20, 0x25, 0x10, 0x10, 8], [5, 0x20, 0x25, 0x10, 0x38, 0x51], [5, 0x20, 0x25, 0x10, 0x14, 0x40], [5, 0x20, 0x25, 0x10, 0, 4],
    [5, 0x20, 0x25, 0x10, 8, 1], [5, 0x20, 0x25, 0x10, 4, 8], [5, 0x20, 0x25, 0x10, 0x11, 0x80], [5, 0x20, 0x25, 0x10, 0x26, 0x52],
    [5, 0x20, 0x25, 0x10, 0x15, 0x18], [5, 0x20, 0x25, 0x10, 9, 6], [5, 0x20, 0x25, 0x10, 0x13, 0x48], [5, 0x20, 0x25, 0x10, 0x10, 2],
    [5, 0x20, 0x25, 0x10, 0x10, 0x16], [5, 0x20, 0x25, 0x10, 0x11, 0x81], [5, 0x20, 0x25, 0x10, 0x11, 0x89], [5, 0x20, 0x25, 0x10, 0x10, 0x56],
    [5, 0x20, 0x25, 0x10, 0x12, 0x10], [5, 0x20, 0x25, 0x10, 9, 1], [5, 0x20, 0x25, 0x10, 0x0D, 9], [5, 0x20, 0x25, 0x10, 0x14, 0x13],
    [5, 0x20, 0x25, 0x10, 0x88, 9], [5, 0x20, 0x25, 0x10, 0x2B, 0x15], [5, 0x20, 0x25, 0x10, 0x88, 9], [5, 0x20, 0x25, 0x10, 3, 0x11],
    [5, 0x20, 0x25, 0x10, 0xD9, 9], [5, 0x20, 0x25, 0x10, 0x12, 0x14], [5, 0x20, 0x25, 0x10, 0x41, 9], [5, 0x20, 0x25, 0x10, 3, 0x12],
    [5, 0x20, 0x25, 0x10, 0x14, 9], [5, 0x20, 0x25, 0x10, 1, 0x10], [5, 0x20, 0x25, 0x10, 0xD6, 0x12], [5, 0x20, 0x25, 0x10, 0x10, 0x12],
    [5, 0x20, 0x25, 0x10, 0x12, 0x12], [5, 0x20, 0x25, 0x10, 0x10, 0x11], [5, 0x20, 0x25, 0x10, 0xDD, 0x11], [5, 0x20, 0x25, 0x10, 0xD9, 0x10],
    [5, 0x20, 0x25, 0x10, 0x56, 9], [5, 0x20, 0x25, 0x10, 0x15, 0x11], [5, 0x20, 0x25, 0x10, 0xDB, 9], [5, 0x20, 0x25, 0x10, 0x15, 0x11],
    [5, 0x20, 0x25, 0x10, 0x9B, 9], [5, 0x20, 0x25, 0x10, 0x0F, 0x11], [5, 0x20, 0x25, 0x10, 0xBB, 0x12], [5, 0x20, 0x25, 0x10, 0x1A, 0x12],
    [5, 0x20, 0x25, 0x10, 0x10, 0x14], [5, 0x20, 0x25, 0x10, 0x60, 0x12], [5, 0x20, 0x25, 0x10, 0x50, 0x10], [5, 0x20, 0x25, 0x10, 0x76, 0x10],
    [5, 0x20, 0x25, 0x10, 0xE6, 9], [5, 0x20, 0x25, 0x10, 8, 0x12], [5, 0x20, 0x25, 0x10, 0x40, 0x12], [5, 0x20, 0x25, 0x10, 0x60, 9],
    [5, 0x20, 0x25, 0x10, 0x29, 0x0B], [5, 0x20, 0x25, 0x10, 9, 4], [5, 0x20, 0x25, 0x10, 0x14, 0x40], [5, 0x20, 0x25, 0x10, 9, 0x23],
    [5, 0x20, 0x25, 0x10, 0x15, 0xC8], [5, 0x20, 0x25, 0x10, 0x13, 0xC8], [5, 0x20, 0x25, 0x10, 9, 0x2C], [5, 0x20, 0x25, 0x10, 0x15, 0x88],
    [5, 0x20, 0x25, 0x10, 0x13, 0x88], [5, 0x20, 0x25, 0x10, 0x0C, 9]]"

definition max9295_3 :: "byte list list" where
  "max9295_3 = [
    [5, 0x20, 0x25, 0x10, 0x0C, 0x14], [5, 0x20, 0x25, 0x10, 0x41, 9], [5, 0x20, 0x25, 0x10, 0x11, 0x12], [5, 0x20, 0x25, 0x10, 0x62, 0x12],
    [5, 0x20, 0x25, 0x10, 0x60, 0x11], [5, 0x20, 0x25, 0x10, 0xBF, 0x11], [5, 0x20, 0x25, 0x10, 0xBB, 0x10], [5, 0x20, 0x25, 0x10, 0x66, 0x11],
    [5, 0x20, 0x25, 0x10, 0xFB, 9], [5, 0x20, 0x25, 0x10, 0x35, 0x11], [5, 0x20, 0x25, 0x10, 0xBB, 0x12], [5, 0x20, 0x25, 0x10, 0x63, 0x12],
    [5, 0x20, 0x25, 0x10, 0x60, 0x14], [5, 0x20, 0x25, 0x10, 0, 0x15], [5, 0x20, 0x25, 0x10, 0, 0x11], [5, 0x20, 0x25, 0x10, 0xB8, 0x12],
    [5, 0x20, 0x25, 0x10, 0xA0, 0x12], [5, 0x20, 0x25, 0x10, 0, 0x10], [5, 0x20, 0x25, 0x10, 0x26, 0x10], [5, 0x20, 0x25, 0x10, 0, 0x13],
    [5, 0x20, 0x25, 0x10, 0, 0x11], [5, 0x20, 0x25, 0x10, 0, 8], [5, 0x20, 0x25, 0x10, 0x30, 0x53], [5, 0x20, 0x25, 0x10, 0x42, 0x15],
    [5, 0x20, 0x25, 0x10, 0x40, 0x13], [5, 0x20, 0x25, 0x10, 0x40, 0x10], [5, 0x20, 0x25, 0x10, 2, 0x10], [5, 0x20, 0x25, 0x10, 0x16, 0x11],
    [5, 0x20, 0x25, 0x10, 0x81, 0x11], [5, 0x20, 0x25, 0x10, 0x89, 0x10], [5, 0x20, 0x25, 0x10, 0x56, 0x12], [5, 0x20, 0x25, 0x10, 0x10, 9],
    [5, 0x20, 0x25, 0x10, 1, 0x0D], [5, 0x20, 0x25, 0x10, 8, 0x15], [5, 0x20, 0x25, 0x10, 0xC0, 0x15], [5, 0x20, 0x25, 0x10, 0xD0, 0x13],
    [5, 0x20, 0x25, 0x10, 0x50, 9], [5, 0x20, 0x25, 0x10, 0x13, 0x13], [5, 0x20, 0x25, 0x10, 0xD0, 9], [5, 0x20, 0x25, 0x10, 2, 0x15],
    [5, 0x20, 0x25, 0x10, 0xC0, 0x15], [5, 0x20, 0x25, 0x10, 0xC8, 0x13], [5, 0x20, 0x25, 0x10, 0xC0, 9], [5, 0x20, 0x25, 0x10, 5, 0x15],
    [5, 0x20, 0x25, 0x10, 0x88, 0x13], [5, 0x20, 0x25, 0x10, 0x80, 9], [5, 0x20, 0x25, 0x10, 2, 0x13], [5, 0x20, 0x25, 0x10, 0x88, 9],
    [5, 0x20, 0x25, 0x10, 4, 0x11], [5, 0x20, 0x25, 0x10, 0xC9, 9], [5, 0x20, 0x25, 0x10, 8, 0x14], [5, 0x20, 0x25, 0x10, 1, 9],
    [5, 0x20, 0x25, 0x10, 0x0B, 0x11], [5, 0x20, 0x25, 0x10, 0xD9, 8], [5, 0x20, 0x25, 0x10, 0x14, 0], [5, 0x20, 0x25, 0x10, 9, 0x1A],
    [5, 0x20, 0x25, 0x10, 0x14, 0x40], [5, 0x20, 0x25, 0x10, 9, 3], [5, 0x20, 0x25, 0x10, 0x12, 0x14], [5, 0x20, 0x25, 0x10, 9, 1],
    [5, 0x20, 0x25, 0x10, 0x10, 0xD6], [5, 0x20, 0x25, 0x10, 0x12, 0x10], [5, 0x20, 0x25, 0x10, 0x12, 0x12], [5, 0x20, 0x25, 0x10, 0x12, 0x10],
    [5, 0x20, 0x25, 0x10, 0x11, 0xDD], [5, 0x20, 0x25, 0x10, 0x11, 0xD9], [5, 0x20, 0x25, 0x10, 0x10, 0x56], [5, 0x20, 0x25, 0x10, 9, 0x17],
    [5, 0x20, 0x25, 0x10, 0x11, 0xDB], [5, 0x20, 0x25, 0x10, 9, 0x13], [5, 0x20, 0x25, 0x10, 0x11, 0xFB], [5, 0x20, 0x25, 0x10, 9, 5],
    [5, 0x20, 0x25, 0x10, 0x11, 0xBB], [5, 0x20, 0x25, 0x10, 0x12, 0x1A], [5, 0x20, 0x25, 0x10, 0x12, 0x10], [5, 0x20, 0x25, 0x10, 0x14, 0x60],
    [5, 0x20, 0x25, 0x10, 0x12, 0x50], [5, 0x20, 0x25, 0x10, 0x10, 0x76], [5, 0x20, 0x25, 0x10, 0x10, 0xE6], [5, 0x20, 0x25, 0x10, 9, 1],
    [5, 0x20, 0x25, 0x10, 0x15, 0xA8], [5, 0x20, 0x25, 0x10, 9, 1], [5, 0x20, 0x25, 0x10, 0x13, 0xA8], [5, 0x20, 0x25, 0x10, 0x12, 0x40],
    [5, 0x20, 0x25, 0x10, 0x12, 0x60], [5, 0x20, 0x25, 0x10, 9, 0x25], [5, 0x20, 0x25, 0x10, 0x13, 0xAD], [5, 0x20, 0x25, 0x10, 9, 2],
    [5, 0x20, 0x25, 0x10, 9, 7], [5, 0x20, 0x25, 0x10, 0x15, 0x88], [5, 0x20, 0x25, 0x10, 9, 1], [5, 0x20, 0x25, 0x10, 0x13, 0x8D],
    [5, 0x20, 0x25, 0x10, 0x0B, 9], [5, 0x20, 0x25, 0x10, 9, 0x14], [5, 0x20, 0x25, 0x10, 0x40, 9], [5, 0x20, 0x25, 0x10, 0x0B, 0x13],
    [5, 0x20, 0x25, 0x10, 0x88, 9], [5, 0x20, 0x25, 0x10, 0x1C, 0x0C], [5, 0x20, 0x25, 0x10, 9, 0x20], [5, 0x20, 0x25, 0x10, 0x12, 0x62],
    [5, 0x20, 0x25, 0x10, 0x12, 0x60], [5, 0x20, 0x25, 0x10, 0x11, 0xBF], [5, 0x20, 0x25, 0x10, 0x11, 0xBB], [5, 0x20, 0x25, 0x10, 0x10, 0x66],
    [5, 0x20, 0x25, 0x10, 9, 0x0A], [5, 0x20, 0x25, 0x10, 0x11, 0xFB], [5, 0x20, 0x25, 0x10, 9, 0x3B], [5, 0x20, 0x25, 0x10, 0x11, 0xBB],
    [5, 0x20, 0x25, 0x10, 0x12, 0x63], [5, 0x20, 0x25, 0x10, 0x12, 0x60], [5, 0x20, 0x25, 0x10, 0x14, 0], [5, 0x20, 0x25, 0x10, 0x15, 8],
    [5, 0x20, 0x25, 0x10, 0x11, 0xB8], [5, 0x20, 0x25, 0x10, 0x12, 0xA0], [5, 0x20, 0x25, 0x10, 0x12, 0], [5, 0x20, 0x25, 0x10, 0x10, 0x26],
    [5, 0x20, 0x25, 0x10, 0x10, 0], [5, 0x20, 0x25, 0x10, 0x13, 0], [5, 0x20, 0x25, 0x10, 0x11, 0], [5, 0x20, 0x25, 0x10, 0x43, 0x7A],
    [5, 0x20, 0x25, 0x10, 6, 9], [5, 0x20, 0x25, 0x10, 0x0B, 5], [5, 0x20, 0x25, 0x10, 7, 8], [5, 0x20, 0x25, 0x10, 0x41, 0x37],
    [5, 0x20, 0x25, 0x10, 0x50, 0x2C], [5, 0x20, 0x25, 0x10, 0x2C, 0xFE], [5, 0x20, 0x25, 0x10, 0x15, 0xFE], [5, 0x20, 0x25, 0x10, 0x0C, 0x2C],
    [5, 0x20, 0x32, 0xE6, 0, 0xE0], [5, 0x20, 0x10, 8, 3, 0x6F], [5, 0x20, 0x10, 0x0C, 5, 0x8F], [5, 0x20, 0x10, 0x0E, 7, 0xAF],
    [5, 0x20, 0x10, 0x10, 1, 0x4F], [5, 0x20, 0x32, 0x30, 3, 0x12], [5, 0x20, 0x32, 0x32, 5, 0x32], [5, 0x20, 0x32, 0x34, 7, 0x52],
    [5, 0x20, 0x32, 0x36, 0, 0xF2], [5, 0x20, 0x35, 0x66, 0x33, 0x28], [5, 0x20, 0x32, 0xD0, 0x3A, 2], [5, 0x20, 0x32, 0xD2, 0x35, 8],
    [5, 0x20, 0x32, 0xD4, 0x37, 2], [5, 0x20, 0x32, 0xD6, 0x3C, 4], [5, 0x20, 0x32, 0xDC, 0x37, 0x0A], [5, 0x20, 0x30, 0xB0, 8, 0],
    [5, 0x20, 0x30, 0x2A, 0, 8], [5, 0x20, 0x30, 0x2C, 0, 1], [5, 0x20, 0x30, 0x2E, 0, 3], [5, 0x20, 0x30, 0x30, 0, 0x4E],
    [5, 0x20, 0x30, 0x36, 0, 8], [5, 0x20, 0x30, 0x38, 0, 1]]"

definition max9295_4 :: "byte list list" where
  "max9295_4 = [
    [5, 0x20, 0x30, 0xB0, 8, 0], [5, 0x20, 0x30, 0xA2, 0, 1], [5, 0x20, 0x30, 0xA6, 0, 1], [5, 0x20, 0x30, 0x40, 0, 0],
    [5, 0x20, 0x30, 0x82, 0, 8], [5, 0x20, 0x30, 0xBA, 0x11, 0xF2], [5, 0x20, 0x30, 0x44, 4, 0], [5, 0x20, 0x30, 0x64, 0x18, 2],
    [5, 0x20, 0x33, 0xE0, 0x0C, 0x80], [5, 0x20, 0x33, 0xE0, 0x0C, 0x80], [5, 0x20, 0x31, 0x80, 0, 0x80], [5, 0x20, 0x33, 0xE4, 0, 0x80],
    [5, 0x20, 0x33, 0xE0, 0x0C, 0x80], [5, 0x20, 0x33, 0xE0, 0x0C, 0x80], [5, 0x20, 0x30, 4, 0, 4], [5, 0x20, 0x30, 8, 7, 0x83],
    [5, 0x20, 0x30, 2, 0, 0x40], [5, 0x20, 0x30, 6, 4, 0x77], [5, 0x20, 0x30, 0x32, 0, 0], [5, 0x20, 0x34, 0, 0, 0x10],
    [5, 0x20, 0x34, 2, 0x0F, 0x10], [5, 0x20, 0x34, 4, 9, 0x70], [5, 0x20, 0x30, 0x82, 0, 0], [5, 0x20, 0x30, 0xBA, 0x11, 0xF1],
    [0, 0x7F], [5, 0x20, 0x30, 0xBA, 0x11, 0xF0], [5, 0x20, 0x30, 0x0C, 8, 0x72], [5, 0x20, 0x30, 0x0A, 5, 0x4A],
    [5, 0x20, 0x30, 0x42, 0, 0], [5, 0x20, 0x32, 0x38, 2, 0x22], [5, 0x20, 0x30, 0x12, 1, 0x63], [5, 0x20, 0x30, 0x14, 1, 0x4F],
    [5, 0x20, 0x30, 0xB0, 8, 0], [5, 0x20, 0x32, 0xEA, 0x3C, 8], [5, 0x20, 0x32, 0xEC, 0x72, 0xA1], [5, 0x20, 0x31, 0xD0, 0, 0],
    [5, 0x20, 0x31, 0xAE, 0, 1], [5, 0x20, 0x31, 0xAC, 0x0C, 0x0C], [5, 0x20, 0x34, 0x0A, 0, 0x77], [5, 0x20, 0x34, 0x0C, 0, 0x80],
    [5, 0x20, 0x30, 0xCE, 1, 0x20], [5, 0x20, 0x30, 0x1A, 0x19, 0xDC], [0, 0x0F], [3, 0x80, 4, 0x83]]"

definition max9295_script :: "byte list list" where
  "max9295_script = max9295_1 @ max9295_2 @ max9295_3 @ max9295_4"

end
