(* ===== verification/Cam_Ov10640.thy ===== *)
theory Cam_Ov10640
  imports Cam_Script
begin

text \<open>
  The longest of the scripts, \<open>MAX96712_GMSL1_example_sensor_OV10640_All_Links.cpp\<close>, row by row.
\<close>

section \<open>MAX96712\_GMSL1\_example\_sensor\_OV10640\_All\_Links.cpp\<close>

definition ov10640_1 :: "byte list list" where
  "ov10640_1 = [
    [4, 0x52, 0, 6, 0x0F], [4, 0x52, 0, 0x10, 0x11], [4, 0x52, 0, 0x11, 0x11], [4, 0x52, 0, 0x18, 0x0F],
    [0, 0x7F], [4, 0x52, 0x0B, 6, 0xEF], [4, 0x52, 0x0C, 6, 0xEF], [4, 0x52, 0x0D, 6, 0xEF],
    [4, 0x52, 0x0E, 6, 0xEF], [4, 0x52, 0x0B, 0x0D, 0x81], [4, 0x52, 0x0C, 0x0D, 0x81], [4, 0x52, 0x0D, 0x0D, 0x81],
    [4, 0x52, 0x0E, 0x0D, 0x81], [3, 0x80, 0x4D, 0x40], [0, 0x0A], [4, 0x52, 0x0B, 6, 0x6F],
    [4, 0x52, 0x0C, 6, 0x6F], [4, 0x52, 0x0D, 6, 0x6F], [4, 0x52, 0x0E, 6, 0x6F], [4, 0x52, 0, 0x18, 0x0F],
    [0, 0x7F], [4, 0x52, 0x14, 0xC5, 0xAA], [4, 0x52, 0x15, 0xC5, 0xAA], [4, 0x52, 0x16, 0xC5, 0xAA],
    [4, 0x52, 0x17, 0xC5, 0xAA], [4, 0x52, 0x14, 0xC4, 0x8A], [4, 0x52, 0x15, 0xC4, 0x8A], [4, 0x52, 0x16, 0xC4, 0x8A],
    [4, 0x52, 0x17, 0xC4, 0x8A], [4, 0x52, 0x14, 0x95, 0x88], [4, 0x52, 0x15, 0x95, 0x88], [4, 0x52, 0x16, 0x95, 0x88],
    [4, 0x52, 0x17, 0x95, 0x88], [3, 0x80, 4, 0x43], [0, 5], [4, 0x52, 0x0B, 4, 2],
    [4, 0x52, 0x0C, 4, 2], [4, 0x52, 0x0D, 4, 2], [4, 0x52, 0x0E, 4, 2], [0, 5],
    [3, 0x80, 0x4D, 0xC0], [0, 5], [4, 0x52, 0x0B, 6, 0xEF], [4, 0x52, 0x0C, 6, 0xEF],
    [4, 0x52, 0x0D, 6, 0xEF], [4, 0x52, 0x0E, 6, 0xEF], [4, 0x52, 0x14, 0xC5, 0x40], [4, 0x52, 0x15, 0xC5, 0x40],
    [4, 0x52, 0x16, 0xC5, 0x40], [4, 0x52, 0x17, 0xC5, 0x40], [4, 0x52, 0x14, 0xC4, 0x40], [4, 0x52, 0x15, 0xC4, 0x40],
    [4, 0x52, 0x16, 0xC4, 0x40], [4, 0x52, 0x17, 0xC4, 0x40], [4, 0x52, 0x14, 0x95, 0x69], [4, 0x52, 0x15, 0x95, 0x69],
    [4, 0x52, 0x16, 0x95, 0x69], [4, 0x52, 0x17, 0x95, 0x69], [4, 0x52, 0x0B, 4, 3], [4, 0x52, 0x0C, 4, 3],
    [4, 0x52, 0x0D, 4, 3], [4, 0x52, 0x0E, 4, 3], [4, 0x52, 0x0B, 8, 0x25], [0, 0x0A],
    [4, 0x52, 0x0C, 8, 0x25], [0, 0x0A], [4, 0x52, 0x0D, 8, 0x25], [0, 0x0A],
    [4, 0x52, 0x0E, 8, 0x25], [0, 0x0A], [4, 0x52, 0x0B, 0x0F, 1], [4, 0x52, 0x0C, 0x0F, 1],
    [4, 0x52, 0x0D, 0x0F, 1], [4, 0x52, 0x0E, 0x0F, 1], [4, 0x52, 0, 0xF4, 0x0F], [4, 0x52, 4, 0x0B, 0x62],
    [4, 0x52, 4, 0x0C, 0], [4, 0x52, 4, 0x0D, 0], [4, 0x52, 4, 0x0E, 0xAC], [4, 0x52, 4, 0x0F, 0xBC],
    [4, 0x52, 4, 0x10, 0xB0], [4, 0x52, 4, 0x11, 0x6C], [4, 0x52, 4, 0x12, 0x30], [4, 0x52, 8, 0xA0, 4],
    [4, 0x52, 8, 0xA3, 0xE4], [4, 0x52, 8, 0xA4, 0xE4], [4, 0x52, 9, 0x0A, 0xC0], [4, 0x52, 9, 0x4A, 0xC0],
    [4, 0x52, 9, 0x8A, 0xC0], [4, 0x52, 9, 0xCA, 0xC0], [4, 0x52, 8, 0xA2, 0xF0], [4, 0x52, 4, 0x15, 0xE6],
    [4, 0x52, 4, 0x18, 0xE6], [4, 0x52, 9, 0x0B, 7], [4, 0x52, 9, 0x2D, 0x15], [4, 0x52, 9, 0x0D, 0x2C],
    [4, 0x52, 9, 0x0E, 0x6C], [4, 0x52, 9, 0x0F, 0], [4, 0x52, 9, 0x10, 0x40], [4, 0x52, 9, 0x11, 1],
    [4, 0x52, 9, 0x12, 0x41], [4, 0x52, 9, 0x4B, 7], [4, 0x52, 9, 0x6D, 0x15], [4, 0x52, 9, 0x4D, 0x2C],
    [4, 0x52, 9, 0x4E, 0x2C], [4, 0x52, 9, 0x4F, 0], [4, 0x52, 9, 0x50, 0], [4, 0x52, 9, 0x51, 1],
    [4, 0x52, 9, 0x52, 1], [4, 0x52, 9, 0x8B, 7], [4, 0x52, 9, 0xAD, 0x15]]"

definition ov10640_2 :: "byte list list" where
  "ov10640_2 = [
    [4, 0x52, 9, 0x8D, 0x2C], [4, 0x52, 9, 0x8E, 0xAC], [4, 0x52, 9, 0x8F, 0], [4, 0x52, 9, 0x90, 0x80],
    [4, 0x52, 9, 0x91, 1], [4, 0x52, 9, 0x92, 0x81], [4, 0x52, 9, 0xCB, 7], [4, 0x52, 9, 0xED, 0x15],
    [4, 0x52, 9, 0xCD, 0x2C], [4, 0x52, 9, 0xCE, 0xEC], [4, 0x52, 9, 0xCF, 0], [4, 0x52, 9, 0xD0, 0xC0],
    [4, 0x52, 9, 0xD1, 1], [4, 0x52, 9, 0xD2, 0xC1], [4, 0x60, 0x30, 0, 3], [4, 0x60, 0x30, 0, 3],
    [4, 0x60, 0x30, 0, 3], [4, 0x60, 0x30, 0, 3], [4, 0x60, 0x30, 0, 3], [4, 0x60, 0x30, 0, 3],
    [4, 0x60, 0x30, 0, 3], [4, 0x60, 0x30, 0, 3], [4, 0x60, 0x30, 0, 3], [4, 0x60, 0x30, 0, 3],
    [4, 0x60, 0x30, 0, 3], [4, 0x60, 0x30, 0, 3], [4, 0x60, 0x30, 0, 3], [4, 0x60, 0x30, 0, 3],
    [4, 0x60, 0x30, 0, 3], [4, 0x60, 0x30, 0, 3], [4, 0x60, 0x30, 0, 3], [4, 0x60, 0x30, 0, 3],
    [4, 0x60, 0x30, 0, 3], [4, 0x60, 0x30, 0, 3], [4, 0x60, 0x30, 0, 3], [4, 0x60, 0x30, 0, 3],
    [4, 0x60, 0x30, 0, 3], [4, 0x60, 0x30, 0, 3], [4, 0x60, 0x30, 0, 3], [4, 0x60, 0x30, 0, 3],
    [4, 0x60, 0x30, 0, 3], [4, 0x60, 0x30, 0, 3], [4, 0x60, 0x30, 0, 3], [4, 0x60, 0x30, 0, 3],
    [4, 0x60, 0x30, 0, 3], [4, 0x60, 0x30, 0, 3], [4, 0x60, 0x30, 0, 3], [4, 0x60, 0x30, 0, 3],
    [4, 0x60, 0x30, 0, 3], [4, 0x60, 0x30, 0, 3], [4, 0x60, 0x30, 0, 3], [4, 0x60, 0x30, 0, 3],
    [4, 0x60, 0x30, 0, 3], [4, 0x60, 0x30, 0, 3], [4, 0x60, 0x30, 0, 3], [4, 0x60, 0x30, 0, 3],
    [4, 0x60, 0x30, 0, 3], [4, 0x60, 0x30, 0, 3], [4, 0x60, 0x30, 0, 3], [4, 0x60, 0x30, 0, 3],
    [4, 0x60, 0x30, 0, 3], [4, 0x60, 0x30, 0, 3], [4, 0x60, 0x30, 0, 3], [4, 0x60, 0x30, 0, 3],
    [4, 0x60, 0x30, 0, 3], [4, 0x60, 0x30, 0, 3], [4, 0x60, 0x30, 0, 3], [4, 0x60, 0x30, 0, 3],
    [4, 0x60, 0x30, 0, 3], [4, 0x60, 0x30, 0, 3], [4, 0x60, 0x30, 0, 3], [4, 0x60, 0x30, 0, 3],
    [4, 0x60, 0x30, 0, 3], [4, 0x60, 0x30, 0, 3], [4, 0x60, 0x30, 0, 3], [4, 0x60, 0x30, 0, 3],
    [4, 0x60, 0x30, 0, 3], [4, 0x60, 0x30, 0, 3], [4, 0x60, 0x30, 0, 3], [4, 0x60, 0x30, 0, 3],
    [4, 0x60, 0x30, 0, 3], [4, 0x60, 0x30, 0, 3], [4, 0x60, 0x30, 0, 3], [4, 0x60, 0x30, 0, 3],
    [4, 0x60, 0x30, 0, 3], [4, 0x60, 0x30, 0, 3], [4, 0x60, 0x30, 0, 3], [4, 0x60, 0x30, 0, 3],
    [4, 0x60, 0x30, 0, 3], [4, 0x60, 0x30, 0, 3], [4, 0x60, 0x30, 0, 3], [4, 0x60, 0x30, 0, 3],
    [4, 0x60, 0x30, 0, 3], [4, 0x60, 0x30, 0, 3], [4, 0x60, 0x30, 0, 3], [4, 0x60, 0x30, 0, 3],
    [4, 0x60, 0x30, 0, 3], [4, 0x60, 0x30, 0, 3], [4, 0x60, 0x30, 0, 3], [4, 0x60, 0x30, 0, 3],
    [4, 0x60, 0x30, 0, 3], [4, 0x60, 0x30, 0, 3], [4, 0x60, 0x30, 0, 3], [4, 0x60, 0x30, 0, 3],
    [4, 0x60, 0x30, 0, 3], [4, 0x60, 0x30, 0, 3], [4, 0x60, 0x30, 0, 3], [4, 0x60, 0x30, 0, 3],
    [4, 0x60, 0x30, 0, 3], [4, 0x60, 0x30, 0, 3], [4, 0x60, 0x30, 0, 3], [4, 0x60, 0x30, 0, 3],
    [4, 0x60, 0x30, 0, 3], [4, 0x60, 0x30, 0, 3], [4, 0x60, 0x30, 0, 3], [4, 0x60, 0x30, 0, 3],
    [4, 0x60, 0x30, 0, 3], [4, 0x60, 0x30, 0, 3], [4, 0x60, 0x30, 0, 3], [4, 0x60, 0x30, 0, 3],
    [4, 0x60, 0x30, 0, 3], [4, 0x60, 0x30, 0, 3], [4, 0x60, 0x30, 0, 3], [4, 0x60, 0x30, 0, 3],
    [4, 0x60, 0x30, 0, 3], [4, 0x60, 0x30, 0, 3], [4, 0x60, 0x30, 0, 3], [4, 0x60, 0x30, 0, 3],
    [4, 0x60, 0x30, 0, 3], [4, 0x60, 0x30, 0, 3], [4, 0x60, 0x30, 0, 3], [4, 0x60, 0x30, 0, 3],
    [4, 0x60, 0x30, 0, 3], [4, 0x60, 0x30, 0, 3], [4, 0x60, 0x30, 0, 3], [4, 0x60, 0x30, 0, 3],
    [4, 0x60, 0x30, 0, 3], [4, 0x60, 0x30, 0, 3], [4, 0x60, 0x30, 0, 3], [4, 0x60, 0x30, 0, 3],
    [4, 0x60, 0x30, 0, 3], [4, 0x60, 0x30, 0, 3], [4, 0x60, 0x30, 0, 3], [4, 0x60, 0x30, 0, 3]]"

definition ov10640_3 :: "byte list list" where
  "ov10640_3 = [
    [4, 0x60, 0x30, 0, 3], [4, 0x60, 0x30, 0, 3], [4, 0x60, 0x30, 0, 3], [4, 0x60, 0x30, 0, 3],
    [4, 0x60, 0x30, 0, 3], [4, 0x60, 0x30, 0, 3], [4, 0x60, 0x30, 0, 3], [4, 0x60, 0x30, 0, 3],
    [4, 0x60, 0x30, 0, 3], [4, 0x60, 0x30, 0, 3], [4, 0x60, 0x30, 0, 3], [4, 0x60, 0x30, 0, 3],
    [4, 0x60, 0x30, 0, 3], [4, 0x60, 0x30, 0, 3], [4, 0x60, 0x30, 0, 3], [4, 0x60, 0x30, 0, 3],
    [4, 0x60, 0x30, 0, 3], [4, 0x60, 0x30, 0, 3], [4, 0x60, 0x30, 0, 3], [4, 0x60, 0x30, 0, 3],
    [4, 0x60, 0x30, 1, 0x51], [4, 0x60, 0x30, 2, 0x28], [4, 0x60, 0x30, 4, 3], [4, 0x60, 0x30, 5, 0x30],
    [4, 0x60, 0x30, 6, 7], [4, 0x60, 0x30, 7, 1], [4, 0x60, 0x30, 0x23, 8], [4, 0x60, 0x30, 0x32, 0x34],
    [4, 0x60, 0x30, 0x33, 0xFB], [4, 0x60, 0x30, 0x54, 2], [4, 0x60, 0x30, 0x55, 8], [4, 0x60, 0x30, 0x56, 3],
    [4, 0x60, 0x30, 0x57, 0xFF], [4, 0x60, 0x30, 0x58, 0xAF], [4, 0x60, 0x30, 0x59, 0x44], [4, 0x60, 0x30, 0x5A, 6],
    [4, 0x60, 0x30, 0x5B, 2], [4, 0x60, 0x30, 0x5C, 0x30], [4, 0x60, 0x30, 0x5D, 0x1C], [4, 0x60, 0x30, 0x5E, 0x16],
    [4, 0x60, 0x30, 0x5F, 0x18], [4, 0x60, 0x30, 0x60, 0xFB], [4, 0x60, 0x30, 0x61, 0xF0], [4, 0x60, 0x30, 0x8C, 3],
    [4, 0x60, 0x30, 0x8F, 0x10], [4, 0x60, 0x30, 0x90, 0], [4, 0x60, 0x30, 0x91, 0], [4, 0x60, 0x30, 0xEB, 0],
    [4, 0x60, 0x30, 0xA3, 8], [4, 0x60, 0x30, 0xAD, 3], [4, 0x60, 0x30, 0xAE, 0x80], [4, 0x60, 0x30, 0xAF, 0x80],
    [4, 0x60, 0x30, 0xB0, 0xFF], [4, 0x60, 0x30, 0xB1, 0x0F], [4, 0x60, 0x30, 0xB2, 0x0F], [4, 0x60, 0x30, 0xB9, 0x22],
    [4, 0x60, 0x30, 0xBB, 0], [4, 0x60, 0x30, 0xBC, 0], [4, 0x60, 0x30, 0xBD, 0], [4, 0x60, 0x30, 0xBE, 0],
    [4, 0x60, 0x30, 0xBF, 0], [4, 0x60, 0x30, 0xC0, 0], [4, 0x60, 0x30, 0xC1, 0], [4, 0x60, 0x30, 0xC2, 0],
    [4, 0x60, 0x30, 0xC3, 0], [4, 0x60, 0x30, 0xC4, 0x80], [4, 0x60, 0x30, 0xC5, 0], [4, 0x60, 0x30, 0xC6, 0x80],
    [4, 0x60, 0x30, 0xC7, 0], [4, 0x60, 0x30, 0xC8, 0x80], [4, 0x60, 0x31, 0x19, 0x45], [4, 0x60, 0x31, 0x1A, 1],
    [4, 0x60, 0x31, 0x1B, 0x4A], [4, 0x60, 0x30, 0x74, 0], [4, 0x60, 0x30, 0x75, 0], [4, 0x60, 0x30, 0x76, 0],
    [4, 0x60, 0x30, 0x77, 0x80], [4, 0x60, 0x30, 0x78, 5], [4, 0x60, 0x30, 0x79, 7], [4, 0x60, 0x30, 0x7A, 3],
    [4, 0x60, 0x30, 0x7B, 0xB1], [4, 0x60, 0x30, 0x7C, 5], [4, 0x60, 0x30, 0x7D, 0], [4, 0x60, 0x30, 0x7E, 3],
    [4, 0x60, 0x30, 0x7F, 0x20], [4, 0x60, 0x30, 0x80, 0x0A], [4, 0x60, 0x30, 0x81, 0xBE], [4, 0x60, 0x30, 0x82, 3],
    [4, 0x60, 0x30, 0x83, 0xD6], [4, 0x60, 0x30, 0x84, 0], [4, 0x60, 0x30, 0x85, 4], [4, 0x60, 0x30, 0x86, 0],
    [4, 0x60, 0x30, 0x87, 8], [4, 0x60, 0x30, 0x88, 0], [4, 0x60, 0x30, 0x89, 0x40], [4, 0x60, 0x30, 0x8D, 0x92],
    [4, 0x60, 0x30, 0x94, 0xA5], [4, 0x60, 0x30, 0xE6, 4], [4, 0x60, 0x30, 0xE7, 0x4C], [4, 0x60, 0x30, 0xE8, 4],
    [4, 0x60, 0x30, 0xE9, 0x4C], [4, 0x60, 0x30, 0xE9, 5], [4, 0x60, 0x30, 0xEC, 1], [4, 0x60, 0x30, 0xFA, 6],
    [4, 0x60, 0x31, 0x20, 0], [4, 0x60, 0x31, 0x21, 0x12], [4, 0x60, 0x31, 0x22, 0], [4, 0x60, 0x31, 0x24, 0x70],
    [4, 0x60, 0x31, 0x27, 0x43], [4, 0x60, 0x31, 0x29, 0], [4, 0x60, 0x31, 0xBE, 2], [4, 0x60, 0x30, 0xA5, 0x78],
    [4, 0x60, 0x30, 0xA6, 0x40], [4, 0x60, 0x30, 0xA7, 0x78], [4, 0x60, 0x30, 0xA8, 0x40], [4, 0x60, 0x30, 0xA9, 0x78],
    [4, 0x60, 0x30, 0xAA, 0x40], [4, 0x60, 0x30, 0xAB, 0x78], [4, 0x60, 0x30, 0xAC, 0x40], [4, 0x60, 0x34, 0x40, 4],
    [4, 0x60, 0x34, 0x44, 0x28], [4, 0x60, 0x34, 0x4E, 0x2C], [4, 0x60, 0x34, 0x57, 0x33], [4, 0x60, 0x34, 0x5E, 0x38],
    [4, 0x60, 0x34, 0x61, 0xA8], [4, 0x60, 0x70, 1, 0xDF], [4, 0x60, 0x70, 0, 0x1F], [4, 0x60, 0x70, 3, 0xDF],
    [4, 0x60, 0x70, 2, 0xAA], [4, 0x60, 0x70, 4, 0x13], [4, 0x60, 0x70, 5, 0xEC], [4, 0x60, 0x70, 6, 0],
    [4, 0x60, 0x70, 7, 0x64], [4, 0x60, 0x70, 8, 0x13], [4, 0x60, 0x70, 9, 0xEC], [4, 0x60, 0x70, 0x0A, 0x12],
    [4, 0x60, 0x70, 0x0B, 0xCA], [4, 0x60, 0x70, 0x0E, 0], [4, 0x60, 0x70, 0x0F, 0x60], [4, 0x60, 0x70, 0x1A, 0x13],
    [4, 0x60, 0x70, 0x1B, 0xEC], [4, 0x60, 0x70, 0x1C, 0], [4, 0x60, 0x70, 0x1D, 0x64], [4, 0x60, 0x70, 0x1E, 0x13],
    [4, 0x60, 0x70, 0x1F, 0xEC], [4, 0x60, 0x70, 0x20, 0x12], [4, 0x60, 0x70, 0x21, 0xCA], [4, 0x60, 0x70, 0x24, 0]]"

definition ov10640_4 :: "byte list list" where
  "ov10640_4 = [
    [4, 0x60, 0x70, 0x25, 0x60], [4, 0x60, 0x70, 0x4A, 1], [4, 0x60, 0x70, 0x4B, 0], [4, 0x60, 0x70, 0xB8, 3],
    [4, 0x60, 0x70, 0xB9, 0x98], [4, 0x60, 0x70, 0xBC, 0], [4, 0x60, 0x70, 0xBD, 0x80], [4, 0x60, 0x70, 0xC2, 1],
    [4, 0x60, 0x70, 0xC3, 0], [4, 0x60, 0x70, 0xC4, 1], [4, 0x60, 0x70, 0xC5, 0], [4, 0x60, 0x30, 0xFB, 8],
    [4, 0x60, 0x30, 0xFC, 0], [4, 0x60, 0x30, 0xFD, 2], [4, 0x60, 0x30, 0xFE, 0x74], [4, 0x60, 0x60, 0, 0xC1],
    [4, 0x60, 0x60, 1, 0xB9], [4, 0x60, 0x60, 2, 0xA4], [4, 0x60, 0x60, 3, 0xB5], [4, 0x60, 0x60, 4, 0],
    [4, 0x60, 0x60, 5, 0x10], [4, 0x60, 0x60, 6, 0x22], [4, 0x60, 0x60, 7, 0x61], [4, 0x60, 0x60, 8, 0],
    [4, 0x60, 0x60, 9, 0x5C], [4, 0x60, 0x60, 0x0A, 0xD2], [4, 0x60, 0x60, 0x0B, 0x33], [4, 0x60, 0x60, 0x0C, 0xCC],
    [4, 0x60, 0x60, 0x0D, 0xE8], [4, 0x60, 0x60, 0x0E, 0xC5], [4, 0x60, 0x60, 0x0F, 0xD4], [4, 0x60, 0x60, 0x10, 0xA5],
    [4, 0x60, 0x60, 0x11, 0xD4], [4, 0x60, 0x60, 0x12, 0xBA], [4, 0x60, 0x60, 0x13, 0x54], [4, 0x60, 0x60, 0x14, 0],
    [4, 0x60, 0x60, 0x15, 0], [4, 0x60, 0x60, 0x16, 0xC0], [4, 0x60, 0x60, 0x17, 0xA0], [4, 0x60, 0x60, 0x18, 0xA2],
    [4, 0x60, 0x60, 0x19, 0xD2], [4, 0x60, 0x60, 0x1A, 0x37], [4, 0x60, 0x60, 0x1B, 0xCC], [4, 0x60, 0x60, 0x1C, 0],
    [4, 0x60, 0x60, 0x1D, 0xB1], [4, 0x60, 0x60, 0x1E, 0xB2], [4, 0x60, 0x60, 0x1F, 0xB3], [4, 0x60, 0x60, 0x20, 0xD3],
    [4, 0x60, 0x60, 0x21, 0x0B], [4, 0x60, 0x60, 0x22, 0x31], [4, 0x60, 0x60, 0x23, 0xC1], [4, 0x60, 0x60, 0x24, 0xCC],
    [4, 0x60, 0x60, 0x25, 4], [4, 0x60, 0x60, 0x26, 0xC4], [4, 0x60, 0x60, 0x27, 0xD2], [4, 0x60, 0x60, 0x28, 0xCE],
    [4, 0x60, 0x60, 0x29, 0x16], [4, 0x60, 0x60, 0x2A, 0xCF], [4, 0x60, 0x60, 0x2B, 0x1E], [4, 0x60, 0x60, 0x2C, 0xD0],
    [4, 0x60, 0x60, 0x2D, 0x26], [4, 0x60, 0x60, 0x2E, 0xD2], [4, 0x60, 0x60, 0x2F, 0xBC], [4, 0x60, 0x60, 0x30, 0xC5],
    [4, 0x60, 0x60, 0x31, 0xD3], [4, 0x60, 0x60, 0x32, 0x14], [4, 0x60, 0x60, 0x33, 0x2B], [4, 0x60, 0x60, 0x34, 0xCC],
    [4, 0x60, 0x60, 0x35, 8], [4, 0x60, 0x60, 0x36, 0xD2], [4, 0x60, 0x60, 0x37, 0x1A], [4, 0x60, 0x60, 0x38, 0x12],
    [4, 0x60, 0x60, 0x39, 0x22], [4, 0x60, 0x60, 0x3A, 0x26], [4, 0x60, 0x60, 0x3B, 0xCC], [4, 0x60, 0x60, 0x3C, 0xEC],
    [4, 0x60, 0x60, 0x3D, 0x56], [4, 0x60, 0x60, 0x3E, 0xD3], [4, 0x60, 0x60, 0x3F, 0x24], [4, 0x60, 0x60, 0x40, 0x54],
    [4, 0x60, 0x60, 0x41, 0xD2], [4, 0x60, 0x60, 0x42, 0xCC], [4, 0x60, 0x60, 0x43, 0x0E], [4, 0x60, 0x60, 0x44, 1],
    [4, 0x60, 0x60, 0x45, 0xD3], [4, 0x60, 0x60, 0x46, 0x4B], [4, 0x60, 0x60, 0x47, 0x27], [4, 0x60, 0x60, 0x48, 4],
    [4, 0x60, 0x60, 0x49, 0x1A], [4, 0x60, 0x60, 0x4A, 0x12], [4, 0x60, 0x60, 0x4B, 0x60], [4, 0x60, 0x60, 0x4C, 0x10],
    [4, 0x60, 0x60, 0x4D, 0x2C], [4, 0x60, 0x60, 0x4E, 0x50], [4, 0x60, 0x60, 0x4F, 0xCC], [4, 0x60, 0x60, 0x50, 0xE0],
    [4, 0x60, 0x60, 0x51, 0x11], [4, 0x60, 0x60, 0x52, 0xC2], [4, 0x60, 0x60, 0x53, 0xB9], [4, 0x60, 0x60, 0x54, 0xA5],
    [4, 0x60, 0x60, 0x55, 0xB5], [4, 0x60, 0x60, 0x56, 0], [4, 0x60, 0x60, 0x57, 0x10], [4, 0x60, 0x60, 0x58, 0x2E],
    [4, 0x60, 0x60, 0x59, 0x61], [4, 0x60, 0x60, 0x5A, 0], [4, 0x60, 0x60, 0x5B, 0x5C], [4, 0x60, 0x60, 0x5C, 0xD4],
    [4, 0x60, 0x60, 0x5D, 0xC8], [4, 0x60, 0x60, 0x5E, 0xD3], [4, 0x60, 0x60, 0x5F, 7], [4, 0x60, 0x60, 0x60, 0x7C],
    [4, 0x60, 0x60, 0x61, 0], [4, 0x60, 0x60, 0x62, 0x74], [4, 0x60, 0x60, 0x63, 0], [4, 0x60, 0x60, 0x64, 0],
    [4, 0x60, 0x60, 0x65, 0xA0], [4, 0x60, 0x60, 0x66, 0xA2], [4, 0x60, 0x60, 0x67, 0xD2], [4, 0x60, 0x60, 0x68, 0xCC],
    [4, 0x60, 0x60, 0x69, 0xE8], [4, 0x60, 0x60, 0x6A, 0xC6], [4, 0x60, 0x60, 0x6B, 0xD2], [4, 0x60, 0x60, 0x6C, 0x35],
    [4, 0x60, 0x60, 0x6D, 0xCC], [4, 0x60, 0x60, 0x6E, 0], [4, 0x60, 0x60, 0x6F, 0xD3], [4, 0x60, 0x60, 0x70, 0x0E],
    [4, 0x60, 0x60, 0x71, 0x31], [4, 0x60, 0x60, 0x72, 0xCC], [4, 0x60, 0x60, 0x73, 4], [4, 0x60, 0x60, 0x74, 0xC5],
    [4, 0x60, 0x60, 0x75, 0xD2], [4, 0x60, 0x60, 0x76, 0xBB], [4, 0x60, 0x60, 0x77, 0xCC], [4, 0x60, 0x60, 0x78, 0x16],
    [4, 0x60, 0x60, 0x79, 0xD2], [4, 0x60, 0x60, 0x7A, 0xBD], [4, 0x60, 0x60, 0x7B, 0xC6], [4, 0x60, 0x60, 0x7C, 0xD3],
    [4, 0x60, 0x60, 0x7D, 0x1E], [4, 0x60, 0x60, 0x7E, 0x2B], [4, 0x60, 0x60, 0x7F, 0xCC], [4, 0x60, 0x60, 0x80, 8],
    [4, 0x60, 0x60, 0x81, 0xD2], [4, 0x60, 0x60, 0x82, 0x1A], [4, 0x60, 0x60, 0x83, 0x12], [4, 0x60, 0x60, 0x84, 0x22],
    [4, 0x60, 0x60, 0x85, 0x26], [4, 0x60, 0x60, 0x86, 0xCC]]"

definition ov10640_5 :: "byte list list" where
  "ov10640_5 = [
    [4, 0x60, 0x60, 0x87, 0xEC], [4, 0x60, 0x60, 0x88, 0x71], [4, 0x60, 0x60, 0x89, 0xD3], [4, 0x60, 0x60, 0x8A, 0x14],
    [4, 0x60, 0x60, 0x8B, 0xD3], [4, 0x60, 0x60, 0x8C, 0x47], [4, 0x60, 0x60, 0x8D, 0x70], [4, 0x60, 0x60, 0x8E, 0xCA],
    [4, 0x60, 0x60, 0x8F, 0xD2], [4, 0x60, 0x60, 0x90, 0xCC], [4, 0x60, 0x60, 0x91, 0x0E], [4, 0x60, 0x60, 0x92, 1],
    [4, 0x60, 0x60, 0x93, 0xD3], [4, 0x60, 0x60, 0x94, 0x57], [4, 0x60, 0x60, 0x95, 0x27], [4, 0x60, 0x60, 0x96, 4],
    [4, 0x60, 0x60, 0x97, 0x1A], [4, 0x60, 0x60, 0x98, 0x12], [4, 0x60, 0x60, 0x99, 0x60], [4, 0x60, 0x60, 0x9A, 0x10],
    [4, 0x60, 0x60, 0x9B, 0x2C], [4, 0x60, 0x60, 0x9C, 0x50], [4, 0x60, 0x60, 0x9D, 0xCC], [4, 0x60, 0x60, 0x9E, 0xE0],
    [4, 0x60, 0x60, 0x9F, 0], [4, 0x60, 0x60, 0xA0, 0], [4, 0x60, 0x60, 0xA1, 0x11], [4, 0x60, 0x60, 0xA2, 0xC0],
    [4, 0x60, 0x60, 0xA3, 0xB9], [4, 0x60, 0x60, 0xA4, 0xA3], [4, 0x60, 0x60, 0xA5, 0xB5], [4, 0x60, 0x60, 0xA6, 0xB5],
    [4, 0x60, 0x60, 0xA7, 0], [4, 0x60, 0x60, 0xA8, 0x10], [4, 0x60, 0x60, 0xA9, 0x22], [4, 0x60, 0x60, 0xAA, 0x61],
    [4, 0x60, 0x60, 0xAB, 0x5C], [4, 0x60, 0x60, 0xAC, 0], [4, 0x60, 0x60, 0xAD, 0xD4], [4, 0x60, 0x60, 0xAE, 0xAE],
    [4, 0x60, 0x60, 0xAF, 0xD4], [4, 0x60, 0x60, 0xB0, 0xC0], [4, 0x60, 0x60, 0xB1, 0x7C], [4, 0x60, 0x60, 0xB2, 0],
    [4, 0x60, 0x60, 0xB3, 0x74], [4, 0x60, 0x60, 0xB4, 0xA0], [4, 0x60, 0x60, 0xB5, 0xA2], [4, 0x60, 0x60, 0xB6, 0],
    [4, 0x60, 0x60, 0xB7, 0], [4, 0x60, 0x60, 0xB8, 0xD2], [4, 0x60, 0x60, 0xB9, 0xCC], [4, 0x60, 0x60, 0xBA, 0xE8],
    [4, 0x60, 0x60, 0xBB, 0xC4], [4, 0x60, 0x60, 0xBC, 0xD2], [4, 0x60, 0x60, 0xBD, 0x35], [4, 0x60, 0x60, 0xBE, 0xCC],
    [4, 0x60, 0x60, 0xBF, 0], [4, 0x60, 0x60, 0xC0, 0xD3], [4, 0x60, 0x60, 0xC1, 0x0B], [4, 0x60, 0x60, 0xC2, 0],
    [4, 0x60, 0x60, 0xC3, 3], [4, 0x60, 0x60, 0xC4, 0x31], [4, 0x60, 0x60, 0xC5, 0xCC], [4, 0x60, 0x60, 0xC6, 4],
    [4, 0x60, 0x60, 0xC7, 0xD2], [4, 0x60, 0x60, 0xC8, 0xBB], [4, 0x60, 0x60, 0xC9, 0xCC], [4, 0x60, 0x60, 0xCA, 0x16],
    [4, 0x60, 0x60, 0xCB, 0xD2], [4, 0x60, 0x60, 0xCC, 0xBE], [4, 0x60, 0x60, 0xCD, 0xC4], [4, 0x60, 0x60, 0xCE, 0xD3],
    [4, 0x60, 0x60, 0xCF, 0x2E], [4, 0x60, 0x60, 0xD0, 0x2B], [4, 0x60, 0x60, 0xD1, 0xCC], [4, 0x60, 0x60, 0xD2, 8],
    [4, 0x60, 0x60, 0xD3, 0xD2], [4, 0x60, 0x60, 0xD4, 0xD9], [4, 0x60, 0x60, 0xD5, 0xD8], [4, 0x60, 0x60, 0xD6, 0xDA],
    [4, 0x60, 0x60, 0xD7, 0xDD], [4, 0x60, 0x60, 0xD8, 0x1A], [4, 0x60, 0x60, 0xD9, 0x12], [4, 0x60, 0x60, 0xDA, 0x26],
    [4, 0x60, 0x60, 0xDB, 0], [4, 0x60, 0x60, 0xDC, 0xCC], [4, 0x60, 0x60, 0xDD, 0xEC], [4, 0x60, 0x60, 0xDE, 0x71],
    [4, 0x60, 0x60, 0xDF, 0xD3], [4, 0x60, 0x60, 0xE0, 0x14], [4, 0x60, 0x60, 0xE1, 0xD3], [4, 0x60, 0x60, 0xE2, 0x47],
    [4, 0x60, 0x60, 0xE3, 0x70], [4, 0x60, 0x60, 0xE4, 0xD2], [4, 0x60, 0x60, 0xE5, 0xCC], [4, 0x60, 0x60, 0xE6, 0x0E],
    [4, 0x60, 0x60, 0xE7, 0xD3], [4, 0x60, 0x60, 0xE8, 1], [4, 0x60, 0x60, 0xE9, 0xD3], [4, 0x60, 0x60, 0xEA, 0x6A],
    [4, 0x60, 0x60, 0xEB, 0xD9], [4, 0x60, 0x60, 0xEC, 0xEA], [4, 0x60, 0x60, 0xED, 0xDA], [4, 0x60, 0x60, 0xEE, 0xEF],
    [4, 0x60, 0x60, 0xEF, 0x27], [4, 0x60, 0x60, 0xF0, 0xD3], [4, 0x60, 0x60, 0xF1, 4], [4, 0x60, 0x60, 0xF2, 0x1A],
    [4, 0x60, 0x60, 0xF3, 0x12], [4, 0x60, 0x60, 0xF4, 0x60], [4, 0x60, 0x60, 0xF5, 0x10], [4, 0x60, 0x60, 0xF6, 0x2C],
    [4, 0x60, 0x60, 0xF7, 0xCC], [4, 0x60, 0x60, 0xF8, 0xE0], [4, 0x60, 0x60, 0xF9, 0x5D], [4, 0x60, 0x60, 0xFA, 0xD3],
    [4, 0x60, 0x60, 0xFB, 0x0A], [4, 0x60, 0x60, 0xFC, 0x5C], [4, 0x60, 0x60, 0xFD, 1], [4, 0x60, 0x60, 0xFE, 0x50],
    [4, 0x60, 0x60, 0xFF, 0x11], [4, 0x60, 0x61, 0, 0xD6], [4, 0x60, 0x61, 1, 0xC8], [4, 0x60, 0x61, 2, 0xD2],
    [4, 0x60, 0x61, 3, 0x30], [4, 0x60, 0x61, 4, 0xB9], [4, 0x60, 0x61, 5, 0xBA], [4, 0x60, 0x61, 6, 0xAF],
    [4, 0x60, 0x61, 7, 0xDC], [4, 0x60, 0x61, 8, 0xCB], [4, 0x60, 0x61, 9, 0xC3], [4, 0x60, 0x61, 0x0A, 0xB9],
    [4, 0x60, 0x61, 0x0B, 0xA4], [4, 0x60, 0x61, 0x0C, 0xB5], [4, 0x60, 0x61, 0x0D, 0], [4, 0x60, 0x61, 0x0E, 0x10],
    [4, 0x60, 0x61, 0x0F, 0x22], [4, 0x60, 0x61, 0x10, 0x5C], [4, 0x60, 0x61, 0x11, 0x61], [4, 0x60, 0x61, 0x12, 0xA0],
    [4, 0x60, 0x61, 0x13, 0xA2], [4, 0x60, 0x61, 0x14, 0xD2], [4, 0x60, 0x61, 0x15, 0xCC], [4, 0x60, 0x61, 0x16, 0xE8],
    [4, 0x60, 0x61, 0x17, 0xC7], [4, 0x60, 0x61, 0x18, 0xD2], [4, 0x60, 0x61, 0x19, 0x35], [4, 0x60, 0x61, 0x1A, 0xCC],
    [4, 0x60, 0x61, 0x1B, 0], [4, 0x60, 0x61, 0x1C, 5]]"

definition ov10640_6 :: "byte list list" where
  "ov10640_6 = [
    [4, 0x60, 0x61, 0x1D, 0x31], [4, 0x60, 0x61, 0x1E, 0x5F], [4, 0x60, 0x61, 0x1F, 5], [4, 0x60, 0x61, 0x20, 0x5C],
    [4, 0x60, 0x61, 0x21, 0xCC], [4, 0x60, 0x61, 0x22, 4], [4, 0x60, 0x61, 0x23, 0xC6], [4, 0x60, 0x61, 0x24, 0xD2],
    [4, 0x60, 0x61, 0x25, 0xBB], [4, 0x60, 0x61, 0x26, 0xCC], [4, 0x60, 0x61, 0x27, 0x16], [4, 0x60, 0x61, 0x28, 0xD2],
    [4, 0x60, 0x61, 0x29, 0xBE], [4, 0x60, 0x61, 0x2A, 0xC7], [4, 0x60, 0x61, 0x2B, 0x2B], [4, 0x60, 0x61, 0x2C, 0xCC],
    [4, 0x60, 0x61, 0x2D, 8], [4, 0x60, 0x61, 0x2E, 0xD2], [4, 0x60, 0x61, 0x2F, 0x1A], [4, 0x60, 0x61, 0x30, 0x12],
    [4, 0x60, 0x61, 0x31, 0x22], [4, 0x60, 0x61, 0x32, 0x26], [4, 0x60, 0x61, 0x33, 0xCC], [4, 0x60, 0x61, 0x34, 0x12],
    [4, 0x60, 0x61, 0x35, 0x5C], [4, 0x60, 0x61, 0x36, 0x42], [4, 0x60, 0x61, 0x37, 0x46], [4, 0x60, 0x61, 0x38, 0x42],
    [4, 0x60, 0x61, 0x39, 5], [4, 0x60, 0x61, 0x3A, 0xD2], [4, 0x60, 0x61, 0x3B, 0xCC], [4, 0x60, 0x61, 0x3C, 0x0E],
    [4, 0x60, 0x61, 0x3D, 1], [4, 0x60, 0x61, 0x3E, 0x27], [4, 0x60, 0x61, 0x3F, 4], [4, 0x60, 0x61, 0x40, 0x1A],
    [4, 0x60, 0x61, 0x41, 0x12], [4, 0x60, 0x61, 0x42, 0xCC], [4, 0x60, 0x61, 0x43, 0xE0], [4, 0x60, 0x61, 0x44, 0x40],
    [4, 0x60, 0x61, 0x45, 0x60], [4, 0x60, 0x61, 0x46, 0x10], [4, 0x60, 0x61, 0x47, 0x20], [4, 0x60, 0x61, 0x48, 0x50],
    [4, 0x60, 0x61, 0x49, 0xD5], [4, 0x60, 0x61, 0x4A, 0xBA], [4, 0x60, 0x61, 0x4B, 0xAF], [4, 0x60, 0x61, 0x4C, 0xB7],
    [4, 0x60, 0x61, 0x4D, 0], [4, 0x60, 0x61, 0x4E, 0xAD], [4, 0x60, 0x61, 0x4F, 0xB7], [4, 0x60, 0x61, 0x50, 0],
    [4, 0x60, 0x61, 0x51, 0xAB], [4, 0x60, 0x61, 0x52, 0xB7], [4, 0x60, 0x61, 0x53, 0], [4, 0x60, 0x61, 0x54, 0xA9],
    [4, 0x60, 0x61, 0x55, 0xB7], [4, 0x60, 0x61, 0x56, 0], [4, 0x60, 0x61, 0x57, 0xA7], [4, 0x60, 0x61, 0x58, 0xB7],
    [4, 0x60, 0x61, 0x59, 0], [4, 0x60, 0x61, 0x5A, 0xD5], [4, 0x60, 0x61, 0x5B, 0], [4, 0x60, 0x61, 0x5C, 0xBA],
    [4, 0x60, 0x61, 0x5D, 0xAE], [4, 0x60, 0x61, 0x5E, 0xB7], [4, 0x60, 0x61, 0x5F, 0], [4, 0x60, 0x61, 0x60, 0xAC],
    [4, 0x60, 0x61, 0x61, 0xB7], [4, 0x60, 0x61, 0x62, 0], [4, 0x60, 0x61, 0x63, 0xAA], [4, 0x60, 0x61, 0x64, 0xB7],
    [4, 0x60, 0x61, 0x65, 0], [4, 0x60, 0x61, 0x66, 0xA8], [4, 0x60, 0x61, 0x67, 0xB7], [4, 0x60, 0x61, 0x68, 0],
    [4, 0x60, 0x61, 0x69, 0xA6], [4, 0x60, 0x61, 0x6A, 0xB7], [4, 0x60, 0x61, 0x6B, 0], [4, 0x60, 0x61, 0x6C, 0xB0],
    [4, 0x60, 0x61, 0x6D, 0xB7], [4, 0x60, 0x61, 0x6E, 0], [4, 0x60, 0x61, 0x6F, 0xB0], [4, 0x60, 0x61, 0x70, 0xB7],
    [4, 0x60, 0x61, 0x71, 0], [4, 0x60, 0x61, 0x72, 0xD5], [4, 0x60, 0x61, 0x73, 0], [4, 0x60, 0x61, 0x74, 0x9E],
    [4, 0x60, 0x61, 0x75, 0xD3], [4, 0x60, 0x61, 0x76, 0x0A], [4, 0x60, 0x61, 0x77, 0x90], [4, 0x60, 0x61, 0x78, 0x9E],
    [4, 0x60, 0x61, 0x79, 0xD3], [4, 0x60, 0x61, 0x7A, 0x18], [4, 0x60, 0x61, 0x7B, 0x9C], [4, 0x60, 0x61, 0x7C, 0x94],
    [4, 0x60, 0x61, 0x7D, 0x90], [4, 0x60, 0x61, 0x7E, 0xD5], [4, 0x60, 0x61, 0x7F, 0], [4, 0x60, 0x61, 0x80, 0x9D],
    [4, 0x60, 0x61, 0x81, 0xD3], [4, 0x60, 0x61, 0x82, 0x0A], [4, 0x60, 0x61, 0x83, 0x90], [4, 0x60, 0x61, 0x84, 0x9D],
    [4, 0x60, 0x61, 0x85, 0xD3], [4, 0x60, 0x61, 0x86, 0x53], [4, 0x60, 0x61, 0x87, 0xB0], [4, 0x60, 0x61, 0x88, 0xB7],
    [4, 0x60, 0x61, 0x89, 0xD3], [4, 0x60, 0x61, 0x8A, 0x11], [4, 0x60, 0x61, 0x8B, 0x9C], [4, 0x60, 0x61, 0x8C, 0x94],
    [4, 0x60, 0x61, 0x8D, 0x90], [4, 0x60, 0x61, 0x8E, 0xC9], [4, 0x60, 0x61, 0x8F, 0xD5], [4, 0x60, 0x61, 0x90, 0xBA],
    [4, 0x60, 0x61, 0x91, 0xB0], [4, 0x60, 0x61, 0x92, 0xB7], [4, 0x60, 0x61, 0x93, 0], [4, 0x60, 0x61, 0x94, 0x9D],
    [4, 0x60, 0x61, 0x95, 0xD3], [4, 0x60, 0x61, 0x96, 0x0A], [4, 0x60, 0x61, 0x97, 0x90], [4, 0x60, 0x61, 0x98, 0x9D],
    [4, 0x60, 0x61, 0x99, 0xD3], [4, 0x60, 0x61, 0x9A, 0x11], [4, 0x60, 0x61, 0x9B, 0x9C], [4, 0x60, 0x61, 0x9C, 0x94],
    [4, 0x60, 0x61, 0x9D, 0x90], [4, 0x60, 0x61, 0x9E, 0xC8], [4, 0x60, 0x61, 0x9F, 0xD5], [4, 0x60, 0x61, 0xA0, 0xBA],
    [4, 0x60, 0x61, 0xA1, 0xB0], [4, 0x60, 0x61, 0xA2, 0xB7], [4, 0x60, 0x61, 0xA3, 0], [4, 0x60, 0x61, 0xA4, 0x9D],
    [4, 0x60, 0x61, 0xA5, 0xD3], [4, 0x60, 0x61, 0xA6, 0x0A], [4, 0x60, 0x61, 0xA7, 0x90], [4, 0x60, 0x61, 0xA8, 0x9D],
    [4, 0x60, 0x61, 0xA9, 0xD3], [4, 0x60, 0x61, 0xAA, 0x11], [4, 0x60, 0x61, 0xAB, 0x9C], [4, 0x60, 0x61, 0xAC, 0x94],
    [4, 0x60, 0x61, 0xAD, 0x90], [4, 0x60, 0x61, 0xAE, 0xC9], [4, 0x60, 0x61, 0xAF, 0xD5], [4, 0x60, 0x61, 0xB0, 0x1A],
    [4, 0x60, 0x61, 0xB1, 0x12], [4, 0x60, 0x61, 0xB2, 0x2A]]"

definition ov10640_7 :: "byte list list" where
  "ov10640_7 = [
    [4, 0x60, 0x61, 0xB3, 0xCC], [4, 0x60, 0x61, 0xB4, 0xF2], [4, 0x60, 0x61, 0xB5, 0xD2], [4, 0x60, 0x61, 0xB6, 0x2B],
    [4, 0x60, 0x61, 0xB7, 0], [4, 0x60, 0x61, 0xB8, 0xD5], [4, 0x60, 0x61, 0xB9, 0], [4, 0x60, 0x61, 0xBA, 0x1A],
    [4, 0x60, 0x61, 0xBB, 0x12], [4, 0x60, 0x61, 0xBC, 0x2A], [4, 0x60, 0x61, 0xBD, 0xCC], [4, 0x60, 0x61, 0xBE, 0xF2],
    [4, 0x60, 0x61, 0xBF, 0xD2], [4, 0x60, 0x61, 0xC0, 0x2B], [4, 0x60, 0x61, 0xC1, 2], [4, 0x60, 0x61, 0xC2, 0x1A],
    [4, 0x60, 0x61, 0xC3, 0x12], [4, 0x60, 0x61, 0xC4, 0x2A], [4, 0x60, 0x61, 0xC5, 0xCC], [4, 0x60, 0x61, 0xC6, 0xF2],
    [4, 0x60, 0x61, 0xC7, 0xD2], [4, 0x60, 0x61, 0xC8, 0x2B], [4, 0x60, 0x61, 0xC9, 2], [4, 0x60, 0x61, 0xCA, 0x1A],
    [4, 0x60, 0x61, 0xCB, 0x12], [4, 0x60, 0x61, 0xCC, 0x2A], [4, 0x60, 0x61, 0xCD, 0xCC], [4, 0x60, 0x61, 0xCE, 0xF2],
    [4, 0x60, 0x61, 0xCF, 0xD2], [4, 0x60, 0x61, 0xD0, 0x2B], [4, 0x60, 0x61, 0xD1, 0], [4, 0x60, 0x61, 0xD2, 0xD5],
    [4, 0x60, 0x61, 0xD3, 0], [4, 0x60, 0x61, 0xD4, 0x27], [4, 0x60, 0x61, 0xD5, 2], [4, 0x60, 0x61, 0xD6, 0x1A],
    [4, 0x60, 0x61, 0xD7, 0x12], [4, 0x60, 0x61, 0xD8, 0x26], [4, 0x60, 0x61, 0xD9, 0xCC], [4, 0x60, 0x61, 0xDA, 0xF8],
    [4, 0x60, 0x61, 0xDB, 0xD2], [4, 0x60, 0x61, 0xDC, 0xD5], [4, 0x60, 0x61, 0xDD, 0], [4, 0x60, 0x61, 0xDE, 0x27],
    [4, 0x60, 0x61, 0xDF, 2], [4, 0x60, 0x61, 0xE0, 0x1A], [4, 0x60, 0x61, 0xE1, 0x12], [4, 0x60, 0x61, 0xE2, 0x26],
    [4, 0x60, 0x61, 0xE3, 0xCC], [4, 0x60, 0x61, 0xE4, 0xF8], [4, 0x60, 0x61, 0xE5, 0xD2], [4, 0x60, 0x61, 0xE6, 0x27],
    [4, 0x60, 0x61, 0xE7, 2], [4, 0x60, 0x61, 0xE8, 0x1A], [4, 0x60, 0x61, 0xE9, 0x12], [4, 0x60, 0x61, 0xEA, 0x26],
    [4, 0x60, 0x61, 0xEB, 0xCC], [4, 0x60, 0x61, 0xEC, 0xF8], [4, 0x60, 0x61, 0xED, 0xD2], [4, 0x60, 0x61, 0xEE, 0x27],
    [4, 0x60, 0x61, 0xEF, 2], [4, 0x60, 0x61, 0xF0, 0x1A], [4, 0x60, 0x61, 0xF1, 0x12], [4, 0x60, 0x61, 0xF2, 0x26],
    [4, 0x60, 0x61, 0xF3, 0xCC], [4, 0x60, 0x61, 0xF4, 0xF8], [4, 0x60, 0x61, 0xF5, 0xD2], [4, 0x60, 0x61, 0xF6, 0xD5],
    [4, 0x60, 0x64, 0, 4], [4, 0x60, 0x64, 1, 0x60], [4, 0x60, 0x64, 2, 5], [4, 0x60, 0x64, 3, 0x60],
    [4, 0x60, 0x64, 4, 0], [4, 0x60, 0x64, 5, 0xFF], [4, 0x60, 0x64, 6, 0], [4, 0x60, 0x64, 7, 0],
    [4, 0x60, 0x64, 8, 4], [4, 0x60, 0x64, 9, 0x71], [4, 0x60, 0x64, 0x0A, 5], [4, 0x60, 0x64, 0x0B, 0x71],
    [4, 0x60, 0x64, 0x0C, 4], [4, 0x60, 0x64, 0x0D, 0x70], [4, 0x60, 0x64, 0x0E, 0], [4, 0x60, 0x64, 0x0F, 0xFF],
    [4, 0x60, 0x64, 0x10, 5], [4, 0x60, 0x64, 0x11, 0x51], [4, 0x60, 0x64, 0x12, 0], [4, 0x60, 0x64, 0x13, 0],
    [4, 0x60, 0x64, 0x14, 5], [4, 0x60, 0x64, 0x15, 0x41], [4, 0x60, 0x64, 0x16, 5], [4, 0x60, 0x64, 0x17, 0x46],
    [4, 0x60, 0x64, 0x18, 0], [4, 0x60, 0x64, 0x19, 0xFF], [4, 0x60, 0x64, 0x1A, 0], [4, 0x60, 0x64, 0x1B, 0],
    [4, 0x60, 0x64, 0x1C, 4], [4, 0x60, 0x64, 0x1D, 0x31], [4, 0x60, 0x64, 0x1E, 4], [4, 0x60, 0x64, 0x1F, 0x30],
    [4, 0x60, 0x64, 0x20, 0], [4, 0x60, 0x64, 0x21, 0xFF], [4, 0x60, 0x64, 0x22, 0], [4, 0x60, 0x64, 0x23, 0],
    [4, 0x60, 0x64, 0x24, 4], [4, 0x60, 0x64, 0x25, 0x20], [4, 0x60, 0x64, 0x26, 5], [4, 0x60, 0x64, 0x27, 6],
    [4, 0x60, 0x64, 0x28, 0], [4, 0x60, 0x64, 0x29, 0xFF], [4, 0x60, 0x64, 0x2A, 0], [4, 0x60, 0x64, 0x2B, 0],
    [4, 0x60, 0x64, 0x2C, 8], [4, 0x60, 0x64, 0x2D, 0x2E], [4, 0x60, 0x64, 0x2E, 8], [4, 0x60, 0x64, 0x2F, 0x36],
    [4, 0x60, 0x64, 0x30, 6], [4, 0x60, 0x64, 0x31, 0x20], [4, 0x60, 0x64, 0x32, 7], [4, 0x60, 0x64, 0x33, 0],
    [4, 0x60, 0x64, 0x34, 1], [4, 0x60, 0x64, 0x35, 0xBE], [4, 0x60, 0x64, 0x36, 1], [4, 0x60, 0x64, 0x37, 0xBF],
    [4, 0x60, 0x64, 0x38, 8], [4, 0x60, 0x64, 0x39, 0x42], [4, 0x60, 0x64, 0x3A, 0], [4, 0x60, 0x64, 0x3B, 0xFF],
    [4, 0x60, 0x64, 0x3C, 8], [4, 0x60, 0x64, 0x3D, 0x2E], [4, 0x60, 0x64, 0x3E, 8], [4, 0x60, 0x64, 0x3F, 0x3C],
    [4, 0x60, 0x64, 0x40, 6], [4, 0x60, 0x64, 0x41, 0x10], [4, 0x60, 0x64, 0x42, 7], [4, 0x60, 0x64, 0x43, 0],
    [4, 0x60, 0x64, 0x44, 1], [4, 0x60, 0x64, 0x45, 0xBC], [4, 0x60, 0x64, 0x46, 1], [4, 0x60, 0x64, 0x47, 0xBF],
    [4, 0x60, 0x64, 0x48, 8], [4, 0x60, 0x64, 0x49, 0x42], [4, 0x60, 0x64, 0x4A, 0], [4, 0x60, 0x64, 0x4B, 0xFF],
    [4, 0x60, 0x64, 0x4C, 8], [4, 0x60, 0x64, 0x4D, 0x2E], [4, 0x60, 0x64, 0x4E, 6], [4, 0x60, 0x64, 0x4F, 0],
    [4, 0x60, 0x64, 0x50, 7], [4, 0x60, 0x64, 0x51, 0]]"

definition ov10640_8 :: "byte list list" where
  "ov10640_8 = [
    [4, 0x60, 0x64, 0x52, 1], [4, 0x60, 0x64, 0x53, 0xBC], [4, 0x60, 0x64, 0x54, 1], [4, 0x60, 0x64, 0x55, 0xBD],
    [4, 0x60, 0x64, 0x56, 8], [4, 0x60, 0x64, 0x57, 0x42], [4, 0x60, 0x64, 0x58, 0], [4, 0x60, 0x64, 0x59, 0xFF],
    [4, 0x60, 0x64, 0x5A, 0], [4, 0x60, 0x64, 0x5B, 0], [4, 0x60, 0x64, 0x5C, 6], [4, 0x60, 0x64, 0x5D, 0],
    [4, 0x60, 0x64, 0x5E, 7], [4, 0x60, 0x64, 0x5F, 5], [4, 0x60, 0x64, 0x60, 1], [4, 0x60, 0x64, 0x61, 0xAE],
    [4, 0x60, 0x64, 0x62, 1], [4, 0x60, 0x64, 0x63, 0x0E], [4, 0x60, 0x64, 0x64, 1], [4, 0x60, 0x64, 0x65, 0x90],
    [4, 0x60, 0x64, 0x66, 1], [4, 0x60, 0x64, 0x67, 0xC8], [4, 0x60, 0x64, 0x68, 0], [4, 0x60, 0x64, 0x69, 0xFF],
    [4, 0x60, 0x64, 0x6A, 0], [4, 0x60, 0x64, 0x6B, 0], [4, 0x60, 0x64, 0x6C, 1], [4, 0x60, 0x64, 0x6D, 0xAC],
    [4, 0x60, 0x64, 0x6E, 1], [4, 0x60, 0x64, 0x6F, 0x0C], [4, 0x60, 0x64, 0x70, 1], [4, 0x60, 0x64, 0x71, 0x90],
    [4, 0x60, 0x64, 0x72, 1], [4, 0x60, 0x64, 0x73, 0xE8], [4, 0x60, 0x64, 0x74, 0], [4, 0x60, 0x64, 0x75, 0xFF],
    [4, 0x60, 0x64, 0x76, 0], [4, 0x60, 0x64, 0x77, 0], [4, 0x60, 0x64, 0x78, 1], [4, 0x60, 0x64, 0x79, 0xAD],
    [4, 0x60, 0x64, 0x7A, 1], [4, 0x60, 0x64, 0x7B, 0x0D], [4, 0x60, 0x64, 0x7C, 1], [4, 0x60, 0x64, 0x7D, 0x90],
    [4, 0x60, 0x64, 0x7E, 1], [4, 0x60, 0x64, 0x7F, 0xE8], [4, 0x60, 0x64, 0x80, 0], [4, 0x60, 0x64, 0x81, 0xFF],
    [4, 0x60, 0x64, 0x82, 0], [4, 0x60, 0x64, 0x83, 0], [4, 0x60, 0x64, 0x84, 1], [4, 0x60, 0x64, 0x85, 0xB0],
    [4, 0x60, 0x64, 0x86, 1], [4, 0x60, 0x64, 0x87, 0xB1], [4, 0x60, 0x64, 0x88, 1], [4, 0x60, 0x64, 0x89, 0xB2],
    [4, 0x60, 0x64, 0x8A, 1], [4, 0x60, 0x64, 0x8B, 0xB3], [4, 0x60, 0x64, 0x8C, 1], [4, 0x60, 0x64, 0x8D, 0xB4],
    [4, 0x60, 0x64, 0x8E, 1], [4, 0x60, 0x64, 0x8F, 0xB5], [4, 0x60, 0x64, 0x90, 1], [4, 0x60, 0x64, 0x91, 0xB6],
    [4, 0x60, 0x64, 0x92, 1], [4, 0x60, 0x64, 0x93, 0xB7], [4, 0x60, 0x64, 0x94, 1], [4, 0x60, 0x64, 0x95, 0xB8],
    [4, 0x60, 0x64, 0x96, 1], [4, 0x60, 0x64, 0x97, 0xB9], [4, 0x60, 0x64, 0x98, 1], [4, 0x60, 0x64, 0x99, 0xBA],
    [4, 0x60, 0x64, 0x9A, 1], [4, 0x60, 0x64, 0x9B, 0xBB], [4, 0x60, 0x64, 0x9C, 1], [4, 0x60, 0x64, 0x9D, 0xC0],
    [4, 0x60, 0x64, 0x9E, 6], [4, 0x60, 0x64, 0x9F, 0], [4, 0x60, 0x64, 0xA0, 7], [4, 0x60, 0x64, 0xA1, 0],
    [4, 0x60, 0x64, 0xA2, 1], [4, 0x60, 0x64, 0xA3, 0xF6], [4, 0x60, 0x64, 0xA4, 0], [4, 0x60, 0x64, 0xA5, 0xFF],
    [4, 0x60, 0x64, 0xA6, 0], [4, 0x60, 0x64, 0xA7, 0], [4, 0x60, 0x64, 0xA8, 4], [4, 0x60, 0x64, 0xA9, 0x31],
    [4, 0x60, 0x64, 0xAA, 4], [4, 0x60, 0x64, 0xAB, 0x30], [4, 0x60, 0x64, 0xAC, 1], [4, 0x60, 0x64, 0xAD, 0x20],
    [4, 0x60, 0x64, 0xAE, 1], [4, 0x60, 0x64, 0xAF, 0x31], [4, 0x60, 0x64, 0xB0, 1], [4, 0x60, 0x64, 0xB1, 0x32],
    [4, 0x60, 0x64, 0xB2, 1], [4, 0x60, 0x64, 0xB3, 0x33], [4, 0x60, 0x64, 0xB4, 1], [4, 0x60, 0x64, 0xB5, 0x34],
    [4, 0x60, 0x64, 0xB6, 1], [4, 0x60, 0x64, 0xB7, 0x35], [4, 0x60, 0x64, 0xB8, 1], [4, 0x60, 0x64, 0xB9, 0x36],
    [4, 0x60, 0x64, 0xBA, 1], [4, 0x60, 0x64, 0xBB, 0x37], [4, 0x60, 0x64, 0xBC, 1], [4, 0x60, 0x64, 0xBD, 0x38],
    [4, 0x60, 0x64, 0xBE, 1], [4, 0x60, 0x64, 0xBF, 0x39], [4, 0x60, 0x64, 0xC0, 1], [4, 0x60, 0x64, 0xC1, 0x3A],
    [4, 0x60, 0x64, 0xC2, 1], [4, 0x60, 0x64, 0xC3, 0x3B], [4, 0x60, 0x64, 0xC4, 1], [4, 0x60, 0x64, 0xC5, 0x3C],
    [4, 0x60, 0x64, 0xC6, 1], [4, 0x60, 0x64, 0xC7, 0x3D], [4, 0x60, 0x64, 0xC8, 1], [4, 0x60, 0x64, 0xC9, 0x3E],
    [4, 0x60, 0x64, 0xCA, 2], [4, 0x60, 0x64, 0xCB, 0xA0], [4, 0x60, 0x64, 0xCC, 0], [4, 0x60, 0x64, 0xCD, 0xFF],
    [4, 0x60, 0x64, 0xCE, 0], [4, 0x60, 0x64, 0xCF, 0], [4, 0x60, 0x64, 0xD0, 4], [4, 0x60, 0x64, 0xD1, 0x31],
    [4, 0x60, 0x64, 0xD2, 4], [4, 0x60, 0x64, 0xD3, 0x30], [4, 0x60, 0x64, 0xD4, 1], [4, 0x60, 0x64, 0xD5, 0],
    [4, 0x60, 0x64, 0xD6, 1], [4, 0x60, 0x64, 0xD7, 0x11], [4, 0x60, 0x64, 0xD8, 1], [4, 0x60, 0x64, 0xD9, 0x12],
    [4, 0x60, 0x64, 0xDA, 1], [4, 0x60, 0x64, 0xDB, 0x13], [4, 0x60, 0x64, 0xDC, 1], [4, 0x60, 0x64, 0xDD, 0x14],
    [4, 0x60, 0x64, 0xDE, 1], [4, 0x60, 0x64, 0xDF, 0x15], [4, 0x60, 0x64, 0xE0, 1], [4, 0x60, 0x64, 0xE1, 0x16],
    [4, 0x60, 0x64, 0xE2, 1], [4, 0x60, 0x64, 0xE3, 0x17], [4, 0x60, 0x64, 0xE4, 1], [4, 0x60, 0x64, 0xE5, 0x18],
    [4, 0x60, 0x64, 0xE6, 1], [4, 0x60, 0x64, 0xE7, 0x19]]"

definition ov10640_9 :: "byte list list" where
  "ov10640_9 = [
    [4, 0x60, 0x64, 0xE8, 1], [4, 0x60, 0x64, 0xE9, 0x1A], [4, 0x60, 0x64, 0xEA, 1], [4, 0x60, 0x64, 0xEB, 0x1B],
    [4, 0x60, 0x64, 0xEC, 1], [4, 0x60, 0x64, 0xED, 0x1C], [4, 0x60, 0x64, 0xEE, 1], [4, 0x60, 0x64, 0xEF, 0x1D],
    [4, 0x60, 0x64, 0xF0, 1], [4, 0x60, 0x64, 0xF1, 0x1E], [4, 0x60, 0x64, 0xF2, 2], [4, 0x60, 0x64, 0xF3, 0xA0],
    [4, 0x60, 0x64, 0xF4, 4], [4, 0x60, 0x64, 0xF5, 0x0C], [4, 0x60, 0x64, 0xF6, 0], [4, 0x60, 0x64, 0xF7, 0xFF],
    [4, 0x60, 0x64, 0xF8, 3], [4, 0x60, 0x64, 0xF9, 0x0B], [4, 0x60, 0x64, 0xFA, 5], [4, 0x60, 0x64, 0xFB, 0x86],
    [4, 0x60, 0x64, 0xFC, 0], [4, 0x60, 0x64, 0xFD, 9], [4, 0x60, 0x64, 0xFE, 5], [4, 0x60, 0x64, 0xFF, 4],
    [4, 0x60, 0x65, 0, 0], [4, 0x60, 0x65, 1, 0], [4, 0x60, 0x65, 2, 5], [4, 0x60, 0x65, 3, 0],
    [4, 0x60, 0x65, 4, 0], [4, 0x60, 0x65, 5, 0x0D], [4, 0x60, 0x65, 6, 5], [4, 0x60, 0x65, 7, 8],
    [4, 0x60, 0x65, 8, 3], [4, 0x60, 0x65, 9, 0x9A], [4, 0x60, 0x65, 0x0A, 5], [4, 0x60, 0x65, 0x0B, 0x86],
    [4, 0x60, 0x65, 0x0C, 0], [4, 0x60, 0x65, 0x0D, 7], [4, 0x60, 0x65, 0x0E, 5], [4, 0x60, 0x65, 0x0F, 4],
    [4, 0x60, 0x65, 0x10, 0], [4, 0x60, 0x65, 0x11, 0], [4, 0x60, 0x65, 0x12, 5], [4, 0x60, 0x65, 0x13, 0],
    [4, 0x60, 0x65, 0x14, 0], [4, 0x60, 0x65, 0x15, 0x0D], [4, 0x60, 0x65, 0x16, 5], [4, 0x60, 0x65, 0x17, 8],
    [4, 0x60, 0x65, 0x18, 3], [4, 0x60, 0x65, 0x19, 0x99], [4, 0x60, 0x65, 0x1A, 5], [4, 0x60, 0x65, 0x1B, 0x86],
    [4, 0x60, 0x65, 0x1C, 0], [4, 0x60, 0x65, 0x1D, 5], [4, 0x60, 0x65, 0x1E, 5], [4, 0x60, 0x65, 0x1F, 4],
    [4, 0x60, 0x65, 0x20, 0], [4, 0x60, 0x65, 0x21, 0], [4, 0x60, 0x65, 0x22, 5], [4, 0x60, 0x65, 0x23, 0],
    [4, 0x60, 0x65, 0x24, 0], [4, 0x60, 0x65, 0x25, 0x0D], [4, 0x60, 0x65, 0x26, 5], [4, 0x60, 0x65, 0x27, 8],
    [4, 0x60, 0x65, 0x28, 3], [4, 0x60, 0x65, 0x29, 0x98], [4, 0x60, 0x65, 0x2A, 5], [4, 0x60, 0x65, 0x2B, 0x86],
    [4, 0x60, 0x65, 0x2C, 0], [4, 0x60, 0x65, 0x2D, 1], [4, 0x60, 0x65, 0x2E, 5], [4, 0x60, 0x65, 0x2F, 4],
    [4, 0x60, 0x65, 0x30, 0], [4, 0x60, 0x65, 0x31, 0], [4, 0x60, 0x65, 0x32, 5], [4, 0x60, 0x65, 0x33, 0],
    [4, 0x60, 0x65, 0x34, 0], [4, 0x60, 0x65, 0x35, 0x0D], [4, 0x60, 0x65, 0x36, 5], [4, 0x60, 0x65, 0x37, 8],
    [4, 0x60, 0x65, 0x38, 3], [4, 0x60, 0x65, 0x39, 0x97], [4, 0x60, 0x65, 0x3A, 5], [4, 0x60, 0x65, 0x3B, 0x86],
    [4, 0x60, 0x65, 0x3C, 0], [4, 0x60, 0x65, 0x3D, 1], [4, 0x60, 0x65, 0x3E, 5], [4, 0x60, 0x65, 0x3F, 4],
    [4, 0x60, 0x65, 0x40, 0], [4, 0x60, 0x65, 0x41, 0], [4, 0x60, 0x65, 0x42, 5], [4, 0x60, 0x65, 0x43, 0],
    [4, 0x60, 0x65, 0x44, 0], [4, 0x60, 0x65, 0x45, 0x0D], [4, 0x60, 0x65, 0x46, 5], [4, 0x60, 0x65, 0x47, 8],
    [4, 0x60, 0x65, 0x48, 3], [4, 0x60, 0x65, 0x49, 0x96], [4, 0x60, 0x65, 0x4A, 5], [4, 0x60, 0x65, 0x4B, 0x86],
    [4, 0x60, 0x65, 0x4C, 0], [4, 0x60, 0x65, 0x4D, 1], [4, 0x60, 0x65, 0x4E, 5], [4, 0x60, 0x65, 0x4F, 4],
    [4, 0x60, 0x65, 0x50, 0], [4, 0x60, 0x65, 0x51, 0], [4, 0x60, 0x65, 0x52, 5], [4, 0x60, 0x65, 0x53, 0],
    [4, 0x60, 0x65, 0x54, 0], [4, 0x60, 0x65, 0x55, 0x0D], [4, 0x60, 0x65, 0x56, 5], [4, 0x60, 0x65, 0x57, 8],
    [4, 0x60, 0x65, 0x58, 3], [4, 0x60, 0x65, 0x59, 0x95], [4, 0x60, 0x65, 0x5A, 5], [4, 0x60, 0x65, 0x5B, 0x86],
    [4, 0x60, 0x65, 0x5C, 0], [4, 0x60, 0x65, 0x5D, 1], [4, 0x60, 0x65, 0x5E, 5], [4, 0x60, 0x65, 0x5F, 4],
    [4, 0x60, 0x65, 0x60, 0], [4, 0x60, 0x65, 0x61, 0], [4, 0x60, 0x65, 0x62, 5], [4, 0x60, 0x65, 0x63, 0],
    [4, 0x60, 0x65, 0x64, 0], [4, 0x60, 0x65, 0x65, 0x0D], [4, 0x60, 0x65, 0x66, 5], [4, 0x60, 0x65, 0x67, 8],
    [4, 0x60, 0x65, 0x68, 3], [4, 0x60, 0x65, 0x69, 0x94], [4, 0x60, 0x65, 0x6A, 5], [4, 0x60, 0x65, 0x6B, 0x86],
    [4, 0x60, 0x65, 0x6C, 0], [4, 0x60, 0x65, 0x6D, 3], [4, 0x60, 0x65, 0x6E, 5], [4, 0x60, 0x65, 0x6F, 4],
    [4, 0x60, 0x65, 0x70, 0], [4, 0x60, 0x65, 0x71, 0], [4, 0x60, 0x65, 0x72, 5], [4, 0x60, 0x65, 0x73, 0],
    [4, 0x60, 0x65, 0x74, 0], [4, 0x60, 0x65, 0x75, 0x0D], [4, 0x60, 0x65, 0x76, 5], [4, 0x60, 0x65, 0x77, 8],
    [4, 0x60, 0x65, 0x78, 3], [4, 0x60, 0x65, 0x79, 0x93], [4, 0x60, 0x65, 0x7A, 5], [4, 0x60, 0x65, 0x7B, 0x86],
    [4, 0x60, 0x65, 0x7C, 0], [4, 0x60, 0x65, 0x7D, 1]]"

definition ov10640_10 :: "byte list list" where
  "ov10640_10 = [
    [4, 0x60, 0x65, 0x7E, 5], [4, 0x60, 0x65, 0x7F, 4], [4, 0x60, 0x65, 0x80, 0], [4, 0x60, 0x65, 0x81, 0],
    [4, 0x60, 0x65, 0x82, 5], [4, 0x60, 0x65, 0x83, 0], [4, 0x60, 0x65, 0x84, 0], [4, 0x60, 0x65, 0x85, 0x0D],
    [4, 0x60, 0x65, 0x86, 5], [4, 0x60, 0x65, 0x87, 8], [4, 0x60, 0x65, 0x88, 3], [4, 0x60, 0x65, 0x89, 0x92],
    [4, 0x60, 0x65, 0x8A, 5], [4, 0x60, 0x65, 0x8B, 0x86], [4, 0x60, 0x65, 0x8C, 0], [4, 0x60, 0x65, 0x8D, 1],
    [4, 0x60, 0x65, 0x8E, 5], [4, 0x60, 0x65, 0x8F, 4], [4, 0x60, 0x65, 0x90, 0], [4, 0x60, 0x65, 0x91, 0],
    [4, 0x60, 0x65, 0x92, 5], [4, 0x60, 0x65, 0x93, 0], [4, 0x60, 0x65, 0x94, 0], [4, 0x60, 0x65, 0x95, 0x0D],
    [4, 0x60, 0x65, 0x96, 5], [4, 0x60, 0x65, 0x97, 8], [4, 0x60, 0x65, 0x98, 3], [4, 0x60, 0x65, 0x99, 0x91],
    [4, 0x60, 0x65, 0x9A, 5], [4, 0x60, 0x65, 0x9B, 0x86], [4, 0x60, 0x65, 0x9C, 0], [4, 0x60, 0x65, 0x9D, 1],
    [4, 0x60, 0x65, 0x9E, 5], [4, 0x60, 0x65, 0x9F, 4], [4, 0x60, 0x65, 0xA0, 0], [4, 0x60, 0x65, 0xA1, 0],
    [4, 0x60, 0x65, 0xA2, 5], [4, 0x60, 0x65, 0xA3, 0], [4, 0x60, 0x65, 0xA4, 0], [4, 0x60, 0x65, 0xA5, 0x0D],
    [4, 0x60, 0x65, 0xA6, 5], [4, 0x60, 0x65, 0xA7, 8], [4, 0x60, 0x65, 0xA8, 3], [4, 0x60, 0x65, 0xA9, 0x90],
    [4, 0x60, 0x65, 0xAA, 5], [4, 0x60, 0x65, 0xAB, 0x86], [4, 0x60, 0x65, 0xAC, 0], [4, 0x60, 0x65, 0xAD, 1],
    [4, 0x60, 0x65, 0xAE, 5], [4, 0x60, 0x65, 0xAF, 4], [4, 0x60, 0x65, 0xB0, 0], [4, 0x60, 0x65, 0xB1, 0],
    [4, 0x60, 0x65, 0xB2, 5], [4, 0x60, 0x65, 0xB3, 0], [4, 0x60, 0x65, 0xB4, 0], [4, 0x60, 0x65, 0xB5, 0x0D],
    [4, 0x60, 0x65, 0xB6, 5], [4, 0x60, 0x65, 0xB7, 8], [4, 0x60, 0x65, 0xB8, 2], [4, 0x60, 0x65, 0xB9, 0x90],
    [4, 0x60, 0x65, 0xBA, 5], [4, 0x60, 0x65, 0xBB, 6], [4, 0x60, 0x65, 0xBC, 0], [4, 0x60, 0x65, 0xBD, 0xFF],
    [4, 0x60, 0x65, 0xBE, 0], [4, 0x60, 0x65, 0xBF, 0], [4, 0x60, 0x65, 0xC0, 4], [4, 0x60, 0x65, 0xC1, 0x20],
    [4, 0x60, 0x65, 0xC2, 5], [4, 0x60, 0x65, 0xC3, 6], [4, 0x60, 0x65, 0xC4, 8], [4, 0x60, 0x65, 0xC5, 0x7C],
    [4, 0x60, 0x65, 0xC6, 4], [4, 0x60, 0x65, 0xC7, 6], [4, 0x60, 0x65, 0xC8, 5], [4, 0x60, 0x65, 0xC9, 7],
    [4, 0x60, 0x65, 0xCA, 4], [4, 0x60, 0x65, 0xCB, 4], [4, 0x60, 0x65, 0xCC, 0], [4, 0x60, 0x65, 0xCD, 0xFF],
    [4, 0x60, 0x65, 0xCE, 0], [4, 0x60, 0x65, 0xCF, 0], [4, 0x60, 0x65, 0xD0, 8], [4, 0x60, 0x65, 0xD1, 0x6A],
    [4, 0x60, 0x65, 0xD2, 4], [4, 0x60, 0x65, 0xD3, 4], [4, 0x60, 0x65, 0xD4, 0], [4, 0x60, 0x65, 0xD5, 0xFF],
    [4, 0x60, 0x65, 0xD6, 0], [4, 0x60, 0x65, 0xD7, 0], [4, 0x60, 0x65, 0xD8, 4], [4, 0x60, 0x65, 0xD9, 0x20],
    [4, 0x60, 0x65, 0xDA, 5], [4, 0x60, 0x65, 0xDB, 6], [4, 0x60, 0x65, 0xDC, 8], [4, 0x60, 0x65, 0xDD, 0x9C],
    [4, 0x60, 0x65, 0xDE, 8], [4, 0x60, 0x65, 0xDF, 0x56], [4, 0x60, 0x65, 0xE0, 0], [4, 0x60, 0x65, 0xE1, 0xFF],
    [4, 0x60, 0x65, 0xE2, 0], [4, 0x60, 0x65, 0xE3, 0], [4, 0x60, 0x65, 0xE4, 4], [4, 0x60, 0x65, 0xE5, 0x20],
    [4, 0x60, 0x65, 0xE6, 5], [4, 0x60, 0x65, 0xE7, 6], [4, 0x60, 0x65, 0xE8, 8], [4, 0x60, 0x65, 0xE9, 0x9C],
    [4, 0x60, 0x65, 0xEA, 8], [4, 0x60, 0x65, 0xEB, 0x54], [4, 0x60, 0x65, 0xEC, 0], [4, 0x60, 0x65, 0xED, 0xFF],
    [4, 0x60, 0x65, 0xEE, 0], [4, 0x60, 0x65, 0xEF, 0], [4, 0x60, 0x65, 0xF0, 4], [4, 0x60, 0x65, 0xF1, 0x20],
    [4, 0x60, 0x65, 0xF2, 5], [4, 0x60, 0x65, 0xF3, 6], [4, 0x60, 0x65, 0xF4, 8], [4, 0x60, 0x65, 0xF5, 0x7C],
    [4, 0x60, 0x65, 0xF6, 8], [4, 0x60, 0x65, 0xF7, 0x68], [4, 0x60, 0x65, 0xF8, 0], [4, 0x60, 0x65, 0xF9, 0xFF],
    [4, 0x60, 0x65, 0xFA, 0], [4, 0x60, 0x65, 0xFB, 0xFF], [4, 0x60, 0x65, 0xFC, 0], [4, 0x60, 0x65, 0xFD, 0xFF],
    [4, 0x60, 0x30, 0x12, 1], [4, 0x60, 0x30, 0x8C, 0xB1], [4, 0x60, 0x30, 0x12, 1], [4, 0x60, 0x31, 0x24, 0x10],
    [4, 0x60, 0x30, 0xE6, 4], [4, 0x60, 0x30, 0xE7, 0x44], [4, 0x60, 0x30, 0xEB, 1], [4, 0x60, 0x30, 0xEC, 2],
    [4, 0x60, 0x30, 0xED, 1], [4, 0x60, 0x30, 0xE8, 1], [4, 0x60, 0x30, 0xE9, 0x4C], [0, 0x0F]]"

definition ov10640_11 :: "byte list list" where
  "ov10640_11 = [
    [3, 0x80, 7, 0xC4], [0, 5], [4, 0x52, 0x0B, 7, 0x8C], [4, 0x52, 0x0C, 7, 0x8C],
    [4, 0x52, 0x0D, 7, 0x8C], [4, 0x52, 0x0E, 7, 0x8C], [3, 0x80, 4, 0x83]]"

definition ov10640_script :: "byte list list" where
  "ov10640_script = ov10640_1 @ ov10640_2 @ ov10640_3 @ ov10640_4 @ ov10640_5 @ ov10640_6 @ ov10640_7 @ ov10640_8 @ ov10640_9 @ ov10640_10 @ ov10640_11"

end
