(* ===== verification/Cam_Scripts_Correct.thy ===== *)
theory Cam_Scripts_Correct
  imports Cam_Tables Cam_Ov10640
begin

text \<open>
  The camera scripts compared: every row is a command, two of the scripts have the same rows, another is the example with writes to
  the sensor put in, and each waits after resetting links. These are facts about the rows as the files list them; what the
  devices make of them is not modelled.
\<close>

section \<open>The scripts\<close>

text \<open>Each with the address of its deserializer.\<close>

definition cam_scripts :: "(byte \<times> byte list list) list" where
  "cam_scripts = [(0x52, example_script), (0x52, isx019_script), (0x52, max96722_script), (0x52, vprbs_script),
     (0x54, dphy4_script), (0x54, max9295_script), (0x52, ov10640_script)]"

lemmas example_defs = example_script_def example_1_def example_2_def
lemmas isx019_defs = isx019_script_def isx019_1_def isx019_2_def
lemmas max96722_defs = max96722_script_def max96722_1_def max96722_2_def
lemmas vprbs_defs = vprbs_script_def vprbs_1_def
lemmas dphy4_defs = dphy4_script_def dphy4_1_def dphy4_2_def dphy4_3_def dphy4_4_def
lemmas max9295_defs = max9295_script_def max9295_1_def max9295_2_def max9295_3_def max9295_4_def
lemmas ov10640_defs = ov10640_script_def ov10640_1_def ov10640_2_def ov10640_3_def ov10640_4_def ov10640_5_def ov10640_6_def ov10640_7_def ov10640_8_def ov10640_9_def ov10640_10_def ov10640_11_def

section \<open>Well-formedness\<close>

abbreviation well_formed :: "byte list list \<Rightarrow> bool" where
  "well_formed \<equiv> list_all (\<lambda>r. decode_row r \<noteq> None)"

lemma example_wf: "well_formed example_script"
  by (simp add: example_defs)

lemma isx019_wf: "well_formed isx019_script"
  by (simp add: isx019_defs)

lemma max96722_wf: "well_formed max96722_script"
  by (simp add: max96722_defs)

lemma vprbs_wf: "well_formed vprbs_script"
  by (simp add: vprbs_defs)

lemma dphy4_chunks_wf:
  "well_formed dphy4_1" "well_formed dphy4_2" "well_formed dphy4_3" "well_formed dphy4_4"
  by (simp_all add: dphy4_1_def dphy4_2_def dphy4_3_def dphy4_4_def)

lemma dphy4_wf: "well_formed dphy4_script"
  by (simp add: dphy4_script_def dphy4_chunks_wf del: not_None_eq)

lemma max9295_chunks_wf:
  "well_formed max9295_1" "well_formed max9295_2" "well_formed max9295_3" "well_formed max9295_4"
  by (simp_all add: max9295_1_def max9295_2_def max9295_3_def max9295_4_def)

lemma max9295_wf: "well_formed max9295_script"
  by (simp add: max9295_script_def max9295_chunks_wf del: not_None_eq)

lemma ov10640_chunks_wf:
  "well_formed ov10640_1" "well_formed ov10640_2" "well_formed ov10640_3" "well_formed ov10640_4" "well_formed ov10640_5" "well_formed ov10640_6" "well_formed ov10640_7" "well_formed ov10640_8" "well_formed ov10640_9" "well_formed ov10640_10" "well_formed ov10640_11"
  by (simp_all add: ov10640_1_def ov10640_2_def ov10640_3_def ov10640_4_def ov10640_5_def ov10640_6_def ov10640_7_def ov10640_8_def ov10640_9_def ov10640_10_def ov10640_11_def)

lemma ov10640_wf: "well_formed ov10640_script"
  by (simp add: ov10640_script_def ov10640_chunks_wf del: not_None_eq)

section \<open>The sensor section of the longest script\<close>

text \<open>Rows that do not go to the device with address \<open>a\<close>.\<close>

definition not_to :: "byte \<Rightarrow> byte list \<Rightarrow> bool" where
  "not_to a r \<longleftrightarrow> (case r of n # s # _ \<Rightarrow> n = 0 \<or> s \<noteq> a | _ \<Rightarrow> True)"

lemma ov10640_sensor_only: "filter (not_to 0x60) ov10640_3 = []" "filter (not_to 0x60) ov10640_4 = []" "filter (not_to 0x60) ov10640_5 = []" "filter (not_to 0x60) ov10640_6 = []" "filter (not_to 0x60) ov10640_7 = []" "filter (not_to 0x60) ov10640_8 = []" "filter (not_to 0x60) ov10640_9 = []"
  by (simp_all add: not_to_def ov10640_3_def ov10640_4_def ov10640_5_def ov10640_6_def ov10640_7_def ov10640_8_def ov10640_9_def)

lemma ov10640_is_example: "filter (not_to 0x60) ov10640_script = example_script"
  by (simp add: ov10640_script_def ov10640_sensor_only)
    (simp add: not_to_def ov10640_1_def ov10640_2_def ov10640_10_def ov10640_11_def example_defs)

text \<open>Row for row the two scripts for the deserializer at 0x54 are the same.\<close>

lemma max9295_is_dphy4: "max9295_script = dphy4_script"
  by (simp add: max9295_defs dphy4_defs)

section \<open>Waiting\<close>

lemma sensor_no_reset: "filter (not_to 0x60) rows = [] \<Longrightarrow> resets_wait (commands rows)"
proof -
  have "\<not> is_reset c" if "decode_row r = Some c" "\<not> not_to 0x60 r" for r c
    using that(2) encode_decode [OF that(1)] by (cases c) (auto simp: not_to_def is_reset_def)
  then have "filter (not_to 0x60) rows = [] \<Longrightarrow> list_all (\<lambda>c. \<not> is_reset c) (commands rows)"
    by (induction rows) (auto split: if_splits option.splits)
  then show "filter (not_to 0x60) rows = [] \<Longrightarrow> resets_wait (commands rows)" by (rule no_reset_waits)
qed

lemma resets_wait_scripts:
  "resets_wait (commands example_script)" "resets_wait (commands isx019_script)" "resets_wait (commands max96722_script)"
  "resets_wait (commands vprbs_script)" "resets_wait (commands dphy4_script)"
  by (simp_all add: example_defs isx019_defs max96722_defs vprbs_defs dphy4_defs is_reset_def)

lemma resets_wait_ov10640: "resets_wait (commands ov10640_script)"
proof -
  have p: "resets_wait (commands ov10640_1)" "resets_wait (commands ov10640_2)" "resets_wait (commands ov10640_10)"
    "resets_wait (commands ov10640_11)"
    by (simp_all add: ov10640_1_def ov10640_2_def ov10640_10_def ov10640_11_def is_reset_def)
  then show ?thesis
    unfolding ov10640_script_def commands_simps
    by (intro resets_wait_append p ov10640_sensor_only [THEN sensor_no_reset])
qed

text \<open>in each of the seven scripts a reset of links is directly followed by a delay of at least 100 milliseconds.\<close>

theorem cam_resets_wait:
  assumes "(des, s) \<in> set cam_scripts" "commands s = xs @ c # ys" "is_reset c"
  shows "\<exists>d zs. ys = Delay d # zs \<and> 100 \<le> d"
proof -
  have "resets_wait (commands s)"
    using assms(1) resets_wait_scripts resets_wait_ov10640 by (auto simp: cam_scripts_def max9295_is_dphy4)
  then show ?thesis using resets_wait_split assms(2,3) by metis
qed

theorem cam_resets_wait_witness: "\<exists>d zs. drop 4 (commands example_script) = Delay d # zs \<and> 100 \<le> d"
  by (rule cam_resets_wait [of "0x52" example_script "take 3 (commands example_script)" "Write 0x52 0 0x18 0x0F"])
    (simp_all add: cam_scripts_def example_defs is_reset_def)

end
