(* ===== verification/Kernel_Log.thy ===== *)
theory Kernel_Log
  imports Prelude
begin

text \<open>
  What the demonstration modules do: they call the kernel and print what it returns. A statement is the lines it
  adds to the kernel log and whether control comes out of it; it does not after an access through a null pointer or another
  invalid address. A line is the format string, without its line end, and the arguments: a string,
  a number, or the bytes of a C string read from the value of a property.
\<close>

datatype arg = Str string | Num int | Mem "byte list"

type_synonym line = "string \<times> arg list"

type_synonym stmt = "line list \<times> bool"

named_theorems log_rules \<open>how a sequence of statements is computed\<close>

definition printk :: "string \<Rightarrow> arg list \<Rightarrow> stmt" where
  "printk fmt args = ([(fmt, args)], True)"

definition skip :: stmt where
  "skip = ([], True)"

definition fault :: stmt where
  "fault = ([], False)"

fun seq :: "stmt list \<Rightarrow> stmt" where
  "seq [] = skip"
| "seq (s # ss) = (if snd s then (fst s @ fst (seq ss), snd (seq ss)) else s)"

text \<open>An \<open>if\<close> without \<open>else\<close>, an \<open>if\<close> on a pointer, an access through a pointer, and a loop over the elements of a list.\<close>

definition only_if :: "bool \<Rightarrow> stmt \<Rightarrow> stmt" where
  "only_if b s = (if b then s else skip)"

definition if_ptr :: "'a option \<Rightarrow> ('a \<Rightarrow> stmt) \<Rightarrow> stmt" where
  "if_ptr p s = (case p of None \<Rightarrow> skip | Some a \<Rightarrow> s a)"

definition deref :: "'a option \<Rightarrow> ('a \<Rightarrow> stmt) \<Rightarrow> stmt" where
  "deref p s = (case p of None \<Rightarrow> fault | Some a \<Rightarrow> s a)"

definition for_each :: "'a list \<Rightarrow> ('a \<Rightarrow> stmt) \<Rightarrow> stmt" where
  "for_each xs s = seq (map s xs)"

definition returns :: "stmt \<Rightarrow> bool" where
  "returns s = snd s"

section \<open>Rules\<close>

lemma seq_Cons [log_rules]: "seq (s # ss) = (if returns s then (fst s @ fst (seq ss), snd (seq ss)) else s)"
  by (simp add: returns_def)

lemma stmt_simps [log_rules]: "printk f a = ([(f, a)], True)" "skip = ([], True)" "fault = ([], False)"
  by (simp_all add: printk_def skip_def fault_def)

lemma only_if_simps [simp, log_rules]: "only_if True s = s" "only_if False s = skip"
  by (simp_all add: only_if_def)

lemma if_ptr_simps [simp, log_rules]: "if_ptr None s = skip" "if_ptr (Some a) s = s a"
  by (simp_all add: if_ptr_def)

lemma deref_simps [simp, log_rules]: "deref None s = fault" "deref (Some a) s = s a"
  by (simp_all add: deref_def)

lemma returns_simps [simp, log_rules]: "returns skip" "returns (printk f a)" "\<not> returns fault" "returns (ls, b) = b"
  by (simp_all add: returns_def skip_def printk_def fault_def)

lemma seq_Nil [log_rules]: "seq [] = skip"
  by simp

lemma seq_append: "seq (ss @ ts) = seq [seq ss, seq ts]"
  by (induction ss) (auto simp: skip_def prod_eq_iff)

lemma returns_seq [simp]: "returns (seq ss) \<longleftrightarrow> list_all returns ss"
  by (induction ss) (auto simp: returns_def skip_def)

lemma returns_only_if [simp]: "returns (only_if b s) \<longleftrightarrow> (b \<longrightarrow> returns s)"
  by (simp add: only_if_def)

lemma returns_if_ptr [simp]: "returns (if_ptr p s) \<longleftrightarrow> (\<forall>a. p = Some a \<longrightarrow> returns (s a))"
  by (cases p) simp_all

lemma returns_deref [simp]: "returns (deref p s) \<longleftrightarrow> (\<exists>a. p = Some a \<and> returns (s a))"
  by (cases p) simp_all

lemma returns_for_each [simp]: "returns (for_each xs s) \<longleftrightarrow> (\<forall>x\<in>set xs. returns (s x))"
  by (simp add: for_each_def list_all_iff)

lemma seq_returns: "list_all returns ss \<Longrightarrow> seq ss = (concat (map fst ss), True)"
  by (induction ss) (auto simp: returns_def skip_def)

lemma seq_fault: "list_all returns ss \<Longrightarrow> seq (ss @ fault # ts) = (concat (map fst ss), False)"
  by (induction ss) (auto simp: returns_def fault_def)

declare seq.simps [simp del]

text \<open>A loop that prints one line for each element.\<close>

lemma for_each_printk [simp, log_rules]: "for_each xs (\<lambda>x. printk (f x) (g x)) = (map (\<lambda>x. (f x, g x)) xs, True)"
  by (induction xs) (simp_all add: for_each_def printk_def skip_def seq.simps)

section \<open>The lines of one message\<close>

definition lines_of :: "string \<Rightarrow> stmt \<Rightarrow> arg list list" where
  "lines_of f s = map snd (filter (\<lambda>l. fst l = f) (fst s))"

lemma lines_of_simps [simp]: "lines_of f skip = []" "lines_of f fault = []"
    "lines_of f (printk g a) = (if g = f then [a] else [])"
  by (simp_all add: lines_of_def stmt_simps)

lemma lines_of_seq: "list_all returns ss \<Longrightarrow> lines_of f (seq ss) = concat (map (lines_of f) ss)"
  by (induction ss) (auto simp: lines_of_def seq_Cons seq_Nil stmt_simps)

lemma lines_of_none [simp]:
  "(b \<Longrightarrow> lines_of f s = []) \<Longrightarrow> lines_of f (only_if b s) = []"
  "(\<And>a. p = Some a \<Longrightarrow> lines_of f (t a) = []) \<Longrightarrow> lines_of f (if_ptr p t) = []"
  "(\<And>a. p = Some a \<Longrightarrow> lines_of f (t a) = []) \<Longrightarrow> lines_of f (deref p t) = []"
  by (cases b; simp) (cases p; simp)+

lemma lines_of_seq_none: "(\<And>s. s \<in> set ss \<Longrightarrow> lines_of f s = []) \<Longrightarrow> lines_of f (seq ss) = []"
  by (induction ss) (auto simp: lines_of_def seq_Cons seq_Nil stmt_simps)

lemma lines_of_for_each_none [simp]:
  "(\<And>x. x \<in> set xs \<Longrightarrow> lines_of f (t x) = []) \<Longrightarrow> lines_of f (for_each xs t) = []"
  unfolding for_each_def by (rule lines_of_seq_none) auto

end
