(* ===== verification/Device_Tree_Cmds.thy ===== *)
theory Device_Tree_Cmds
  imports Kernel_Log Device_Tree
begin

text \<open>
  The commands of \<open>devicetree_demo_probe\<close> in \<open>Device_tree/device_tree.c\<close>, statement by statement. The functions of the kernel on
  device trees are not part of the repository: they are the fields of the record \<open>of_kernel\<close>, under their own names, and the macros
  that loop over nodes and values are the lists they visit. A null pointer is \<open>None\<close>. What the theorems need of the
  kernel is stated as laws, which \<open>tree_kernel\<close> satisfies.
\<close>

section \<open>The kernel\<close>

type_synonym node = nat

text \<open>\<open>struct property\<close>, and what \<open>of_parse_phandle_with_args\<close> stores.\<close>

record property =
  prop_name :: string
  prop_value :: "byte list"

record of_phandle_args =
  np :: "node option"
  args :: "int list"

record of_kernel =
  node_name :: "node \<Rightarrow> string"
  full_name :: "node \<Rightarrow> string"
  child_nodes :: "node \<Rightarrow> node list"
  available_child_nodes :: "node \<Rightarrow> node list"
  matching_nodes :: "string list \<Rightarrow> (node \<times> string) list"
  nodes_with_property :: "string \<Rightarrow> node list"
  of_get_child_count :: "node \<Rightarrow> int"
  of_get_child_by_name :: "node \<Rightarrow> string \<Rightarrow> node option"
  of_get_next_child :: "node \<Rightarrow> node option \<Rightarrow> node option"
  of_get_parent :: "node option \<Rightarrow> node option"
  of_device_is_available :: "node \<Rightarrow> bool"
  of_find_all_nodes :: "node \<Rightarrow> node option"
  of_find_property :: "node \<Rightarrow> string \<Rightarrow> property option"
  of_get_property :: "node option \<Rightarrow> string \<Rightarrow> byte list option"
  of_compat_cmp :: "byte list \<Rightarrow> string \<Rightarrow> bool"
  of_node_cmp :: "string \<Rightarrow> string \<Rightarrow> bool"
  of_prop_cmp :: "string \<Rightarrow> string \<Rightarrow> bool"
  of_count_phandle_with_args :: "node \<Rightarrow> string \<Rightarrow> string \<Rightarrow> int"
  of_find_compatible_node :: "string \<Rightarrow> node option"
  of_find_tree_by_node :: "node option \<Rightarrow> string option"
  of_find_matching_node :: "string list \<Rightarrow> node option"
  of_find_matching_node_and_match :: "string list \<Rightarrow> (node option \<times> string option)"
  of_find_node_by_path :: "string \<Rightarrow> node option"
  of_find_node_by_phandle :: "32 word \<Rightarrow> node option"
  of_find_node_with_property :: "string \<Rightarrow> node option"
  of_property_read_string :: "node \<Rightarrow> string \<Rightarrow> string option"
  of_get_address :: "node option \<Rightarrow> nat \<Rightarrow> (nat \<times> int) option"
  of_translate_address :: "node option \<Rightarrow> nat option \<Rightarrow> int option"
  of_get_cpu_node :: "nat \<Rightarrow> node option"
  of_get_mac_address :: "node \<Rightarrow> byte list option"
  of_get_phy_mode :: "node \<Rightarrow> int"
  of_n_addr_cells :: "node \<Rightarrow> nat"
  of_n_size_cells :: "node \<Rightarrow> nat"
  of_node_full_name :: "node \<Rightarrow> string"
  of_node_is_root :: "node \<Rightarrow> bool"
  of_parse_phandle :: "node \<Rightarrow> string \<Rightarrow> nat \<Rightarrow> node option"
  of_parse_phandle_with_args :: "node \<Rightarrow> string \<Rightarrow> string \<Rightarrow> nat \<Rightarrow> int + of_phandle_args"
  prop_strings :: "property \<Rightarrow> string list"
  of_prop_next_u32 :: "property \<Rightarrow> nat option \<Rightarrow> (nat \<times> int) option"
  u32_values :: "property \<Rightarrow> int list"
  of_property_match_string :: "node \<Rightarrow> string \<Rightarrow> string \<Rightarrow> int"
  of_property_count_strings :: "node \<Rightarrow> string \<Rightarrow> int"
  of_property_read_string_index :: "node \<Rightarrow> string \<Rightarrow> nat \<Rightarrow> int + string"
  of_property_read_string_array :: "node \<Rightarrow> string \<Rightarrow> int \<Rightarrow> string list"
  of_property_read_bool :: "node \<Rightarrow> string \<Rightarrow> bool"
  of_property_read_u8 :: "node \<Rightarrow> string \<Rightarrow> int option"
  of_property_read_u16 :: "node \<Rightarrow> string \<Rightarrow> int option"
  of_property_read_u32 :: "node \<Rightarrow> string \<Rightarrow> int option"
  of_property_read_u16_array :: "node \<Rightarrow> string \<Rightarrow> nat \<Rightarrow> int list option"
  of_property_read_u32_array :: "node \<Rightarrow> string \<Rightarrow> nat \<Rightarrow> int list option"
  PHY_INTERFACE_MODE_RGMII :: int

text \<open>The helpers that read big-endian cells of 32 bits through a pointer, here an offset in cells into the memory of a property:
  \<open>of_read_number\<close> takes a number of cells and keeps the last two, and \<open>of_read_ulong\<close> is the same
  for a \<open>long\<close> of 64 bits. \<open>None\<close> is a read behind the property.\<close>

definition be32_at :: "byte list \<Rightarrow> nat \<Rightarrow> 32 word option" where
  "be32_at b i = (if 4 * i + 4 \<le> length b then Some (word_rcat (take 4 (drop (4 * i) b))) else None)"

fun read_cells :: "byte list \<Rightarrow> nat \<Rightarrow> nat \<Rightarrow> 64 word \<Rightarrow> 64 word option" where
  "read_cells b i 0 r = Some r"
| "read_cells b i (Suc n) r = (case be32_at b i of None \<Rightarrow> None
     | Some c \<Rightarrow> read_cells b (Suc i) n (or (push_bit 32 r) (ucast c)))"

definition of_read_number :: "byte list \<Rightarrow> nat \<Rightarrow> nat \<Rightarrow> 64 word option" where
  "of_read_number b i n = read_cells b i n 0"

text \<open>The bytes of a C string, as \<open>%s\<close> and \<open>strlen\<close> read them through a pointer to the value of a property. The kernel puts no
  zero byte behind a value: without one inside, the read leaves the property, \<open>None\<close>. A list of strings that is walked string by string
  must have its zero byte at the very end; an empty value is a pointer to no byte at all.\<close>

definition c_string :: "byte list \<Rightarrow> byte list option" where
  "c_string b = (if 0 \<in> set b then Some (takeWhile (\<lambda>c. c \<noteq> 0) b) else None)"

definition strings_end :: "property \<Rightarrow> bool" where
  "strings_end p \<longleftrightarrow> prop_value p \<noteq> [] \<and> last (prop_value p) = 0"

text \<open>Variables that the commands use without having set them: what the stack holds there. \<open>comp0\<close>: an invalid pointer, the
  null pointer, or a string. \<open>args0\<close>: the structure, unless its pointer is invalid.\<close>

record stack =
  comp0 :: "string option option"
  args0 :: "of_phandle_args option"
  i0 :: int
  data0 :: int
  u8_0 :: int
  u16_0 :: int
  u32_0 :: int
  extra0 :: int

section \<open>The driver's table\<close>

text \<open>The table of device identifiers lacks the empty entry that ends it for the kernel, so the kernel goes on through \<open>behind\<close>, the
  compatible strings it finds in the memory that follows, up to an empty one. When none is empty it runs out of the readable
  memory: \<open>None\<close>.\<close>

definition dts_demo_of_match :: "string list" where
  "dts_demo_of_match = [''DTS_demo, hkdywg'', ''DTS_demo, hkdywg-X'', ''virnode, hkdywg'']"

definition of_match_seen :: "string list \<Rightarrow> string list option" where
  "of_match_seen behind =
     (if [] \<in> set behind then Some (takeWhile (\<lambda>c. c \<noteq> []) (dts_demo_of_match @ behind)) else None)"

section \<open>Children and matching nodes\<close>

definition child_node_cmd :: "of_kernel \<Rightarrow> node \<Rightarrow> stmt" where
  "child_node_cmd K node = seq [
     printk ''%s has %d children'' [Str (node_name K node), Num (of_get_child_count K node)],
     printk ''%s child:'' [Str (node_name K node)],
     for_each (child_nodes K node) (\<lambda>child. printk ''%s '' [Str (node_name K child)]),
     printk ''%s available child:'' [Str (node_name K node)],
     for_each (available_child_nodes K node) (\<lambda>child. printk ''%s '' [Str (node_name K child)])]"

definition matching_node_cmd :: "of_kernel \<Rightarrow> string list \<Rightarrow> stmt" where
  "matching_node_cmd K behind = seq [
     deref (of_match_seen behind) (\<lambda>table. for_each (matching_nodes K table) (\<lambda>(node, _). printk ''Matching %s'' [Str (node_name K node)])),
     deref (of_match_seen behind) (\<lambda>table. for_each (matching_nodes K table) (\<lambda>(_, m). printk ''device_id compatible: %s'' [Str m])),
     for_each (nodes_with_property K ''hkdywg'') (\<lambda>node. printk ''Found %s'' [Str (full_name K node)])]"

section \<open>Attributes of a property\<close>

definition property_attr_cmd :: "of_kernel \<Rightarrow> node \<Rightarrow> stmt" where
  "property_attr_cmd K node =
     (let npp = of_find_all_nodes K node;
          prop = of_find_property K node ''compatible'';
          comp = of_get_property K (Some node) ''compatible'';
          err = of_count_phandle_with_args K node ''phy-handle'' ''#phy-cells'' in
      seq [
        only_if (of_device_is_available K node) (printk ''%s device is avalible'' [Str (node_name K node)]),
        only_if (npp = None) (printk ''unable to get next device_node.'' []),
        deref (Option.bind comp c_string) (\<lambda>c. only_if (of_compat_cmp K c ''DTS_demo, hkdywg'')
          (deref prop (\<lambda>p. printk ''%s property exist'' [Str (prop_name p)]))),
        only_if (of_node_cmp K (node_name K node) ''DTS_demo'') (printk ''%s node exist'' [Str (node_name K node)]),
        only_if (err < 0) (printk ''unable to parase phandle.'' [])])"

section \<open>Finding nodes and properties\<close>

definition find_operation_cmd :: "of_kernel \<Rightarrow> string list \<Rightarrow> node \<Rightarrow> stmt" where
  "find_operation_cmd K behind self =
     (let node1 = of_find_compatible_node K ''DTS_demo, hkdywg'';
          dev = of_find_tree_by_node K node1;
          table = of_match_seen behind;
          node3 = of_find_node_by_path K ''/DTS_demo'';
          ph = of_get_property K (Some self) ''phy-hanlde'';
          node4 = of_find_node_with_property K ''name-space'' in
      seq [
        if_ptr node1 (\<lambda>n. printk ''found %s'' [Str (full_name K n)]),
        if_ptr dev (\<lambda>d. printk ''Platform device: %s'' [Str d]),
        deref table (\<lambda>t. if_ptr (of_find_matching_node K t) (\<lambda>n. printk ''Matching %s'' [Str (node_name K n)])),
        deref table (\<lambda>t. if_ptr (snd (of_find_matching_node_and_match K t)) (\<lambda>m. printk ''device node id: %s'' [Str m])),
        if_ptr node3 (\<lambda>n. if_ptr (of_property_read_string K n ''compatible'')
          (\<lambda>comp. printk ''%s compatible: %s'' [Str (node_name K n), Str comp])),
        only_if (ph = None) (printk ''unable to find 'phy-handle' on current device'' []),
        deref (Option.bind ph (\<lambda>b. be32_at b 0)) (\<lambda>h.
          let phy = of_find_node_by_phandle K h; val = of_get_property K phy ''compatible'' in seq [
          only_if (phy = None) (printk ''unable to find device node: phy1'' []),
          if_ptr val (\<lambda>v. deref (c_string v) (\<lambda>s. printk ''PHY0: %s'' [Mem s]))]),
        if_ptr node4 (\<lambda>n. printk ''found %s'' [Str (full_name K n)]),
        deref (of_find_property K self ''viros_int'') (\<lambda>pp. seq [
          printk ''property: %s'' [Str (prop_name pp)],
          deref (of_read_number (prop_value pp) 0 (length (prop_value pp) div 4)) (\<lambda>v. printk ''value: %#x'' [Num (uint v)]),
          printk ''length: %d'' [Num (int (length (prop_value pp)))]]),
        deref (of_find_property K self ''viros_name'') (\<lambda>pp. deref (c_string (prop_value pp)) (\<lambda>s.
          printk ''property: %s . value: %s'' [Str (prop_name pp), Mem s]))])"

section \<open>Getting nodes and values\<close>

definition get_operation_cmd :: "of_kernel \<Rightarrow> stack \<Rightarrow> node \<Rightarrow> stmt" where
  "get_operation_cmd K st node =
     (let name = node_name K node; cells = of_n_addr_cells K node;
          child = of_get_next_child K node None;
          parent = of_get_parent K child in
      seq [
        if_ptr (of_get_address K (Some node) 0) (\<lambda>(_, addr). printk ''%s's address[0]: %#llx'' [Str name, Num addr]),
        if_ptr (of_get_address K (Some node) 1) (\<lambda>(_, addr). printk ''%s's address[1]: %#llx'' [Str name, Num addr]),
        if_ptr (of_get_child_by_name K node ''child0'')
          (\<lambda>c. printk ''%s child: %s'' [Str (full_name K node), Str (full_name K c)]),
        printk ''%s has %d children'' [Str name, Num (of_get_child_count K node)],
        for_each (child_nodes K node) (\<lambda>c. printk ''%s '' [Str (node_name K c)]),
        for_each (available_child_nodes K node) (\<lambda>c. printk ''avalible child node : %s'' [Str (node_name K c)]),
        if_ptr (of_get_cpu_node K 0) (\<lambda>cpu. seq [
          printk ''CPU0: %s'' [Str (node_name K cpu)],
          deref (case of_property_read_string K cpu ''compatible'' of Some c \<Rightarrow> Some (Some c) | None \<Rightarrow> comp0 st)
            (\<lambda>comp. if_ptr comp (\<lambda>c. printk ''compatible: %s'' [Str c]))]),
        if_ptr (of_get_mac_address K node) (\<lambda>mac.
          deref (those (map (aget mac) [0, 1, 2, 3, 4, 5])) (\<lambda>bs.
            printk ''MAC address: %02x %02x %02x %02x %02x %02x'' (map (Num \<circ> uint) bs))),
        if_ptr child (\<lambda>c. printk ''%s child: %s'' [Str (full_name K node), Str (full_name K c)]),
        if_ptr parent (\<lambda>q. deref child (\<lambda>c. printk ''%s's parent: %s'' [Str (full_name K c), Str (full_name K q)])),
        only_if (of_get_phy_mode K node = PHY_INTERFACE_MODE_RGMII K) (printk ''Phy mode: rgmii'' []),
        if_ptr (of_get_property K (Some node) ''viros_name'') (\<lambda>b. deref (c_string b) (\<lambda>s.
          printk ''property: viros_name is %s'' [Mem s])),
        if_ptr (of_get_property K (Some node) ''viros_int'') (\<lambda>b. deref (be32_at b 0) (\<lambda>v.
          printk ''property: viros_int value is %#x'' [Num (sint v)])),
        if_ptr (of_get_property K (Some node) ''viros_mult'') (\<lambda>b. seq [
          deref (of_read_number b 0 cells) (\<lambda>v. printk ''#cell 0: %#llx'' [Num (uint v)]),
          deref (of_read_number b cells cells) (\<lambda>v. printk ''#cell 1: %#llx'' [Num (uint v)])]),
        if_ptr (of_get_property K (Some node) ''viros_leg'') (\<lambda>_. printk ''viros_leg property exist.'' []),
        printk ''%s #address-cells: %#x'' [Str name, Num (int cells)],
        printk ''%s #size-cells: %#x'' [Str name, Num (int (of_n_size_cells K node))]])"

section \<open>Comparing names and following handles\<close>

text \<open>When no argument can be parsed, \<open>args\<close> stays what it was; arguments that the property does not have, too.\<close>

definition arg_at :: "stack \<Rightarrow> int list \<Rightarrow> nat \<Rightarrow> int" where
  "arg_at st vs i = (if i < length vs then vs ! i else extra0 st)"

definition gpio_args :: "of_kernel \<Rightarrow> stack \<Rightarrow> node \<Rightarrow> of_phandle_args option" where
  "gpio_args K st node =
     (case of_parse_phandle_with_args K node ''reset-gpio'' ''#gpio-cells'' 0 of Inl err \<Rightarrow> args0 st | Inr a \<Rightarrow> Some a)"

definition node_operation_cmd :: "of_kernel \<Rightarrow> stack \<Rightarrow> node \<Rightarrow> stmt" where
  "node_operation_cmd K st node =
     (let name = node_name K node;
          prop = of_find_property K node ''compatible'';
          comp = of_get_property K (Some node) ''compatible'';
          phy = of_parse_phandle K node ''phy-hanlde'' 0;
          parsed = of_parse_phandle_with_args K node ''reset-gpio'' ''#gpio-cells'' 0 in
      seq [
        deref (Option.bind comp c_string) (\<lambda>c. only_if (of_compat_cmp K c ''DTS_demo, hkdywg'') (printk ''%s compatible: %s'' [Str name, Mem c])),
        deref prop (\<lambda>p. only_if (of_prop_cmp K (prop_name p) ''compatible'') (printk ''%s property exist.'' [Str name])),
        printk ''%s full name: %s'' [Str name, Str (of_node_full_name K node)],
        (if of_node_is_root K node then printk ''%s is root node.'' [Str name] else printk ''%s is not root node.'' [Str name]),
        only_if (phy = None) (printk ''unable read phy-handle property. '' []),
        if_ptr (of_get_property K phy ''compatible'') (\<lambda>v. deref (c_string v) (\<lambda>s. printk ''PHY: %s'' [Mem s])),
        only_if (case parsed of Inl err \<Rightarrow> err < 0 | Inr _ \<Rightarrow> False) (printk ''unable to parse gpio handle.'' []),
        deref (gpio_args K st node) (\<lambda>a. seq [
          if_ptr (of_get_property K (np a) ''compatible'') (\<lambda>c. deref (np a) (\<lambda>n. deref (c_string c) (\<lambda>s.
            printk ''%s compatible: %s'' [Str (node_name K n), Mem s]))),
          printk ''GPIO index: %#x'' [Num (arg_at st (args a) 0)],
          printk ''GPIO egde: %#x'' [Num (arg_at st (args a) 1)]])])"

section \<open>Values of properties\<close>

text \<open>The loop over four cells: \<open>k\<close> rounds from \<open>i\<close> on, with the pointer \<open>lane_32\<close>. Where there is no next cell \<open>data\<close> keeps
  its value.\<close>

fun data_loop :: "of_kernel \<Rightarrow> property \<Rightarrow> nat \<Rightarrow> int \<Rightarrow> nat option \<Rightarrow> int \<Rightarrow> line list \<times> int" where
  "data_loop K prop 0 i lane data = ([], data)"
| "data_loop K prop (Suc k) i lane data =
     (let next = of_prop_next_u32 K prop lane;
          data' = (case next of None \<Rightarrow> data | Some (_, d) \<Rightarrow> d);
          rest = data_loop K prop k (i + 1) (map_option fst next) data' in
      ((''data[%d]: %#x'', [Num i, Num data']) # fst rest, snd rest))"

text \<open>The strings of \<open>viros-strings\<close>: matched, counted, read by index and into the array.\<close>

definition viros_strings :: "of_kernel \<Rightarrow> node \<Rightarrow> stmt" where
  "viros_strings K node =
     (let rootfs = of_property_match_string K node ''viros-strings'' ''rootfs'';
          n = of_property_count_strings K node ''viros-strings'';
          string_array = of_property_read_string_array K node ''viros-strings'' n in
      seq [
        (if rootfs < 0 then printk ''viros-strings doesn't contain rootfs'' []
         else printk ''viros-strings[%d]  contain rootfs'' [Num rootfs]),
        printk ''strings count: %#x'' [Num n],
        for_each [0..<nat n] (\<lambda>index. case of_property_read_string_index K node ''viros-stings'' index of
            Inl ret \<Rightarrow> printk ''unable to read viros-strings[%d]'' [Num (int index)]
          | Inr string \<Rightarrow> printk ''viros-strings[%d]: %s'' [Num (int index), Str string]),
        only_if (STRING_ARRAY < length string_array) fault,
        for_each [0..<nat n] (\<lambda>index. deref (aget string_array (int index)) (\<lambda>string.
            printk ''string_array[%d]: %s'' [Num (int index), Str string]))])"

definition read_array :: "stack \<Rightarrow> int list option \<Rightarrow> stmt" where
  "read_array st vals = (case vals of None \<Rightarrow> printk ''unable to read array from device node'' []
     | Some vs \<Rightarrow> printk ''Array: %x %x %x %x %x %x'' (map Num (take 5 vs) @ [Num (extra0 st)]))"

text \<open>A read that fails leaves its variable as it was.\<close>

definition read_or :: "int \<Rightarrow> int option \<Rightarrow> int" where
  "read_or old v = (case v of None \<Rightarrow> old | Some x \<Rightarrow> x)"

text \<open>The statement behind the second loop over \<open>viros-data\<close>, which ends in a semicolon, is executed once, after
  the loop.\<close>

definition property_operation_cmd :: "of_kernel \<Rightarrow> stack \<Rightarrow> node \<Rightarrow> stmt" where
  "property_operation_cmd K st node =
     (let strings = of_find_property K node ''viros-strings'';
          vdata = of_find_property K node ''viros-data'';
          looped = (case vdata of None \<Rightarrow> ([], data0 st) | Some p \<Rightarrow> data_loop K p 4 0 None (data0 st));
          i = (case vdata of None \<Rightarrow> i0 st | Some _ \<Rightarrow> 4);
          data = (case vdata of None \<Rightarrow> snd looped | Some p \<Rightarrow> last (snd looped # u32_values K p));
          lane_32 = of_get_property K (Some node) ''viros-data'';
          child = of_get_child_by_name K node ''child0'';
          regaddr_p = of_get_address K child 0;
          regaddr = of_translate_address K child (map_option fst regaddr_p);
          each_string = (\<lambda>fmt. if_ptr strings (\<lambda>p. seq [
            for_each (prop_strings K p) (\<lambda>lane. printk fmt [Str lane]), only_if (\<not> strings_end p) fault])) in
      seq [
        each_string ''string value: %s'',
        (fst looped, True),
        viros_strings K node,
        each_string ''String value: %s'',
        printk ''Data[%d]: %#x'' [Num i, Num data],
        printk ''bool_data: %#x'' [Num (of_bool (of_property_read_bool K node ''viros-data''))],
        printk ''u8_data:    %x'' [Num (read_or (u8_0 st) (of_property_read_u8 K node ''viros-data''))],
        printk ''u16_data:    %x'' [Num (read_or (u16_0 st) (of_property_read_u16 K node ''viros-data''))],
        printk ''u32_data:    %x'' [Num (read_or (u32_0 st) (of_property_read_u32 K node ''viros-data''))],
        read_array st (of_property_read_u16_array K node ''viros-data-array'' 5),
        read_array st (of_property_read_u32_array K node ''viros-data-array'' 5),
        deref (Option.bind lane_32 (\<lambda>b. of_read_number b 0 1)) (\<lambda>v.
          printk ''viros-data 1st u32 value: %x'' [Num (uint (ucast v :: 32 word))]),
        deref (Option.bind lane_32 (\<lambda>b. of_read_number b 0 2)) (\<lambda>v.
          printk ''viros-data 2nd u32 value: %x'' [Num (uint (ucast v :: 32 word))]),
        if_ptr regaddr_p (\<lambda>(_, addr). deref child (\<lambda>c. printk ''%s's address[0]: %llx'' [Str (node_name K c), Num addr])),
        deref regaddr (\<lambda>r. only_if (r \<noteq> 0) (deref child (\<lambda>c.
          printk ''%s's physical address: %llx'' [Str (node_name K c), Num r])))])"

section \<open>The probe\<close>

definition DTS_CHILD_NODE :: int where "DTS_CHILD_NODE = 0x0000"
definition DTS_MATCHING_NODE :: int where "DTS_MATCHING_NODE = 0x0001"
definition DTS_PROPERTY_ATTR :: int where "DTS_PROPERTY_ATTR = 0x0002"
definition DTS_FIND_OPERATION :: int where "DTS_FIND_OPERATION = 0x0004"
definition DTS_GET_OPERATION :: int where "DTS_GET_OPERATION = 0x0008"
definition DTS_NODE_OPERATION :: int where "DTS_NODE_OPERATION = 0x0010"
definition DTS_PROPERTY_OPERATION :: int where "DTS_PROPERTY_OPERATION = 0x0020"
definition DTS_ADDR_RESOURCE :: int where "DTS_ADDR_RESOURCE = 0x0040"

text \<open>What is printed, and the result. Of the command on resources the messages are left out.\<close>

definition devicetree_demo_probe :: "of_kernel \<Rightarrow> res_env \<Rightarrow> stack \<Rightarrow> string list \<Rightarrow> int \<Rightarrow> node \<Rightarrow> stmt \<times> int" where
  "devicetree_demo_probe K e st behind cmd node =
     (if cmd = DTS_CHILD_NODE then (child_node_cmd K node, 0)
      else if cmd = DTS_MATCHING_NODE then (matching_node_cmd K behind, 0)
      else if cmd = DTS_ADDR_RESOURCE then (skip, fst (addr_resource e))
      else if cmd = DTS_PROPERTY_ATTR then (property_attr_cmd K node, 0)
      else if cmd = DTS_FIND_OPERATION then (find_operation_cmd K behind node, 0)
      else if cmd = DTS_GET_OPERATION then (get_operation_cmd K st node, 0)
      else if cmd = DTS_NODE_OPERATION then (node_operation_cmd K st node, 0)
      else if cmd = DTS_PROPERTY_OPERATION then (property_operation_cmd K st node, 0)
      else (printk ''task: do nothing'' [], 0))"

definition devicetree_demo_remove :: "stmt \<times> int" where
  "devicetree_demo_remove = (printk ''module removed!'' [], 0)"

section \<open>Laws of the kernel\<close>

text \<open>\<open>of_get_property\<close> gives the value of the property that \<open>of_find_property\<close> finds, and no property without a node.\<close>

definition property_law :: "of_kernel \<Rightarrow> bool" where
  "property_law K \<longleftrightarrow> (\<forall>p. of_get_property K None p = None
     \<and> (\<forall>n. of_get_property K (Some n) p = map_option prop_value (of_find_property K n p)))"

text \<open>\<open>of_prop_next_u32\<close> goes through the values that \<open>of_property_for_each_u32\<close> visits: it starts with the first when it is given no
  pointer, and returns none behind the last.\<close>

definition next_u32_law :: "of_kernel \<Rightarrow> bool" where
  "next_u32_law K \<longleftrightarrow> (\<forall>p lane. of_prop_next_u32 K p lane =
     (let i = (case lane of None \<Rightarrow> 0 | Some c \<Rightarrow> Suc c) in
      if i < length (u32_values K p) then Some (i, u32_values K p ! i) else None))"

text \<open>The kernel on a tree of one node with these properties, which satisfies them.\<close>

definition cells_of :: "byte list \<Rightarrow> int list" where
  "cells_of b = map (\<lambda>i. case be32_at b i of Some c \<Rightarrow> uint c | None \<Rightarrow> 0) [0..<length b div 4]"

definition tree_kernel :: "property list \<Rightarrow> of_kernel" where
  "tree_kernel ps =
     (let look = (\<lambda>p. find (\<lambda>q. prop_name q = p) ps) in
      \<lparr>node_name = \<lambda>_. ''DTS_demo'', full_name = \<lambda>_. ''/DTS_demo'', child_nodes = \<lambda>_. [], available_child_nodes = \<lambda>_. [],
       matching_nodes = \<lambda>_. [], nodes_with_property = \<lambda>p. if look p = None then [] else [0],
       of_get_child_count = \<lambda>_. 0, of_get_child_by_name = \<lambda>_ _. None, of_get_next_child = \<lambda>_ _. None, of_get_parent = \<lambda>_. None,
       of_device_is_available = \<lambda>_. True, of_find_all_nodes = \<lambda>_. None,
       of_find_property = \<lambda>_. look, of_get_property = \<lambda>n p. if n = None then None else map_option prop_value (look p),
       of_compat_cmp = \<lambda>b c. map (of_char :: char \<Rightarrow> byte) c = b, of_node_cmp = (=), of_prop_cmp = (=),
       of_count_phandle_with_args = \<lambda>_ _ _. - EINVAL, of_find_compatible_node = \<lambda>_. None, of_find_tree_by_node = \<lambda>_. None,
       of_find_matching_node = \<lambda>_. None, of_find_matching_node_and_match = \<lambda>_. (None, None),
       of_find_node_by_path = \<lambda>p. if p = ''/DTS_demo'' then Some 0 else None, of_find_node_by_phandle = \<lambda>_. None,
       of_find_node_with_property = \<lambda>_. None, of_property_read_string = \<lambda>_ _. None, of_get_address = \<lambda>_ _. None,
       of_translate_address = \<lambda>_ _. Some 0, of_get_cpu_node = \<lambda>_. None, of_get_mac_address = \<lambda>_. None,
       of_get_phy_mode = \<lambda>_. - EINVAL, of_n_addr_cells = \<lambda>_. 1, of_n_size_cells = \<lambda>_. 1, of_node_full_name = \<lambda>_. ''/DTS_demo'',
       of_node_is_root = \<lambda>_. False, of_parse_phandle = \<lambda>_ _ _. None, of_parse_phandle_with_args = \<lambda>_ _ _ _. Inl (- EINVAL),
       prop_strings = \<lambda>_. [],
       of_prop_next_u32 = \<lambda>p lane. let i = (case lane of None \<Rightarrow> 0 | Some c \<Rightarrow> Suc c); vs = cells_of (prop_value p) in
         if i < length vs then Some (i, vs ! i) else None,
       u32_values = \<lambda>p. cells_of (prop_value p),
       of_property_match_string = \<lambda>_ _ _. - EINVAL, of_property_count_strings = \<lambda>_ _. - EINVAL,
       of_property_read_string_index = \<lambda>_ _ _. Inl (- EINVAL), of_property_read_string_array = \<lambda>_ _ _. [],
       of_property_read_bool = \<lambda>_ p. look p \<noteq> None, of_property_read_u8 = \<lambda>_ _. None, of_property_read_u16 = \<lambda>_ _. None,
       of_property_read_u32 = \<lambda>_ _. None, of_property_read_u16_array = \<lambda>_ _ _. None, of_property_read_u32_array = \<lambda>_ _ _. None,
       PHY_INTERFACE_MODE_RGMII = 9\<rparr>)"

lemma tree_kernel_laws: "property_law (tree_kernel ps)" "next_u32_law (tree_kernel ps)"
  by (simp_all add: property_law_def next_u32_law_def tree_kernel_def Let_def)

section \<open>Reading cells\<close>

lemma be32_at_iff: "(\<exists>c. be32_at b i = Some c) \<longleftrightarrow> 4 * i + 4 \<le> length b"
  by (simp add: be32_at_def)

lemma read_cells_iff: "(\<exists>v. read_cells b i n r = Some v) \<longleftrightarrow> n = 0 \<or> 4 * (i + n) \<le> length b"
proof (induction n arbitrary: i r)
  case (Suc n)
  show ?case
  proof (cases "be32_at b i")
    case None
    then have "\<not> 4 * i + 4 \<le> length b" by (simp add: be32_at_def split: if_splits)
    then show ?thesis using None by simp
  next
    case (Some c)
    then have "4 * i + 4 \<le> length b" by (simp add: be32_at_def split: if_splits)
    then show ?thesis using Some Suc.IH by auto
  qed
qed simp

lemma of_read_number_iff: "(\<exists>v. of_read_number b i n = Some v) \<longleftrightarrow> n = 0 \<or> 4 * (i + n) \<le> length b"
  by (simp add: of_read_number_def read_cells_iff)

section \<open>What the commands need\<close>

text \<open>For each command the properties without which it goes through a null pointer or reads outside a property.\<close>

definition has_cells :: "of_kernel \<Rightarrow> node \<Rightarrow> string \<Rightarrow> nat \<Rightarrow> bool" where
  "has_cells K node p n \<longleftrightarrow> (\<exists>q. of_find_property K node p = Some q \<and> 4 * n \<le> length (prop_value q))"

definition has_cells_if :: "of_kernel \<Rightarrow> node \<Rightarrow> string \<Rightarrow> nat \<Rightarrow> bool" where
  "has_cells_if K node p n \<longleftrightarrow> (\<forall>q. of_find_property K node p = Some q \<longrightarrow> 4 * n \<le> length (prop_value q))"

definition has_string :: "of_kernel \<Rightarrow> node \<Rightarrow> string \<Rightarrow> bool" where
  "has_string K node p \<longleftrightarrow> (\<exists>q. of_find_property K node p = Some q \<and> 0 \<in> set (prop_value q))"

definition has_string_if :: "of_kernel \<Rightarrow> node option \<Rightarrow> string \<Rightarrow> bool" where
  "has_string_if K n p \<longleftrightarrow> (\<forall>b. of_get_property K n p = Some b \<longrightarrow> 0 \<in> set b)"

definition find_needs :: "of_kernel \<Rightarrow> string list \<Rightarrow> node \<Rightarrow> bool" where
  "find_needs K behind node \<longleftrightarrow> [] \<in> set behind
     \<and> (\<exists>q h. of_find_property K node ''phy-hanlde'' = Some q \<and> be32_at (prop_value q) 0 = Some h
            \<and> has_string_if K (of_find_node_by_phandle K h) ''compatible'')
     \<and> has_cells K node ''viros_int'' 0 \<and> has_string K node ''viros_name''"

definition get_needs :: "of_kernel \<Rightarrow> stack \<Rightarrow> node \<Rightarrow> bool" where
  "get_needs K st node \<longleftrightarrow>
     (\<forall>cpu. of_get_cpu_node K 0 = Some cpu \<longrightarrow> of_property_read_string K cpu ''compatible'' \<noteq> None \<or> comp0 st \<noteq> None)
     \<and> (\<forall>mac. of_get_mac_address K node = Some mac \<longrightarrow> 6 \<le> length mac)
     \<and> (of_get_next_child K node None = None \<longrightarrow> of_get_parent K None = None)
     \<and> has_string_if K (Some node) ''viros_name'' \<and> has_cells_if K node ''viros_int'' 1
     \<and> has_cells_if K node ''viros_mult'' (2 * of_n_addr_cells K node)"

definition node_needs :: "of_kernel \<Rightarrow> stack \<Rightarrow> node \<Rightarrow> bool" where
  "node_needs K st node \<longleftrightarrow> has_string K node ''compatible''
     \<and> has_string_if K (of_parse_phandle K node ''phy-hanlde'' 0) ''compatible''
     \<and> (\<exists>a. gpio_args K st node = Some a \<and> has_string_if K (np a) ''compatible'')"

definition property_needs :: "of_kernel \<Rightarrow> node \<Rightarrow> bool" where
  "property_needs K node \<longleftrightarrow>
     (let n = of_property_count_strings K node ''viros-strings'';
          got = length (of_property_read_string_array K node ''viros-strings'' n);
          child = of_get_child_by_name K node ''child0''; regaddr_p = of_get_address K child 0;
          regaddr = of_translate_address K child (map_option fst regaddr_p) in
      (\<forall>p. of_find_property K node ''viros-strings'' = Some p \<longrightarrow> strings_end p)
      \<and> got \<le> 4 \<and> nat n \<le> got \<and> has_cells K node ''viros-data'' 2 \<and> regaddr \<noteq> None
      \<and> (child = None \<longrightarrow> regaddr_p = None \<and> regaddr = Some 0))"

definition probe_needs :: "of_kernel \<Rightarrow> stack \<Rightarrow> string list \<Rightarrow> int \<Rightarrow> node \<Rightarrow> bool" where
  "probe_needs K st behind cmd node \<longleftrightarrow> (cmd = DTS_MATCHING_NODE \<longrightarrow> [] \<in> set behind) \<and>
     (cmd = DTS_PROPERTY_ATTR \<longrightarrow> has_string K node ''compatible'') \<and>
     (cmd = DTS_FIND_OPERATION \<longrightarrow> find_needs K behind node) \<and> (cmd = DTS_GET_OPERATION \<longrightarrow> get_needs K st node) \<and>
     (cmd = DTS_NODE_OPERATION \<longrightarrow> node_needs K st node) \<and> (cmd = DTS_PROPERTY_OPERATION \<longrightarrow> property_needs K node)"

lemma child_node_returns: "returns (child_node_cmd K node)"
  by (simp add: child_node_cmd_def)

lemma of_match_seen_iff: "(\<exists>t. of_match_seen behind = Some t) \<longleftrightarrow> [] \<in> set behind"
  by (simp add: of_match_seen_def)

lemma c_string_iff: "(\<exists>s. c_string b = Some s) \<longleftrightarrow> 0 \<in> set b"
  by (simp add: c_string_def)

lemma matching_node_returns: "returns (matching_node_cmd K behind) \<longleftrightarrow> [] \<in> set behind"
  by (cases "[] \<in> set behind") (auto simp: matching_node_cmd_def of_match_seen_def)

lemma property_attr_returns:
  "property_law K \<Longrightarrow> returns (property_attr_cmd K node) \<longleftrightarrow> has_string K node ''compatible''"
  by (cases "of_find_property K node ''compatible''") (auto simp: property_attr_cmd_def property_law_def has_string_def c_string_def)

lemma find_operation_returns:
  assumes "property_law K"
  shows "returns (find_operation_cmd K behind node) \<longleftrightarrow> find_needs K behind node"
proof -
  have num: "\<exists>v. of_read_number b 0 (length b div 4) = Some v" for b
    by (simp only: of_read_number_iff) simp
  show ?thesis
    using assms num
    by (cases "of_find_property K node ''phy-hanlde''")
      (auto simp: find_operation_cmd_def find_needs_def property_law_def has_cells_def has_string_def has_string_if_def Let_def bind_eq_Some_conv
        of_match_seen_iff c_string_iff)
qed

lemma those_bytes: "(\<exists>bs. those (map (aget mac) [0, 1, 2, 3, 4, 5]) = Some bs) \<longleftrightarrow> 6 \<le> length mac"
  by (auto simp: aget_def split: option.splits)

lemma get_operation_returns:
  assumes "property_law K"
  shows "returns (get_operation_cmd K st node) \<longleftrightarrow> get_needs K st node"
proof -
  have cells: "(\<forall>b. of_get_property K (Some node) p = Some b \<longrightarrow> Q b) \<longleftrightarrow> (\<forall>q. of_find_property K node p = Some q \<longrightarrow> Q (prop_value q))"
    for p Q using assms by (auto simp: property_law_def)
  have mult: "(\<exists>v. of_read_number b 0 c = Some v) \<and> (\<exists>v. of_read_number b c c = Some v) \<longleftrightarrow> 4 * (2 * c) \<le> length b" for b c
    by (auto simp: of_read_number_iff)
  show ?thesis
    using mult
    by (cases "of_get_next_child K node None") (auto simp: get_operation_cmd_def get_needs_def Let_def cells be32_at_iff those_bytes has_cells_if_def has_string_if_def c_string_iff
      simp del: map_eq_Cons_conv list.map split: option.splits prod.splits)
qed

lemma node_operation_returns:
  assumes "property_law K"
  shows "returns (node_operation_cmd K st node) \<longleftrightarrow> node_needs K st node"
proof -
  have handle: "of_get_property K (np a) p = Some c \<Longrightarrow> \<exists>n. np a = Some n" for a :: of_phandle_args and p c
    using assms by (cases "np a") (auto simp: property_law_def)
  show ?thesis
    using assms handle
    by (cases "of_find_property K node ''compatible''")
      (auto simp: node_operation_cmd_def node_needs_def has_string_def has_string_if_def property_law_def Let_def c_string_def)
qed

lemma viros_strings_returns:
  "returns (viros_strings K node) \<longleftrightarrow>
     (let n = of_property_count_strings K node ''viros-strings''; got = length (of_property_read_string_array K node ''viros-strings'' n) in
      got \<le> 4 \<and> nat n \<le> got)"
  by (fastforce simp: viros_strings_def Let_def STRING_ARRAY_def aget_def not_less split: sum.splits if_splits)

lemma read_array_returns [simp]: "returns (read_array st vals)"
  by (cases vals) (simp_all add: read_array_def)

lemma property_operation_returns:
  assumes "property_law K"
  shows "returns (property_operation_cmd K st node) \<longleftrightarrow> property_needs K node"
proof -
  have two: "has_cells K node ''viros-data'' 2 \<longleftrightarrow> (\<exists>v w. Option.bind (of_get_property K (Some node) ''viros-data'') (\<lambda>b. of_read_number b 0 1) = Some v
      \<and> Option.bind (of_get_property K (Some node) ''viros-data'') (\<lambda>b. of_read_number b 0 2) = Some w)"
    using assms
    by (cases "of_find_property K node ''viros-data''")
      (use of_read_number_iff in \<open>auto simp: has_cells_def property_law_def\<close>)
  show ?thesis
    unfolding property_operation_cmd_def property_needs_def two Let_def
    by (cases "of_get_child_by_name K node ''child0''"; cases "of_get_address K (of_get_child_by_name K node ''child0'') 0")
      (auto simp: viros_strings_returns Let_def)
qed

text \<open>C17: for a kernel whose \<open>of_get_property\<close> gives the value that \<open>of_find_property\<close> finds, and for every device and command, the
  probe comes out of its calls exactly if \<open>probe_needs\<close> holds: the tree has the properties the command takes for granted, with their cells
  and a zero byte in what is read as a string, an empty entry happens to follow the table of identifiers, and the variables that are used
  without having been set happen to hold valid pointers. Otherwise it goes through a null or an invalid pointer, reads outside a property or
  behind the table, or overruns its array of strings.\<close>

theorem devicetree_probe_returns:
  assumes "property_law K"
  shows "returns (fst (devicetree_demo_probe K e st behind cmd node)) \<longleftrightarrow> probe_needs K st behind cmd node"
  unfolding devicetree_demo_probe_def probe_needs_def DTS_CHILD_NODE_def DTS_MATCHING_NODE_def DTS_PROPERTY_ATTR_def
    DTS_FIND_OPERATION_def DTS_GET_OPERATION_def DTS_NODE_OPERATION_def DTS_PROPERTY_OPERATION_def DTS_ADDR_RESOURCE_def
  using assms by (simp add: child_node_returns matching_node_returns property_attr_returns find_operation_returns
    get_operation_returns node_operation_returns property_operation_returns)

definition no_stack :: stack where
  "no_stack = \<lparr>comp0 = None, args0 = None, i0 = 0, data0 = 0, u8_0 = 0, u16_0 = 0, u32_0 = 0, extra0 = 0\<rparr>"

lemma tree_kernel_find: "of_find_property (tree_kernel ps) n p = find (\<lambda>q. prop_name q = p) ps"
  by (simp add: tree_kernel_def Let_def)

text \<open>A device with everything the command \<open>DTS_FIND_OPERATION\<close> asks for, up to the zero byte of \<open>viros_name\<close>.\<close>

definition find_tree :: "byte list \<Rightarrow> property list" where
  "find_tree end_of_name = [\<lparr>prop_name = ''phy-hanlde'', prop_value = [0, 0, 0, 1]\<rparr>,
     \<lparr>prop_name = ''viros_int'', prop_value = [0, 0, 0, 5]\<rparr>, \<lparr>prop_name = ''viros_name'', prop_value = [86, 49] @ end_of_name\<rparr>]"

lemma tree_kernel_no_phandle: "of_find_node_by_phandle (tree_kernel ps) h = None" "of_get_property (tree_kernel ps) None p = None"
  by (simp_all add: tree_kernel_def Let_def)

theorem devicetree_probe_returns_witness:
  "returns (fst (devicetree_demo_probe (tree_kernel (find_tree [0]))
      \<lparr>of_address_to_resource = \<lambda>_. Inl (- EINVAL), devm_ioremap_resource = \<lambda>_. Inl (- EINVAL)\<rparr>
      no_stack [''spi, demo'', []] DTS_FIND_OPERATION 0))
   \<and> \<not> returns (fst (devicetree_demo_probe (tree_kernel (find_tree []))
      \<lparr>of_address_to_resource = \<lambda>_. Inl (- EINVAL), devm_ioremap_resource = \<lambda>_. Inl (- EINVAL)\<rparr>
      no_stack [''spi, demo'', []] DTS_FIND_OPERATION 0))"
proof -
  have "probe_needs (tree_kernel (find_tree [0])) no_stack [''spi, demo'', []] DTS_FIND_OPERATION 0"
    "\<not> probe_needs (tree_kernel (find_tree [])) no_stack [''spi, demo'', []] DTS_FIND_OPERATION 0"
    by (simp_all add: probe_needs_def find_needs_def has_cells_def has_string_def has_string_if_def tree_kernel_find find_tree_def
      tree_kernel_no_phandle be32_at_def DTS_FIND_OPERATION_def DTS_PROPERTY_ATTR_def DTS_GET_OPERATION_def DTS_NODE_OPERATION_def
      DTS_PROPERTY_OPERATION_def DTS_MATCHING_NODE_def)
  then show ?thesis
    using devicetree_probe_returns [OF tree_kernel_laws(1)] by blast
qed

text \<open>for a device whose handle to its PHY is spelled correctly, when the table of identifiers happens to be ended, the command \<open>DTS_FIND_OPERATION\<close> never finds it: its last message
  is that there is none, and then it reads through the null pointer.\<close>

theorem find_operation_faults:
  assumes "of_get_property K (Some node) ''phy-hanlde'' = None" "[] \<in> set behind"
  shows "\<exists>ls. find_operation_cmd K behind node = (ls @ [(''unable to find 'phy-handle' on current device'', [])], False)"
proof -
  have six: "returns a \<and> returns b \<and> returns c \<and> returns d \<and> returns f \<Longrightarrow>
      seq (a # b # c # d # f # printk m [] # fault # ts) = ((fst a @ fst b @ fst c @ fst d @ fst f) @ [(m, [])], False)" for a b c d f m ts
    using seq_fault [of "[a, b, c, d, f, printk m []]" ts] by (simp add: printk_def)
  show ?thesis
    unfolding find_operation_cmd_def Let_def
    by (rule exI, simp only: assms of_match_seen_def if_True bind.simps deref_simps only_if_simps simp_thms, rule six) simp
qed

theorem find_operation_faults_witness:
  "\<exists>ls. find_operation_cmd (tree_kernel [\<lparr>prop_name = ''phy-handle'', prop_value = [0, 0, 0, 1]\<rparr>]) [[]] 0
    = (ls @ [(''unable to find 'phy-handle' on current device'', [])], False)"
  by (rule find_operation_faults) (simp_all add: tree_kernel_def Let_def)

section \<open>The cells of a property\<close>

text \<open>C31: from a property with \<open>n\<close> values the loop over four cells prints the values in turn; behind the last it prints the last once more
  and starts again.\<close>

theorem data_loop_values:
  assumes "next_u32_law K" "u32_values K p = vs" "vs \<noteq> []"
  shows "fst (data_loop K p 4 0 None d) =
    map (\<lambda>i. (''data[%d]: %#x'', [Num (int i), Num (vs ! min (i mod (length vs + 1)) (length vs - 1))])) [0, 1, 2, 3]"
proof -
  have nxt: "of_prop_next_u32 K p lane = (let i = (case lane of None \<Rightarrow> 0 | Some c \<Rightarrow> Suc c) in if i < length vs then Some (i, vs ! i) else None)" for lane
    unfolding assms(2) [symmetric] using assms(1) unfolding next_u32_law_def by blast
  have four: "data_loop K p 4 i lane data = data_loop K p (Suc (Suc (Suc (Suc 0)))) i lane data" for i lane data
    by (simp add: numeral_eq_Suc)
  consider a where "vs = [a]" | a b where "vs = [a, b]" | a b c where "vs = [a, b, c]" | a b c w ws where "vs = a # b # c # w # ws"
    using assms(3) by (metis neq_Nil_conv)
  then show ?thesis
  proof cases
    case (4 a b c w ws)
    then have "i mod (length vs + 1) = i" if "i < 4" for i using that by simp
    with 4 show ?thesis by (simp add: four nxt Let_def)
  qed (simp_all add: four nxt Let_def)
qed

theorem data_loop_values_witness:
  "fst (data_loop (tree_kernel []) \<lparr>prop_name = ''viros-data'', prop_value = [0, 0, 0, 7, 0, 0, 1, 0]\<rparr> 4 0 None 0) =
    [(''data[%d]: %#x'', [Num 0, Num 7]), (''data[%d]: %#x'', [Num 1, Num 256]), (''data[%d]: %#x'', [Num 2, Num 256]), (''data[%d]: %#x'', [Num 3, Num 7])]"
proof -
  have "u32_values (tree_kernel []) \<lparr>prop_name = ''viros-data'', prop_value = [0, 0, 0, 7, 0, 0, 1, 0]\<rparr> = [7, 256]"
    by (simp add: tree_kernel_def cells_of_def be32_at_def word_rcat_def upt_rec)
  from data_loop_values [OF tree_kernel_laws(2) this] show ?thesis by simp
qed

lemma data_loop_lines: "f \<noteq> ''data[%d]: %#x'' \<Longrightarrow> lines_of f (fst (data_loop K p k i lane d), b) = []"
  by (induction K p k i lane d rule: data_loop.induct) (simp_all add: lines_of_def Let_def)

lemma viros_strings_lines: "lines_of ''Data[%d]: %#x'' (viros_strings K node) = []"
  unfolding viros_strings_def Let_def by (rule lines_of_seq_none) (auto split: sum.split)

lemma read_array_lines: "lines_of ''Data[%d]: %#x'' (read_array st vals) = []"
  by (cases vals) (simp_all add: read_array_def)

lemma each_string_lines: "fmt \<noteq> f \<Longrightarrow> lines_of f (if_ptr strings (\<lambda>p. seq [for_each (xs p) (\<lambda>lane. printk fmt (g lane)), only_if (e p) fault])) = []"
  by (rule lines_of_none(2), rule lines_of_seq_none) (auto simp: lines_of_def fault_def skip_def only_if_def)

text \<open>however many values \<open>viros-data\<close> has, the statement that is to print each of them prints one line, with the last value and
  the index 4.\<close>

theorem data_printed_once:
  assumes "of_find_property K node ''viros-data'' = Some p" "u32_values K p \<noteq> []"
    and "returns (property_operation_cmd K st node)"
  shows "lines_of ''Data[%d]: %#x'' (property_operation_cmd K st node) = [[Num 4, Num (last (u32_values K p))]]"
proof -
  note * = lines_of_seq [OF assms(3) [unfolded property_operation_cmd_def Let_def returns_seq]]
  show ?thesis
    unfolding property_operation_cmd_def Let_def *
    using assms(1,2)
    by (simp add: data_loop_lines each_string_lines viros_strings_lines read_array_lines del: for_each_printk split: prod.split)
qed

theorem data_printed_once_witness:
  "lines_of ''Data[%d]: %#x'' (property_operation_cmd
     (tree_kernel [\<lparr>prop_name = ''viros-data'', prop_value = [0, 0, 0, 7, 0, 0, 1, 0]\<rparr>]) no_stack 0) = [[Num 4, Num 256]]"
proof -
  let ?p = "\<lparr>prop_name = ''viros-data'', prop_value = [0, 0, 0, 7, 0, 0, 1, 0]\<rparr>"
  let ?K = "tree_kernel [?p]"
  have vals: "u32_values ?K ?p = [7, 256]"
    by (simp add: tree_kernel_def cells_of_def be32_at_def word_rcat_def upt_rec)
  have found: "of_find_property ?K 0 ''viros-data'' = Some ?p"
    by (simp add: tree_kernel_find)
  have "property_needs ?K 0"
    unfolding property_needs_def Let_def has_cells_def tree_kernel_find by (simp add: tree_kernel_def Let_def EINVAL_def)
  then have "returns (property_operation_cmd ?K no_stack 0)"
    by (simp add: property_operation_returns tree_kernel_laws)
  from data_printed_once [OF found _ this] show ?thesis by (simp add: vals)
qed

end
