(* ===== verification/Hash_Demo.thy ===== *)
theory Hash_Demo
  imports Prelude
begin

text \<open>
  The hash list of \<open>Algorithem/hash/hash.c\<close>, in memory: a heap maps the addresses of mapped words (of eight bytes) to their
  contents, 0 is the null pointer and \<open>None\<close> an access to an address that is not mapped. Of \<open>struct numnode\<close> at \<open>a\<close>
  the word \<open>a\<close> is \<open>num\<close>, \<open>a + 1\<close> is \<open>hlistNode.next\<close> and \<open>a + 2\<close> is \<open>hlistNode.pprev\<close>; \<open>struct numlist\<close> is one word,
  \<open>hlistHead.first\<close>. The functions of \<open>linux/list.h\<close> do to these words what their documentation says. \<open>MAX_NUM\<close>, which the file
  does not define, is the number of allocations.
\<close>

type_synonym heap = "nat \<rightharpoonup> nat"

definition store :: "heap \<Rightarrow> nat \<Rightarrow> nat \<Rightarrow> heap option" where
  "store m a v = (if m a = None then None else Some (m(a \<mapsto> v)))"

section \<open>The list functions\<close>

text \<open>\<open>INIT_LIST_HEAD\<close> is for the head of a \<open>list_head\<close>, which has two words: \<open>next\<close> and \<open>prev\<close> become the head itself.\<close>

definition INIT_LIST_HEAD :: "nat \<Rightarrow> heap \<Rightarrow> heap option" where
  "INIT_LIST_HEAD h m = do { m \<leftarrow> store m h h; store m (h + 1) h }"

definition hlist_add_head :: "nat \<Rightarrow> nat \<Rightarrow> heap \<Rightarrow> heap option" where
  "hlist_add_head n h m = do {
     first \<leftarrow> m h;
     m \<leftarrow> store m n first;
     m \<leftarrow> (if first = 0 then Some m else store m (first + 1) n);
     m \<leftarrow> store m h n;
     store m (n + 1) h }"

text \<open>\<open>kmalloc\<close> maps the three words of a node, or returns 0; what they hold is arbitrary.\<close>

definition kmalloc_node :: "nat \<Rightarrow> heap \<Rightarrow> heap" where
  "kmalloc_node a m = (if a = 0 then m else m(a \<mapsto> 0, a + 1 \<mapsto> 0, a + 2 \<mapsto> 0))"

section \<open>The module\<close>

text \<open>The loop that adds a node for each address that \<open>kmalloc\<close> returns, from \<open>i\<close> on.\<close>

fun add_nodes :: "nat \<Rightarrow> nat \<Rightarrow> nat list \<Rightarrow> heap \<Rightarrow> heap option" where
  "add_nodes h i [] m = Some m"
| "add_nodes h i (listnode # as) m = do {
     m \<leftarrow> store (kmalloc_node listnode m) listnode (i + 1);
     m \<leftarrow> hlist_add_head (listnode + 1) h m;
     add_nodes h (i + 1) as m }"

text \<open>\<open>rounds\<close> rounds of the loop that prints the list, from \<open>pos\<close>: the numbers printed, and where it stands. It ends when
  it stands at 0.\<close>

fun hlist_walk :: "nat \<Rightarrow> nat \<Rightarrow> heap \<Rightarrow> (nat list \<times> nat) option" where
  "hlist_walk 0 pos m = Some ([], pos)"
| "hlist_walk (Suc rounds) pos m = (if pos = 0 then Some ([], 0) else do {
     num \<leftarrow> m (pos - 1);
     nxt \<leftarrow> m pos;
     (nums, last) \<leftarrow> hlist_walk rounds nxt m;
     Some (num # nums, last) })"

text \<open>The exit function, which is called \<open>hash_demo_eit\<close>: \<open>rounds\<close> rounds of its loop from \<open>pos\<close>, with the allocated nodes in
  \<open>live\<close>; \<open>None\<close> is also the freeing of memory that was not allocated. The numbers printed, and where the loop stands.\<close>

definition LIST_POISON1 :: nat where "LIST_POISON1 = 0x100"
definition LIST_POISON2 :: nat where "LIST_POISON2 = 0x122"

definition hlist_del :: "nat \<Rightarrow> heap \<Rightarrow> heap option" where
  "hlist_del n m = do {
     nxt \<leftarrow> m n;
     pprev \<leftarrow> m (n + 1);
     m \<leftarrow> store m pprev nxt;
     m \<leftarrow> (if nxt = 0 then Some m else store m (nxt + 1) pprev);
     m \<leftarrow> store m n LIST_POISON1;
     store m (n + 1) LIST_POISON2 }"

definition kfree_node :: "nat \<Rightarrow> heap \<Rightarrow> nat list \<Rightarrow> (heap \<times> nat list) option" where
  "kfree_node a m live = (if a \<in> set live then Some (m(a := None, a + 1 := None, a + 2 := None), remove1 a live) else None)"

fun exit_loop :: "nat \<Rightarrow> nat \<Rightarrow> nat \<Rightarrow> heap \<Rightarrow> nat list \<Rightarrow> (nat list \<times> nat \<times> heap \<times> nat list) option" where
  "exit_loop 0 pos i m live = Some ([], pos, m, live)"
| "exit_loop (Suc rounds) pos i m live = (if pos = 0 then Some ([], 0, m, live) else do {
     n \<leftarrow> m pos;
     m \<leftarrow> hlist_del pos m;
     (m, live) \<leftarrow> kfree_node (pos - 1) m live;
     (printed, rest) \<leftarrow> exit_loop rounds n (i + 1) m live;
     Some (i # printed, rest) })"

definition hash_demo_eit :: "nat \<Rightarrow> nat \<Rightarrow> heap \<Rightarrow> nat list \<Rightarrow> (nat list \<times> nat \<times> heap \<times> nat list) option" where
  "hash_demo_eit rounds h m live = do { first \<leftarrow> m h; exit_loop rounds first 1 m live }"

definition hash_demo_init :: "nat \<Rightarrow> nat list \<Rightarrow> heap \<Rightarrow> heap option" where
  "hash_demo_init h as m = do { m \<leftarrow> INIT_LIST_HEAD h m; add_nodes h 0 as m }"

section \<open>Paths through the nodes\<close>

text \<open>From \<open>x\<close> the links lead through the nodes of the list, each with its address and number, to \<open>y\<close>.\<close>

primrec nodes :: "heap \<Rightarrow> nat \<Rightarrow> (nat \<times> nat) list \<Rightarrow> nat \<Rightarrow> bool" where
  "nodes m x [] y \<longleftrightarrow> x = y"
| "nodes m x (pv # r) y \<longleftrightarrow> x = fst pv \<and> 0 < x \<and> m (x - 1) = Some (snd pv) \<and> (\<exists>n. m x = Some n \<and> nodes m n r y)"

text \<open>Objects of three words whose middle words are these do not overlap.\<close>

definition spaced :: "nat set \<Rightarrow> bool" where
  "spaced S \<longleftrightarrow> (\<forall>p\<in>S. 0 < p \<and> (\<forall>q\<in>S. p = q \<or> p + 3 \<le> q \<or> q + 3 \<le> p))"

lemma spaced_neq: "spaced S \<Longrightarrow> p \<in> S \<Longrightarrow> q \<in> S \<Longrightarrow> p \<noteq> q \<Longrightarrow> p + 3 \<le> q \<or> q + 3 \<le> p"
  by (auto simp: spaced_def)

lemma spaced_subset: "spaced S \<Longrightarrow> T \<subseteq> S \<Longrightarrow> spaced T"
  by (auto simp: spaced_def)

lemma nodes_upd: "\<forall>p\<in>fst ` set r. u \<noteq> p \<and> u \<noteq> p - 1 \<Longrightarrow> nodes (m(u \<mapsto> w)) x r y \<longleftrightarrow> nodes m x r y"
  by (induction r arbitrary: x) auto

lemma walk_nodes: "nodes m x r y \<Longrightarrow> hlist_walk (length r) x m = Some (map snd r, y)"
  by (induction r arbitrary: x) auto

lemma walk_add: "hlist_walk a x m = Some (ns, y) \<Longrightarrow> hlist_walk b y m = Some (ms, z) \<Longrightarrow> hlist_walk (a + b) x m = Some (ns @ ms, z)"
proof (induction a arbitrary: x ns)
  case (Suc a)
  show ?case
  proof (cases "x = 0")
    case True
    then have "ns = []" "y = 0" using Suc.prems(1) by simp_all
    moreover from this have "ms = []" "z = 0" using Suc.prems(2) by (cases b; simp)+
    ultimately show ?thesis using True by simp
  next
    case False
    with Suc show ?thesis by (auto simp: bind_eq_Some_conv split: prod.splits)
  qed
qed simp

text \<open>A path from a node back to it is walked forever.\<close>

lemma walk_cycle: "nodes m x r x \<Longrightarrow> hlist_walk (j * length r) x m = Some (concat (replicate j (map snd r)), x)"
  by (induction j) (auto dest: walk_nodes intro: walk_add)

section \<open>Every list is a cycle through its head\<close>

text \<open>The head, taken for a node with the number \<open>g\<close> that lies before it, leads through the nodes back to itself, and the
  node that it leads to points back to the head.\<close>

definition ring :: "heap \<Rightarrow> nat \<Rightarrow> nat \<Rightarrow> (nat \<times> nat) list \<Rightarrow> bool" where
  "ring m h g r \<longleftrightarrow> nodes m h ((h, g) # r) h \<and> distinct (h # map fst r) \<and> (\<forall>p\<in>insert h (fst ` set r). m (p + 1) \<noteq> None)
     \<and> (\<forall>x. m h = Some x \<longrightarrow> m (x + 1) = Some h)"

lemma ring_init:
  "0 < h \<Longrightarrow> m (h - 1) = Some g \<Longrightarrow> m h \<noteq> None \<Longrightarrow> m (h + 1) \<noteq> None \<Longrightarrow>
    \<exists>m'. INIT_LIST_HEAD h m = Some m' \<and> ring m' h g []"
  by (auto simp: INIT_LIST_HEAD_def store_def ring_def)

lemma ring_add:
  assumes ring: "ring m h g r" and sp: "spaced (insert (Suc a) (insert h (fst ` set r)))"
    and new: "0 < a" "Suc a \<notin> insert h (fst ` set r)"
  shows "\<exists>m1 m2. store (kmalloc_node a m) a v = Some m1 \<and> hlist_add_head (a + 1) h m1 = Some m2 \<and> ring m2 h g ((a + 1, v) # r)"
proof -
  let ?S = "insert h (fst ` set r)"
  have apart: "p + 2 \<le> a \<or> a + 4 \<le> p" if "p \<in> ?S" for p
  proof -
    have "p \<noteq> Suc a" using that new(2) by blast
    with spaced_neq [OF sp, of p "Suc a"] that show ?thesis by auto
  qed
  obtain x where x: "m h = Some x" "nodes m x r h" "0 < h" "m (h - 1) = Some g"
    using ring by (auto simp: ring_def)
  have xS: "x \<in> ?S" "0 < x" using x(2,3) by (cases r; auto)+
  define m1 where "m1 = (m(a \<mapsto> 0, a + 1 \<mapsto> 0, a + 2 \<mapsto> 0))(a \<mapsto> v)"
  define m2 where "m2 = m1(a + 1 \<mapsto> x, x + 1 \<mapsto> a + 1, h \<mapsto> a + 1, a + 2 \<mapsto> h)"
  have s1: "store (kmalloc_node a m) a v = Some m1"
    using new(1) by (simp add: store_def kmalloc_node_def m1_def)
  have mapped: "m (x + 1) \<noteq> None" using ring xS(1) by (auto simp: ring_def)
  have m1: "m1 h = Some x" "m1 (x + 1) \<noteq> None"
    using apart [OF xS(1)] apart [of h] x(1) mapped by (auto simp: m1_def)
  have s2: "hlist_add_head (a + 1) h m1 = Some m2"
    using m1 xS(2) by (auto simp: hlist_add_head_def store_def m2_def m1_def)
  have sep: "p \<in> ?S \<Longrightarrow> q \<in> ?S \<Longrightarrow> p = q \<or> p + 3 \<le> q \<or> q + 3 \<le> p" for p q
    using sp by (auto simp: spaced_def)
  have pos: "p \<in> ?S \<Longrightarrow> 0 < p" for p
    using sp by (auto simp: spaced_def)
  have keep: "m2 u = m u" if "p \<in> ?S" "u = p - 1 \<or> u = p" "u \<noteq> h" for p u
    using apart [OF that(1)] sep [OF that(1) xS(1)] pos [OF that(1)] xS(2) that(2,3) by (auto simp: m2_def m1_def)
  have hr: "h \<notin> fst ` set r" using ring by (simp add: ring_def)
  have rest: "nodes m y q h \<Longrightarrow> set q \<subseteq> set r \<Longrightarrow> nodes m2 y q h" for y q
  proof (induction q arbitrary: y)
    case (Cons pv q)
    then have p: "fst pv \<in> ?S" "fst pv \<noteq> h" "y = fst pv" using hr by force+
    have "fst pv - 1 \<noteq> h" using sep [OF p(1), of h] p(2) by auto
    with Cons p keep [OF p(1)] show ?case by auto
  qed simp
  have at: "m2 h = Some (a + 1)" "m2 (h - 1) = Some g" "m2 a = Some v" "m2 (a + 1) = Some x"
    using apart [of h] keep [of h "h - 1"] x xS apart [OF xS(1)] by (auto simp: m2_def m1_def)
  have "nodes m2 h ((h, g) # (a + 1, v) # r) h"
    using at x(2,3) rest by simp
  moreover have "\<forall>p\<in>insert h (fst ` set ((a + 1, v) # r)). m2 (p + 1) \<noteq> None"
    using ring by (auto simp: ring_def m2_def m1_def)
  moreover have "m2 (a + 2) = Some h" by (simp add: m2_def)
  ultimately show ?thesis
    using s1 s2 hr new(2) at(1) ring by (auto simp: ring_def)
qed

lemma add_nodes_ring:
  assumes "ring m h g r" "spaced (insert h (fst ` set r \<union> Suc ` set as))" "distinct as"
    and "\<forall>a\<in>set as. 0 < a \<and> Suc a \<notin> insert h (fst ` set r)"
  shows "\<exists>m' r'. add_nodes h i as m = Some m' \<and> ring m' h g (r' @ r) \<and> map snd r' = rev [Suc i..<Suc (i + length as)]
    \<and> map fst r' = rev (map Suc as)"
  using assms
proof (induction as arbitrary: i m r)
  case Nil
  then show ?case by auto
next
  case (Cons a as)
  have "spaced (insert (Suc a) (insert h (fst ` set r)))"
    using Cons.prems(2) by (rule spaced_subset) auto
  then obtain m1 m2 where step: "store (kmalloc_node a m) a (i + 1) = Some m1" "hlist_add_head (a + 1) h m1 = Some m2"
      "ring m2 h g ((a + 1, i + 1) # r)"
    using ring_add [OF Cons.prems(1)] Cons.prems(4) by (meson list.set_intros(1))
  have "\<exists>m' r'. add_nodes h (Suc i) as m2 = Some m' \<and> ring m' h g (r' @ (a + 1, i + 1) # r)
      \<and> map snd r' = rev [Suc (Suc i)..<Suc (Suc i + length as)] \<and> map fst r' = rev (map Suc as)"
    using Cons.prems(2-4) by (intro Cons.IH step(3)) (auto elim: spaced_subset)
  moreover have "rev [Suc i..<Suc (i + length (a # as))] = rev [Suc (Suc i)..<Suc (Suc i + length as)] @ [Suc i]"
    by (simp add: upt_conv_Cons del: upt_Suc)
  ultimately obtain m' r' where "add_nodes h (Suc i) as m2 = Some m'" "ring m' h g ((r' @ [(a + 1, i + 1)]) @ r)"
      "map snd (r' @ [(a + 1, i + 1)]) = rev [Suc i..<Suc (i + length (a # as))]"
      "map fst (r' @ [(a + 1, i + 1)]) = rev (map Suc (a # as))"
    by (auto simp del: upt_Suc)
  then show ?case using step by fastforce
qed

lemma ring_walk:
  assumes "ring m h g r" "m h = Some x"
  shows "hlist_walk (j * (length r + 1)) x m = Some (concat (replicate j (map snd r @ [g])), x) \<and> 0 < x"
proof -
  have cyc: "nodes m x r h" "0 < h" "m (h - 1) = Some g" using assms by (auto simp: ring_def)
  have app: "nodes m y r h \<Longrightarrow> nodes m y (r @ [(h, g)]) x" for y r
    using cyc(2,3) assms(2) by (induction r arbitrary: y) auto
  from walk_cycle [OF app [OF cyc(1)], of j] cyc show ?thesis by (cases r; simp)
qed

text \<open>What the initialisation leaves, given that \<open>kmalloc\<close> finds memory of its own for every node.\<close>

lemma hash_demo_init_ring:
  assumes "m (h - 1) = Some g" "m h \<noteq> None" "m (h + 1) \<noteq> None"
    and "spaced (insert h (Suc ` set as))" "distinct as" "\<forall>a\<in>set as. 0 < a \<and> Suc a \<noteq> h"
  shows "\<exists>m' r. hash_demo_init h as m = Some m' \<and> ring m' h g r \<and> map snd r = rev [1..<length as + 1] \<and> map fst r = rev (map Suc as)"
proof -
  have "0 < h" using assms(4) by (auto simp: spaced_def)
  then obtain m1 where 1: "INIT_LIST_HEAD h m = Some m1" "ring m1 h g []"
    using ring_init assms(1-3) by blast
  from add_nodes_ring [OF 1(2), of as 0] assms(4-6) show ?thesis by (auto simp: hash_demo_init_def 1 simp del: upt_Suc)
qed

text \<open>C18: \<open>INIT_LIST_HEAD\<close> lets the head of the hash list point to itself, so with any number of nodes, even none, the list is a cycle and
  the loop of the initialisation that prints it never ends: it prints the numbers from the last to the first, then the word
  that lies before the head, and starts again.\<close>

theorem hash_list_never_ends:
  assumes "m (h - 1) = Some g" "m h \<noteq> None" "m (h + 1) \<noteq> None"
    and "spaced (insert h (Suc ` set as))" "distinct as" "\<forall>a\<in>set as. 0 < a \<and> Suc a \<noteq> h"
  shows "\<exists>m' x. hash_demo_init h as m = Some m' \<and> m' h = Some x \<and>
    (\<forall>j. hlist_walk (j * (length as + 1)) x m' = Some (concat (replicate j (rev [1..<length as + 1] @ [g])), x) \<and> 0 < x)"
proof -
  obtain m' r where r: "hash_demo_init h as m = Some m'" "ring m' h g r" "map snd r = rev [1..<length as + 1]"
    using hash_demo_init_ring [OF assms] by blast
  obtain x where x: "m' h = Some x" using r(2) by (auto simp: ring_def)
  have "length r = length as" using arg_cong [OF r(3), of length] by (simp del: upt_Suc)
  with ring_walk [OF r(2) x] r x show ?thesis by (simp del: upt_Suc)
qed

theorem hash_list_never_ends_witness:
  "\<exists>m' x. hash_demo_init 10 [20, 30] [9 \<mapsto> 7, 10 \<mapsto> 0, 11 \<mapsto> 0] = Some m' \<and> m' 10 = Some x \<and>
    (\<forall>j. hlist_walk (j * 3) x m' = Some (concat (replicate j [2, 1, 7]), x) \<and> 0 < x)"
  using hash_list_never_ends [of "[9 \<mapsto> 7, 10 \<mapsto> 0, 11 \<mapsto> 0]" 10 7 "[20, 30]"] by (simp add: spaced_def upt_rec numeral_eq_Suc)

section \<open>The exit function\<close>

text \<open>The first node is taken off the list and freed, and the rest is still a ring.\<close>

lemma ring_del:
  assumes ring: "ring m h g ((p, v) # r)" and sp: "spaced (insert h (fst ` set ((p, v) # r)))"
    and live: "p - 1 \<in> set live"
  shows "\<exists>n m1 m2. m h = Some p \<and> m p = Some n \<and> hlist_del p m = Some m1 \<and> kfree_node (p - 1) m1 live = Some (m2, remove1 (p - 1) live)
    \<and> ring m2 h g r \<and> m2 h = Some n"
proof -
  let ?S = "insert h (fst ` set r)"
  have pos: "0 < p" "0 < h" using sp by (auto simp: spaced_def)
  have hp: "p \<notin> ?S" "h \<notin> fst ` set r" "distinct (map fst r)" using ring by (auto simp: ring_def)
  obtain n where n: "m h = Some p" "m p = Some n" "nodes m n r h" "m (h - 1) = Some g" "m (p + 1) = Some h"
    using ring by (auto simp: ring_def)
  have nS: "n \<in> ?S" using n(3) by (cases r) auto
  have sep: "a = b \<or> a + 3 \<le> b \<or> b + 3 \<le> a" if "a \<in> insert p ?S" "b \<in> insert p ?S" for a b
    using sp that by (auto simp: spaced_def)
  have apart: "a + 3 \<le> p \<or> p + 3 \<le> a" if "a \<in> ?S" for a
    using sep [of a p] that hp(1) by auto
  have mapped: "\<And>a. a \<in> ?S \<Longrightarrow> m (a + 1) \<noteq> None" using ring by (auto simp: ring_def)
  have n0: "0 < n" using sp nS by (auto simp: spaced_def)
  define m1 where "m1 = m(h \<mapsto> n, n + 1 \<mapsto> h, p \<mapsto> LIST_POISON1, p + 1 \<mapsto> LIST_POISON2)"
  define m2 where "m2 = m1(p - 1 := None, p := None, p + 1 := None)"
  have del: "hlist_del p m = Some m1"
    using n mapped [OF nS] n0 apart [OF nS] apart [of h] by (auto simp: hlist_del_def store_def m1_def)
  have free: "kfree_node (p - 1) m1 live = Some (m2, remove1 (p - 1) live)"
    using live pos(1) by (simp add: kfree_node_def m2_def)
  have keep: "m2 u = m u" if "a \<in> ?S" "u = a - 1 \<or> u = a" "u \<noteq> h" for a u
  proof -
    have "0 < a" "a = n \<or> a + 3 \<le> n \<or> n + 3 \<le> a" using that(1) nS sp sep [of a n] by (auto simp: spaced_def)
    then have "u \<noteq> n + 1 \<and> u \<noteq> p - 1 \<and> u \<noteq> p \<and> u \<noteq> p + 1"
      using apart [OF that(1)] that(2) pos(1) by linarith
    then show ?thesis using that(3) by (simp add: m2_def m1_def)
  qed
  have rest: "nodes m y q h \<Longrightarrow> set q \<subseteq> set r \<Longrightarrow> nodes m2 y q h" for y q
  proof (induction q arbitrary: y)
    case (Cons pv q)
    then have a: "fst pv \<in> ?S" "fst pv \<noteq> h" "y = fst pv" using hp(2) by force+
    have "fst pv - 1 \<noteq> h" using sep [of "fst pv" h] a(1,2) by auto
    with Cons a keep [OF a(1)] show ?case by auto
  qed simp
  have at: "m2 h = Some n" "m2 (n + 1) = Some h" "m2 (h - 1) = Some g"
  proof -
    have "h + 3 \<le> p \<or> p + 3 \<le> h" using apart by simp
    moreover have "h \<noteq> n + 1" using sep [of h n] nS by auto
    ultimately show "m2 h = Some n" "m2 (n + 1) = Some h"
      using apart [OF nS] by (auto simp: m2_def m1_def)
    show "m2 (h - 1) = Some g" using keep [of h "h - 1"] n(4) pos by simp
  qed
  have "m2 (a + 1) \<noteq> None" if "a \<in> ?S" for a
    using apart [OF that] mapped [OF that] by (auto simp: m2_def m1_def)
  then have "ring m2 h g r"
    using at n(3) rest pos hp(2,3) by (simp add: ring_def)
  with n del free at(1) show ?thesis by blast
qed

lemma exit_ring:
  assumes "ring m h g r" "spaced (insert h (fst ` set r))" "m h = Some x" "mset live = mset (map (\<lambda>pv. fst pv - 1) r)"
  shows "(\<exists>m'. exit_loop (length r) x i m live = Some ([i..<i + length r], h, m', [])) \<and> exit_loop (Suc (length r)) x i m live = None"
  using assms
proof (induction r arbitrary: m x live i)
  case Nil
  then have "x = h" "live = []" by (auto simp: ring_def)
  then show ?case using Nil by (auto simp: ring_def kfree_node_def split: Option.bind_splits)
next
  case (Cons pv r)
  obtain p v where pv: "pv = (p, v)" by (cases pv)
  have "p - 1 \<in># mset live" using Cons.prems(4) pv by simp
  then have live: "p - 1 \<in> set live" by simp
  obtain n m1 m2 where step: "m h = Some p" "m p = Some n" "hlist_del p m = Some m1"
      "kfree_node (p - 1) m1 live = Some (m2, remove1 (p - 1) live)" "ring m2 h g r" "m2 h = Some n"
    using ring_del [OF Cons.prems(1,2) [unfolded pv] live] by blast
  have "spaced (insert h (fst ` set r))" using Cons.prems(2) by (rule spaced_subset) auto
  moreover have "mset (remove1 (p - 1) live) = mset (map (\<lambda>pv. fst pv - 1) r)"
    using Cons.prems(4) pv by (simp add: mset_remove1)
  ultimately have IH: "\<exists>m'. exit_loop (length r) n (Suc i) m2 (remove1 (p - 1) live) = Some ([Suc i..<Suc i + length r], h, m', [])"
      "exit_loop (Suc (length r)) n (Suc i) m2 (remove1 (p - 1) live) = None"
    using Cons.IH [OF step(5) _ step(6)] by blast+
  have p: "x = p" "0 < p" using Cons.prems(2,3) step(1) pv by (auto simp: spaced_def)
  have "exit_loop (Suc k) x i m live = (case exit_loop k n (Suc i) m2 (remove1 (p - 1) live) of None \<Rightarrow> None
      | Some (ps, rest) \<Rightarrow> Some (i # ps, rest))" for k
    using p step by (auto split: option.split)
  then show ?case using IH by (auto simp: upt_conv_Cons simp del: upt_Suc exit_loop.simps)
qed

text \<open>were the exit function ever called, it would free the nodes, from the last to the first, and then go on with the head
  itself, which it takes for a node: it frees memory that was never allocated.\<close>

theorem hash_exit_frees_head:
  assumes "m (h - 1) = Some g" "m h \<noteq> None" "m (h + 1) \<noteq> None"
    and "spaced (insert h (Suc ` set as))" "distinct as" "\<forall>a\<in>set as. 0 < a \<and> Suc a \<noteq> h"
  shows "\<exists>m' m''. hash_demo_init h as m = Some m' \<and> hash_demo_eit (length as) h m' as = Some ([1..<length as + 1], h, m'', [])
    \<and> hash_demo_eit (length as + 1) h m' as = None"
proof -
  obtain m' r where r: "hash_demo_init h as m = Some m'" "ring m' h g r" "map fst r = rev (map Suc as)"
    using hash_demo_init_ring [OF assms] by blast
  obtain x where x: "m' h = Some x" using r(2) by (auto simp: ring_def)
  have len: "length r = length as" using arg_cong [OF r(3), of length] by simp
  have "map (\<lambda>pv. fst pv - 1) r = rev as"
    using arg_cong [OF r(3), of "map (\<lambda>p. p - 1)"] by (simp add: rev_map comp_def)
  moreover have "fst ` set r = Suc ` set as" using arg_cong [OF r(3), of set] by simp
  ultimately show ?thesis
    using exit_ring [OF r(2) _ x, of as 1] assms(4) r(1) x len by (auto simp: hash_demo_eit_def simp del: upt_Suc exit_loop.simps)
qed

theorem hash_exit_frees_head_witness:
  "\<exists>m'. hash_demo_init 10 [20, 30] [9 \<mapsto> 7, 10 \<mapsto> 0, 11 \<mapsto> 0] = Some m' \<and> hash_demo_eit 3 10 m' [20, 30] = None"
  using hash_exit_frees_head [of "[9 \<mapsto> 7, 10 \<mapsto> 0, 11 \<mapsto> 0]" 10 7 "[20, 30]"] by (auto simp: spaced_def numeral_eq_Suc)

end
