(* ===== verification/Klist_Demo.thy ===== *)
theory Klist_Demo
  imports Kernel_Log
begin

text \<open>
  The list of reference-counted nodes in \<open>Algorithem/list/klist/klist.c\<close>. The kernel's \<open>klist\<close> is not part of the repository: its
  functions are the fields of \<open>klist_lib\<close>, over states that hold a list and the iterator of the module, and
  \<open>klist_laws\<close> states what is documented of them. The module gives it two functions that only print, so here they are lines.
\<close>

definition ENOMEM :: int where "ENOMEM = 12"

definition SPIN_LOCK_SAMPLE :: int where "SPIN_LOCK_SAMPLE = 0x00"

section \<open>Nodes and lists\<close>

datatype vir_node = node0 | node1 | node2 | node3 | node4 | node5

fun node_name :: "vir_node \<Rightarrow> string" where
  "node_name node0 = ''vir_node0''"
| "node_name node1 = ''vir_node1''"
| "node_name node2 = ''vir_node2''"
| "node_name node3 = ''vir_node3''"
| "node_name node4 = ''vir_node4''"
| "node_name node5 = ''vir_node5''"

definition demo_klist_get :: line where "demo_klist_get = (''Demo klist get. '', [])"
definition demo_klist_put :: line where "demo_klist_put = (''Demo klist put. '', [])"

section \<open>The kernel\<close>

text \<open>\<open>k_list\<close> is what the macro \<open>list_for_each_entry\<close> visits. \<open>klist_remove\<close> waits until the node has no reference left:
  \<open>None\<close> is a wait without end.\<close>

record 'k klist_lib =
  klist_init :: "line \<Rightarrow> line \<Rightarrow> 'k"
  klist_add_head :: "vir_node \<Rightarrow> 'k \<Rightarrow> line list \<times> 'k"
  klist_add_tail :: "vir_node \<Rightarrow> 'k \<Rightarrow> line list \<times> 'k"
  k_list :: "'k \<Rightarrow> vir_node list"
  klist_iter_init_node :: "vir_node \<Rightarrow> 'k \<Rightarrow> 'k"
  klist_next :: "'k \<Rightarrow> vir_node option \<times> line list \<times> 'k"
  klist_iter_exit :: "'k \<Rightarrow> line list \<times> 'k"
  klist_remove :: "vir_node \<Rightarrow> 'k \<Rightarrow> (line list \<times> 'k) option"

section \<open>The module\<close>

text \<open>The loop over \<open>klist_next\<close>; \<open>None\<close> when it needs more than \<open>fuel\<close> calls.\<close>

fun next_loop :: "'k klist_lib \<Rightarrow> nat \<Rightarrow> 'k \<Rightarrow> (line list \<times> 'k) option" where
  "next_loop L 0 k = None"
| "next_loop L (Suc fuel) k = (case klist_next L k of
     (None, ls, k') \<Rightarrow> Some (ls, k')
   | (Some n, ls, k') \<Rightarrow> (case next_loop L fuel k' of None \<Rightarrow> None
       | Some (ls', k'') \<Rightarrow> Some (ls @ (''Next klist_node is: %s'', [Str (node_name n)]) # ls', k'')))"

fun add_tails :: "'k klist_lib \<Rightarrow> vir_node list \<Rightarrow> line list \<times> 'k \<Rightarrow> line list \<times> 'k" where
  "add_tails L [] (ls, k) = (ls, k)"
| "add_tails L (n # ns) (ls, k) = (let (l, k') = klist_add_tail L n k in add_tails L ns (ls @ l, k'))"

fun removes :: "'k klist_lib \<Rightarrow> vir_node list \<Rightarrow> line list \<times> 'k \<Rightarrow> (line list \<times> 'k) option" where
  "removes L [] (ls, k) = Some (ls, k)"
| "removes L (n # ns) (ls, k) = (case klist_remove L n k of None \<Rightarrow> None | Some (l, k') \<Rightarrow> removes L ns (ls @ l, k'))"

text \<open>The result, what is printed, and the list that stays allocated; \<open>None\<close> when it does not return.\<close>

definition klist_demo_init :: "'k klist_lib \<Rightarrow> nat \<Rightarrow> bool \<Rightarrow> int \<Rightarrow> (int \<times> line list \<times> 'k option) option" where
  "klist_demo_init L fuel alloc cmd =
     (if cmd = SPIN_LOCK_SAMPLE then
        (if \<not> alloc then Some (- ENOMEM, [], None)
         else let (l1, k1) = add_tails L [node1, node2, node3, node4, node5]
                    (klist_add_head L node0 (klist_init L demo_klist_get demo_klist_put));
                  names = map (\<lambda>n. (''%s'', [Str (node_name n)])) (k_list L k1) in
           case next_loop L fuel (klist_iter_init_node L node0 k1) of None \<Rightarrow> None
           | Some (l2, k2) \<Rightarrow> (let (l3, k3) = klist_iter_exit L k2 in
             case removes L [node0, node1, node2, node3, node4, node5] ([], k3) of None \<Rightarrow> None
             | Some (l4, k4) \<Rightarrow> Some (0, l1 @ (''Traverse klist:'', []) # names @ l2 @ l3 @ l4 @ [(''list test done'', [])], Some k4)))
      else Some (0, [(''klist: do nothing'', [])], None))"

definition klist_demo_exit :: "line list" where
  "klist_demo_exit = [(''module removed!'', [])]"

section \<open>Laws of the kernel\<close>

text \<open>\<open>valid\<close> states are those of a list made with the two functions of the module, without a node twice; \<open>it\<close> is
  where its iterator stands. Adding a node calls the first function, removing one that no iterator holds the second; an
  iterator goes to the node behind the one it stands on, and calls nothing while the list holds its nodes.\<close>

fun node_after :: "vir_node \<Rightarrow> vir_node list \<Rightarrow> vir_node option" where
  "node_after n [] = None"
| "node_after n (a # as) = (if a = n then (case as of [] \<Rightarrow> None | b # _ \<Rightarrow> Some b) else node_after n as)"

definition klist_laws :: "'k klist_lib \<Rightarrow> ('k \<Rightarrow> bool) \<Rightarrow> ('k \<Rightarrow> vir_node option) \<Rightarrow> bool" where
  "klist_laws L valid it \<longleftrightarrow>
     (let k0 = klist_init L demo_klist_get demo_klist_put in valid k0 \<and> k_list L k0 = [] \<and> it k0 = None)
     \<and> (\<forall>k n. valid k \<and> n \<notin> set (k_list L k) \<longrightarrow>
          (\<exists>k'. klist_add_head L n k = ([demo_klist_get], k') \<and> valid k' \<and> k_list L k' = n # k_list L k \<and> it k' = it k)
        \<and> (\<exists>k'. klist_add_tail L n k = ([demo_klist_get], k') \<and> valid k' \<and> k_list L k' = k_list L k @ [n] \<and> it k' = it k))
     \<and> (\<forall>k n. valid k \<and> it k = None \<and> n \<in> set (k_list L k) \<longrightarrow>
          (let k' = klist_iter_init_node L n k in valid k' \<and> k_list L k' = k_list L k \<and> it k' = Some n)
        \<and> (\<exists>k'. klist_remove L n k = Some ([demo_klist_put], k') \<and> valid k' \<and> k_list L k' = remove1 n (k_list L k) \<and> it k' = None))
     \<and> (\<forall>k n. valid k \<and> it k = Some n \<longrightarrow>
          (\<exists>k'. klist_next L k = (node_after n (k_list L k), [], k') \<and> valid k' \<and> k_list L k' = k_list L k
             \<and> it k' = node_after n (k_list L k)))
     \<and> (\<forall>k. valid k \<and> it k = None \<longrightarrow> klist_iter_exit L k = ([], k))"

lemma klist_laws_add:
  assumes "klist_laws L valid it" "valid k" "n \<notin> set (k_list L k)"
  shows "\<exists>k'. klist_add_head L n k = ([demo_klist_get], k') \<and> valid k' \<and> k_list L k' = n # k_list L k \<and> it k' = it k"
    and "\<exists>k'. klist_add_tail L n k = ([demo_klist_get], k') \<and> valid k' \<and> k_list L k' = k_list L k @ [n] \<and> it k' = it k"
  using assms unfolding klist_laws_def by blast+

lemma klist_laws_node:
  assumes "klist_laws L valid it" "valid k" "it k = None" "n \<in> set (k_list L k)"
  shows "valid (klist_iter_init_node L n k) \<and> k_list L (klist_iter_init_node L n k) = k_list L k \<and> it (klist_iter_init_node L n k) = Some n"
    and "\<exists>k'. klist_remove L n k = Some ([demo_klist_put], k') \<and> valid k' \<and> k_list L k' = remove1 n (k_list L k) \<and> it k' = None"
  using assms unfolding klist_laws_def Let_def by blast+

lemma klist_laws_next:
  assumes "klist_laws L valid it" "valid k" "it k = Some n"
  shows "\<exists>k'. klist_next L k = (node_after n (k_list L k), [], k') \<and> valid k' \<and> k_list L k' = k_list L k \<and> it k' = node_after n (k_list L k)"
  using assms unfolding klist_laws_def by blast

section \<open>The program\<close>

lemma node_after_app: "n \<notin> set xs \<Longrightarrow> node_after n (xs @ n # ys) = (case ys of [] \<Rightarrow> None | b # _ \<Rightarrow> Some b)"
  by (induction xs) auto

text \<open>The loop prints the nodes behind the one it starts from, in order.\<close>

lemma next_loop_prints:
  assumes "klist_laws L valid it" "valid k" "it k = Some n" "k_list L k = xs @ n # ys" "distinct (xs @ n # ys)" "length ys < fuel"
  shows "\<exists>k'. next_loop L fuel k = Some (map (\<lambda>n. (''Next klist_node is: %s'', [Str (node_name n)])) ys, k')
    \<and> valid k' \<and> k_list L k' = k_list L k \<and> it k' = None"
  using assms(2-)
proof (induction ys arbitrary: xs n k fuel)
  case Nil
  then obtain f where "fuel = Suc f" by (cases fuel) auto
  then show ?case using klist_laws_next [OF assms(1) Nil.prems(1,2)] Nil.prems by (auto simp: node_after_app)
next
  case (Cons y ys)
  then obtain f where f: "fuel = Suc f" by (cases fuel) auto
  obtain k1 where k1: "klist_next L k = (Some y, [], k1)" "valid k1" "k_list L k1 = (xs @ [n]) @ y # ys" "it k1 = Some y"
    using klist_laws_next [OF assms(1) Cons.prems(1,2)] Cons.prems by (auto simp: node_after_app)
  show ?case using Cons.IH [OF k1(2,4,3), of f] Cons.prems f k1(1,3) by auto
qed

lemma add_tails_appends:
  assumes "klist_laws L valid it" "valid k" "distinct (k_list L k @ ns)"
  shows "\<exists>k'. add_tails L ns (ls, k) = (ls @ replicate (length ns) demo_klist_get, k') \<and> valid k' \<and> k_list L k' = k_list L k @ ns \<and> it k' = it k"
  using assms(2-)
proof (induction ns arbitrary: ls k)
  case (Cons n ns)
  obtain k1 where k1: "klist_add_tail L n k = ([demo_klist_get], k1)" "valid k1" "k_list L k1 = k_list L k @ [n]" "it k1 = it k"
    using klist_laws_add(2) [OF assms(1) Cons.prems(1), of n] Cons.prems by auto
  show ?case using Cons.IH [OF k1(2), of "ls @ [demo_klist_get]"] Cons.prems k1 by auto
qed simp

lemma removes_empties:
  assumes "klist_laws L valid it" "valid k" "it k = None" "k_list L k = ns"
  shows "\<exists>k'. removes L ns (ls, k) = Some (ls @ replicate (length ns) demo_klist_put, k') \<and> k_list L k' = []"
  using assms(2-)
proof (induction ns arbitrary: ls k)
  case (Cons n ns)
  obtain k1 where k1: "klist_remove L n k = Some ([demo_klist_put], k1)" "valid k1" "k_list L k1 = ns" "it k1 = None"
    using klist_laws_node(2) [OF assms(1) Cons.prems(1,2), of n] Cons.prems by auto
  show ?case using Cons.IH [OF k1(2,4,3), of "ls @ [demo_klist_put]"] k1 by auto
qed simp

text \<open>when the list can be allocated the command prints the six nodes in order, then the five behind \<open>node0\<close>; it ends after six calls of
  \<open>klist_next\<close>, for every node there is one \<open>get\<close> and one \<open>put\<close>, and the list that it leaves allocated is empty.\<close>

theorem klist_demo_prints:
  assumes "klist_laws L valid it" "6 \<le> fuel"
  shows "\<exists>k. klist_demo_init L fuel True SPIN_LOCK_SAMPLE =
    Some (0, replicate 6 demo_klist_get @ (''Traverse klist:'', [])
        # map (\<lambda>n. (''%s'', [Str (node_name n)])) [node0, node1, node2, node3, node4, node5]
        @ map (\<lambda>n. (''Next klist_node is: %s'', [Str (node_name n)])) [node1, node2, node3, node4, node5]
        @ replicate 6 demo_klist_put @ [(''list test done'', [])], Some k) \<and> k_list L k = []"
proof -
  let ?k = "klist_init L demo_klist_get demo_klist_put"
  let ?ns = "[node1, node2, node3, node4, node5]"
  have "valid ?k" "k_list L ?k = []" "it ?k = None"
    using assms(1) by (simp_all add: klist_laws_def Let_def)
  then obtain k0 where k0: "klist_add_head L node0 ?k = ([demo_klist_get], k0)" "valid k0" "k_list L k0 = [node0]" "it k0 = None"
    using klist_laws_add(1) [OF assms(1), of ?k node0] by auto
  obtain k1 where k1: "add_tails L ?ns ([demo_klist_get], k0) = ([demo_klist_get] @ replicate 5 demo_klist_get, k1)" "valid k1"
      "k_list L k1 = node0 # ?ns" "it k1 = None"
    using add_tails_appends [OF assms(1) k0(2), of ?ns "[demo_klist_get]"] k0 by (auto simp: numeral_eq_Suc simp del: add_tails.simps)
  let ?k1 = "klist_iter_init_node L node0 k1"
  have k2: "valid ?k1" "k_list L ?k1 = node0 # ?ns" "it ?k1 = Some node0"
    using klist_laws_node(1) [OF assms(1) k1(2,4), of node0] k1(3) by simp_all
  obtain k3 where k3: "next_loop L fuel ?k1 = Some (map (\<lambda>n. (''Next klist_node is: %s'', [Str (node_name n)])) ?ns, k3)"
      "valid k3" "k_list L k3 = node0 # ?ns" "it k3 = None"
    using next_loop_prints [OF assms(1) k2(1,3), of "[]" ?ns fuel] k2(2) assms(2) by auto
  have ex: "klist_iter_exit L k3 = ([], k3)"
    using assms(1) k3 by (simp add: klist_laws_def)
  obtain k4 where "removes L (node0 # ?ns) ([], k3) = Some (replicate 6 demo_klist_put, k4)" "k_list L k4 = []"
    using removes_empties [OF assms(1) k3(2,4,3), of "[]"] by (auto simp: numeral_eq_Suc simp del: removes.simps)
  then show ?thesis
    by (simp add: klist_demo_init_def k0(1) k1(1,3) k3(1) ex numeral_eq_Suc del: removes.simps add_tails.simps next_loop.simps)
qed

section \<open>A list that keeps to the laws\<close>

definition plain_klist :: "(vir_node list \<times> vir_node option) klist_lib" where
  "plain_klist = \<lparr>klist_init = \<lambda>get put. ([], None), klist_add_head = \<lambda>n (ns, i). ([demo_klist_get], (n # ns, i)),
     klist_add_tail = \<lambda>n (ns, i). ([demo_klist_get], (ns @ [n], i)), k_list = fst,
     klist_iter_init_node = \<lambda>n (ns, i). (ns, Some n),
     klist_next = \<lambda>(ns, i). (let j = Option.bind i (\<lambda>n. node_after n ns) in (j, [], (ns, j))),
     klist_iter_exit = \<lambda>(ns, i). ([], (ns, None)),
     klist_remove = \<lambda>n (ns, i). if n \<in> set ns then Some ([demo_klist_put], (remove1 n ns, i)) else None\<rparr>"

lemma plain_klist_laws: "klist_laws plain_klist (\<lambda>_. True) snd"
  by (auto simp: klist_laws_def plain_klist_def Let_def)

theorem klist_demo_prints_witness:
  "\<exists>ls k. klist_demo_init plain_klist 6 True SPIN_LOCK_SAMPLE = Some (0, ls, Some k) \<and> k_list plain_klist k = []"
  using klist_demo_prints [OF plain_klist_laws, of 6] by auto

end
