(* ===== verification/Bitmap_Demo.thy ===== *)
theory Bitmap_Demo
  imports Kernel_Log
begin

unbundle bit_operations_syntax

text \<open>
  The commands of \<open>Algorithem/bitmap/bitmap.c\<close>, for an \<open>unsigned long\<close> of 64 bits. The bitmap functions of the kernel are not part of
  the repository: they are the fields of \<open>bitmap_lib\<close>, and \<open>bitmap_laws\<close> states what is documented of them, which is the first
  \<open>nbits\<close> bits of a result only. What a variable holds that is not initialised is a parameter.
\<close>

type_synonym ulong = "64 word"

section \<open>The bitmap library\<close>

record bitmap_lib =
  bitmap_and :: "ulong \<Rightarrow> ulong \<Rightarrow> nat \<Rightarrow> ulong"
  bitmap_or :: "ulong \<Rightarrow> ulong \<Rightarrow> nat \<Rightarrow> ulong"
  bitmap_xor :: "ulong \<Rightarrow> ulong \<Rightarrow> nat \<Rightarrow> ulong"
  bitmap_complement :: "ulong \<Rightarrow> nat \<Rightarrow> ulong"
  bitmap_andnot :: "ulong \<Rightarrow> ulong \<Rightarrow> nat \<Rightarrow> ulong"
  bitmap_set :: "ulong \<Rightarrow> nat \<Rightarrow> nat \<Rightarrow> ulong"
  bitmap_clear :: "ulong \<Rightarrow> nat \<Rightarrow> nat \<Rightarrow> ulong"
  bitmap_fill :: "ulong \<Rightarrow> nat \<Rightarrow> ulong"
  bitmap_from_arr32 :: "ulong list \<Rightarrow> 32 word list \<Rightarrow> nat \<Rightarrow> ulong list"
  bitmap_to_arr32 :: "32 word list \<Rightarrow> ulong list \<Rightarrow> nat \<Rightarrow> 32 word list"
  bitmap_from_u64 :: "ulong list \<Rightarrow> 64 word \<Rightarrow> ulong list"
  bitmap_shift_left :: "ulong \<Rightarrow> nat \<Rightarrow> nat \<Rightarrow> ulong"
  bitmap_shift_right :: "ulong \<Rightarrow> nat \<Rightarrow> nat \<Rightarrow> ulong"
  bitmap_find_next_zero_area_off :: "ulong \<Rightarrow> nat \<Rightarrow> nat \<Rightarrow> nat \<Rightarrow> nat \<Rightarrow> nat \<Rightarrow> nat"
  find_first_bit :: "ulong \<Rightarrow> nat \<Rightarrow> nat"
  find_first_zero_bit :: "ulong \<Rightarrow> nat \<Rightarrow> nat"
  find_next_bit :: "ulong \<Rightarrow> nat \<Rightarrow> nat \<Rightarrow> nat"
  find_next_zero_bit :: "ulong \<Rightarrow> nat \<Rightarrow> nat \<Rightarrow> nat"
  find_last_bit :: "ulong \<Rightarrow> nat \<Rightarrow> nat"
  BITMAP_FIRST_WORD_MASK :: "nat \<Rightarrow> ulong"
  BITMAP_LAST_WORD_MASK :: "nat \<Rightarrow> ulong"
  bitmap_copy :: "ulong \<Rightarrow> ulong \<Rightarrow> nat \<Rightarrow> ulong"
  bitmap_empty :: "ulong \<Rightarrow> nat \<Rightarrow> bool"
  bitmap_equal :: "ulong \<Rightarrow> ulong \<Rightarrow> nat \<Rightarrow> bool"
  bitmap_weight :: "ulong \<Rightarrow> nat \<Rightarrow> nat"

text \<open>The first position from \<open>i\<close> on with the property, or \<open>n\<close>.\<close>

definition first_from :: "(nat \<Rightarrow> bool) \<Rightarrow> nat \<Rightarrow> nat \<Rightarrow> nat" where
  "first_from P i n = (case find P [i..<n] of None \<Rightarrow> n | Some j \<Rightarrow> j)"

text \<open>An area of \<open>k\<close> zero bits at \<open>j\<close>, aligned as the mask 1 asks for, within the first \<open>n\<close> bits.\<close>

definition zero_area :: "ulong \<Rightarrow> nat \<Rightarrow> nat \<Rightarrow> nat \<Rightarrow> bool" where
  "zero_area a k n j \<longleftrightarrow> even j \<and> (\<forall>m<k. \<not> bit a (j + m)) \<and> j + k \<le> n"

text \<open>The search for an area gives the first one; where there is none, the end of an area that would reach beyond the size, so that all
  that is known of the result is that it is above it.\<close>

definition area_law :: "bitmap_lib \<Rightarrow> bool" where
  "area_law L \<longleftrightarrow> (\<forall>a i k. \<forall>n\<le>64. 0 < n \<and> 0 < k \<longrightarrow>
     (if first_from (zero_area a k n) i n < n then bitmap_find_next_zero_area_off L a n i k 1 0 = first_from (zero_area a k n) i n
      else n < bitmap_find_next_zero_area_off L a n i k 1 0))"

definition set_law :: "bitmap_lib \<Rightarrow> bool" where
  "set_law L \<longleftrightarrow> (\<forall>a i k. i + k \<le> 64 \<longrightarrow>
     bitmap_set L a i k = a OR push_bit i (mask k) \<and> bitmap_clear L a i k = a AND NOT (push_bit i (mask k)))"

definition shift_law :: "bitmap_lib \<Rightarrow> bool" where
  "shift_law L \<longleftrightarrow> (\<forall>a k. \<forall>n\<le>64. k < n \<longrightarrow>
     take_bit n (bitmap_shift_left L a k n) = take_bit n (push_bit k a) \<and> take_bit n (bitmap_shift_right L a k n) = drop_bit k (take_bit n a))"

definition bitmap_laws :: "bitmap_lib \<Rightarrow> bool" where
  "bitmap_laws L \<longleftrightarrow>
     (\<forall>a b. \<forall>n\<le>64. 0 < n \<longrightarrow> take_bit n (bitmap_and L a b n) = take_bit n (a AND b)
        \<and> take_bit n (bitmap_or L a b n) = take_bit n (a OR b)
        \<and> take_bit n (bitmap_xor L a b n) = take_bit n (a XOR b)
        \<and> take_bit n (bitmap_complement L a n) = take_bit n (NOT a)
        \<and> take_bit n (bitmap_andnot L a b n) = take_bit n (a AND NOT b)
        \<and> take_bit n (bitmap_fill L a n) = take_bit n (- 1)
        \<and> take_bit n (bitmap_copy L b a n) = take_bit n a
        \<and> (bitmap_empty L a n \<longleftrightarrow> take_bit n a = 0)
        \<and> (bitmap_equal L a b n \<longleftrightarrow> take_bit n a = take_bit n b)
        \<and> bitmap_weight L a n = length (filter (bit a) [0..<n])
        \<and> find_first_bit L a n = first_from (bit a) 0 n
        \<and> find_first_zero_bit L a n = first_from (\<lambda>i. \<not> bit a i) 0 n
        \<and> find_last_bit L a n = (case find (bit a) (rev [0..<n]) of None \<Rightarrow> n | Some j \<Rightarrow> j))
     \<and> set_law L \<and> shift_law L \<and> area_law L
     \<and> (\<forall>a i. \<forall>n\<le>64. 0 < n \<longrightarrow>
          find_next_bit L a n i = first_from (bit a) i n \<and> find_next_zero_bit L a n i = first_from (\<lambda>j. \<not> bit a j) i n)
     \<and> (\<forall>w ws a a0 a1 rest. bitmap_from_arr32 L (w # ws) (a0 # a1 # rest) 64 = (push_bit 32 (ucast a1) OR ucast a0) # ws
        \<and> bitmap_to_arr32 L (a0 # a1 # rest) (w # ws) 64 = ucast w # ucast (drop_bit 32 w) # rest
        \<and> bitmap_from_u64 L (w # ws) a = a # ws)"

lemma bitmap_laws_more:
  assumes "bitmap_laws L"
  shows "i + k \<le> 64 \<Longrightarrow> bitmap_set L a i k = a OR push_bit i (mask k)"
    and "i + k \<le> 64 \<Longrightarrow> bitmap_clear L a i k = a AND NOT (push_bit i (mask k))"
    and "k < n \<Longrightarrow> n \<le> 64 \<Longrightarrow> take_bit n (bitmap_shift_left L a k n) = take_bit n (push_bit k a)"
    and "k < n \<Longrightarrow> n \<le> 64 \<Longrightarrow> take_bit n (bitmap_shift_right L a k n) = drop_bit k (take_bit n a)"
    and "area_law L"
proof -
  from assms have l: "set_law L" "shift_law L" "area_law L"
    by (simp_all only: bitmap_laws_def)
  show "i + k \<le> 64 \<Longrightarrow> bitmap_set L a i k = a OR push_bit i (mask k)"
    "i + k \<le> 64 \<Longrightarrow> bitmap_clear L a i k = a AND NOT (push_bit i (mask k))"
    using l(1) by (simp_all only: set_law_def)
  show "k < n \<Longrightarrow> n \<le> 64 \<Longrightarrow> take_bit n (bitmap_shift_left L a k n) = take_bit n (push_bit k a)"
    "k < n \<Longrightarrow> n \<le> 64 \<Longrightarrow> take_bit n (bitmap_shift_right L a k n) = drop_bit k (take_bit n a)"
    using l(2) by (simp_all only: shift_law_def)
  show "area_law L" by (rule l(3))
qed

section \<open>The commands\<close>

definition hex :: "ulong \<Rightarrow> arg" where "hex w = Num (uint w)"

definition bitmap1_0 :: ulong where "bitmap1_0 = 0xffff1234"
definition bitmap2_0 :: ulong where "bitmap2_0 = 0x00ffffff"

definition logic_cmd :: "bitmap_lib \<Rightarrow> stmt" where
  "logic_cmd L = (let bitmap1 = bitmap1_0; bitmap2 = bitmap2_0 in seq [
     printk ''logic and dst: %#lx'' [hex (bitmap_and L bitmap1 bitmap2 32)],
     printk ''logic or dst: %#lx'' [hex (bitmap_or L bitmap1 bitmap2 32)],
     printk ''logic xor dst: %#lx'' [hex (bitmap_xor L bitmap1 bitmap2 32)],
     printk ''logic complement dst: %#lx'' [hex (bitmap_complement L bitmap1 32)],
     printk ''logic andnot dst: %#lx'' [hex (bitmap_andnot L bitmap1 bitmap2 32)]])"

definition set_clear_cmd :: "bitmap_lib \<Rightarrow> stmt" where
  "set_clear_cmd L = (let bitmap1 = bitmap_set L bitmap1_0 1 4; bitmap2 = bitmap_clear L bitmap2_0 1 1;
       filled = bitmap_fill L bitmap2 32 in seq [
     printk ''bitmap set: %#lx'' [hex bitmap1],
     printk ''bitmap clear: %#lx'' [hex bitmap2],
     printk ''bitmap fill: %#lx'' [hex filled]])"

definition translate_cmd :: "bitmap_lib \<Rightarrow> ulong list \<Rightarrow> stmt" where
  "translate_cmd L junk =
     (let array = [0x12345678, 0x78563412, 0xaabbccdd, 0xddccbbaa];
          bitmap = bitmap_from_arr32 L junk array 64;
          array' = bitmap_to_arr32 L (array[0 := 0, 1 := 0]) bitmap 64;
          m = 0x123456789abcdef;
          bitmap' = bitmap_from_u64 L bitmap m in seq [
     printk ''bitmap cover 32 to bitmap: %#lx------%#lx'' [hex (bitmap ! 0), hex (bitmap ! 1)],
     printk ''bitmap cover bitmap to u32: %#x-%#x'' [Num (uint (array' ! 1)), Num (uint (array' ! 0))],
     printk ''%#llx cover to [0]%#lx [1]%#lx'' [hex m, hex (bitmap' ! 0), hex (bitmap' ! 1)]])"

definition shift_cmd :: "bitmap_lib \<Rightarrow> stmt" where
  "shift_cmd L = (let bitmap_shift = 0xf000fff in seq [
     printk ''%#lx shift left 4: %#lx'' [hex bitmap_shift, hex (bitmap_shift_left L bitmap_shift 4 32)],
     printk ''%#lx shift left 4: %#lx'' [hex bitmap_shift, hex (bitmap_shift_right L bitmap_shift 4 32)]])"

definition found_cmd :: "bitmap_lib \<Rightarrow> stmt" where
  "found_cmd L = (let bitmap1 = 0xfff00fd in seq [
     printk ''find %#lx first zero area postion is : %d'' [hex bitmap1, Num (int (bitmap_find_next_zero_area_off L bitmap1 32 0 4 1 0))],
     printk ''find %#lx first set bit position is : %d'' [hex bitmap1, Num (int (find_first_bit L bitmap1 32))],
     printk ''find %#lx first zero bit position is : %d'' [hex bitmap1, Num (int (find_first_zero_bit L bitmap1 64))],
     printk ''find %#lx first zero bit position is : %d'' [hex bitmap1, Num (int (find_last_bit L bitmap1 64))]])"

definition mask_cmd :: "bitmap_lib \<Rightarrow> stmt" where
  "mask_cmd L = seq [
     for_each [0..<32] (\<lambda>i. printk ''bitmap(%d):      %#lx'' [Num (int i), hex (BITMAP_FIRST_WORD_MASK L i)]),
     for_each [0..<32] (\<lambda>i. printk ''bitmap(%d):      %#lx'' [Num (int i), hex (BITMAP_LAST_WORD_MASK L i)])]"

text \<open>\<open>for_each_set_bit\<close> and \<open>for_each_clear_bit\<close>: \<open>nxt\<close> gives the next position from one on; the positions of at most
  \<open>fuel\<close> rounds, \<open>None\<close> if there are more.\<close>

fun each_bit :: "nat \<Rightarrow> (nat \<Rightarrow> nat) \<Rightarrow> nat \<Rightarrow> nat \<Rightarrow> nat list option" where
  "each_bit 0 nxt sz pos = None"
| "each_bit (Suc fuel) nxt sz pos = (if pos < sz then map_option ((#) pos) (each_bit fuel nxt sz (nxt (pos + 1))) else Some [])"

text \<open>The first message shows the address of the bitmap. \<open>junk\<close> is the bitmap that is never initialised.\<close>

definition traverse_cmd :: "nat \<Rightarrow> bitmap_lib \<Rightarrow> int \<Rightarrow> ulong \<Rightarrow> stmt option" where
  "traverse_cmd fuel L address junk = (let bitmap = bitmap_set L junk 4 8 in do {
     set_pos \<leftarrow> each_bit fuel (find_next_bit L bitmap 24) 24 (find_first_bit L bitmap 24);
     clear_pos \<leftarrow> each_bit fuel (find_next_zero_bit L bitmap 24) 24 (find_first_zero_bit L bitmap 24);
     Some (seq [for_each set_pos (\<lambda>pos. printk ''%#lx set POS: %ld'' [Num address, Num (int pos)]),
                for_each clear_pos (\<lambda>pos. printk ''clear POS: %ld'' [Num (int pos)])]) })"

definition judgment_cmd :: "bitmap_lib \<Rightarrow> ulong \<Rightarrow> stmt" where
  "judgment_cmd L junk =
     (let bitmap1 = 0x021345721; bitmap2 = bitmap_copy L junk bitmap1 32; bitmap2' = bitmap_copy L bitmap2 bitmap1 16;
          b1 = 0xf2f0; b2 = 0x2450 in seq [
     printk ''%#lx copy bitmap: %#lx'' [hex bitmap1, hex bitmap2],
     printk ''%#lx copy bitmap: %#lx'' [hex bitmap1, hex bitmap2'],
     only_if (bitmap_empty L b1 8) (printk ''Bitmap: %#lx[0:8] is empty'' [hex b1]),
     only_if (\<not> bitmap_empty L b1 9) (printk ''Bitmap: %#lx[0:9] is not empty'' [hex b1]),
     only_if (bitmap_equal L b1 b2 4) (printk ''%#lx equal %#lx through 0 to 3.'' [hex b1, hex b2]),
     printk ''the weight of %#lx is %d'' [hex b2, Num (int (bitmap_weight L b2 32))]])"

definition BITMAP_LOGIC :: int where "BITMAP_LOGIC = 0"
definition BITMAP_SET_CLEAR :: int where "BITMAP_SET_CLEAR = 1"
definition BITMAP_TRANSLATE :: int where "BITMAP_TRANSLATE = 2"
definition BITMAP_SHIFT :: int where "BITMAP_SHIFT = 3"
definition BITMAP_FOUND :: int where "BITMAP_FOUND = 4"
definition BITMAP_MASK :: int where "BITMAP_MASK = 5"
definition BITMAP_TRAVERSE :: int where "BITMAP_TRAVERSE = 6"
definition BITMAP_JUDGMENT :: int where "BITMAP_JUDGMENT = 7"

definition bitmap_demo_init :: "nat \<Rightarrow> bitmap_lib \<Rightarrow> int \<Rightarrow> ulong list \<Rightarrow> int \<Rightarrow> stmt option" where
  "bitmap_demo_init fuel L address junk cmd =
     (if cmd = BITMAP_LOGIC then Some (logic_cmd L)
      else if cmd = BITMAP_SET_CLEAR then Some (set_clear_cmd L)
      else if cmd = BITMAP_TRANSLATE then Some (translate_cmd L junk)
      else if cmd = BITMAP_SHIFT then Some (shift_cmd L)
      else if cmd = BITMAP_FOUND then Some (found_cmd L)
      else if cmd = BITMAP_MASK then Some (mask_cmd L)
      else if cmd = BITMAP_TRAVERSE then traverse_cmd fuel L address (junk ! 0)
      else if cmd = BITMAP_JUDGMENT then Some (judgment_cmd L (junk ! 0))
      else Some (printk ''Atomic: do nothing'' []))"

section \<open>Going through the bits\<close>

lemma first_from_step: "i < n \<Longrightarrow> first_from P i n = (if P i then i else first_from P (Suc i) n)"
  by (simp add: first_from_def upt_conv_Cons)

lemma first_from_end [simp]: "n \<le> i \<Longrightarrow> first_from P i n = n"
  by (simp add: first_from_def)

text \<open>The loop over the bits of a bitmap ends and visits exactly the positions with the property, in ascending order.\<close>

lemma each_bit_visits:
  assumes "i \<le> n" "n < fuel + i" and nxt: "\<And>j. nxt j = first_from P j n"
  shows "each_bit fuel nxt n (first_from P i n) = Some (filter P [i..<n])"
  using assms(1,2)
proof (induction "n - i" arbitrary: i fuel rule: less_induct)
  case less
  then obtain f where f: "fuel = Suc f" by (cases fuel) auto
  show ?case
  proof (cases "i < n")
    case False
    with less f show ?thesis by simp
  next
    case True
    then have step: "filter P [i..<n] = (if P i then [i] else []) @ filter P [Suc i..<n]"
      by (simp add: upt_conv_Cons)
    show ?thesis
    proof (cases "P i")
      case True
      with \<open>i < n\<close> less f show ?thesis by (simp add: first_from_step [of i] nxt step)
    next
      case False
      moreover have "each_bit fuel nxt n (first_from P (Suc i) n) = Some (filter P [Suc i..<n])"
        using \<open>i < n\<close> less.prems by (intro less.hyps) auto
      ultimately show ?thesis using \<open>i < n\<close> by (simp add: first_from_step [of i] step)
    qed
  qed
qed

section \<open>What is printed\<close>

lemmas law = bitmap_laws_def [THEN iffD1, rule_format]

text \<open>The lines with only the low 32 bits of their numbers.\<close>

definition low32 :: "line \<Rightarrow> line" where
  "low32 l = (fst l, map (\<lambda>a. case a of Num k \<Rightarrow> Num (take_bit 32 k) | b \<Rightarrow> b) (snd l))"

lemma low32_hex: "(case hex w of Num k \<Rightarrow> Num (take_bit 32 k) | b \<Rightarrow> b) = hex (take_bit 32 w)"
  by (simp add: hex_def unsigned_take_bit_eq)

text \<open>Library functions that keep to the laws, and have zeros behind \<open>nbits\<close>.\<close>

definition word_lib :: bitmap_lib where
  "word_lib = \<lparr>bitmap_and = \<lambda>a b n. take_bit n (a AND b), bitmap_or = \<lambda>a b n. take_bit n (a OR b),
     bitmap_xor = \<lambda>a b n. take_bit n (a XOR b), bitmap_complement = \<lambda>a n. take_bit n (NOT a),
     bitmap_andnot = \<lambda>a b n. take_bit n (a AND NOT b), bitmap_set = \<lambda>a i k. a OR push_bit i (mask k),
     bitmap_clear = \<lambda>a i k. a AND NOT (push_bit i (mask k)), bitmap_fill = \<lambda>a n. take_bit n (- 1),
     bitmap_from_arr32 = \<lambda>ws as n. (push_bit 32 (ucast (as ! 1)) OR ucast (as ! 0)) # tl ws,
     bitmap_to_arr32 = \<lambda>as ws n. ucast (hd ws) # ucast (drop_bit 32 (hd ws)) # drop 2 as,
     bitmap_from_u64 = \<lambda>ws a. a # tl ws,
     bitmap_shift_left = \<lambda>a k n. take_bit n (push_bit k a), bitmap_shift_right = \<lambda>a k n. drop_bit k (take_bit n a),
     bitmap_find_next_zero_area_off = \<lambda>a n i k m b. (let j = first_from (zero_area a k n) i n in if j < n then j else n + k),
     find_first_bit = \<lambda>a n. first_from (bit a) 0 n, find_first_zero_bit = \<lambda>a n. first_from (\<lambda>i. \<not> bit a i) 0 n,
     find_next_bit = \<lambda>a n i. first_from (bit a) i n, find_next_zero_bit = \<lambda>a n i. first_from (\<lambda>j. \<not> bit a j) i n,
     find_last_bit = \<lambda>a n. case find (bit a) (rev [0..<n]) of None \<Rightarrow> n | Some j \<Rightarrow> j,
     BITMAP_FIRST_WORD_MASK = \<lambda>i. push_bit i (- 1), BITMAP_LAST_WORD_MASK = \<lambda>i. if i = 0 then - 1 else mask i,
     bitmap_copy = \<lambda>b a n. take_bit n a, bitmap_empty = \<lambda>a n. take_bit n a = 0,
     bitmap_equal = \<lambda>a b n. take_bit n a = take_bit n b, bitmap_weight = \<lambda>a n. length (filter (bit a) [0..<n])\<rparr>"

lemma word_lib_laws: "bitmap_laws word_lib"
  by (simp add: bitmap_laws_def word_lib_def set_law_def shift_law_def area_law_def take_bit_drop_bit Let_def)

text \<open>the logical operations print the results on the two constants, in their low 32 bits.\<close>

theorem logic_cmd_prints:
  assumes "bitmap_laws L"
  shows "map low32 (fst (logic_cmd L)) =
    [(''logic and dst: %#lx'', [Num 0x00ff1234]), (''logic or dst: %#lx'', [Num 0xffffffff]), (''logic xor dst: %#lx'', [Num 0xff00edcb]),
     (''logic complement dst: %#lx'', [Num 0x0000edcb]), (''logic andnot dst: %#lx'', [Num 0xff000000])]"
proof -
  have "take_bit 32 (bitmap_and L a b 32) = take_bit 32 (a AND b)" "take_bit 32 (bitmap_or L a b 32) = take_bit 32 (a OR b)"
    "take_bit 32 (bitmap_xor L a b 32) = take_bit 32 (a XOR b)" "take_bit 32 (bitmap_complement L a 32) = take_bit 32 (NOT a)"
    "take_bit 32 (bitmap_andnot L a b 32) = take_bit 32 (a AND NOT b)" for a b
    using assms by (simp_all add: bitmap_laws_def)
  then show ?thesis
    by (simp add: logic_cmd_def log_rules low32_def low32_hex) (simp add: hex_def bitmap1_0_def bitmap2_0_def Let_def)
qed

text \<open>an array of two 32-bit words goes into one word of the bitmap and comes back; the second word of the bitmap, which the command
  prints twice, is never set.\<close>

theorem translate_cmd_prints:
  assumes "bitmap_laws L"
  shows "fst (translate_cmd L [w, junk]) =
    [(''bitmap cover 32 to bitmap: %#lx------%#lx'', [Num 0x7856341212345678, hex junk]),
     (''bitmap cover bitmap to u32: %#x-%#x'', [Num 0x78563412, Num 0x12345678]),
     (''%#llx cover to [0]%#lx [1]%#lx'', [Num 0x123456789abcdef, Num 0x123456789abcdef, hex junk])]"
  using assms by (simp add: translate_cmd_def log_rules bitmap_laws_def Let_def hex_def)

lemma all4: "(\<forall>m<4. P m) \<longleftrightarrow> P 0 \<and> P 1 \<and> P 2 \<and> P (3 :: nat)"
  by (simp add: numeral_eq_Suc All_less_Suc2)

theorem translate_cmd_prints_witness:
  "fst (translate_cmd word_lib [5, 6]) ! 1 = (''bitmap cover bitmap to u32: %#x-%#x'', [Num 0x78563412, Num 0x12345678])"
  using translate_cmd_prints [OF word_lib_laws, of 5 6] by simp

text \<open>in \<open>0xfff00fd\<close> the first even zero area of four bits is at 8, the first bit at 0, the first zero bit at 1 and, under a message
  that also speaks of the first zero bit, the last bit at 27.\<close>

theorem found_cmd_prints:
  assumes "bitmap_laws L"
  shows "map (\<lambda>l. last (snd l)) (fst (found_cmd L)) = [Num 8, Num 0, Num 1, Num 27]"
proof -
  have area: "first_from (zero_area 0xfff00fd 4 32) 0 32 = 8"
    by (simp add: first_from_step zero_area_def all4)
  have "\<And>n k. n \<le> 64 \<Longrightarrow> 0 < n \<Longrightarrow> 0 < k \<Longrightarrow> first_from (zero_area 0xfff00fd k n) 0 n < n \<Longrightarrow>
      bitmap_find_next_zero_area_off L 0xfff00fd n 0 k 1 0 = first_from (zero_area 0xfff00fd k n) 0 n"
    using bitmap_laws_more(5) [OF assms] unfolding area_law_def by metis
  from this [of 32 4] have "bitmap_find_next_zero_area_off L 0xfff00fd 32 0 4 1 0 = 8" by (simp add: area)
  moreover have "first_from (bit (0xfff00fd :: ulong)) 0 32 = 0" "first_from (\<lambda>i. \<not> bit (0xfff00fd :: ulong) i) 0 64 = 1"
    by (simp_all add: first_from_step)
  moreover have "find (bit (0xfff00fd :: ulong)) (rev [0..<64]) = Some 27"
    by (simp add: upt_rec)
  ultimately show ?thesis
    using assms by (simp add: found_cmd_def log_rules bitmap_laws_def Let_def)
qed

text \<open>C28: whatever the stack holds, the traversal ends; it prints the positions of the bits that are set and then of those that are clear, in
  order. Besides the bits 4 to 11, which the command sets, they are those of a bitmap that was never initialised.\<close>

theorem traverse_cmd_prints:
  assumes "bitmap_laws L" "24 < fuel"
  shows "traverse_cmd fuel L address junk =
    (let P = (\<lambda>i. 4 \<le> i \<and> i < 12 \<or> bit junk i) in
     Some (map (\<lambda>i. (''%#lx set POS: %ld'', [Num address, Num (int i)])) (filter P [0..<24])
       @ map (\<lambda>i. (''clear POS: %ld'', [Num (int i)])) (filter (\<lambda>i. \<not> P i) [0..<24]), True))"
proof -
  let ?b = "junk OR push_bit 4 (mask 8)"
  have bits: "bit ?b i \<longleftrightarrow> 4 \<le> i \<and> i < 12 \<or> bit junk i" if "i < 24" for i
    using that by (auto simp: bit_simps)
  have f: "filter (bit ?b) [0..<24] = filter (\<lambda>i. 4 \<le> i \<and> i < 12 \<or> bit junk i) [0..<24]"
    "filter (\<lambda>i. \<not> bit ?b i) [0..<24] = filter (\<lambda>i. \<not> (4 \<le> i \<and> i < 12 \<or> bit junk i)) [0..<24]"
    using bits by (auto intro!: filter_cong)
  have L: "bitmap_set L junk 4 8 = ?b" "find_next_bit L ?b 24 = (\<lambda>i. first_from (bit ?b) i 24)"
    "find_next_zero_bit L ?b 24 = (\<lambda>i. first_from (\<lambda>j. \<not> bit ?b j) i 24)"
    "find_first_bit L ?b 24 = first_from (bit ?b) 0 24" "find_first_zero_bit L ?b 24 = first_from (\<lambda>j. \<not> bit ?b j) 0 24"
    using assms bitmap_laws_more(1) [OF assms(1), of 4 8] by (simp_all add: bitmap_laws_def fun_eq_iff)
  have e: "each_bit fuel (\<lambda>i. first_from P i 24) 24 (first_from P 0 24) = Some (filter P [0..<24])" for P
    using each_bit_visits [of 0 24 fuel "\<lambda>i. first_from P i 24" P] assms(2) by simp
  show ?thesis
    unfolding traverse_cmd_def Let_def L e f by (simp add: seq_Cons seq_Nil skip_def)
qed

theorem traverse_cmd_prints_witness:
  "\<exists>ls. traverse_cmd 25 word_lib 0 0 = Some (ls, True)"
  using traverse_cmd_prints [OF word_lib_laws, of 25 0 0] by (simp add: Let_def)

text \<open>setting four bits from 1 on, clearing bit 1, and filling 32 bits.\<close>

theorem set_clear_cmd_prints:
  assumes "bitmap_laws L"
  shows "map low32 (fst (set_clear_cmd L)) =
    [(''bitmap set: %#lx'', [Num 0xffff123e]), (''bitmap clear: %#lx'', [Num 0x00fffffd]), (''bitmap fill: %#lx'', [Num 0xffffffff])]"
proof -
  have "take_bit 32 (bitmap_fill L a 32) = take_bit 32 (- 1)" for a
    using assms by (simp add: bitmap_laws_def)
  moreover note bitmap_laws_more(1,2) [OF assms]
  ultimately show ?thesis
    by (simp add: set_clear_cmd_def log_rules low32_def low32_hex Let_def)
      (simp add: hex_def bitmap1_0_def bitmap2_0_def mask_numeral)
qed

text \<open>the shifts of \<open>0xf000fff\<close> by four bits, both printed as shifts to the left.\<close>

theorem shift_cmd_prints:
  assumes "bitmap_laws L"
  shows "map low32 (fst (shift_cmd L)) = [(''%#lx shift left 4: %#lx'', [Num 0xf000fff, Num 0xf000fff0]),
    (''%#lx shift left 4: %#lx'', [Num 0xf000fff, Num 0xf000ff])]"
proof -
  note bitmap_laws_more(3,4) [OF assms, of 4 32]
  then show ?thesis by (simp add: shift_cmd_def log_rules low32_def low32_hex Let_def) (simp add: hex_def)
qed

text \<open>the copies hold the first 32 and, whatever is behind them, the first 16 bits; of the comparisons the empty one is not
  reported, and the weight is 4.\<close>

theorem judgment_cmd_prints:
  assumes "bitmap_laws L"
  shows "\<exists>v w. take_bit 32 v = 0x21345721 \<and> take_bit 16 w = 0x5721 \<and> fst (judgment_cmd L junk) =
    [(''%#lx copy bitmap: %#lx'', [Num 0x021345721, hex v]), (''%#lx copy bitmap: %#lx'', [Num 0x021345721, hex w]),
     (''Bitmap: %#lx[0:9] is not empty'', [Num 0xf2f0]), (''%#lx equal %#lx through 0 to 3.'', [Num 0xf2f0, Num 0x2450]),
     (''the weight of %#lx is %d'', [Num 0x2450, Num 4])]"
proof -
  define v where "v = bitmap_copy L junk 0x21345721 32"
  define w where "w = bitmap_copy L v 0x21345721 16"
  have vw: "take_bit 32 v = 0x21345721" "take_bit 16 w = 0x5721"
    using assms by (simp_all add: v_def w_def bitmap_laws_def)
  have weight: "length (filter (bit (0x2450 :: ulong)) [0..<32]) = 4"
    by (simp add: upt_rec)
  have "bitmap_weight L 0x2450 32 = 4" "\<not> bitmap_empty L 0xf2f0 8" "\<not> bitmap_empty L 0xf2f0 9" "bitmap_equal L 0xf2f0 0x2450 4"
    using assms weight by (simp_all add: bitmap_laws_def)
  then have "fst (judgment_cmd L junk) =
    [(''%#lx copy bitmap: %#lx'', [Num 0x021345721, hex v]), (''%#lx copy bitmap: %#lx'', [Num 0x021345721, hex w]),
     (''Bitmap: %#lx[0:9] is not empty'', [Num 0xf2f0]), (''%#lx equal %#lx through 0 to 3.'', [Num 0xf2f0, Num 0x2450]),
     (''the weight of %#lx is %d'', [Num 0x2450, Num 4])]"
    by (simp add: judgment_cmd_def log_rules Let_def v_def w_def) (simp add: hex_def)
  with vw show ?thesis by blast
qed

end
