(* ===== verification/Kernel_Demos.thy ===== *)
theory Kernel_Demos
  imports Kernel_Log
begin

unbundle bit_operations_syntax

text \<open>
  Five small modules: the atomic counter of \<open>Algorithem/atomic/atomic.c\<close>, the lock of \<open>Algorithem/spinlock/spinlock.c\<close>, the
  functions registered in \<open>Algorithem/initcall/initcall.c\<close>, the clock of \<open>Algorithem/time/time.c\<close> and the stack of
  \<open>Algorithem/task/task.c\<close>. The operations of the kernel do what their documentation says.
\<close>

section \<open>The atomic counter\<close>

type_synonym atomic_t = "32 word"

definition viros_counter :: atomic_t where "viros_counter = 8"

definition ATOMIC_ADD :: int where "ATOMIC_ADD = 0"
definition ATOMIC_AND :: int where "ATOMIC_AND = 1"
definition ATOMIC_SET :: int where "ATOMIC_SET = 2"
definition ATOMIC_READ :: int where "ATOMIC_READ = 3"
definition ATOMIC_SUB :: int where "ATOMIC_SUB = 4"
definition ATOMIC_INC :: int where "ATOMIC_INC = 5"
definition ATOMIC_DEC :: int where "ATOMIC_DEC = 6"
definition ATOMIC_ANDNOT :: int where "ATOMIC_ANDNOT = 7"

text \<open>The counter after the command and what is printed.\<close>

definition atomic_demo_init :: "int \<Rightarrow> atomic_t \<Rightarrow> atomic_t \<times> stmt" where
  "atomic_demo_init cmd v =
     (if cmd = ATOMIC_ADD then let v = v + 10 in (v, printk ''Atomic add: %d'' [Num (sint v)])
      else if cmd = ATOMIC_AND then let v = 10; v = v AND 7 in (v, printk ''Atomic and: %d'' [Num (sint v)])
      else if cmd = ATOMIC_SET then let v = 5 in (v, printk ''Atomic set: %d'' [Num (sint v)])
      else if cmd = ATOMIC_READ then (v, printk ''Atomic read: %d'' [Num (sint v)])
      else if cmd = ATOMIC_SUB then let v = v - 10 in (v, printk ''Atomic sub: %d'' [Num (sint v)])
      else if cmd = ATOMIC_INC then let v = v + 1 in (v, printk ''Atomic inc: %d'' [Num (sint v)])
      else if cmd = ATOMIC_DEC then let v = v - 1 in (v, printk ''Atomic dec: %d'' [Num (sint v)])
      else if cmd = ATOMIC_ANDNOT then let v = v AND NOT 5 in (v, printk ''Atomic andnot: %d'' [Num (sint v)])
      else (v, printk ''Atomic: do nothing'' []))"

lemmas atomic_cmds = ATOMIC_ADD_def ATOMIC_AND_def ATOMIC_SET_def ATOMIC_READ_def ATOMIC_SUB_def ATOMIC_INC_def
  ATOMIC_DEC_def ATOMIC_ANDNOT_def

text \<open>what the eight commands print for the counter that the module starts with.\<close>

theorem atomic_demo_prints:
  "map (\<lambda>cmd. concat (map snd (fst (snd (atomic_demo_init cmd viros_counter))))) [0, 1, 2, 3, 4, 5, 6, 7] =
    map (\<lambda>n. [Num n]) [18, 2, 5, 8, - 2, 9, 7, 8]"
  by (simp add: atomic_demo_init_def atomic_cmds viros_counter_def Let_def printk_def)

text \<open>every command that prints shows the value that it leaves in the counter, a signed number of 32 bits, so that adding to
  the greatest wraps around.\<close>

theorem atomic_demo_shows_counter:
  "snd (atomic_demo_init cmd v) = printk ''Atomic: do nothing'' [] \<and> fst (atomic_demo_init cmd v) = v
    \<or> (\<exists>fmt. snd (atomic_demo_init cmd v) = printk fmt [Num (sint (fst (atomic_demo_init cmd v)))])"
  by (auto simp: atomic_demo_init_def Let_def printk_def)

section \<open>The spin lock\<close>

text \<open>Whether the lock is held and whether the interrupts of the processor are enabled. Taking a lock that is held never returns.\<close>

record cpu =
  locked :: bool
  irqs :: bool

definition SPIN_LOCK_SAMPLE :: int where "SPIN_LOCK_SAMPLE = 0x00"
definition SPIN_LOCK_IRQ :: int where "SPIN_LOCK_IRQ = 0x01"
definition SPIN_LOCK_TRY :: int where "SPIN_LOCK_TRY = 0x02"

definition spin_lock_init :: "cpu \<Rightarrow> cpu" where "spin_lock_init s = s\<lparr>locked := False\<rparr>"

definition spin_lock :: "cpu \<Rightarrow> cpu option" where
  "spin_lock s = (if locked s then None else Some (s\<lparr>locked := True\<rparr>))"

definition spin_unlock :: "cpu \<Rightarrow> cpu" where "spin_unlock s = s\<lparr>locked := False\<rparr>"

definition spin_lock_irq :: "cpu \<Rightarrow> cpu option" where
  "spin_lock_irq s = spin_lock (s\<lparr>irqs := False\<rparr>)"

definition spin_unlock_irq :: "cpu \<Rightarrow> cpu" where "spin_unlock_irq s = (spin_unlock s)\<lparr>irqs := True\<rparr>"

definition spin_trylock :: "cpu \<Rightarrow> bool \<times> cpu" where
  "spin_trylock s = (\<not> locked s, s\<lparr>locked := True\<rparr>)"

definition spinlock_demo_init :: "int \<Rightarrow> cpu \<Rightarrow> (cpu \<times> stmt) option" where
  "spinlock_demo_init cmd s =
     (if cmd = SPIN_LOCK_SAMPLE then do {
        s \<leftarrow> spin_lock (spin_lock_init s);
        Some (spin_unlock s, printk ''sample spin lock done'' []) }
      else if cmd = SPIN_LOCK_IRQ then do {
        s \<leftarrow> spin_lock_irq (spin_lock_init s);
        Some (spin_unlock_irq s, printk ''irq spin lock done'' []) }
      else if cmd = SPIN_LOCK_TRY then
        (let (ok, s) = spin_trylock (spin_lock_init s) in
         if ok then Some (spin_unlock s, printk ''try spin lock done'' [])
         else Some (s, seq [printk ''unable to abtain spinlock ...'' [], printk ''try spin lock done'' []]))
      else Some (s, printk ''task: do nothing'' []))"

text \<open>no command hangs or fails to get its lock, each leaves it free, and the interrupts are as they were except that the command with
  interrupts always leaves them enabled.\<close>

theorem spinlock_demo_releases:
  "\<exists>s' fmt. spinlock_demo_init cmd s = Some (s', printk fmt []) \<and> fmt \<noteq> ''unable to abtain spinlock ...''
    \<and> (locked s' \<longleftrightarrow> locked s \<and> cmd \<notin> {0, 1, 2}) \<and> (irqs s' \<longleftrightarrow> irqs s \<or> cmd = 1)"
  by (simp add: spinlock_demo_init_def SPIN_LOCK_SAMPLE_def SPIN_LOCK_IRQ_def SPIN_LOCK_TRY_def spin_lock_def spin_lock_init_def
    spin_unlock_def spin_lock_irq_def spin_unlock_irq_def spin_trylock_def printk_def)

definition spinlock_demo_exit :: stmt where
  "spinlock_demo_exit = printk ''module removed!'' []"

section \<open>Initialisation\<close>

text \<open>The levels by which the macros register a function. Which functions run when is a matter of the linker and the kernel and not modelled.\<close>

datatype level = Level nat | Level_Sync nat | Rootfs

text \<open>The functions of the file, each with its level and its message, in the order of the file. The one for
  \<open>early_initcall\<close> is not compiled.\<close>

definition initcalls :: "(level \<times> string) list" where
  "initcalls = [
     (Level 0, ''Pure init call on level 0. ''),
     (Level 1, ''Core init call on level 1. ''),
     (Level_Sync 1, ''Core init call sync on level 1s. ''),
     (Level 2, ''Post core init call on level 2. ''),
     (Level_Sync 2, ''Post core init call sync on level 2s. ''),
     (Level 3, ''Arch init call on level 3. ''),
     (Level_Sync 3, ''Arch init call sync on level 3s. ''),
     (Level 4, ''Subsys init call on level 4. ''),
     (Level_Sync 4, ''Subsys init call sync on level 4s. ''),
     (Level 5, ''Fs init call on level 5. ''),
     (Rootfs, ''Rootfs init call on level 5x. ''),
     (Level 6, ''Device init call on level 6. ''),
     (Level_Sync 6, ''Device init call sync on level 6s. ''),
     (Level 7, ''Late init call on level 7. ''),
     (Level_Sync 7, ''Late init call sync on level 7s. '')]"

section \<open>The clock\<close>

record timespec64 =
  tv_sec :: int
  tv_nsec :: int

definition NSEC_PER_SEC :: int where "NSEC_PER_SEC = 1000000000"
definition NSEC_PER_USEC :: int where "NSEC_PER_USEC = 1000"

text \<open>\<open>timespec64_sub\<close> gives a difference with nanoseconds below a second.\<close>

definition timespec64_sub :: "timespec64 \<Rightarrow> timespec64 \<Rightarrow> timespec64" where
  "timespec64_sub a b = (let ns = tv_nsec a - tv_nsec b in
     if ns < 0 then \<lparr>tv_sec = tv_sec a - tv_sec b - 1, tv_nsec = ns + NSEC_PER_SEC\<rparr>
     else \<lparr>tv_sec = tv_sec a - tv_sec b, tv_nsec = ns\<rparr>)"

definition TIME_DELAY :: int where "TIME_DELAY = 0"
definition TIME_GET_REAL_TS64 :: int where "TIME_GET_REAL_TS64 = 1"
definition TIME_GET_TS64 :: int where "TIME_GET_TS64 = 2"

text \<open>The readings of the clocks are parameters.\<close>

definition time_demo_init :: "int \<Rightarrow> timespec64 \<Rightarrow> timespec64 \<Rightarrow> timespec64 \<Rightarrow> stmt" where
  "time_demo_init cmd tv start end_ts =
     (if cmd = TIME_DELAY then seq [printk ''Delay Procedure Entence ...'' [], printk ''Delay 2000ms done!'' [], printk ''Sleep 2s done!'' []]
      else if cmd = TIME_GET_REAL_TS64 then printk ''Current Time: %lld.%09ld'' [Num (tv_sec tv), Num (tv_nsec tv)]
      else if cmd = TIME_GET_TS64 then
        (let duration = timespec64_sub end_ts start in seq [
           printk ''Timing ...'' [],
           printk ''Second:         %lld'' [Num (tv_sec duration)],
           printk ''Millisecond:    %ld'' [Num (tv_nsec duration sdiv NSEC_PER_USEC)]])
      else printk ''timing: do nothing'' [])"

definition time_demo_exit :: stmt where
  "time_demo_exit = printk ''module removed!'' []"

definition nanoseconds :: "timespec64 \<Rightarrow> int" where
  "nanoseconds t = tv_sec t * NSEC_PER_SEC + tv_nsec t"

definition normal :: "timespec64 \<Rightarrow> bool" where
  "normal t \<longleftrightarrow> 0 \<le> tv_nsec t \<and> tv_nsec t < NSEC_PER_SEC"

lemma timespec64_sub_value: "nanoseconds (timespec64_sub a b) = nanoseconds a - nanoseconds b"
  by (simp add: timespec64_sub_def nanoseconds_def Let_def algebra_simps)

lemma timespec64_sub_normal: "normal a \<Longrightarrow> normal b \<Longrightarrow> normal (timespec64_sub a b)"
  by (auto simp: timespec64_sub_def normal_def Let_def NSEC_PER_SEC_def)

text \<open>the time between two readings is printed in seconds and, under the name of milliseconds, the microseconds of the rest.\<close>

theorem time_demo_duration:
  assumes "normal start" "normal end_ts" "nanoseconds end_ts - nanoseconds start = t"
  shows "time_demo_init TIME_GET_TS64 tv start end_ts = ([(''Timing ...'', []), (''Second:         %lld'', [Num (t div NSEC_PER_SEC)]),
    (''Millisecond:    %ld'', [Num (t mod NSEC_PER_SEC div 1000)])], True)"
proof -
  let ?d = "timespec64_sub end_ts start"
  have n: "0 \<le> tv_nsec ?d" "tv_nsec ?d < NSEC_PER_SEC"
    using timespec64_sub_normal [OF assms(2,1)] by (auto simp: normal_def)
  have "t = tv_sec ?d * NSEC_PER_SEC + tv_nsec ?d"
    using timespec64_sub_value [of end_ts start] assms(3) by (simp add: nanoseconds_def)
  then have "t div NSEC_PER_SEC = tv_sec ?d" "t mod NSEC_PER_SEC = tv_nsec ?d"
    using n by (auto simp: div_pos_pos_trivial mod_pos_pos_trivial)
  with n show ?thesis
    by (simp add: time_demo_init_def TIME_DELAY_def TIME_GET_REAL_TS64_def TIME_GET_TS64_def log_rules NSEC_PER_USEC_def Let_def)
qed

section \<open>The stack\<close>

definition QUERY_THREAD_INFO :: int where "QUERY_THREAD_INFO = 0"

definition thread_demo_init :: "64 word \<Rightarrow> 64 word \<Rightarrow> 64 word \<Rightarrow> int \<Rightarrow> stmt" where
  "thread_demo_init THREAD_SIZE info current_stack_pointer cmd =
     (if cmd = QUERY_THREAD_INFO then seq [
        printk ''thread_info Address: %#lx'' [Num (uint info)],
        printk ''stack address: %#lx'' [Num (uint current_stack_pointer)],
        printk ''thread_union end address: %#lx'' [Num (uint (info + THREAD_SIZE))]]
      else printk ''task: do nothing'' [])"

definition thread_demo_exit :: stmt where
  "thread_demo_exit = printk ''module removed!'' []"

end
