(* ===== verification/Process_Demos.thy ===== *)
theory Process_Demos
  imports Kernel_Log
begin

text \<open>
  Three user programs: \<open>process_schedule/fork/life_period.c\<close>, a parent that waits for a change of its child;
  \<open>process_schedule/fork/thread.c\<close>, two threads that never end; and \<open>device_driver/platform/userland/platform.c\<close>, which lists the
  directory of the platform device. What the system calls return is a parameter.
\<close>

section \<open>The life of a child\<close>

text \<open>What happens to a child that only pauses: a signal stops it, continues it, or ends it. \<open>waitpid\<close> with \<open>WUNTRACED\<close> and
  \<open>WCONTINUED\<close> reports the first of these.\<close>

datatype change = Stopped int | Continued | Killed int

datatype ending = Exit int | Waiting

text \<open>What the parent prints, how it ends, and whether the child is left behind alive; \<open>None\<close> for \<open>forked\<close> is a failed
  \<open>fork\<close>, after which the parent waits for any child and has none. \<open>ids\<close> are the process identifiers of parent and child.\<close>

definition life_child :: "int \<Rightarrow> line list" where
  "life_child pid = [(''child process id: %ld'', [Num pid])]"

definition life_parent :: "int \<Rightarrow> change list option \<Rightarrow> line list \<times> ending" where
  "life_parent pid forked =
     (let hello = (''parent process id: %ld'', [Num pid]) in
      case forked of None \<Rightarrow> ([hello, (''connot using waitpid function'', [])], Exit 1)
      | Some [] \<Rightarrow> ([hello], Waiting)
      | Some (Killed sig # _) \<Rightarrow> ([hello, (''child process is killed by signal %d'', [Num sig])], Exit 0)
      | Some (_ # _) \<Rightarrow> ([hello], Exit 0))"

definition alive :: "change list \<Rightarrow> bool" where
  "alive changes \<longleftrightarrow> \<not> list_ex (\<lambda>c. case c of Killed _ \<Rightarrow> True | _ \<Rightarrow> False) changes"

text \<open>the parent reports the signal that ended its child exactly if nothing else happened to the child before; a child that is
  stopped first is left behind, and its parent is gone and has said nothing when it dies.\<close>

theorem life_period_reports:
  "(\<exists>sig. (''child process is killed by signal %d'', [Num sig]) \<in> set (fst (life_parent pid (Some changes))))
    \<longleftrightarrow> (\<exists>sig rest. changes = Killed sig # rest)"
  by (auto simp: life_parent_def Let_def split: list.splits change.splits)

theorem life_period_orphan:
  assumes "alive changes" "changes \<noteq> []"
  shows "life_parent pid (Some changes) = ([(''parent process id: %ld'', [Num pid])], Exit 0)"
  using assms by (cases changes) (auto simp: life_parent_def alive_def Let_def split: change.splits)

section \<open>Threads that never end\<close>

text \<open>Where a thread is: at its message, at the condition of its loop, in \<open>sleep\<close>, at \<open>return\<close>, or ended. The condition of the loop
  is the constant 1.\<close>

datatype thread = At_message | At_while | Sleeping | At_return | Ended

fun thread_fun :: "thread \<Rightarrow> thread" where
  "thread_fun At_message = At_while"
| "thread_fun At_while = (if (1 :: int) \<noteq> 0 then Sleeping else At_return)"
| "thread_fun Sleeping = At_while"
| "thread_fun At_return = Ended"
| "thread_fun Ended = Ended"

text \<open>The program counter of \<open>main\<close>, and the threads that were created. \<open>r1\<close> and \<open>r2\<close> are the results of
  \<open>pthread_create\<close>: 0, or a positive error number.\<close>

datatype main_pc = Create1 | Create2 | Join1 | Join2 | Done int | Undefined

record thread_state =
  main_pc :: main_pc
  tid1 :: "thread option"
  tid2 :: "thread option"

definition threads_start :: thread_state where
  "threads_start = \<lparr>main_pc = Create1, tid1 = None, tid2 = None\<rparr>"

text \<open>Joining a thread waits until it has ended, and then succeeds. Joining a thread that was not created uses an identifier that was
  never set: \<open>pthread_join\<close> finds it to be invalid and fails, or what it does is undefined.\<close>

inductive thread_step :: "int \<Rightarrow> int \<Rightarrow> thread_state \<Rightarrow> thread_state \<Rightarrow> bool" for r1 r2 where
  create1_error: "main_pc s = Create1 \<Longrightarrow> r1 = - 1 \<Longrightarrow> thread_step r1 r2 s (s\<lparr>main_pc := Done (- 1)\<rparr>)"
| create1: "main_pc s = Create1 \<Longrightarrow> r1 \<noteq> - 1 \<Longrightarrow>
    thread_step r1 r2 s (s\<lparr>main_pc := Create2, tid1 := (if r1 = 0 then Some At_message else None)\<rparr>)"
| create2_error: "main_pc s = Create2 \<Longrightarrow> r2 = - 1 \<Longrightarrow> thread_step r1 r2 s (s\<lparr>main_pc := Done (- 1)\<rparr>)"
| create2: "main_pc s = Create2 \<Longrightarrow> r2 \<noteq> - 1 \<Longrightarrow>
    thread_step r1 r2 s (s\<lparr>main_pc := Join1, tid2 := (if r2 = 0 then Some At_message else None)\<rparr>)"
| join1: "main_pc s = Join1 \<Longrightarrow> tid1 s = Some Ended \<Longrightarrow> thread_step r1 r2 s (s\<lparr>main_pc := Join2\<rparr>)"
| join1_error: "main_pc s = Join1 \<Longrightarrow> tid1 s = None \<Longrightarrow> thread_step r1 r2 s (s\<lparr>main_pc := Done (- 1)\<rparr>)"
| join1_undefined: "main_pc s = Join1 \<Longrightarrow> tid1 s = None \<Longrightarrow> thread_step r1 r2 s (s\<lparr>main_pc := Undefined\<rparr>)"
| join2: "main_pc s = Join2 \<Longrightarrow> tid2 s = Some Ended \<Longrightarrow> thread_step r1 r2 s (s\<lparr>main_pc := Done 0\<rparr>)"
| join2_error: "main_pc s = Join2 \<Longrightarrow> tid2 s = None \<Longrightarrow> thread_step r1 r2 s (s\<lparr>main_pc := Done (- 1)\<rparr>)"
| join2_undefined: "main_pc s = Join2 \<Longrightarrow> tid2 s = None \<Longrightarrow> thread_step r1 r2 s (s\<lparr>main_pc := Undefined\<rparr>)"
| run1: "tid1 s = Some t \<Longrightarrow> thread_step r1 r2 s (s\<lparr>tid1 := Some (thread_fun t)\<rparr>)"
| run2: "tid2 s = Some t \<Longrightarrow> thread_step r1 r2 s (s\<lparr>tid2 := Some (thread_fun t)\<rparr>)"

inductive_cases thread_stepE: "thread_step r1 r2 s s'"

inductive thread_reach :: "int \<Rightarrow> int \<Rightarrow> thread_state \<Rightarrow> bool" for r1 r2 where
  start: "thread_reach r1 r2 threads_start"
| next_step: "thread_reach r1 r2 s \<Longrightarrow> thread_step r1 r2 s s' \<Longrightarrow> thread_reach r1 r2 s'"

text \<open>A thread stays in its loop.\<close>

definition looping :: "thread option \<Rightarrow> bool" where
  "looping t \<longleftrightarrow> t = None \<or> t = Some At_message \<or> t = Some At_while \<or> t = Some Sleeping"

lemma looping_simps [simp]: "looping None" "looping (Some At_message)" "\<not> looping (Some Ended)"
  "looping (Some t) \<Longrightarrow> looping (Some (thread_fun t))"
  by (cases t) (auto simp: looping_def)

lemma thread_invariant:
  assumes "thread_reach r1 r2 s" "0 \<le> r1" "0 \<le> r2"
  shows "looping (tid1 s) \<and> looping (tid2 s) \<and> (main_pc s \<noteq> Create1 \<longrightarrow> (tid1 s = None \<longleftrightarrow> r1 \<noteq> 0)) \<and> (main_pc s = Create1 \<longrightarrow> tid1 s = None)
    \<and> (main_pc s \<in> {Create1, Create2, Join1} \<or> r1 \<noteq> 0 \<and> main_pc s \<in> {Done (- 1), Undefined})"
  using assms(1)
proof induction
  case (next_step s s')
  from next_step.hyps(2) next_step.IH assms(2,3) show ?case by (elim thread_stepE) auto
qed (simp add: threads_start_def)

text \<open>C30: with the results that \<open>pthread_create\<close> can have, 0 or positive, the program never returns 0, however its threads are scheduled: when
  the first thread is created it waits for it forever; otherwise it comes to a join with an identifier that was never set, the
  failure of the creation having gone unnoticed.\<close>

theorem thread_main_never_returns:
  assumes "thread_reach r1 r2 s" "0 \<le> r1" "0 \<le> r2"
  shows "main_pc s \<in> {Create1, Create2, Join1} \<or> r1 \<noteq> 0 \<and> main_pc s \<in> {Done (- 1), Undefined}"
  using thread_invariant [OF assms] by blast

theorem thread_main_never_returns_witness:
  "main_pc (threads_start\<lparr>main_pc := Create2, tid1 := Some At_message\<rparr>) \<in> {Create1, Create2, Join1}"
proof -
  have "thread_step 0 11 threads_start (threads_start\<lparr>main_pc := Create2, tid1 := (if 0 = (0::int) then Some At_message else None)\<rparr>)"
    by (rule create1) (simp_all add: threads_start_def)
  then have "thread_reach 0 11 (threads_start\<lparr>main_pc := Create2, tid1 := Some At_message\<rparr>)"
    using thread_reach.start thread_reach.next_step by fastforce
  from thread_main_never_returns [OF this] show ?thesis by simp
qed

section \<open>The directory of the platform device\<close>

datatype d_type = DT_REG | DT_DIR | DT_FIFO | DT_SOCK | DT_CHR | DT_BLK | DT_LNK | DT_OTHER

fun type_format :: "d_type \<Rightarrow> string option" where
  "type_format DT_REG = Some ''[FILE] %s''"
| "type_format DT_DIR = Some ''[DIRT] %s''"
| "type_format DT_FIFO = Some ''[FIFO] %s''"
| "type_format DT_SOCK = Some ''[SOCK] %s''"
| "type_format DT_CHR = Some ''[CHR] %s''"
| "type_format DT_BLK = Some ''[BLK] %s''"
| "type_format DT_LNK = Some ''[LINK] %s''"
| "type_format DT_OTHER = None"

definition PLATFORM_PATH :: string where "PLATFORM_PATH = ''/sys/bus/platform/devices/platform_resource/''"

text \<open>The loop over the entries that \<open>readdir\<close> returns.\<close>

fun readdir_loop :: "(string \<times> d_type) list \<Rightarrow> line list" where
  "readdir_loop [] = []"
| "readdir_loop ((d_name, t) # entries) =
     (if d_name = ''.'' \<or> d_name = ''..'' then readdir_loop entries
      else case type_format t of Some f \<Rightarrow> (f, [Str d_name]) # readdir_loop entries | None \<Rightarrow> readdir_loop entries)"

text \<open>\<open>dir\<close> is what \<open>opendir\<close> gives, and \<open>ret\<close>, which is never set, what the stack holds. The directory is given to
  \<open>close\<close>, which takes the pointer for a file descriptor.\<close>

definition platform_user_main :: "(string \<Rightarrow> (string \<times> d_type) list option) \<Rightarrow> int \<Rightarrow> line list \<times> int" where
  "platform_user_main dir ret = (case dir PLATFORM_PATH of
     None \<Rightarrow> ([(''open %s dirent error.'', [Str PLATFORM_PATH])], - 1)
   | Some entries \<Rightarrow> (readdir_loop entries, ret))"

text \<open>the program lists every entry but the two dots whose type it knows, in the order of the directory, and its exit status is whatever
  lay on the stack.\<close>

theorem platform_user_lists:
  assumes "dir PLATFORM_PATH = Some entries"
  shows "platform_user_main dir ret =
    (map (\<lambda>(d_name, t). (the (type_format t), [Str d_name]))
       (filter (\<lambda>(d_name, t). d_name \<notin> {''.'', ''..''} \<and> t \<noteq> DT_OTHER) entries), ret)"
proof -
  have known: "type_format t = None \<longleftrightarrow> t = DT_OTHER" for t by (cases t) simp_all
  have "readdir_loop es = map (\<lambda>(d_name, t). (the (type_format t), [Str d_name]))
      (filter (\<lambda>(d_name, t). d_name \<notin> {''.'', ''..''} \<and> t \<noteq> DT_OTHER) es)" for es
    by (induction es rule: readdir_loop.induct) (auto simp: known split: option.split)
  with assms show ?thesis by (simp add: platform_user_main_def)
qed

end
