(* ===== verification/Sort_Programs.thy ===== *)
theory Sort_Programs
  imports Sorting_Correct
begin

text \<open>
  The rest of \<open>Algorithem/sort\<close>: the first version of \<open>fastsort\<close> in \<open>fastsort.c\<close>, which an \<open>#if 0\<close> keeps from being compiled, its
  equivalence with the compiled one, and the programs that sort a sample and print it.
\<close>

section \<open>The first version of fastsort\<close>

text \<open>The loop, on the array that starts at the cell \<open>arr\<close>. While \<open>continue_flag\<close> is 0 the cell at \<open>left\<close> may be overwritten, and while it is
  1 the cell at \<open>right\<close>.\<close>

function hole_loop :: "int list \<Rightarrow> int \<Rightarrow> int \<Rightarrow> int \<Rightarrow> int \<Rightarrow> bool \<Rightarrow> (int list \<times> int \<times> int) option" where
  "hole_loop a arr temp left right continue_flag =
     (if left < right then
        if \<not> continue_flag then do {
          x \<leftarrow> aget a (arr + right);
          if x > temp then hole_loop a arr temp left (right - 1) False
          else do { a' \<leftarrow> aset a (arr + left) x; hole_loop a' arr temp left right True } }
        else do {
          x \<leftarrow> aget a (arr + left);
          if x \<le> temp then hole_loop a arr temp (left + 1) right True
          else do { a' \<leftarrow> aset a (arr + right) x; hole_loop a' arr temp left right False } }
      else Some (a, left, right))"
  by pat_completeness auto
termination
  by (relation "measure (\<lambda>(a, s, t, l, r, f). 2 * nat (r - l) +
      (if f then if t < a ! nat (s + l) then 1 else 0 else if a ! nat (s + r) \<le> t then 1 else 0))")
    (auto simp: aget_def aset_def nth_list_update split: if_splits)

declare hole_loop.simps [simp del]

lemma hole_loop_bounds: "hole_loop a s t l r f = Some (b, l', r') \<Longrightarrow> l \<le> r \<Longrightarrow> l \<le> l' \<and> l' = r' \<and> r' \<le> r"
proof (induction a s t l r f rule: hole_loop.induct)
  case (1 a s t l r f)
  note IH = "1.IH" and prems = "1.prems"
  show ?case
  proof (cases "l < r")
    case False
    with prems show ?thesis by (simp add: hole_loop.simps)
  next
    case True
    consider x where "\<not> f" "aget a (s + r) = Some x" "x > t" "hole_loop a s t l (r - 1) False = Some (b, l', r')"
      | x a' where "\<not> f" "aget a (s + r) = Some x" "\<not> x > t" "aset a (s + l) x = Some a'" "hole_loop a' s t l r True = Some (b, l', r')"
      | x where "f" "aget a (s + l) = Some x" "x \<le> t" "hole_loop a s t (l + 1) r True = Some (b, l', r')"
      | x a' where "f" "aget a (s + l) = Some x" "\<not> x \<le> t" "aset a (s + r) x = Some a'" "hole_loop a' s t l r False = Some (b, l', r')"
      using prems(1) True by (subst (asm) hole_loop.simps) (auto simp: bind_eq_Some_conv split: if_splits)
    then show ?thesis
    proof cases
      case 1 from IH(1) [OF True 1(1,2,3,4)] True show ?thesis by simp
    next
      case 2 from IH(2) [OF True 2(1,2,3,4,5)] prems(2) show ?thesis by simp
    next
      case 3 from IH(3) [OF True _ 3(2,3,4)] True 3(1) show ?thesis by simp
    next
      case 4 from IH(4) [OF True _ 4(2,3,4,5)] prems(2) 4(1) show ?thesis by simp
    qed
  qed
qed

function fastsort0 :: "int list \<Rightarrow> int \<Rightarrow> int \<Rightarrow> int list option" where
  "fastsort0 a arr len =
     (if len < 2 then Some a
      else do {
        temp \<leftarrow> aget a arr;
        (a1, left, right) \<leftarrow> hole_loop a arr temp 0 (len - 1) False;
        a2 \<leftarrow> aset a1 (arr + right) temp;
        a3 \<leftarrow> fastsort0 a2 arr left;
        fastsort0 a3 (arr + left + 1) (len - left - 1) })"
  by pat_completeness auto
termination
  by (relation "measure (\<lambda>(a, s, n). nat n)") (auto dest!: hole_loop_bounds)

declare fastsort0.simps [simp del]

section \<open>It sorts\<close>

text \<open>With the pivot put back into the overwritten cell the array is a rearrangement; what was passed on the left is not above the pivot,
  what was passed on the right is.\<close>

definition hole_split :: "int list \<Rightarrow> int list \<Rightarrow> int \<Rightarrow> int \<Rightarrow> int \<Rightarrow> int \<Rightarrow> int \<Rightarrow> int \<Rightarrow> bool" where
  "hole_split a0 a t s h l r e \<longleftrightarrow> same a0 a s e \<and> mset (a[nat h := t]) = mset a0
     \<and> (\<forall>k. s \<le> k \<and> k < l \<longrightarrow> a ! nat k \<le> t) \<and> (\<forall>k. r < k \<and> k < e \<longrightarrow> t < a ! nat k)"

lemma hole_split_move:
  assumes "hole_split a0 a t s h l r e" "0 \<le> s" "e \<le> int (length a0)" "s \<le> h" "h < e" "s \<le> j" "j < e" "h \<noteq> j"
    and "l \<le> h" "h \<le> r"
  shows "hole_split a0 (a[nat h := a ! nat j]) t s j l r e"
proof -
  have len: "length a = length a0" using assms(1) by (simp add: hole_split_def same_def)
  have "mset (a[nat h := a ! nat j, nat j := t]) = mset (a[nat h := t])"
    using assms len by (intro mset_move_hole) auto
  moreover have "same a0 (a[nat h := a ! nat j]) s e"
    using assms by (intro same_trans [OF _ same_upd]) (auto simp: hole_split_def)
  ultimately show ?thesis using assms by (auto simp: hole_split_def)
qed

lemma hole_loop_wp:
  "0 \<le> s \<Longrightarrow> 0 \<le> l \<Longrightarrow> l \<le> r \<Longrightarrow> s + r < e \<Longrightarrow> e \<le> int (length a0) \<Longrightarrow>
   hole_split a0 a t s (s + (if f then r else l)) (s + l) (s + r) e \<Longrightarrow>
   wp (hole_loop a s t l r f) (\<lambda>(b, p, q). p = q \<and> l \<le> p \<and> p \<le> r \<and> hole_split a0 b t s (s + p) (s + p) (s + p) e)"
proof (induction a s t l r f rule: hole_loop.induct)
  case (1 a s t l r f)
  note prems = "1.prems"
  have len: "length a = length a0" using prems(6) by (simp add: hole_split_def same_def)
  show ?case
  proof (cases "l < r")
    case False
    with prems show ?thesis by (subst hole_loop.simps) (auto split: if_splits)
  next
    case True
    note at = aget_def aset_def
    show ?thesis
    proof (cases f)
      case False
      note f = this
      show ?thesis
      proof (cases "a ! nat (s + r) > t")
        case True
        have "t < a ! nat k" if "s + (r - 1) < k" "k < e" for k
          using prems True f that by (cases "k = s + r") (auto simp: hole_split_def)
        then have "hole_split a0 a t s (s + l) (s + l) (s + (r - 1)) e"
          using prems f by (simp add: hole_split_def)
        with \<open>l < r\<close> True f prems len have "wp (hole_loop a s t l (r - 1) False) (\<lambda>(b, p, q). p = q \<and> l \<le> p \<and> p \<le> r - 1 \<and> hole_split a0 b t s (s + p) (s + p) (s + p) e)"
          by (intro "1.IH"(1)) (auto simp: at)
        then have "wp (hole_loop a s t l (r - 1) False) (\<lambda>(b, p, q). p = q \<and> l \<le> p \<and> p \<le> r \<and> hole_split a0 b t s (s + p) (s + p) (s + p) e)"
          by (rule wp_mono) auto
        with \<open>l < r\<close> True f prems len show ?thesis by (subst hole_loop.simps) (simp add: at)
      next
        case False
        have "hole_split a0 (a[nat (s + l) := a ! nat (s + r)]) t s (s + r) (s + l) (s + r) e"
          using prems f \<open>l < r\<close> by (intro hole_split_move) auto
        with \<open>l < r\<close> False f prems len have "wp (hole_loop (a[nat (s + l) := a ! nat (s + r)]) s t l r True) (\<lambda>(b, p, q). p = q \<and> l \<le> p \<and> p \<le> r \<and> hole_split a0 b t s (s + p) (s + p) (s + p) e)"
          by (intro "1.IH"(2)) (auto simp: at)
        with \<open>l < r\<close> False f prems len show ?thesis by (subst hole_loop.simps) (simp add: at)
      qed
    next
      case True
      note f = this
      show ?thesis
      proof (cases "a ! nat (s + l) \<le> t")
        case True
        have "a ! nat k \<le> t" if "s \<le> k" "k < s + (l + 1)" for k
          using prems True f that by (cases "k = s + l") (auto simp: hole_split_def)
        then have "hole_split a0 a t s (s + r) (s + (l + 1)) (s + r) e"
          using prems f by (simp add: hole_split_def)
        with \<open>l < r\<close> True f prems len have "wp (hole_loop a s t (l + 1) r True) (\<lambda>(b, p, q). p = q \<and> l + 1 \<le> p \<and> p \<le> r \<and> hole_split a0 b t s (s + p) (s + p) (s + p) e)"
          by (intro "1.IH"(3)) (auto simp: at)
        then have "wp (hole_loop a s t (l + 1) r True) (\<lambda>(b, p, q). p = q \<and> l \<le> p \<and> p \<le> r \<and> hole_split a0 b t s (s + p) (s + p) (s + p) e)"
          by (rule wp_mono) auto
        with \<open>l < r\<close> True f prems len show ?thesis by (subst hole_loop.simps) (simp add: at)
      next
        case False
        have "hole_split a0 (a[nat (s + r) := a ! nat (s + l)]) t s (s + l) (s + l) (s + r) e"
          using prems f \<open>l < r\<close> by (intro hole_split_move) auto
        with \<open>l < r\<close> False f prems len have "wp (hole_loop (a[nat (s + r) := a ! nat (s + l)]) s t l r False) (\<lambda>(b, p, q). p = q \<and> l \<le> p \<and> p \<le> r \<and> hole_split a0 b t s (s + p) (s + p) (s + p) e)"
          by (intro "1.IH"(4)) (auto simp: at)
        with \<open>l < r\<close> False f prems len show ?thesis by (subst hole_loop.simps) (simp add: at)
      qed
    qed
  qed
qed

lemma sorts_single [simp]: "e \<le> s + 1 \<Longrightarrow> sorts a a s e"
  by (cases "e = s + 1") (simp_all add: sorts_def seg_Cons)

lemma same_then_sorts: "same a b s e \<Longrightarrow> mset b = mset a \<Longrightarrow> sorts b c s e \<Longrightarrow> 0 \<le> s \<Longrightarrow> s \<le> e \<Longrightarrow> e \<le> int (length a) \<Longrightarrow> sorts a c s e"
  using mset_seg_same [of a b s e] by (auto simp: sorts_same intro: same_trans sort_unique)

text \<open>Sorting both sides of a cell that lies between them.\<close>

lemma sorts_around:
  assumes "sorts b c s p" "sorts c d (p + 1) e" "0 \<le> s" "s \<le> p" "p < e" "e \<le> int (length b)"
    and lo: "\<And>k. s \<le> k \<Longrightarrow> k < p \<Longrightarrow> b ! nat k \<le> b ! nat p" and hi: "\<And>k. p < k \<Longrightarrow> k < e \<Longrightarrow> b ! nat p \<le> b ! nat k"
  shows "sorts b d s e"
proof -
  have len: "length c = length b" using assms(1) by (rule sorts_length)
  have c: "c ! nat k = b ! nat k" if "p \<le> k" "k < e" for k
    using assms(1,3-6) that by (auto simp: sorts_def)
  have "sorts c d p e"
    by (rule sorts_split [OF _ assms(2)]) (use assms(3-6) len c hi in auto)
  moreover have "b ! nat i \<le> b ! nat j" if "s \<le> i" "i < p" "p \<le> j" "j < e" for i j
    using lo [of i] hi [of j] that by (cases "j = p") auto
  ultimately show ?thesis
    by (intro sorts_split [OF assms(1)]) (use assms(3-6) in auto)
qed

lemma fastsort0_wp:
  "0 \<le> s \<Longrightarrow> 0 \<le> n \<Longrightarrow> s + n \<le> int (length a) \<Longrightarrow> wp (fastsort0 a s n) (\<lambda>b. sorts a b s (s + n))"
proof (induction "nat n" arbitrary: a s n rule: less_induct)
  case less
  note prems = less.prems
  show ?case
  proof (cases "n < 2")
    case True
    then show ?thesis by (subst fastsort0.simps) simp
  next
    case False
    let ?t = "a ! nat s" and ?e = "s + n"
    have "hole_split a a ?t s s s (s + (n - 1)) ?e"
      using prems False by (auto simp: hole_split_def)
    then have "wp (hole_loop a s ?t 0 (n - 1) False) (\<lambda>(b, p, q). p = q \<and> 0 \<le> p \<and> p \<le> n - 1 \<and> hole_split a b ?t s (s + p) (s + p) (s + p) ?e)"
      using prems False by (intro hole_loop_wp) auto
    then obtain b p where loop: "hole_loop a s ?t 0 (n - 1) False = Some (b, p, p)" "0 \<le> p" "p \<le> n - 1"
        and sp: "hole_split a b ?t s (s + p) (s + p) (s + p) ?e"
      by (auto simp: wp_iff)
    let ?c = "b[nat (s + p) := ?t]"
    have len: "length b = length a" using sp by (simp add: hole_split_def same_def)
    have c: "same a ?c s ?e" "mset ?c = mset a"
      using sp loop prems same_trans [of a b s ?e ?c] same_upd [of "s + p" s ?e b ?t] by (auto simp: hole_split_def)
    have at: "?c ! nat (s + p) = ?t" "\<And>k. 0 \<le> k \<Longrightarrow> k \<noteq> s + p \<Longrightarrow> ?c ! nat k = b ! nat k"
      using loop prems len by (simp_all add: nth_list_update)
    have lo: "?c ! nat k \<le> ?c ! nat (s + p)" if "s \<le> k" "k < s + p" for k
      using sp at(1) at(2) [of k] that prems(1) by (simp add: hole_split_def)
    have hi: "?c ! nat (s + p) \<le> ?c ! nat k" if "s + p < k" "k < ?e" for k
      using sp at(1) at(2) [of k] that prems(1) loop(2) by (simp add: hole_split_def less_imp_le)
    have "wp (fastsort0 ?c s p) (\<lambda>d. sorts ?c d s (s + p))"
      using prems loop len False by (intro less.hyps) auto
    then have "wp (fastsort0 ?c s p) (\<lambda>d. wp (fastsort0 d (s + p + 1) (n - p - 1)) (\<lambda>f. sorts a f s ?e))"
    proof (rule wp_mono)
      fix d assume d: "sorts ?c d s (s + p)"
      have "wp (fastsort0 d (s + p + 1) (n - p - 1)) (\<lambda>f. sorts d f (s + p + 1) (s + p + 1 + (n - p - 1)))"
        using prems loop len False sorts_length [OF d] by (intro less.hyps) auto
      then show "wp (fastsort0 d (s + p + 1) (n - p - 1)) (\<lambda>f. sorts a f s ?e)"
      proof (rule wp_mono)
        fix f assume "sorts d f (s + p + 1) (s + p + 1 + (n - p - 1))"
        then have "sorts d f (s + p + 1) ?e" by (simp add: algebra_simps)
        then have "sorts ?c f s ?e"
          by (rule sorts_around [OF d _ prems(1)]) (use prems loop len lo hi in auto)
        then show "sorts a f s ?e" using c prems by (intro same_then_sorts [of a ?c]) auto
      qed
    qed
    with False prems loop len show ?thesis
      by (subst fastsort0.simps) (simp add: aget_def aset_def)
  qed
qed

interpretation quick0: array_sort "\<lambda>a. fastsort0 a 0"
  by (rule array_sortI) (use fastsort0_wp [of 0] in simp)

interpretation fast_versions: array_sort_pair fastsort "\<lambda>a. fastsort0 a 0" ..

text \<open>C34: the two versions of \<open>fastsort\<close>, one of which is not compiled, give the same array for every array and every length within it.\<close>

theorem fastsort_versions_agree:
  assumes "0 \<le> len" "len \<le> int (length a)"
  shows "fastsort a len = fastsort0 a 0 len"
  using assms by (rule fast_versions.agree)

theorem fastsort_versions_agree_witness: "fastsort [3, 1, 2] 2 = fastsort0 [3, 1, 2] 0 2"
  using fastsort_versions_agree [of 2 "[3, 1, 2]"] by simp

section \<open>The programs\<close>

text \<open>Each sorts an array of its own, with its length, and prints its cells; what a program prints is the list of these numbers.\<close>

definition sample :: "int list" where
  "sample = [44, 3, 38, 5, 47, 15, 36, 26, 27, 2, 46, 4, 19, 50, 48]"

definition sample_twice :: "int list" where
  "sample_twice = [44, 3, 3, 38, 5, 47, 15, 36, 26, 27, 2, 46, 4, 19, 50, 48]"

definition print_cells :: "int \<Rightarrow> int list \<Rightarrow> int list option" where
  "print_cells len arr = those (map (aget arr) [0..len - 1])"

definition bubblesort_main :: "int list option" where
  "bubblesort_main = (let len = int (length sample) in Option.bind (bubblesort2 sample len) (print_cells len))"

definition selectsort_main :: "int list option" where
  "selectsort_main = (let len = int (length sample) in Option.bind (selectsort1 sample len) (print_cells len))"

definition shellsort_main :: "int list option" where
  "shellsort_main = (let len = int (length sample) in Option.bind (shellsort sample len) (print_cells len))"

definition mergesort_main :: "(nat \<Rightarrow> int) \<Rightarrow> int list option" where
  "mergesort_main stack = (let len = int (length sample) in Option.bind (mergesort stack sample len) (print_cells len))"

definition insertsort_main :: "int list option" where
  "insertsort_main = (let len = int (length sample_twice) in Option.bind (insertsort sample_twice len) (print_cells len))"

definition fastsort_main :: "int list option" where
  "fastsort_main = (let len = int (length sample_twice) in Option.bind (fastsort sample_twice len) (print_cells len))"

lemma those_Some: "those (map Some xs) = Some xs"
  by (induction xs) simp_all

lemma print_cells_whole: "print_cells (int (length xs)) xs = Some xs"
proof -
  have "map (aget xs) [0..int (length xs) - 1] = map Some xs"
  proof (rule nth_equalityI)
    fix i assume "i < length (map (aget xs) [0..int (length xs) - 1])"
    then have "i < length xs" by simp
    then show "map (aget xs) [0..int (length xs) - 1] ! i = map Some xs ! i" by (simp add: aget_def)
  qed simp
  then show ?thesis by (simp add: print_cells_def those_Some)
qed

lemma print_sorted: "Option.bind (Some (sort xs)) (print_cells (int (length xs))) = Some (sort xs)"
  using print_cells_whole [of "sort xs"] by simp

text \<open>the four programs on the first sample print it in order, and so do the two on the sample in which 3 occurs twice.\<close>

theorem sort_programs_print:
  "{bubblesort_main, selectsort_main, shellsort_main, mergesort_main stack}
     = {Some [2, 3, 4, 5, 15, 19, 26, 27, 36, 38, 44, 46, 47, 48, 50]}
   \<and> {insertsort_main, fastsort_main} = {Some [2, 3, 3, 4, 5, 15, 19, 26, 27, 36, 38, 44, 46, 47, 48, 50]}"
proof -
  have s: "sort sample = [2, 3, 4, 5, 15, 19, 26, 27, 36, 38, 44, 46, 47, 48, 50]"
    "sort sample_twice = [2, 3, 3, 4, 5, 15, 19, 26, 27, 36, 38, 44, 46, 47, 48, 50]"
    by (simp_all add: sample_def sample_twice_def)
  show ?thesis
    unfolding bubblesort_main_def selectsort_main_def shellsort_main_def mergesort_main_def insertsort_main_def fastsort_main_def Let_def
      bubble2.sorts_whole selection1.sorts_whole shell.sorts_whole merging.sorts_whole insertion.sorts_whole quick.sorts_whole
      print_sorted
    unfolding s by simp
qed

end
