(* ===== verification/Epoll_Server.thy ===== *)
theory Epoll_Server
  imports Prelude
begin

unbundle bit_operations_syntax

text \<open>
  The echo server on \<open>epoll\<close>, \<open>Application/io_multi/epoll/service.c\<close>. What \<open>epoll_wait\<close>, \<open>accept\<close>
  and \<open>read\<close> answer is a parameter of a round; \<open>None\<close> is an access outside the buffer. The interest
  list of the epoll instance, the messages sent and the descriptors closed are the state.
\<close>

definition MAXSIZE :: nat where "MAXSIZE = 1024"

definition EPOLLIN :: nat where "EPOLLIN = 1"
definition EPOLLOUT :: nat where "EPOLLOUT = 4"

record epoll_state =
  interest :: "(int \<times> nat) list"
  buf :: "byte list"
  sent :: "(int \<times> byte list) list"
  closed :: "int list"
  exited :: bool

text \<open>An event is a descriptor and whether it is readable; a read gives its result and its bytes.\<close>

record kernel =
  events :: "(int \<times> bool) list"
  accept_ret :: int
  reads :: "int \<Rightarrow> int \<times> byte list"
  write_ret :: "int \<Rightarrow> int"

text \<open>\<open>None\<close> is \<open>exit(1)\<close>.\<close>

definition socket_bind :: "int \<Rightarrow> int \<Rightarrow> int option" where
  "socket_bind listenfd bind_ret =
     (if listenfd = - 1 then None else if bind_ret = - 1 then None else Some listenfd)"

section \<open>add_event, delete_event, modify_event\<close>

text \<open>\<open>epoll_ctl\<close> fails without effect when it adds a descriptor twice or finds none to change; its
  result is ignored.\<close>

definition add_event :: "int \<Rightarrow> nat \<Rightarrow> epoll_state \<Rightarrow> epoll_state" where
  "add_event fd state s = (if fd \<in> fst ` set (interest s) then s else s\<lparr>interest := (fd, state) # interest s\<rparr>)"

definition delete_event :: "int \<Rightarrow> epoll_state \<Rightarrow> epoll_state" where
  "delete_event fd s = s\<lparr>interest := filter (\<lambda>(f, _). f \<noteq> fd) (interest s)\<rparr>"

definition modify_event :: "int \<Rightarrow> nat \<Rightarrow> epoll_state \<Rightarrow> epoll_state" where
  "modify_event fd state s = s\<lparr>interest := map (\<lambda>(f, st). (f, if f = fd then state else st)) (interest s)\<rparr>"

text \<open>Closing a descriptor takes it off the interest list by itself.\<close>

definition close_fd :: "int \<Rightarrow> epoll_state \<Rightarrow> epoll_state" where
  "close_fd fd s = s\<lparr>closed := closed s @ [fd], interest := filter (\<lambda>(f, _). f \<noteq> fd) (interest s)\<rparr>"

section \<open>The handlers\<close>

definition handle_accept :: "kernel \<Rightarrow> epoll_state \<Rightarrow> epoll_state" where
  "handle_accept k s = (if accept_ret k = - 1 then s\<lparr>exited := True\<rparr>
     else add_event (accept_ret k) (EPOLLIN OR EPOLLOUT) s)"

definition do_read :: "kernel \<Rightarrow> int \<Rightarrow> epoll_state \<Rightarrow> epoll_state option" where
  "do_read k fd s = (let (nread, bytes) = reads k fd in
     if nread = - 1 then Some (delete_event fd (close_fd fd s))
     else if nread = 0 then Some (delete_event fd (close_fd fd s))
     else do {
       b \<leftarrow> memcpy (buf s) 0 bytes 0 nread;
       str \<leftarrow> string_at b;
       Some (s\<lparr>buf := b, sent := sent s @ [(fd, str)]\<rparr>) })"

text \<open>Nothing calls \<open>do_write\<close>.\<close>

definition do_write :: "kernel \<Rightarrow> int \<Rightarrow> epoll_state \<Rightarrow> epoll_state option" where
  "do_write k fd s = do {
     str \<leftarrow> string_at (buf s);
     let s1 = (if write_ret k fd = - 1 then delete_event fd (close_fd fd s)
               else modify_event fd EPOLLIN (s\<lparr>sent := sent s @ [(fd, str)]\<rparr>));
     b \<leftarrow> memset (buf s1) 0 0 (int MAXSIZE);
     Some (s1\<lparr>buf := b\<rparr>) }"

fun handle_events :: "kernel \<Rightarrow> (int \<times> bool) list \<Rightarrow> int \<Rightarrow> epoll_state \<Rightarrow> epoll_state option" where
  "handle_events k [] listenfd s = Some s"
| "handle_events k ((fd, rd) # es) listenfd s =
     (if exited s then Some s
      else if fd = listenfd \<and> rd then handle_events k es listenfd (handle_accept k s)
      else if rd then Option.bind (do_read k fd s) (handle_events k es listenfd)
      else handle_events k es listenfd s)"

section \<open>do_epoll\<close>

definition epoll_init :: "int \<Rightarrow> epoll_state" where
  "epoll_init listenfd = add_event listenfd EPOLLIN
     \<lparr>interest = [], buf = replicate MAXSIZE 0, sent = [], closed = [], exited = False\<rparr>"

text \<open>A round of the loop, with \<open>memset(buf, 0, strlen(buf))\<close> at its end.\<close>

definition epoll_round :: "kernel \<Rightarrow> int \<Rightarrow> epoll_state \<Rightarrow> epoll_state option" where
  "epoll_round k listenfd s = do {
     s1 \<leftarrow> handle_events k (events k) listenfd s;
     if exited s1 then Some s1
     else do {
       str \<leftarrow> string_at (buf s1);
       b \<leftarrow> memset (buf s1) 0 0 (int (length str));
       Some (s1\<lparr>buf := b\<rparr>) } }"

fun do_epoll :: "kernel list \<Rightarrow> int \<Rightarrow> epoll_state \<Rightarrow> epoll_state option" where
  "do_epoll [] listenfd s = Some s"
| "do_epoll (k # ks) listenfd s = (if exited s then Some s
     else Option.bind (epoll_round k listenfd s) (do_epoll ks listenfd))"

section \<open>Invariant\<close>

text \<open>The buffer holds a text and zeros behind it.\<close>

definition text_buf :: "byte list \<Rightarrow> bool" where
  "text_buf b \<longleftrightarrow> (\<exists>x z. b = x @ replicate (Suc z) 0 \<and> 0 \<notin> set x \<and> length b = MAXSIZE)"

text \<open>Clients that send short messages without a zero byte.\<close>

definition text_reads :: "kernel \<Rightarrow> bool" where
  "text_reads k \<longleftrightarrow> (\<forall>fd. - 1 \<le> fst (reads k fd) \<and> fst (reads k fd) < int MAXSIZE
     \<and> (0 < fst (reads k fd) \<longrightarrow> int (length (snd (reads k fd))) = fst (reads k fd) \<and> 0 \<notin> set (snd (reads k fd))))"

lemma text_buf_zero: "text_buf (replicate MAXSIZE 0)"
  unfolding text_buf_def by (intro exI [of _ "[]"] exI [of _ 1023]) (simp add: MAXSIZE_def)

lemma text_buf_string: "text_buf b \<Longrightarrow> \<exists>x z. b = x @ replicate (Suc z) 0 \<and> 0 \<notin> set x \<and> string_at b = Some x \<and> length b = MAXSIZE"
  unfolding text_buf_def using string_at_append by fastforce

lemma text_buf_read:
  assumes "text_buf b" "0 \<notin> set y" "length y < MAXSIZE" "memcpy b 0 y 0 (int (length y)) = Some b'"
  shows "text_buf b'"
proof -
  obtain x z where x: "b = x @ replicate (Suc z) 0" "0 \<notin> set x" "length b = MAXSIZE" using assms(1) by (auto simp: text_buf_def)
  have b': "b' = y @ drop (length y) b" using assms(4) by (auto simp: memcpy_def split: if_splits)
  show ?thesis
  proof (cases "length y \<le> length x")
    case True
    then have "b' = (y @ drop (length y) x) @ replicate (Suc z) 0" using b' x(1) by simp
    moreover have "0 \<notin> set (y @ drop (length y) x)" using assms(2) x(2) by (auto dest: in_set_dropD)
    moreover have "length b' = MAXSIZE" using b' x(3) assms(3) by simp
    ultimately show ?thesis unfolding text_buf_def by blast
  next
    case False
    have "length x + Suc z = MAXSIZE" using x by simp
    then have "Suc z - (length y - length x) = Suc (MAXSIZE - length y - 1)" using False assms(3) by linarith
    then have "b' = y @ replicate (Suc (MAXSIZE - length y - 1)) 0" using b' x(1) False by (simp add: drop_replicate del: replicate_Suc)
    moreover have "length b' = MAXSIZE" using b' x(3) assms(3) by simp
    ultimately show ?thesis using assms(2) unfolding text_buf_def by blast
  qed
qed

lemma do_read_text:
  assumes "text_buf (buf s)" "text_reads k"
  shows "\<exists>s'. do_read k fd s = Some s' \<and> text_buf (buf s') \<and> exited s' = exited s"
proof -
  obtain n bytes where n: "reads k fd = (n, bytes)" by (cases "reads k fd")
  have r: "- 1 \<le> n" "n < int MAXSIZE" "0 < n \<longrightarrow> int (length bytes) = n \<and> 0 \<notin> set bytes"
    using assms(2) n by (auto simp: text_reads_def dest!: spec [of _ fd])
  show ?thesis
  proof (cases "0 < n")
    case True
    with r have e: "n = int (length bytes)" "0 \<notin> set bytes" "length bytes < MAXSIZE" by auto
    obtain b where b: "memcpy (buf s) 0 bytes 0 n = Some b"
      using e assms(1) by (auto simp: memcpy_def text_buf_def)
    have tb: "text_buf b" using text_buf_read [OF assms(1) e(2,3)] b e(1) by simp
    obtain x where "string_at b = Some x" using text_buf_string [OF tb] by blast
    with b tb n True show ?thesis by (auto simp: do_read_def)
  next
    case False
    with r(1) have "n = - 1 \<or> n = 0" by linarith
    with n assms(1) show ?thesis by (auto simp: do_read_def delete_event_def close_fd_def)
  qed
qed

lemma handle_events_text: "text_buf (buf s) \<Longrightarrow> text_reads k \<Longrightarrow>
    \<exists>s'. handle_events k es listenfd s = Some s' \<and> text_buf (buf s')"
proof (induction k es listenfd s rule: handle_events.induct)
  case (2 k fd rd es listenfd s)
  obtain t where t: "do_read k fd s = Some t" "text_buf (buf t)"
    using do_read_text [OF "2.prems"] by blast
  have "text_buf (buf (handle_accept k s))" using "2.prems"(1) by (auto simp: handle_accept_def add_event_def)
  with 2 t show ?case by auto
qed auto

lemma epoll_round_text:
  assumes "text_buf (buf s)" "text_reads k"
  shows "\<exists>s'. epoll_round k listenfd s = Some s' \<and> (exited s' \<or> buf s' = replicate MAXSIZE 0)"
proof -
  obtain s1 where s1: "handle_events k (events k) listenfd s = Some s1" "text_buf (buf s1)"
    using handle_events_text [OF assms] by blast
  obtain x z where x: "buf s1 = x @ replicate (Suc z) 0" "string_at (buf s1) = Some x" "length (buf s1) = MAXSIZE"
    using text_buf_string [OF s1(2)] by blast
  have "memset (buf s1) 0 0 (int (length x)) = Some (replicate (length x) 0 @ replicate (Suc z) 0)"
    using x(1) by (simp add: memset_def)
  also have "replicate (length x) 0 @ replicate (Suc z) 0 = replicate MAXSIZE (0 :: byte)"
    using x(1,3) by (metis length_append length_replicate replicate_add)
  finally show ?thesis using s1(1) x(2) by (simp add: epoll_round_def)
qed

lemma do_epoll_text: "text_buf (buf s) \<Longrightarrow> list_all text_reads ks \<Longrightarrow>
    \<exists>s'. do_epoll ks listenfd s = Some s' \<and> (ks \<noteq> [] \<and> \<not> exited s' \<longrightarrow> buf s' = replicate MAXSIZE 0)"
proof (induction ks arbitrary: s)
  case (Cons k ks)
  obtain t where t: "epoll_round k listenfd s = Some t" "exited t \<or> buf t = replicate MAXSIZE 0"
    using epoll_round_text [of s k listenfd] Cons.prems by auto
  show ?case
  proof (cases "exited s \<or> exited t")
    case True
    with t(1) show ?thesis by (cases ks) auto
  next
    case False
    with t have b: "buf t = replicate MAXSIZE 0" by simp
    with Cons.IH [of t] Cons.prems(2) text_buf_zero obtain s' where s': "do_epoll ks listenfd t = Some s'"
        "ks \<noteq> [] \<and> \<not> exited s' \<longrightarrow> buf s' = replicate MAXSIZE 0" by auto
    with False t(1) b show ?thesis by (cases ks) auto
  qed
qed simp

section \<open>What the server guarantees\<close>

text \<open>with clients that send texts shorter than the buffer, the server never leaves its buffer, and
  after each round the buffer is cleared, so that no text reaches a later round.\<close>

theorem epoll_server_clears:
  assumes "list_all text_reads ks" "ks \<noteq> []"
  shows "\<exists>s'. do_epoll ks listenfd (epoll_init listenfd) = Some s' \<and> (exited s' \<or> buf s' = replicate MAXSIZE 0)"
proof -
  have "text_buf (buf (epoll_init listenfd))" by (simp add: epoll_init_def add_event_def text_buf_zero)
  from do_epoll_text [OF this assms(1)] assms(2) show ?thesis by blast
qed

definition two_events :: kernel where
  "two_events = \<lparr>events = [(3, True), (5, True)], accept_ret = 5, reads = (\<lambda>fd. (2, [7, 8])), write_ret = (\<lambda>fd. 0)\<rparr>"

theorem epoll_server_clears_witness:
  "\<exists>s'. do_epoll [two_events, two_events] 3 (epoll_init 3) = Some s' \<and> (exited s' \<or> buf s' = replicate MAXSIZE 0)"
  by (rule epoll_server_clears) (simp_all add: two_events_def text_reads_def MAXSIZE_def)

text \<open>the first message of a round goes back to its sender as it came; but within a round the buffer is
  kept, so a second client with a shorter message also gets the end of the first one's message.\<close>

theorem epoll_server_leaks:
  assumes "0 \<notin> set x" "0 \<notin> set y" "x \<noteq> []" "y \<noteq> []" "length y \<le> length x" "length x < MAXSIZE"
    and "reads k a = (int (length x), x)" "reads k b = (int (length y), y)"
    and "buf s = replicate MAXSIZE 0" "\<not> exited s" "a \<noteq> listenfd" "b \<noteq> listenfd"
  shows "\<exists>s'. handle_events k [(a, True), (b, True)] listenfd s = Some s'
    \<and> sent s' = sent s @ [(a, x), (b, y @ drop (length y) x)]"
proof -
  obtain z where z: "MAXSIZE - length x = Suc z" using assms(6) by (metis Suc_diff_Suc)
  have s1: "string_at (x @ replicate (MAXSIZE - length x) 0) = Some x"
    using string_at_append [OF assms(1), of "replicate z 0"] z by simp
  have "0 \<notin> set (y @ drop (length y) x)" using assms(1,2) by (auto dest: in_set_dropD)
  from string_at_append [OF this, of "replicate z 0"]
  have s2: "string_at (y @ drop (length y) x @ replicate (MAXSIZE - length x) 0) = Some (y @ drop (length y) x)"
    using z by simp
  have m1: "memcpy (replicate MAXSIZE 0) 0 x 0 (int (length x)) = Some (x @ replicate (MAXSIZE - length x) 0)"
    using assms(6) by (simp add: memcpy_def)
  have m2: "memcpy (x @ replicate (MAXSIZE - length x) 0) 0 y 0 (int (length y))
      = Some (y @ drop (length y) x @ replicate (MAXSIZE - length x) 0)"
    using assms(5,6) by (simp add: memcpy_def)
  show ?thesis
    using assms(3,4,7-12) s1 s2 m1 m2 by (simp add: do_read_def)
qed

theorem epoll_server_leaks_witness:
  "\<exists>s'. handle_events (two_events\<lparr>reads := (\<lambda>fd. if fd = 5 then (2, [7, 8]) else (1, [9]))\<rparr>) [(5, True), (6, True)] 3 (epoll_init 3) = Some s'
    \<and> sent s' = [(5, [7, 8]), (6, [9, 8])]"
  using epoll_server_leaks [of "[7, 8]" "[9]" "two_events\<lparr>reads := (\<lambda>fd. if fd = 5 then (2, [7, 8]) else (1, [9]))\<rparr>" 5 6 "epoll_init 3" 3]
  by (simp add: epoll_init_def add_event_def MAXSIZE_def)

end
