(* ===== verification/Server_Programs.thy ===== *)
theory Server_Programs
  imports Select_Server Poll_Client Epoll_Server Epoll_Client
begin

text \<open>
  The \<open>main\<close> functions of the echo servers and clients of \<open>Application/io_multi\<close>: what is set up before their loops, and how they end. A
  program that is still in its loop when the rounds are used up is \<open>Runs\<close>.
\<close>

datatype 'a program = Runs 'a | Exits int 'a

section \<open>The select server\<close>

definition select_server_main :: "bool \<Rightarrow> int \<Rightarrow> int \<Rightarrow> int \<Rightarrow> Select_Server.kernel list
    \<Rightarrow> server_context_st option program option" where
  "select_server_main malloc_ok fd setsockopt_ret bind_ret ks =
     (case server_init malloc_ok of (r, srv_ctx) \<Rightarrow>
        if r < 0 then Some (Exits (- 1) srv_ctx)
        else let srvfd = create_server_proc fd setsockopt_ret bind_ret in
          if srvfd < 0 then Some (Exits (- 1) (server_uninit srv_ctx))
          else do {
            c \<leftarrow> srv_ctx;
            c' \<leftarrow> handle_client_proc srvfd ks c;
            Some (if list_ex (\<lambda>k. Select_Server.retval k = - 1) ks then Exits 0 (server_uninit (Some c')) else Runs (Some c')) })"

text \<open>while fewer than ten clients ever connect the server leaves no memory it does not own and keeps none: it runs with its context, or it
  ends with the context freed, with -1 exactly if the context or the socket could not be made and with 0 after an error of
  \<open>select\<close>.\<close>

theorem select_server_main_result:
  assumes "accepted ks < SIZE" "list_all (\<lambda>k. Select_Server.short_reads k \<and> sane_accepts k) ks"
  shows "\<exists>c'. select_server_main malloc_ok fd so_ret bind_ret ks = Some
    (if \<not> malloc_ok \<or> fd = - 1 \<or> so_ret = - 1 \<or> bind_ret = - 1 \<or> fd < 0 then Exits (- 1) None
     else if list_ex (\<lambda>k. Select_Server.retval k = - 1) ks then Exits 0 None else Runs (Some c'))"
proof (cases "malloc_ok")
  case True
  then obtain c where c: "server_init malloc_ok = (0, Some c)" by (simp add: server_init_def)
  then have "wf_ctx c" "cli_cnt c = 0" using True by (auto simp: server_init_def wf_ctx_def)
  then obtain c' where "handle_client_proc fd ks c = Some c'" using proc_wf [of c ks fd] assms by auto
  then show ?thesis using True c by (auto simp: select_server_main_def create_server_proc_def server_uninit_def Let_def)
qed (simp add: select_server_main_def server_init_def)

theorem select_server_main_result_witness:
  "select_server_main True 3 0 0 [one_client\<lparr>Select_Server.retval := - 1\<rparr>] = Some (Exits 0 None)"
  using select_server_main_result [of "[one_client\<lparr>Select_Server.retval := - 1\<rparr>]" True 3 0 0]
  by (simp add: one_client_def accepted_def Select_Server.short_reads_def sane_accepts_def sane_def SIZE_def Select_Server.MAXLINE_def)

section \<open>The poll server and its client\<close>

text \<open>\<open>exit(1)\<close> without a socket, and in the loop after an error of \<open>poll\<close> or \<open>accept\<close> or with too many clients; \<open>listen\<close> is
  not checked.\<close>

fun poll_exits :: "Poll_Server.kernel list \<Rightarrow> poll_state \<Rightarrow> bool" where
  "poll_exits [] s = False"
| "poll_exits (k # ks) s = (case do_poll k s of Some (Continue s') \<Rightarrow> poll_exits ks s' | _ \<Rightarrow> True)"

definition poll_server_main :: "int \<Rightarrow> int \<Rightarrow> (nat \<Rightarrow> bool) \<Rightarrow> Poll_Server.kernel list \<Rightarrow> poll_state option program option" where
  "poll_server_main fd bind_ret stack ks = (case Poll_Server.socket_bind fd bind_ret of
     None \<Rightarrow> Some (Exits 1 None)
   | Some listenfd \<Rightarrow> let s0 = poll_init listenfd stack in
       map_option (\<lambda>s. if poll_exits ks s0 then Exits 1 (Some s) else Runs (Some s)) (poll_loop ks s0))"

text \<open>The result of \<open>connect\<close> is not looked at.\<close>

definition poll_client_main :: "int \<Rightarrow> byte list \<Rightarrow> byte list \<Rightarrow> round list \<Rightarrow> poll_client program option" where
  "poll_client_main connect_ret stack1 stack2 rounds =
     map_option Runs (Poll_Client.client_connection rounds (client_start stack1 stack2))"

lemma poll_client_ignores_connect: "poll_client_main r1 x y rounds = poll_client_main r2 x y rounds"
  by (simp add: poll_client_main_def)

section \<open>The epoll server and its client\<close>

definition epoll_server_main :: "int \<Rightarrow> int \<Rightarrow> Epoll_Server.kernel list \<Rightarrow> epoll_state option program option" where
  "epoll_server_main fd bind_ret ks = (case Epoll_Server.socket_bind fd bind_ret of
     None \<Rightarrow> Some (Exits 1 None)
   | Some listenfd \<Rightarrow> map_option (\<lambda>s. if exited s then Exits 1 (Some s) else Runs (Some s)) (do_epoll ks listenfd (epoll_init listenfd)))"

text \<open>The connection ends when \<open>epoll_wait\<close> fails.\<close>

definition epoll_client_main :: "int \<Rightarrow> (int \<times> (bool \<times> bool \<times> int \<times> byte list) list) list \<Rightarrow> epoll_client \<Rightarrow> epoll_client program option" where
  "epoll_client_main connect_ret rounds s =
     (if connect_ret = - 1 then Some (Exits (- 1) s)
      else map_option (\<lambda>s'. if list_ex (\<lambda>(ret, _). ret = - 1) rounds then Exits 0 s' else Runs s')
        (Epoll_Client.client_connection rounds s))"

text \<open>What the servers guarantee of their loops holds of the programs.\<close>

lemma poll_server_main_safe:
  "list_all Poll_Server.short_reads ks \<Longrightarrow> fd \<noteq> - 1 \<Longrightarrow> bind_ret \<noteq> - 1 \<Longrightarrow>
    poll_server_main fd bind_ret stack ks \<noteq> None"
  using poll_loop_wf [of "poll_init fd stack" ks]
  by (auto simp: Let_def poll_server_main_def Poll_Server.socket_bind_def wf_poll_def poll_init_def OPEN_MAX_def)

end
