(* ===== verification/Spec2Isabelle.thy ===== *)
theory Spec2Isabelle
  imports Sorting_Correct Veeprom_Paths Ota_Tool Global_Fifo_Correct Sem_Prodcons Mutex_Cond
    Binary_Tree Linked_List Select_Client Poll_Client Epoll_Client I2c_Bus_Correct User_Programs Load_Monitor
    Timer_Demo Workqueue_Demo Platform_Demo Gpio_Demo Mdio_Demo Kobject_Demo Device_Tree Fork_Demo
    Pipe_Talk Msgque Mqueue_Demo Rwlock_Demo Shared_Memory Cam_Scripts_Correct
    Device_Tree_Cmds Hash_Demo Klist_Demo Bitmap_Demo Kernel_Demos Process_Demos Sort_Programs Server_Programs
begin

text \<open>
  A verification library for the repository \<open>kernel_learning\<close>: small C programs and kernel modules, each a
  component of its own, a few of which work together: the update tool stores its fields in the virtual
  EEPROM, the servers run in their \<open>main\<close> functions, and the user programs call the drivers. Every theory is translated from
  the file under \<open>src/\<close> that its opening text names, with the names of the source.

  \<^bold>\<open>How C is modelled.\<close> Arrays are lists behind the checked accesses of \<open>Prelude\<close>: a computation of type
  \<open>'a option\<close> is \<open>None\<close> exactly where the C code would leave an object or otherwise be undefined, so a
  result \<open>Some\<close> is also a proof of memory safety. \<open>int\<close> is \<open>int\<close> with the wrap-around written out where it
  can occur (\<open>s32\<close>, \<open>u32\<close>), registers and bytes are words of their width. Loops are recursive functions with a
  termination proof; where a recursion need not end (\<open>Binary_Tree\<close>) it is a \<open>partial_function\<close> and that it ends is proved. Runs of
  interrupts, rounds and events have the length of the list that drives them, or any length. Fuel occurs where a loop steps by a function of
  the kernel: in \<open>Klist_Demo\<close>, where six calls of \<open>klist_next\<close>, and in \<open>Bitmap_Demo\<close>, where 25 rounds are proved to be enough. The walk of
  \<open>Hash_Demo\<close> takes any number of rounds, and is proved never to end. A system call, a kernel function or a
  peripheral is a parameter (a record of what it returns, or a script of what it shows) or, where the
  program rests on its effect, the effect that its documentation gives: semaphores, mutexes, condition variables,
  wait queues, pipes, message queues, timers, work queues, devices and their files. Concurrency is a
  step relation, or a step function on events, in which threads, interrupts and signals interleave freely.

  \<^bold>\<open>Shared parts.\<close> \<open>Prelude\<close>: machine integers, checked arrays, \<open>memcpy\<close>, \<open>memset\<close>, strings in memory, and a
  weakest-precondition calculus (\<open>wp_rules\<close>). \<open>Kernel_Log\<close>: statements that print to the kernel log and may fail, with the rules
  (\<open>log_rules\<close>) that compute what a sequence of them prints and when it returns. \<open>Event_System\<close>: runs over events, and the locales \<open>preserved\<close>
  and \<open>frozen\<close> for invariants, interpreted by the timer and the work queue. Other interfaces: \<open>byte_store\<close> (the virtual EEPROM,
  in \<open>Veeprom_Store\<close>), \<open>array_sort\<close> (every sorting routine). Each is interpreted on the
  definitions of the code.

  \<^bold>\<open>Components.\<close>
  \<^item> \<open>Algorithem/sort\<close>: \<open>Sorting\<close>, \<open>Sorting_Correct\<close>, \<open>Sort_Programs\<close>. Each routine returns the sorted array and stays inside
    it; the routines agree, also with the version of \<open>fastsort\<close> that is not compiled; what the programs print.
  \<^item> \<open>Application/ota/ota_tool\<close>: \<open>Veeprom\<close> (the region, its devices and the calls below), \<open>Veeprom_Correct\<close>,
    \<open>Veeprom_Store\<close>, \<open>Veeprom_Paths\<close>, \<open>Ota_Tool\<close>. Reads and writes of the fields round trip and do not disturb each other; a write
    is all or nothing; refused requests change nothing; the NAND path; the tool's flags and reasons.
  \<^item> \<open>process_schedule/fork/globalfifo.c\<close>: \<open>Global_Fifo\<close>, \<open>Global_Fifo_Correct\<close>. The probed device, whose
    mutex and queues are never set up, serves no call; of an initialised one, what writers store and what a read does before it leaves
    its wait entry and the mutex behind. \<open>cow.c\<close>: \<open>Fork_Demo\<close>, the memories that fork copies; what follows a vfork is undefined.
  \<^item> \<open>Application/ipc\<close>: \<open>Sem_Prodcons\<close>, \<open>Mutex_Cond\<close>, \<open>Rwlock_Demo\<close> (mutual exclusion, order, termination, lost
    signals, semaphores and input that are not as the programs expect), \<open>Pipe_Talk\<close> (every interleaving delivers, or the deadlock),
    \<open>Msgque\<close> (order, full queues), \<open>Mqueue_Demo\<close> (messages for which no signal comes), \<open>Shared_Memory\<close>.
  \<^item> \<open>Application/io_multi\<close>: \<open>Select_Server\<close>, \<open>Poll_Server\<close>, \<open>Epoll_Server\<close> and the clients \<open>Select_Client\<close>,
    \<open>Poll_Client\<close>, \<open>Epoll_Client\<close>. Memory safety of each loop, what is echoed, and what the clients send beyond their text. \<open>Server_Programs\<close>:
    the \<open>main\<close> functions around the loops.
  \<^item> \<open>device_driver\<close>: \<open>I2c_Bus\<close>, \<open>I2c_Bus_Correct\<close> (clock divider, transfers by interrupts, messages used after the transfer has returned, resources), \<open>Char_Demo\<close>,
    \<open>User_Programs\<close> (the user programs on these drivers), \<open>Platform_Demo\<close>, \<open>Gpio_Demo\<close>, \<open>Mdio_Demo\<close>,
    \<open>Timer_Demo\<close>, \<open>Workqueue_Demo\<close> (what may run while a device is removed), \<open>Load_Monitor\<close>.
  \<^item> \<open>Algorithem/tree\<close>, \<open>Algorithem/list/single-list\<close>, \<open>Algorithem/kobject\<close>: \<open>Binary_Tree\<close>, \<open>Linked_List\<close>, \<open>Kobject_Demo\<close>.
  \<^item> \<open>Device_tree\<close>: \<open>Device_Tree\<close> (the emulated bus, resources, strings) and \<open>Device_Tree_Cmds\<close> (every command of the probe). What a
    command needs of the tree, of the memory behind its table and of variables it has not set to come out of its calls, and what it prints of a list of cells.
  \<^item> \<open>Algorithem/hash\<close>: \<open>Hash_Demo\<close>, the list in memory, which is a cycle, and what freeing it would do. \<open>Algorithem/list/klist\<close>: \<open>Klist_Demo\<close>, what it prints
    with every klist that keeps to the documented laws. \<open>Algorithem/bitmap\<close>: \<open>Bitmap_Demo\<close>, what each command prints for every library that keeps to the documented laws.
    \<open>Algorithem/atomic\<close>, \<open>spinlock\<close>, \<open>initcall\<close>, \<open>time\<close>, \<open>task\<close>: \<open>Kernel_Demos\<close>.
  \<^item> \<open>process_schedule/fork/life_period.c\<close>, \<open>thread.c\<close> and the user program of the platform driver: \<open>Process_Demos\<close>.
  \<^item> \<open>Languge/shell/cam_init_scripts\<close>: \<open>Cam_Script\<close> (the format of a row), \<open>Cam_Tables\<close> and
    \<open>Cam_Ov10640\<close> (the rows), \<open>Cam_Scripts_Correct\<close>: rows that are commands, scripts that extend each other, waiting after resets.

  \<^bold>\<open>Not modelled.\<close> Messages that are only printed, where the theory does not say otherwise, and the failures of calls whose error exit only
  prints and leaves. The functions of the kernel on device trees,
  bitmaps and the klist, which are parameters. The order in which the kernel runs the functions of \<open>initcall.c\<close>. The reader of the camera scripts and
  the devices they set up. Code
  that is not compiled: \<open>early_initcall\<close> and the branches for \<open>KEY_DEPEND_FILE\<close> of the message queue. \<open>process_schedule/fork/test.c\<close>, whose loop does nothing, and the led driver, whose entry points are empty. The empty suspend, resume and
  release functions of the drivers and their tables. \<open>MAX96712_GMSL1_96701.txt\<close>, which is not code. Vendored trees and documents.
\<close>

end
